(* ===== verification/Prelude.thy ===== *)
theory Prelude
  imports Main "HOL-Library.Multiset"
begin

text \<open>
  Shared vocabulary of the development: the shape of a stateful, fallible operation, the
  collections of rewrite rules the component theories fill, and generic lemmas on lists used
  as tables.

  A Go method that returns a value and an error and has side effects is a function from the
  state to a pair of its result (\<open>Inl\<close> an error, \<open>Inr\<close> a value) and the new state. Every
  \<open>if err != nil { return ... }\<close> of the source is a case split on that sum.
\<close>

type_synonym ('s, 'e, 'a) op = "'s \<Rightarrow> ('e + 'a) \<times> 's"

named_theorems op_defs \<open>unfolding rules of the modelled operations\<close>
named_theorems keeps \<open>preservation lemmas of the store invariant\<close>
named_theorems frame \<open>what an operation leaves unchanged\<close>

text \<open>The outcome of an operation and the state it leaves.\<close>

abbreviation result_of :: "('e + 'a) \<times> 's \<Rightarrow> 'e + 'a" where
  "result_of r \<equiv> fst r"

abbreviation state_of :: "('e + 'a) \<times> 's \<Rightarrow> 's" where
  "state_of r \<equiv> snd r"

subsection \<open>Lists as tables\<close>

text \<open>
  A table is the list of its rows. An UPDATE maps the matching rows, a DELETE filters them
  out; a key column is unique when its projection is distinct.
\<close>

definition update_where :: "('r \<Rightarrow> bool) \<Rightarrow> ('r \<Rightarrow> 'r) \<Rightarrow> 'r list \<Rightarrow> 'r list" where
  "update_where P f rows = map (\<lambda>r. if P r then f r else r) rows"

definition delete_where :: "('r \<Rightarrow> bool) \<Rightarrow> 'r list \<Rightarrow> 'r list" where
  "delete_where P rows = filter (\<lambda>r. \<not> P r) rows"

lemma update_where_simps [simp]:
  "update_where P f [] = []"
  "update_where P f (r # rows) = (if P r then f r else r) # update_where P f rows"
  by (simp_all add: update_where_def)

lemma delete_where_simps [simp]:
  "delete_where P [] = []"
  "delete_where P (r # rows) = (if P r then delete_where P rows else r # delete_where P rows)"
  by (simp_all add: delete_where_def)

lemma set_update_where: "set (update_where P f rows) = (\<lambda>r. if P r then f r else r) ` set rows"
  by (simp add: update_where_def)

lemma set_delete_where [simp]: "set (delete_where P rows) = {r \<in> set rows. \<not> P r}"
  by (simp add: delete_where_def)

lemma map_update_where:
  assumes "\<And>r. k (f r) = k r"
  shows "map k (update_where P f rows) = map k rows"
  by (simp add: update_where_def assms)

lemma distinct_map_delete_where:
  "distinct (map k rows) \<Longrightarrow> distinct (map k (delete_where P rows))"
  by (simp add: delete_where_def distinct_map_filter)

lemma update_where_none: "(\<And>r. r \<in> set rows \<Longrightarrow> \<not> P r) \<Longrightarrow> update_where P f rows = rows"
  by (induction rows) auto

text \<open>A lookup on a key column finds at most one row.\<close>

lemma filter_key_unique:
  assumes "distinct (map k rows)" and "r \<in> set rows"
  shows "filter (\<lambda>x. k x = k r) rows = [r]"
  using assms
proof (induction rows)
  case Nil
  then show ?case by simp
next
  case (Cons x xs)
  show ?case
  proof (cases "x = r")
    case True
    with Cons.prems have "k r \<notin> k ` set xs" by simp
    then have "filter (\<lambda>y. k y = k r) xs = []" by (metis (mono_tags, lifting) filter_False imageI)
    with True show ?thesis by simp
  next
    case False
    with Cons.prems have "k x \<noteq> k r" by force
    with False Cons show ?thesis by simp
  qed
qed

lemma filter_key_cases:
  assumes "distinct (map k rows)"
  shows "filter (\<lambda>x. k x = v) rows = [] \<or> (\<exists>r \<in> set rows. k r = v \<and> filter (\<lambda>x. k x = v) rows = [r])"
proof (cases "\<exists>r \<in> set rows. k r = v")
  case True
  then obtain r where "r \<in> set rows" "k r = v" by blast
  with filter_key_unique [OF assms, of r] show ?thesis by auto
next
  case False
  then show ?thesis by (simp add: filter_empty_conv)
qed

lemma key_eq_row: "distinct (map k rows) \<Longrightarrow> r \<in> set rows \<Longrightarrow> r' \<in> set rows \<Longrightarrow> k r = k r' \<Longrightarrow> r = r'"
  by (metis distinct_map inj_onD)

subsection \<open>Rows found by key\<close>

text \<open>The first row with a given key, and how the table operations change it.\<close>

definition lookup_by :: "('r \<Rightarrow> 'k) \<Rightarrow> 'r list \<Rightarrow> 'k \<Rightarrow> 'r option" where
  "lookup_by k rows = map_of (map (\<lambda>r. (k r, r)) rows)"

lemma lookup_by_simps [simp]:
  "lookup_by k [] x = None"
  "lookup_by k (r # rows) x = (if k r = x then Some r else lookup_by k rows x)"
  by (simp_all add: lookup_by_def)

lemma lookup_by_None: "lookup_by k rows x = None \<longleftrightarrow> x \<notin> k ` set rows"
  by (induction rows) auto

lemma lookup_by_Some: "lookup_by k rows x = Some r \<Longrightarrow> r \<in> set rows \<and> k r = x"
  by (induction rows) (auto split: if_splits)

lemma lookup_by_mem:
  "distinct (map k rows) \<Longrightarrow> r \<in> set rows \<Longrightarrow> lookup_by k rows (k r) = Some r"
  by (induction rows) force+

lemma lookup_by_snoc:
  "lookup_by k (rows @ [r]) x =
     (case lookup_by k rows x of Some r' \<Rightarrow> Some r' | None \<Rightarrow> if k r = x then Some r else None)"
  by (induction rows) simp_all

lemma lookup_by_update:
  assumes "\<And>r. k (f r) = k r"
  shows "lookup_by k (update_where P f rows) x =
     map_option (\<lambda>r. if P r then f r else r) (lookup_by k rows x)"
  by (induction rows) (simp_all add: assms)

lemma lookup_by_delete:
  assumes "distinct (map k rows)"
  shows "lookup_by k (delete_where P rows) x =
     (case lookup_by k rows x of Some r \<Rightarrow> if P r then None else Some r | None \<Rightarrow> None)"
  using assms
proof (induction rows)
  case Nil
  then show ?case by simp
next
  case (Cons r rows)
  have "lookup_by k rows (k r) = None" using Cons.prems by (simp add: lookup_by_None)
  with Cons show ?case by auto
qed

lemma filter_by_key:
  assumes "distinct (map k rows)"
  shows "filter (\<lambda>r. k r = x) rows = (case lookup_by k rows x of None \<Rightarrow> [] | Some r \<Rightarrow> [r])"
proof (cases "lookup_by k rows x")
  case None
  then have "filter (\<lambda>r. k r = x) rows = []"
    unfolding lookup_by_None by (metis (mono_tags, lifting) filter_False image_eqI)
  with None show ?thesis by simp
next
  case (Some r)
  with filter_key_unique [OF assms, of r] show ?thesis by (auto dest: lookup_by_Some)
qed

end
