(* ===== verification/Go_Text.thy ===== *)
theory Go_Text
  imports Prelude "HOL-Library.Word" "HOL-Library.Sublist"
begin

text \<open>
  The parts of Go's standard library the service uses on strings and bytes: TrimSpace,
  Contains, HasPrefix, ToLower, Atoi, the formatting of decimal numbers, hexadecimal and raw
  URL base64 encoding. A Go string is its sequence of bytes, so a \<open>string\<close> here is a list of
  8-bit characters and a code point beyond ASCII is its UTF-8 encoding.
\<close>

type_synonym byte = "8 word"

definition bytes_of :: "string \<Rightarrow> byte list" where
  "bytes_of s = map (\<lambda>c. word_of_nat (of_char c)) s"

subsection \<open>strings.TrimSpace\<close>

text \<open>
  The white space of unicode.IsSpace in UTF-8: the six ASCII characters, U+0085, U+00A0,
  U+1680, U+2000 to U+200A, U+2028, U+2029, U+202F, U+205F and U+3000. UTF-8 is
  self-synchronising, so a string begins (ends) with a white-space rune exactly when one of
  these byte sequences is a prefix (suffix) of it.
\<close>

definition space_runes :: "string list" where
  "space_runes =
     map (map char_of)
       ([[0x09], [0x0A], [0x0B], [0x0C], [0x0D], [0x20 :: nat], [0xC2, 0x85], [0xC2, 0xA0],
         [0xE1, 0x9A, 0x80], [0xE2, 0x80, 0x80], [0xE2, 0x80, 0x81], [0xE2, 0x80, 0x82],
         [0xE2, 0x80, 0x83], [0xE2, 0x80, 0x84], [0xE2, 0x80, 0x85], [0xE2, 0x80, 0x86],
         [0xE2, 0x80, 0x87], [0xE2, 0x80, 0x88], [0xE2, 0x80, 0x89], [0xE2, 0x80, 0x8A],
         [0xE2, 0x80, 0xA8], [0xE2, 0x80, 0xA9], [0xE2, 0x80, 0xAF], [0xE2, 0x81, 0x9F],
         [0xE3, 0x80, 0x80]])"

text \<open>Strip leading members of a list of byte sequences, as long as there is one.\<close>

definition leading :: "string list \<Rightarrow> string \<Rightarrow> string option" where
  "leading ws s = List.find (\<lambda>w. w \<noteq> [] \<and> prefix w s) ws"

lemma leading_Some: "leading ws s = Some w \<Longrightarrow> w \<in> set ws \<and> w \<noteq> [] \<and> prefix w s"
  by (auto simp: leading_def find_Some_iff)

lemma leading_None: "leading ws s = None \<longleftrightarrow> (\<forall>w \<in> set ws. w \<noteq> [] \<longrightarrow> \<not> prefix w s)"
  by (auto simp: leading_def find_None_iff)

function strip :: "string list \<Rightarrow> string \<Rightarrow> string" where
  "strip ws s = (case leading ws s of None \<Rightarrow> s | Some w \<Rightarrow> strip ws (drop (length w) s))"
  by pat_completeness auto
termination
  by (relation "measure (\<lambda>(ws, s). length s)") (auto dest!: leading_Some simp: prefix_def)

declare strip.simps [simp del]

definition TrimSpace :: "string \<Rightarrow> string" where
  "TrimSpace s = rev (strip (map rev space_runes) (rev (strip space_runes s)))"

lemma strip_leading: "leading ws (strip ws s) = None"
  by (induction ws s rule: strip.induct) (subst strip.simps, auto split: option.splits)

lemma strip_id: "leading ws s = None \<Longrightarrow> strip ws s = s"
  by (simp add: strip.simps)

lemma strip_suffix: "suffix (strip ws s) s"
proof (induction ws s rule: strip.induct)
  case (1 ws s)
  show ?case
  proof (cases "leading ws s")
    case None
    then show ?thesis by (simp add: strip_id)
  next
    case (Some w)
    with 1 have "suffix (strip ws (drop (length w) s)) (drop (length w) s)" by simp
    with Some show ?thesis
      by (subst strip.simps) (auto intro: suffix_order.trans suffix_drop)
  qed
qed

lemma leading_prefix: "leading ws s = None \<Longrightarrow> prefix t s \<Longrightarrow> leading ws t = None"
  by (auto simp: leading_None intro: prefix_order.trans)

lemma TrimSpace_prefix: "prefix (TrimSpace s) (strip space_runes s)"
proof -
  have "suffix (strip (map rev space_runes) (rev (strip space_runes s))) (rev (strip space_runes s))"
    by (rule strip_suffix)
  then show ?thesis by (simp add: TrimSpace_def suffix_to_prefix)
qed

text \<open>Trimming twice is trimming once, and leaves no white space at either end.\<close>

lemma TrimSpace_leading: "leading space_runes (TrimSpace s) = None"
  by (rule leading_prefix [OF strip_leading TrimSpace_prefix])

lemma TrimSpace_trailing: "leading (map rev space_runes) (rev (TrimSpace s)) = None"
  by (simp add: TrimSpace_def strip_leading)

lemma TrimSpace_idem [simp]: "TrimSpace (TrimSpace s) = TrimSpace s"
proof -
  have "strip space_runes (TrimSpace s) = TrimSpace s"
    by (rule strip_id [OF TrimSpace_leading])
  then show ?thesis
    by (simp add: TrimSpace_def [of "TrimSpace s"] strip_id [OF TrimSpace_trailing])
qed

lemma strip_Nil [simp]: "strip ws [] = []"
  by (rule strip_id) (auto simp: leading_None)

lemma TrimSpace_Nil [simp]: "TrimSpace [] = []"
  by (simp add: TrimSpace_def)

lemma TrimSpace_sublist: "sublist (TrimSpace s) s"
  using TrimSpace_prefix [of s] strip_suffix [of space_runes s]
  by (metis prefix_imp_sublist suffix_imp_sublist sublist_order.order_trans)

text \<open>A string of visible ASCII characters has nothing to trim.\<close>

definition plain_char :: "char \<Rightarrow> bool" where
  "plain_char c \<longleftrightarrow> 33 \<le> (of_char c :: nat) \<and> (of_char c :: nat) < 128"

lemma space_runes_not_plain:
  "list_all (\<lambda>w. w \<noteq> [] \<and> \<not> plain_char (hd w) \<and> \<not> plain_char (hd (rev w))) space_runes"
  by (simp add: space_runes_def plain_char_def)

lemma leading_plain:
  assumes "list_all plain_char s" "list_all (\<lambda>w. w \<noteq> [] \<and> \<not> plain_char (hd w)) ws"
  shows "leading ws s = None"
  unfolding leading_None
proof (intro ballI impI notI)
  fix w assume "w \<in> set ws" "w \<noteq> []" "prefix w s"
  then have "hd w \<in> set s" by (auto simp: prefix_def)
  with assms \<open>w \<in> set ws\<close> show False by (auto simp: list_all_iff)
qed

lemma TrimSpace_plain:
  assumes "list_all plain_char s"
  shows "TrimSpace s = s"
proof -
  have "leading space_runes s = None" "leading (map rev space_runes) (rev s) = None"
    using assms space_runes_not_plain by (auto intro!: leading_plain simp: list_all_iff)
  then show ?thesis by (simp add: TrimSpace_def strip_id)
qed

lemma nonblank_nonempty: "TrimSpace s \<noteq> [] \<Longrightarrow> s \<noteq> []"
  by auto


subsection \<open>strings.Contains, HasPrefix, ToLower, EqualFold\<close>

definition Contains :: "string \<Rightarrow> string \<Rightarrow> bool" where
  "Contains s sub = sublist sub s"

definition HasPrefix :: "string \<Rightarrow> string \<Rightarrow> bool" where
  "HasPrefix s p = prefix p s"

text \<open>
  Lower-casing of the ASCII letters. The service lower-cases or folds a string only to compare
  it with an ASCII literal made of letters to which no rune beyond ASCII folds, so the bytes
  beyond ASCII do not matter for the outcome and are left alone.
\<close>

definition lower_char :: "char \<Rightarrow> char" where
  "lower_char c =
     (let n = of_char c :: nat in if 65 \<le> n \<and> n \<le> 90 then char_of (n + 32) else c)"

definition ToLower :: "string \<Rightarrow> string" where
  "ToLower s = map lower_char s"

definition EqualFold :: "string \<Rightarrow> string \<Rightarrow> bool" where
  "EqualFold s t = (ToLower s = ToLower t)"

subsection \<open>Decimal numbers: Sprintf and Atoi\<close>

definition digit_char :: "nat \<Rightarrow> char" where
  "digit_char d = char_of (48 + d)"

definition is_digit :: "char \<Rightarrow> bool" where
  "is_digit c = (let n = of_char c :: nat in 48 \<le> n \<and> n \<le> 57)"

definition digit_val :: "char \<Rightarrow> nat" where
  "digit_val c = of_char c - 48"

fun decimal :: "nat \<Rightarrow> string" where
  "decimal n = (if n < 10 then [digit_char n] else decimal (n div 10) @ [digit_char (n mod 10)])"

declare decimal.simps [simp del]

text \<open>The verb \<open>%0wd\<close> on a non-negative number: zeros on the left up to the width.\<close>

definition pad_decimal :: "nat \<Rightarrow> nat \<Rightarrow> string" where
  "pad_decimal w n = replicate (w - length (decimal n)) (digit_char 0) @ decimal n"

definition digits_val :: "string \<Rightarrow> nat" where
  "digits_val s = foldl (\<lambda>acc c. 10 * acc + digit_val c) 0 s"

text \<open>
  strconv.Atoi on a 64-bit platform: an optional sign, at least one digit, digits only, and
  a value in the range of int64. Everything else is an error, here \<open>None\<close>.
\<close>

definition Atoi :: "string \<Rightarrow> int option" where
  "Atoi s =
     (let neg = (s \<noteq> [] \<and> hd s = CHR ''-'');
          ds = (if s \<noteq> [] \<and> (hd s = CHR ''-'' \<or> hd s = CHR ''+'') then tl s else s);
          v = (if neg then - int (digits_val ds) else int (digits_val ds))
      in if ds = [] \<or> \<not> list_all is_digit ds then None
         else if - (2 ^ 63) \<le> v \<and> v < 2 ^ 63 then Some v else None)"

lemma of_char_digit_char: "d < 10 \<Longrightarrow> (of_char (digit_char d) :: nat) = 48 + d"
  by (simp add: digit_char_def)

lemma is_digit_digit_char [simp]: "d < 10 \<Longrightarrow> is_digit (digit_char d)"
  by (simp add: is_digit_def of_char_digit_char)

lemma digit_val_digit_char [simp]: "d < 10 \<Longrightarrow> digit_val (digit_char d) = d"
  by (simp add: digit_val_def of_char_digit_char)

lemma decimal_digits: "list_all is_digit (decimal n)"
  by (induction n rule: decimal.induct) (subst decimal.simps, auto)

lemma digits_val_snoc: "digits_val (s @ [c]) = 10 * digits_val s + digit_val c"
  by (simp add: digits_val_def)

lemma digits_val_decimal [simp]: "digits_val (decimal n) = n"
proof (induction n rule: decimal.induct)
  case (1 n)
  show ?case
  proof (cases "n < 10")
    case True
    then show ?thesis by (subst decimal.simps) (simp add: digits_val_def)
  next
    case False
    with 1 show ?thesis by (subst decimal.simps) (simp add: digits_val_snoc)
  qed
qed

lemma length_decimal: "n < 10 ^ k \<Longrightarrow> 0 < k \<Longrightarrow> length (decimal n) \<le> k"
proof (induction n arbitrary: k rule: decimal.induct)
  case (1 n)
  show ?case
  proof (cases "n < 10")
    case True
    with "1.prems" show ?thesis by (subst decimal.simps) simp
  next
    case False
    then obtain j where k: "k = Suc j" "0 < j"
      using "1.prems" by (cases k; cases "k - 1") auto
    have "n div 10 < 10 ^ j"
      using "1.prems"(1) k by (simp add: less_mult_imp_div_less mult.commute)
    with "1.IH" False k have "length (decimal (n div 10)) \<le> j" by simp
    with False k show ?thesis by (subst decimal.simps) simp
  qed
qed

lemma foldl_zeros: "foldl (\<lambda>acc c. 10 * acc + digit_val c) 0 (replicate k (digit_char 0)) = 0"
  by (induction k) simp_all

lemma digits_val_zeros: "digits_val (replicate k (digit_char 0) @ s) = digits_val s"
  by (simp add: digits_val_def foldl_zeros)

lemma digits_val_pad [simp]: "digits_val (pad_decimal w n) = n"
  by (simp add: pad_decimal_def digits_val_zeros)

lemma length_pad_decimal: "n < 10 ^ w \<Longrightarrow> 0 < w \<Longrightarrow> length (pad_decimal w n) = w"
  using length_decimal [of n w] by (simp add: pad_decimal_def)

lemma pad_decimal_digits: "list_all is_digit (pad_decimal w n)"
  by (auto simp: pad_decimal_def list_all_iff decimal_digits [unfolded list_all_iff])

lemma pad_decimal_inject [simp]: "pad_decimal w m = pad_decimal w n \<longleftrightarrow> m = n"
  by (metis digits_val_pad)

lemma digits_plain: "list_all is_digit s \<Longrightarrow> list_all plain_char s"
  by (fastforce simp: list_all_iff is_digit_def plain_char_def Let_def)

end
