(* ===== verification/Go_Encoding.thy ===== *)
theory Go_Encoding
  imports Go_Text
begin

text \<open>
  encoding/hex, encoding/base64 (RawURLEncoding) and crypto/sha256 as the service uses them:
  hashing a code or a token to a hexadecimal digest, and turning random bytes into a token.
\<close>

unbundle bit_operations_syntax

subsection \<open>hex.EncodeToString\<close>

definition hex_digit :: "nat \<Rightarrow> char" where
  "hex_digit n = (if n < 10 then char_of (48 + n) else char_of (87 + n))"

definition hex_encode :: "byte list \<Rightarrow> string" where
  "hex_encode bs = concat (map (\<lambda>b. [hex_digit (unat b div 16), hex_digit (unat b mod 16)]) bs)"

definition is_hex_digit :: "char \<Rightarrow> bool" where
  "is_hex_digit c = (let n = of_char c :: nat in 48 \<le> n \<and> n \<le> 57 \<or> 97 \<le> n \<and> n \<le> 102)"

lemma of_char_hex_digit:
  "n < 16 \<Longrightarrow> (of_char (hex_digit n) :: nat) = (if n < 10 then 48 + n else 87 + n)"
  by (simp add: hex_digit_def)

lemma hex_digit_inject: "m < 16 \<Longrightarrow> n < 16 \<Longrightarrow> hex_digit m = hex_digit n \<Longrightarrow> m = n"
proof -
  assume "m < 16" "n < 16" and "hex_digit m = hex_digit n"
  then have "(of_char (hex_digit m) :: nat) = of_char (hex_digit n)" by simp
  with \<open>m < 16\<close> \<open>n < 16\<close> show "m = n" by (simp add: of_char_hex_digit split: if_splits)
qed

lemma unat_byte: "unat (b :: byte) < 256"
  using unsigned_less [of b, where 'a = nat] by simp

lemma nibbles: "unat (b :: byte) div 16 < 16" "unat (b :: byte) mod 16 < 16"
  using unat_byte [of b] by (simp_all add: less_mult_imp_div_less)

lemma length_hex_encode [simp]: "length (hex_encode bs) = 2 * length bs"
  by (induction bs) (simp_all add: hex_encode_def)

lemma hex_encode_digits: "list_all is_hex_digit (hex_encode bs)"
proof (induction bs)
  case Nil
  then show ?case by (simp add: hex_encode_def)
next
  case (Cons b bs)
  have "is_hex_digit (hex_digit n)" if "n < 16" for n
    using that by (auto simp: is_hex_digit_def of_char_hex_digit)
  with Cons show ?case by (simp add: hex_encode_def nibbles)
qed

lemma hex_encode_inject: "hex_encode bs = hex_encode cs \<Longrightarrow> bs = cs"
proof (induction bs arbitrary: cs)
  case Nil
  then show ?case by (cases cs) (simp_all add: hex_encode_def)
next
  case (Cons b bs)
  then obtain c cs' where cs: "cs = c # cs'" by (cases cs) (simp_all add: hex_encode_def)
  with Cons.prems have "hex_digit (unat b div 16) = hex_digit (unat c div 16)"
    "hex_digit (unat b mod 16) = hex_digit (unat c mod 16)" "hex_encode bs = hex_encode cs'"
    by (simp_all add: hex_encode_def)
  then have "unat b div 16 = unat c div 16" "unat b mod 16 = unat c mod 16" "bs = cs'"
    using hex_digit_inject nibbles Cons.IH by blast+
  then have "unat b = unat c" by (metis div_mult_mod_eq)
  with \<open>bs = cs'\<close> cs show ?case by (simp add: word_unat_eq_iff)
qed

subsection \<open>base64.RawURLEncoding.EncodeToString\<close>

text \<open>The URL-safe alphabet: A-Z, a-z, 0-9, minus and underscore; no padding.\<close>

definition b64_char :: "nat \<Rightarrow> char" where
  "b64_char n =
     (if n < 26 then char_of (65 + n) else if n < 52 then char_of (71 + n)
      else if n < 62 then char_of (n - 4) else if n = 62 then CHR ''-'' else CHR ''_'')"

fun b64_encode :: "byte list \<Rightarrow> string" where
  "b64_encode (a # b # c # bs) =
     (let v = unat a * 65536 + unat b * 256 + unat c
      in [b64_char (v div 262144 mod 64), b64_char (v div 4096 mod 64),
          b64_char (v div 64 mod 64), b64_char (v mod 64)] @ b64_encode bs)"
| "b64_encode [a, b] =
     (let v = unat a * 65536 + unat b * 256
      in [b64_char (v div 262144 mod 64), b64_char (v div 4096 mod 64),
          b64_char (v div 64 mod 64)])"
| "b64_encode [a] =
     (let v = unat a * 65536 in [b64_char (v div 262144 mod 64), b64_char (v div 4096 mod 64)])"
| "b64_encode [] = []"

definition b64_val :: "char \<Rightarrow> nat" where
  "b64_val c =
     (let n = of_char c :: nat
      in if 65 \<le> n \<and> n \<le> 90 then n - 65 else if 97 \<le> n \<and> n \<le> 122 then n - 71
         else if 48 \<le> n \<and> n \<le> 57 then n + 4 else if n = 45 then 62 else 63)"

lemma b64_val_char [simp]: "n < 64 \<Longrightarrow> b64_val (b64_char n) = n"
  by (auto simp: b64_char_def b64_val_def Let_def)

lemma b64_char_inject: "m < 64 \<Longrightarrow> n < 64 \<Longrightarrow> b64_char m = b64_char n \<longleftrightarrow> m = n"
  by (metis b64_val_char)

lemma b64_char_mod_inject: "b64_char (x mod 64) = b64_char (y mod 64) \<longleftrightarrow> x mod 64 = y mod 64"
  by (simp add: b64_char_inject)

lemma b64_char_plain: "n < 64 \<Longrightarrow> plain_char (b64_char n)"
  by (auto simp: b64_char_def plain_char_def)

lemma b64_encode_plain: "list_all plain_char (b64_encode bs)"
  by (induction bs rule: b64_encode.induct) (simp_all add: Let_def b64_char_plain)

lemma length_b64_encode: "length (b64_encode bs) = (length bs * 4 + 2) div 3"
  by (induction bs rule: b64_encode.induct) (simp_all add: Let_def)

lemma div_mod_eqI: "(x::nat) div k = y div k \<Longrightarrow> x mod k = y mod k \<Longrightarrow> x = y"
  by (metis div_mult_mod_eq)

lemma sextets:
  fixes v :: nat
  assumes "v div 262144 mod 64 = w div 262144 mod 64" "v div 4096 mod 64 = w div 4096 mod 64"
    "v div 64 mod 64 = w div 64 mod 64" "v mod 64 = w mod 64" "v < 16777216" "w < 16777216"
  shows "v = w"
proof -
  have d: "x div 4096 div 64 = x div 262144" "x div 64 div 64 = x div 4096" for x :: nat
    by (subst div_mult2_eq [symmetric], simp)+
  have "v div 262144 < 64" "w div 262144 < 64"
    by (rule less_mult_imp_div_less, use assms(5,6) in simp)+
  then have "v div 262144 = w div 262144" using assms(1) by (simp only: mod_less)
  then have "v div 4096 div 64 = w div 4096 div 64" by (simp only: d)
  then have "v div 4096 = w div 4096" using assms(2) by (rule div_mod_eqI)
  then have "v div 64 div 64 = w div 64 div 64" by (simp only: d)
  then have "v div 64 = w div 64" using assms(3) by (rule div_mod_eqI)
  then show ?thesis using assms(4) by (rule div_mod_eqI)
qed

lemma shifted_sextets:
  "(n * 65536) div 64 mod 64 = (0::nat)" "(n * 65536) mod 64 = (0::nat)"
proof -
  have e: "n * 65536 = 64 * (64 * (n * 16))" by simp
  have "64 * (64 * (n * 16)) div 64 = (64 * (n * 16) :: nat)"
    by (rule nonzero_mult_div_cancel_left) simp
  then show "(n * 65536) div 64 mod 64 = (0::nat)" "(n * 65536) mod 64 = (0::nat)"
    unfolding e by (simp_all only: mod_mult_self1_is_0)
qed

lemma mult_add_inject:
  fixes m :: nat
  assumes "m * k + c = m' * k + c'" "c < k" "c' < k"
  shows "m = m' \<and> c = c'"
proof -
  have "(m * k + c) div k = m" "(m' * k + c') div k = m'"
    "(m * k + c) mod k = c" "(m' * k + c') mod k = c'"
    using assms(2,3) by simp_all
  with assms(1) show ?thesis by metis
qed

lemma octets:
  fixes a :: nat
  assumes "a * 65536 + b * 256 + c = a' * 65536 + b' * 256 + c'"
    "b < 256" "c < 256" "b' < 256" "c' < 256"
  shows "a = a' \<and> b = b' \<and> c = c'"
proof -
  have "(a * 256 + b) * 256 + c = (a' * 256 + b') * 256 + c'"
    using assms(1) by (simp add: algebra_simps)
  then have "a * 256 + b = a' * 256 + b' \<and> c = c'"
    using assms(3,5) by (rule mult_add_inject)
  with mult_add_inject [OF _ assms(2,4)] show ?thesis by blast
qed

text \<open>Distinct byte sequences of the same length have distinct encodings.\<close>

lemma b64_triple_inject:
  assumes same: "b64_encode (a # b # c # bs) = b64_encode (a' # b' # c' # cs)"
  shows "a = a' \<and> b = b' \<and> c = c' \<and> b64_encode bs = b64_encode cs"
proof -
  define v where "v = unat a * 65536 + unat b * 256 + unat c"
  define w where "w = unat a' * 65536 + unat b' * 256 + unat c'"
  have lt: "v < 16777216" "w < 16777216"
    using unat_byte [of a] unat_byte [of b] unat_byte [of c]
      unat_byte [of a'] unat_byte [of b'] unat_byte [of c'] by (simp_all add: v_def w_def)
  from same have eq: "v div 262144 mod 64 = w div 262144 mod 64"
    "v div 4096 mod 64 = w div 4096 mod 64" "v div 64 mod 64 = w div 64 mod 64"
    "v mod 64 = w mod 64" "b64_encode bs = b64_encode cs"
    by (simp_all add: v_def w_def Let_def b64_char_inject)
  then have "v = w" using lt by (blast intro: sextets)
  then have "unat a = unat a' \<and> unat b = unat b' \<and> unat c = unat c'"
    unfolding v_def w_def by (rule octets) (rule unat_byte)+
  with eq(5) show ?thesis by (simp add: word_unat_eq_iff)
qed

lemma b64_pair_inject:
  assumes same: "b64_encode [a, b] = b64_encode [a', b']"
  shows "a = a' \<and> b = b'"
proof -
  define v where "v = unat a * 65536 + unat b * 256 + 0"
  define w where "w = unat a' * 65536 + unat b' * 256 + 0"
  have lt: "v < 16777216" "w < 16777216" "v mod 64 = 0" "w mod 64 = 0"
    using unat_byte [of a] unat_byte [of b] unat_byte [of a'] unat_byte [of b']
    by (simp_all add: v_def w_def mod_simps)
  have "b64_encode [a, b] = [b64_char (v div 262144 mod 64), b64_char (v div 4096 mod 64),
      b64_char (v div 64 mod 64)]"
    "b64_encode [a', b'] = [b64_char (w div 262144 mod 64), b64_char (w div 4096 mod 64),
      b64_char (w div 64 mod 64)]"
    by (simp_all only: b64_encode.simps Let_def v_def w_def add_0_right)
  with same have eq: "v div 262144 mod 64 = w div 262144 mod 64"
    "v div 4096 mod 64 = w div 4096 mod 64" "v div 64 mod 64 = w div 64 mod 64"
    by (simp_all only: list.inject b64_char_mod_inject)
  have "v = w" by (rule sextets [OF eq _ lt(1,2)]) (simp only: lt(3,4))
  then have "unat a = unat a' \<and> unat b = unat b' \<and> (0::nat) = 0"
    unfolding v_def w_def by (rule octets) (simp_all add: unat_byte)
  then show ?thesis by (simp add: word_unat_eq_iff)
qed

lemma b64_single_inject:
  assumes same: "b64_encode [a] = b64_encode [a']"
  shows "a = a'"
proof -
  from same have eq: "unat a * 65536 div 262144 mod 64 = unat a' * 65536 div 262144 mod 64"
    "unat a * 65536 div 4096 mod 64 = unat a' * 65536 div 4096 mod 64"
    by (simp_all only: b64_encode.simps Let_def list.inject b64_char_mod_inject)
  have lt: "unat x * 65536 < 16777216" for x :: byte
    using unat_byte [of x] by linarith
  have "unat a * 65536 = unat a' * 65536"
    by (rule sextets [OF eq _ _ lt lt]) (simp_all only: shifted_sextets)
  then have "unat a = unat a'" by (simp only: mult_cancel2) simp
  then show ?thesis by (simp add: word_unat_eq_iff)
qed

lemma b64_encode_inject:
  "b64_encode bs = b64_encode cs \<Longrightarrow> length bs = length cs \<Longrightarrow> bs = cs"
proof (induction bs arbitrary: cs rule: b64_encode.induct)
  case (1 a b c bs)
  from 1(3) obtain a' b' c' cs' where cs: "cs = a' # b' # c' # cs'" "length bs = length cs'"
    by (cases cs; cases "tl cs"; cases "tl (tl cs)") simp_all
  from b64_triple_inject [OF 1(2) [unfolded cs]] 1(1) [OF _ _ cs(2)] show ?case by (simp add: cs)
next
  case (2 a b)
  from 2(2) have "length cs = Suc (Suc 0)" by simp
  then obtain a' b' where cs: "cs = [a', b']" by (auto simp only: length_Suc_conv length_0_conv)
  from b64_pair_inject [OF 2(1) [unfolded cs]] show ?case by (simp add: cs)
next
  case (3 a)
  from 3(2) have "length cs = Suc 0" by simp
  then obtain a' where cs: "cs = [a']" by (auto simp only: length_Suc_conv length_0_conv)
  from b64_single_inject [OF 3(1) [unfolded cs]] show ?case by (simp add: cs)
next
  case 4
  then show ?case by simp
qed

subsection \<open>sha256.Sum256\<close>

text \<open>
  SHA-256 as FIPS 180-4 defines it, on 32-bit words: padding to 64-byte blocks, the message
  schedule and the 64 rounds.
\<close>

type_synonym w32 = "32 word"

definition rotr :: "nat \<Rightarrow> w32 \<Rightarrow> w32" where
  "rotr n x = drop_bit n x OR push_bit (32 - n) x"

definition be_word :: "byte list \<Rightarrow> w32" where
  "be_word bs = foldl (\<lambda>acc b. push_bit 8 acc OR ucast b) 0 bs"

definition be_bytes64 :: "64 word \<Rightarrow> byte list" where
  "be_bytes64 w = map (\<lambda>n. ucast (drop_bit n w)) [56, 48, 40, 32, 24, 16, 8, 0]"

definition be_bytes :: "w32 \<Rightarrow> byte list" where
  "be_bytes w =
     [ucast (drop_bit 24 w), ucast (drop_bit 16 w), ucast (drop_bit 8 w), ucast w]"

definition sha256_k :: "w32 list" where
  "sha256_k =
    [1116352408, 1899447441, 3049323471, 3921009573, 961987163, 1508970993, 2453635748, 2870763221,
     3624381080, 310598401, 607225278, 1426881987, 1925078388, 2162078206, 2614888103, 3248222580,
     3835390401, 4022224774, 264347078, 604807628, 770255983, 1249150122, 1555081692, 1996064986,
     2554220882, 2821834349, 2952996808, 3210313671, 3336571891, 3584528711, 113926993, 338241895,
     666307205, 773529912, 1294757372, 1396182291, 1695183700, 1986661051, 2177026350, 2456956037,
     2730485921, 2820302411, 3259730800, 3345764771, 3516065817, 3600352804, 4094571909, 275423344,
     430227734, 506948616, 659060556, 883997877, 958139571, 1322822218, 1537002063, 1747873779,
     1955562222, 2024104815, 2227730452, 2361852424, 2428436474, 2756734187, 3204031479, 3329325298]"

definition sha256_init :: "w32 list" where
  "sha256_init =
    [1779033703, 3144134277, 1013904242, 2773480762, 1359893119, 2600822924, 528734635, 1541459225]"

definition sha256_pad :: "byte list \<Rightarrow> byte list" where
  "sha256_pad m =
     (let l = length m; z = (119 - l mod 64) mod 64
      in m @ [0x80] @ replicate z 0 @ be_bytes64 (8 * word_of_nat l))"

text \<open>The schedule is built newest word first: the word i places back is at index i - 1.\<close>

definition schedule_word :: "w32 list \<Rightarrow> w32" where
  "schedule_word ws =
     (let a = ws ! 14; b = ws ! 1
      in (rotr 17 b XOR rotr 19 b XOR drop_bit 10 b) + ws ! 6 +
         (rotr 7 a XOR rotr 18 a XOR drop_bit 3 a) + ws ! 15)"

fun schedule :: "nat \<Rightarrow> w32 list \<Rightarrow> w32 list" where
  "schedule 0 ws = rev ws"
| "schedule (Suc n) ws = schedule n (schedule_word ws # ws)"

fun sha256_round :: "w32 \<times> w32 \<Rightarrow> w32 list \<Rightarrow> w32 list" where
  "sha256_round (k, w) [a, b, c, d, e, f, g, h] =
     (let t1 = h + (rotr 6 e XOR rotr 11 e XOR rotr 25 e) + ((e AND f) XOR (NOT e AND g)) + k + w;
          t2 = (rotr 2 a XOR rotr 13 a XOR rotr 22 a) + ((a AND b) XOR (a AND c) XOR (b AND c))
      in [t1 + t2, a, b, c, d + t1, e, f, g])"
| "sha256_round _ st = st"

fun block_words :: "byte list \<Rightarrow> w32 list" where
  "block_words (a # b # c # d # bs) = be_word [a, b, c, d] # block_words bs"
| "block_words _ = []"

definition sha256_block :: "w32 list \<Rightarrow> w32 list \<Rightarrow> w32 list" where
  "sha256_block st ws =
     map2 (+) st (fold sha256_round (zip sha256_k (schedule 48 (rev ws))) st)"

fun sha256_blocks :: "nat \<Rightarrow> w32 list \<Rightarrow> w32 list \<Rightarrow> w32 list" where
  "sha256_blocks 0 ws st = st"
| "sha256_blocks (Suc n) ws st = sha256_blocks n (drop 16 ws) (sha256_block st (take 16 ws))"

definition Sum256 :: "byte list \<Rightarrow> byte list" where
  "Sum256 m =
     (let ws = block_words (sha256_pad m)
      in concat (map be_bytes (sha256_blocks (length ws div 16) ws sha256_init)))"

lemma length_sha256_round [simp]: "length (sha256_round kw st) = length st"
  by (induction kw st rule: sha256_round.induct) (simp_all add: Let_def)

lemma length_fold_rounds [simp]: "length (fold sha256_round kws st) = length st"
  by (induction kws arbitrary: st) simp_all

lemma length_sha256_blocks [simp]: "length (sha256_blocks n ws st) = length st"
  by (induction n ws st rule: sha256_blocks.induct) (simp_all add: sha256_block_def)

lemma length_concat_be_bytes [simp]: "length (concat (map be_bytes ws)) = 4 * length ws"
  by (induction ws) (simp_all add: be_bytes_def)

lemma length_Sum256 [simp]: "length (Sum256 m) = 32"
  by (simp add: Sum256_def Let_def sha256_init_def)

end
