(* ===== verification/Domain.thy ===== *)
theory Domain
  imports Go_Encoding
begin

text \<open>
  The domain package (internal/domain/auth.go, internal/domain/error.go): the credential, the
  parameter and result structs of the services, the domain errors, and the persistence contract
  AuthRepository as a record of its methods over an abstract store.

  A time.Time is the number of nanoseconds since the Unix epoch and a time.Duration a number
  of nanoseconds, both as integers. A slice is a list, so a nil and an empty slice are the same.
\<close>

type_synonym time = int
type_synonym duration = int

definition second :: duration where
  "second = 10 ^ 9"

definition minute :: duration where
  "minute = 60 * second"

definition Unix :: "time \<Rightarrow> int" where
  "Unix t = t div second"

subsection \<open>Constants and structs\<close>

definition RoleAdmin :: string where
  "RoleAdmin = ''admin''"

definition CredentialStatusPendingRegistration :: string where
  "CredentialStatusPendingRegistration = ''pending_registration''"

definition CredentialStatusEmailVerified :: string where
  "CredentialStatusEmailVerified = ''email_verified''"

definition CredentialStatusRegistrationFailed :: string where
  "CredentialStatusRegistrationFailed = ''registration_failed''"

record Credential =
  UserID :: string
  Email :: string
  Username :: string
  PasswordHash :: string
  EmailVerified :: bool
  Status :: string
  Roles :: "string list"
  CreatedAt :: time
  UpdatedAt :: time

record CreateCredentialParams =
  UserID_cc :: string
  Email_cc :: string
  Username_cc :: string
  PasswordHash_cc :: string

record CreateVerificationCodeParams =
  ID_vc :: string
  UserID_vc :: string
  TokenHash_vc :: string
  ExpiresAt_vc :: time

record PendingRegistrationResult =
  UserID_pr :: string
  Email_pr :: string
  VerificationCode_pr :: string
  ExpiresIn_pr :: string

record RegistrationEmailVerificationResult =
  UserID_ev :: string
  Email_ev :: string
  Status_ev :: string

record TokenPair =
  UserID_tp :: string
  AccessToken :: string
  RefreshToken :: string
  TokenType :: string
  ExpiresIn :: int

record CreateRefreshTokenParams =
  ID_rt :: string
  UserID_rt :: string
  TokenHash_rt :: string
  ExpiresAt_rt :: time

record RotateRefreshTokenParams =
  CurrentTokenHash_ro :: string
  NewTokenID_ro :: string
  NewTokenHash_ro :: string
  NewExpiresAt_ro :: time
  Now_ro :: time

record RevokeRefreshTokenParams =
  CurrentTokenHash_rv :: string
  Now_rv :: time

subsection \<open>Domain errors\<close>

datatype auth_error =
    ErrInvalidUserID
  | ErrInvalidEmail
  | ErrInvalidUsername
  | ErrInvalidPasswordHash
  | ErrInvalidVerificationCode
  | ErrExpiredVerificationCode
  | ErrEmailAlreadyTaken
  | ErrAuthCredentialsAlreadyExist
  | ErrAuthNotFound
  | ErrEmailNotVerified
  | ErrInvalidCredentials
  | ErrInvalidRefreshToken
  | ErrRefreshTokenExpired
  | ErrRefreshTokenRevoked
  | ErrFailedToCreateCredential
  | ErrFailedToCreateVerificationCode
  | ErrFailedToVerifyEmail
  | ErrFailedToCreateRefreshToken
  | ErrFailedToRotateRefreshToken
  | ErrFailedToRevokeRefreshToken
  | ErrFailedToFindCredential
  | ErrFailedToDeactivateCredential
  | ErrFailedToDeleteCredential

text \<open>The text a domain error prints, as errors.New was given it.\<close>

fun auth_error_text :: "auth_error \<Rightarrow> string" where
  "auth_error_text ErrInvalidUserID = ''invalid user id''"
| "auth_error_text ErrInvalidEmail = ''invalid email''"
| "auth_error_text ErrInvalidUsername = ''invalid username''"
| "auth_error_text ErrInvalidPasswordHash = ''invalid password hash''"
| "auth_error_text ErrInvalidVerificationCode = ''invalid verification code''"
| "auth_error_text ErrExpiredVerificationCode = ''verification code expired''"
| "auth_error_text ErrEmailAlreadyTaken = ''email is already taken''"
| "auth_error_text ErrAuthCredentialsAlreadyExist = ''auth credentials already exist''"
| "auth_error_text ErrAuthNotFound = ''auth credentials not found''"
| "auth_error_text ErrEmailNotVerified = ''email is not verified''"
| "auth_error_text ErrInvalidCredentials = ''invalid credentials''"
| "auth_error_text ErrInvalidRefreshToken = ''invalid refresh token''"
| "auth_error_text ErrRefreshTokenExpired = ''refresh token expired''"
| "auth_error_text ErrRefreshTokenRevoked = ''refresh token revoked''"
| "auth_error_text ErrFailedToCreateCredential = ''failed to create auth credential''"
| "auth_error_text ErrFailedToCreateVerificationCode = ''failed to create verification code''"
| "auth_error_text ErrFailedToVerifyEmail = ''failed to verify email''"
| "auth_error_text ErrFailedToCreateRefreshToken = ''failed to create refresh token''"
| "auth_error_text ErrFailedToRotateRefreshToken = ''failed to rotate refresh token''"
| "auth_error_text ErrFailedToRevokeRefreshToken = ''failed to revoke refresh token''"
| "auth_error_text ErrFailedToFindCredential = ''failed to find auth credential''"
| "auth_error_text ErrFailedToDeactivateCredential = ''failed to deactivate auth credential''"
| "auth_error_text ErrFailedToDeleteCredential = ''failed to delete auth credential''"

text \<open>
  An error value as the layers above the repository see it: a domain error, or an error of a
  library with its text.
\<close>

datatype go_error = AuthErr auth_error | ExtErr string

fun error_text :: "go_error \<Rightarrow> string" where
  "error_text (AuthErr e) = auth_error_text e"
| "error_text (ExtErr t) = t"

subsection \<open>The persistence contract\<close>

text \<open>
  The interface AuthRepository: one field per method, each an operation on a store of some type
  \<open>'s\<close>. A repository only ever returns domain errors.
\<close>

record 's AuthRepository =
  Create :: "CreateCredentialParams \<Rightarrow> ('s, auth_error, Credential) op"
  CreateVerificationCode :: "CreateVerificationCodeParams \<Rightarrow> ('s, auth_error, unit) op"
  VerifyEmail :: "string \<Rightarrow> string \<Rightarrow> time \<Rightarrow> ('s, auth_error, Credential) op"
  CreateRefreshToken :: "CreateRefreshTokenParams \<Rightarrow> ('s, auth_error, unit) op"
  RotateRefreshToken :: "RotateRefreshTokenParams \<Rightarrow> ('s, auth_error, Credential) op"
  RevokeRefreshToken :: "RevokeRefreshTokenParams \<Rightarrow> ('s, auth_error, Credential) op"
  GetByUserID :: "string \<Rightarrow> ('s, auth_error, Credential) op"
  GetByIdentifier :: "string \<Rightarrow> ('s, auth_error, Credential) op"
  ListRolesByUserID :: "string \<Rightarrow> ('s, auth_error, string list) op"
  ExistsEmail :: "string \<Rightarrow> ('s, auth_error, bool) op"
  DeactivateAuth :: "string \<Rightarrow> ('s, auth_error, unit) op"
  DeleteByUserID :: "string \<Rightarrow> ('s, auth_error, unit) op"

subsection \<open>Facts about the constants\<close>

lemma statuses_distinct [simp]:
  "CredentialStatusPendingRegistration \<noteq> CredentialStatusEmailVerified"
  "CredentialStatusEmailVerified \<noteq> CredentialStatusPendingRegistration"
  "CredentialStatusRegistrationFailed \<noteq> CredentialStatusEmailVerified"
  "CredentialStatusEmailVerified \<noteq> CredentialStatusRegistrationFailed"
  "CredentialStatusPendingRegistration \<noteq> CredentialStatusRegistrationFailed"
  "CredentialStatusRegistrationFailed \<noteq> CredentialStatusPendingRegistration"
  by (simp_all add: CredentialStatusPendingRegistration_def CredentialStatusEmailVerified_def
      CredentialStatusRegistrationFailed_def)

end
