(* ===== verification/Config.thy ===== *)
theory Config
  imports Domain
begin

text \<open>
  The configuration structs (config/*.go) with the defaults of their env tags, and Load. The
  parsing of the environment itself is the env library's, a parameter of Load.
\<close>

subsection \<open>Pull consumers\<close>

record PullAdaptiveConfig =
  Enabled :: bool
  CheckInterval :: duration
  MediumPending :: int
  HighPending :: int
  LowBatchSize :: int
  LowMaxWait :: duration
  MediumBatchSize :: int
  MediumMaxWait :: duration
  HighBatchSize :: int
  HighMaxWait :: duration

record PullConsumerConfig =
  GroupID_pc :: string
  Stream :: string
  Subject :: string
  Durable :: string
  BatchSize :: int
  MaxWait :: duration
  Workers :: int
  QueueSize :: int
  AckWait :: duration
  MaxDeliver :: int
  Adaptive :: PullAdaptiveConfig

text \<open>The zero values of the two structs, from which a composite literal starts.\<close>

definition zero_adaptive :: PullAdaptiveConfig where
  "zero_adaptive = \<lparr>Enabled = False, CheckInterval = 0, MediumPending = 0, HighPending = 0,
     LowBatchSize = 0, LowMaxWait = 0, MediumBatchSize = 0, MediumMaxWait = 0,
     HighBatchSize = 0, HighMaxWait = 0\<rparr>"

definition zero_pull_config :: PullConsumerConfig where
  "zero_pull_config = \<lparr>GroupID_pc = [], Stream = [], Subject = [], Durable = [], BatchSize = 0,
     MaxWait = 0, Workers = 0, QueueSize = 0, AckWait = 0, MaxDeliver = 0, Adaptive = zero_adaptive\<rparr>"

subsection \<open>NATS\<close>

record NATSConfig =
  URL :: string
  User_nats :: string
  Password_nats :: string
  AuthEventsStream :: string
  MailCommandsStream :: string
  AuthCreatedSubject :: string
  SagaCommandsStream :: string
  SagaCreateAuthSubject :: string
  SagaDeleteAuthSubject :: string
  SagaCreateAuthResultSubject :: string
  SagaDeleteAuthResultSubject :: string
  MailSendSubject :: string
  SagaCreateAuthDurable :: string
  SagaDeleteAuthDurable :: string
  SagaBatchSize :: int
  SagaMaxWait :: duration
  SagaWorkers :: int
  SagaQueueSize :: int
  SagaAckWait :: duration
  SagaMaxDeliver :: int
  SagaAdaptiveEnabled :: bool
  SagaAdaptiveCheckInterval :: duration
  SagaAdaptiveMediumPending :: int
  SagaAdaptiveHighPending :: int
  SagaAdaptiveLowBatchSize :: int
  SagaAdaptiveLowMaxWait :: duration
  SagaAdaptiveMediumBatchSize :: int
  SagaAdaptiveMediumMaxWait :: duration
  SagaAdaptiveHighBatchSize :: int
  SagaAdaptiveHighMaxWait :: duration

definition default_nats :: NATSConfig where
  "default_nats = \<lparr>URL = [],
     User_nats = [],
     Password_nats = [],
     AuthEventsStream = ''AUTH_EVENTS'',
     MailCommandsStream = ''MAIL_COMMANDS'',
     AuthCreatedSubject = ''auth.created'',
     SagaCommandsStream = ''SAGA_AUTH_COMMANDS'',
     SagaCreateAuthSubject = ''saga.auth.create_pending_registration'',
     SagaDeleteAuthSubject = ''saga.auth.delete'',
     SagaCreateAuthResultSubject = ''saga.auth.create_pending_registration.result'',
     SagaDeleteAuthResultSubject = ''saga.auth.delete.result'',
     MailSendSubject = ''mail.send'',
     SagaCreateAuthDurable = ''auth_service_saga_create_pending_registration'',
     SagaDeleteAuthDurable = ''auth_service_saga_delete'',
     SagaBatchSize = 32,
     SagaMaxWait = 10 * 10 ^ 6,
     SagaWorkers = 8,
     SagaQueueSize = 500,
     SagaAckWait = 30 * second,
     SagaMaxDeliver = 5,
     SagaAdaptiveEnabled = False,
     SagaAdaptiveCheckInterval = 2 * second,
     SagaAdaptiveMediumPending = 200,
     SagaAdaptiveHighPending = 1000,
     SagaAdaptiveLowBatchSize = 8,
     SagaAdaptiveLowMaxWait = 25 * 10 ^ 6,
     SagaAdaptiveMediumBatchSize = 32,
     SagaAdaptiveMediumMaxWait = 10 * 10 ^ 6,
     SagaAdaptiveHighBatchSize = 128,
     SagaAdaptiveHighMaxWait = 2 * 10 ^ 6\<rparr>"

subsection \<open>Kafka\<close>

record KafkaConfig =
  Brokers :: "string list"
  GroupID :: string
  CreateTopic :: string
  DeleteTopic :: string
  CreateResultTopic :: string
  DeleteResultTopic :: string
  MailTopic :: string
  DeadLetterTopic :: string
  RecoveryTopic :: string
  RecoveryGroup :: string
  RecoveryCompleted :: string

definition default_kafka :: KafkaConfig where
  "default_kafka = \<lparr>Brokers = [''127.0.0.1:9092''],
     GroupID = ''auth-service'',
     CreateTopic = ''saga.auth.create_pending_registration'',
     DeleteTopic = ''saga.auth.delete'',
     CreateResultTopic = ''saga.auth.create_pending_registration.result'',
     DeleteResultTopic = ''saga.auth.delete.result'',
     MailTopic = ''mail.send'',
     DeadLetterTopic = ''auth-service.dead-letter'',
     RecoveryTopic = ''migration.recovery.commands.auth'',
     RecoveryGroup = ''auth-service-recovery'',
     RecoveryCompleted = ''migration.recovery.completed''\<rparr>"

subsection \<open>The other structs\<close>

record JWTConfig =
  AccessSecret :: string
  RefreshSecret :: string
  Issuer :: string
  AccessTokenTTL :: duration
  RefreshTokenTTL :: duration
  RefreshTokenBytes :: int

definition default_jwt :: JWTConfig where
  "default_jwt = \<lparr>AccessSecret = ''local-dev-access-secret-change-me'',
     RefreshSecret = ''local-dev-refresh-secret-change-me'', Issuer = ''ofm-auth-service'',
     AccessTokenTTL = 15 * minute, RefreshTokenTTL = 720 * 60 * minute, RefreshTokenBytes = 32\<rparr>"

record AppConfig =
  Env :: string
  LogLevel :: string
  ObservabilityMode :: string

definition default_app :: AppConfig where
  "default_app = \<lparr>Env = ''local'', LogLevel = ''info'', ObservabilityMode = ''production''\<rparr>"

record GRPCConfig =
  Host_grpc :: string
  Port_grpc :: int

definition default_grpc :: GRPCConfig where
  "default_grpc = \<lparr>Host_grpc = ''0.0.0.0'', Port_grpc = 9501\<rparr>"

record MetricsConfig =
  Enabled_mx :: bool
  Host_mx :: string
  Port_mx :: int
  Path_mx :: string

definition default_metrics :: MetricsConfig where
  "default_metrics = \<lparr>Enabled_mx = True, Host_mx = ''0.0.0.0'', Port_mx = 9601, Path_mx = ''/metrics''\<rparr>"

record DBConfig =
  Host_db :: string
  Port_db :: int
  User_db :: string
  Password_db :: string
  Name_db :: string
  SSLMode :: string
  MaxOpenConns :: int
  MaxIdleConns :: int
  ConnMaxLifetime :: duration
  MigrationsPath :: string
  MigrationsTable :: string

record Config =
  App :: AppConfig
  DB :: DBConfig
  GRPC :: GRPCConfig
  Metrics :: MetricsConfig
  NATS :: NATSConfig
  Kafka :: KafkaConfig
  JWT :: JWTConfig

definition WrapParseEnvConfigError :: "string \<Rightarrow> string" where
  "WrapParseEnvConfigError err = ''parse env config: '' @ err"

definition Load :: "('env \<Rightarrow> string + Config) \<Rightarrow> 'env \<Rightarrow> string + Config" where
  "Load parse environ =
     (case parse environ of Inl err \<Rightarrow> Inl (WrapParseEnvConfigError err) | Inr cfg \<Rightarrow> Inr cfg)"

end
