(* ===== verification/Store.thy ===== *)
theory Store
  imports Config
begin

text \<open>
  The PostgreSQL side of the service: the tables of migration/postgres as lists of rows, the
  outbox the triggers fill, and one function per SQL text of internal/infra/write/postgres/query.go.

  PostgreSQL itself is not part of the repository. What the queries leave to it is a parameter,
  collected in \<open>db_env\<close>: how it reads a UUID, what its clock says, in which order an unordered
  SELECT returns rows, how it collates roles, and which statements fail. A statement can fail
  without effect (\<open>Rejected\<close>) or take effect and lose its reply (\<open>Lost\<close>).
\<close>

subsection \<open>Driver errors\<close>

text \<open>
  An error of the database driver: a PostgreSQL error with its SQLSTATE code, its constraint
  name and its text; sql.ErrNoRows; any other error; or an error wrapped with a prefix.
\<close>

datatype db_err =
    PgError string string string
  | ErrNoRows
  | OtherErr string
  | Wrapped string db_err

fun err_Error :: "db_err \<Rightarrow> string" where
  "err_Error (PgError code con txt) = txt"
| "err_Error ErrNoRows = ''sql: no rows in result set''"
| "err_Error (OtherErr txt) = txt"
| "err_Error (Wrapped p e) = p @ err_Error e"

text \<open>errors.As for a PgError gives its code and constraint name; errors.Is for ErrNoRows.\<close>

fun errors_As_Pg :: "db_err \<Rightarrow> (string \<times> string) option" where
  "errors_As_Pg (PgError code con txt) = Some (code, con)"
| "errors_As_Pg (Wrapped p e) = errors_As_Pg e"
| "errors_As_Pg _ = None"

fun errors_Is_NoRows :: "db_err \<Rightarrow> bool" where
  "errors_Is_NoRows ErrNoRows = True"
| "errors_Is_NoRows (Wrapped p e) = errors_Is_NoRows e"
| "errors_Is_NoRows _ = False"

definition UniqueViolation :: string where
  "UniqueViolation = ''23505''"

definition ForeignKeyViolation :: string where
  "ForeignKeyViolation = ''23503''"

definition InvalidTextRepresentation :: string where
  "InvalidTextRepresentation = ''22P02''"

definition unique_violation :: "string \<Rightarrow> db_err" where
  "unique_violation con = PgError UniqueViolation con
     (''ERROR: duplicate key value violates unique constraint '' @ con)"

definition foreign_key_violation :: "string \<Rightarrow> db_err" where
  "foreign_key_violation con = PgError ForeignKeyViolation con
     (''ERROR: insert or update violates foreign key constraint '' @ con)"

definition invalid_uuid :: db_err where
  "invalid_uuid = PgError InvalidTextRepresentation [] ''ERROR: invalid input syntax for type uuid''"

subsection \<open>Tables\<close>

record auth_credentials =
  ac_user_id :: string
  ac_email :: string
  ac_username :: string
  ac_password_hash :: string
  ac_email_verified :: bool
  ac_status :: string
  ac_created_at :: time
  ac_updated_at :: time

record email_verification_codes =
  vc_id :: string
  vc_user_id :: string
  vc_token_hash :: string
  vc_expires_at :: time
  vc_used_at :: "time option"
  vc_created_at :: time

record refresh_tokens =
  rt_id :: string
  rt_user_id :: string
  rt_token_hash :: string
  rt_expires_at :: time
  rt_revoked_at :: "time option"
  rt_created_at :: time

record auth_user_roles =
  ur_user_id :: string
  ur_role :: string

datatype row_data =
    CredentialData auth_credentials
  | CodeData email_verification_codes
  | TokenData refresh_tokens
  | RoleData auth_user_roles

record outbox_events =
  ob_aggregate_type :: string
  ob_aggregate_id :: string
  ob_event_type :: string
  ob_operation :: string
  ob_payload :: row_data

record tables =
  credentials :: "auth_credentials list"
  codes :: "email_verification_codes list"
  tokens :: "refresh_tokens list"
  roles :: "auth_user_roles list"
  outbox :: "outbox_events multiset"

text \<open>The trigger function capture_auth_outbox_event, run for every row written.\<close>

datatype tg_op = TG_INSERT | TG_UPDATE | TG_DELETE

fun operation_value :: "tg_op \<Rightarrow> string" where
  "operation_value TG_INSERT = ''created''"
| "operation_value TG_DELETE = ''deactivated''"
| "operation_value TG_UPDATE = ''updated''"

fun data_user_id :: "row_data \<Rightarrow> string" where
  "data_user_id (CredentialData r) = ac_user_id r"
| "data_user_id (CodeData r) = vc_user_id r"
| "data_user_id (TokenData r) = rt_user_id r"
| "data_user_id (RoleData r) = ur_user_id r"

fun table_name :: "row_data \<Rightarrow> string" where
  "table_name (CredentialData r) = ''auth_credentials''"
| "table_name (CodeData r) = ''email_verification_codes''"
| "table_name (TokenData r) = ''refresh_tokens''"
| "table_name (RoleData r) = ''auth_user_roles''"

definition capture_auth_outbox_event :: "tg_op \<Rightarrow> row_data \<Rightarrow> outbox_events" where
  "capture_auth_outbox_event tg d =
     (let tab = table_name d; cred = (tab = ''auth_credentials'')
      in \<lparr>ob_aggregate_type = (if cred then ''auth'' else tab),
          ob_aggregate_id = data_user_id d,
          ob_event_type = (if cred then ''auth.credentials.'' @ operation_value tg
                           else ''auth.'' @ tab @ ''.changed''),
          ob_operation = operation_value tg,
          ob_payload = d\<rparr>)"

definition captured :: "tg_op \<Rightarrow> row_data list \<Rightarrow> outbox_events multiset" where
  "captured tg ds = mset (map (capture_auth_outbox_event tg) ds)"

lemma captured_simps [simp]:
  "captured tg [] = {#}"
  "captured tg (d # ds) = add_mset (capture_auth_outbox_event tg d) (captured tg ds)"
  by (simp_all add: captured_def)

subsection \<open>What is left to the database\<close>

datatype fault = Rejected db_err | Lost db_err

record db_env =
  uuid_in :: "string \<Rightarrow> string option"
  db_now :: "nat \<Rightarrow> time"
  fault_at :: "nat \<Rightarrow> fault option"
  rows_affected_err :: "nat \<Rightarrow> db_err option"
  scan_credentials :: "auth_credentials list \<Rightarrow> auth_credentials list"
  scan_tokens :: "refresh_tokens list \<Rightarrow> refresh_tokens list"
  collate_roles :: "string list \<Rightarrow> string list"

text \<open>
  The documented behaviour the code relies on: a UUID prints in a form that reads back as itself
  and consists of visible characters, and a scan or a sort returns exactly the rows there are.
\<close>

definition db_env_ok :: "db_env \<Rightarrow> bool" where
  "db_env_ok env \<longleftrightarrow>
     (\<forall>s u. uuid_in env s = Some u \<longrightarrow> uuid_in env u = Some u \<and> u \<noteq> [] \<and> list_all plain_char u) \<and>
     (\<forall>xs. mset (scan_credentials env xs) = mset xs) \<and>
     (\<forall>xs. mset (scan_tokens env xs) = mset xs) \<and>
     (\<forall>xs. mset (collate_roles env xs) = mset xs)"

text \<open>A database that never fails.\<close>

definition fault_free :: "db_env \<Rightarrow> bool" where
  "fault_free env \<longleftrightarrow> (\<forall>n. fault_at env n = None) \<and> (\<forall>n. rows_affected_err env n = None)"

text \<open>The store: the tables and the number of statements sent so far.\<close>

record store =
  tabs :: tables
  ticks :: nat

type_synonym 'a statement = "time \<Rightarrow> tables \<Rightarrow> (db_err + 'a) \<times> tables"

definition send :: "db_env \<Rightarrow> 'a statement \<Rightarrow> (store, db_err, 'a) op" where
  "send env stmt s =
     (let n = ticks s; r = stmt (db_now env n) (tabs s); s' = s\<lparr>ticks := Suc n\<rparr>
      in case fault_at env n of
           None \<Rightarrow> (fst r, s'\<lparr>tabs := snd r\<rparr>)
         | Some (Rejected e) \<Rightarrow> (Inl e, s')
         | Some (Lost e) \<Rightarrow> (Inl e, s'\<lparr>tabs := snd r\<rparr>))"

lemma db_env_okD:
  assumes "db_env_ok env"
  shows "uuid_in env x = Some u \<Longrightarrow> uuid_in env u = Some u"
    and "uuid_in env x = Some u \<Longrightarrow> u \<noteq> [] \<and> TrimSpace u = u"
    and "mset (scan_credentials env cs) = mset cs"
    and "mset (scan_tokens env ts) = mset ts"
    and "mset (collate_roles env rs) = mset rs"
  using assms by (auto simp: db_env_ok_def intro: TrimSpace_plain)

lemma set_scans [simp]:
  assumes "db_env_ok env"
  shows "set (scan_credentials env cs) = set cs" "set (scan_tokens env ts) = set ts"
    "set (collate_roles env rs) = set rs"
  by (rule mset_eq_setD, rule db_env_okD [OF assms])+

end
