(* ===== verification/Queries.thy ===== *)
theory Queries
  imports Store
begin

text \<open>
  The SQL texts of internal/infra/write/postgres/query.go, each a statement on the tables with
  the constraints, cascades and triggers that migration/postgres declares. A statement that
  PostgreSQL refuses leaves the tables as they were.
\<close>

subsection \<open>auth_credentials\<close>

definition createCredentialQuery ::
  "db_env \<Rightarrow> string \<Rightarrow> string \<Rightarrow> string \<Rightarrow> string \<Rightarrow> auth_credentials statement" where
  "createCredentialQuery env uid email name pw now t =
     (case uuid_in env uid of
        None \<Rightarrow> (Inl invalid_uuid, t)
      | Some u \<Rightarrow>
          if list_ex (\<lambda>r. ac_user_id r = u) (credentials t)
          then (Inl (unique_violation ''auth_credentials_pkey''), t)
          else if list_ex (\<lambda>r. ac_email r = email) (credentials t)
          then (Inl (unique_violation ''auth_credentials_email_key''), t)
          else
            let r = \<lparr>ac_user_id = u, ac_email = email, ac_username = name, ac_password_hash = pw,
                      ac_email_verified = False, ac_status = ''pending_registration'',
                      ac_created_at = now, ac_updated_at = now\<rparr>
            in (Inr r, t\<lparr>credentials := credentials t @ [r],
                         outbox := outbox t + captured TG_INSERT [CredentialData r]\<rparr>))"

text \<open>An UPDATE of credentials: the BEFORE trigger sets updated_at, the AFTER trigger captures.\<close>

definition update_credentials ::
  "(auth_credentials \<Rightarrow> bool) \<Rightarrow> (auth_credentials \<Rightarrow> auth_credentials) \<Rightarrow> time \<Rightarrow> tables
    \<Rightarrow> auth_credentials list \<times> tables" where
  "update_credentials P f now t =
     (let g = (\<lambda>r. (f r)\<lparr>ac_updated_at := now\<rparr>);
          new = map g (filter P (credentials t))
      in (new, t\<lparr>credentials := update_where P g (credentials t),
                 outbox := outbox t + captured TG_UPDATE (map CredentialData new)\<rparr>))"

definition getCredentialByUserIDQuery :: "db_env \<Rightarrow> string \<Rightarrow> auth_credentials statement" where
  "getCredentialByUserIDQuery env uid now t =
     (case uuid_in env uid of
        None \<Rightarrow> (Inl invalid_uuid, t)
      | Some u \<Rightarrow>
          (case filter (\<lambda>r. ac_user_id r = u) (credentials t) of
             [] \<Rightarrow> (Inl ErrNoRows, t) | r # _ \<Rightarrow> (Inr r, t)))"

definition getCredentialByIdentifierQuery :: "db_env \<Rightarrow> string \<Rightarrow> auth_credentials statement" where
  "getCredentialByIdentifierQuery env ident now t =
     (case filter (\<lambda>r. ac_username r = ident \<or> ac_email r = ident) (scan_credentials env (credentials t)) of
        [] \<Rightarrow> (Inl ErrNoRows, t) | r # _ \<Rightarrow> (Inr r, t))"

definition existsCredentialByEmailQuery :: "string \<Rightarrow> bool statement" where
  "existsCredentialByEmailQuery email now t =
     (Inr (list_ex (\<lambda>r. ac_email r = email) (credentials t)), t)"

definition deactivateRegistrationAuthQuery :: "db_env \<Rightarrow> string \<Rightarrow> nat statement" where
  "deactivateRegistrationAuthQuery env uid now t =
     (case uuid_in env uid of
        None \<Rightarrow> (Inl invalid_uuid, t)
      | Some u \<Rightarrow>
          let (new, t') = update_credentials (\<lambda>r. ac_user_id r = u)
                (\<lambda>r. r\<lparr>ac_email_verified := False, ac_status := ''registration_failed''\<rparr>) now t
          in (Inr (length new), t'))"

text \<open>DELETE cascades to the codes, tokens and roles of the user, each row captured.\<close>

definition deleteCredentialByUserIDQuery :: "db_env \<Rightarrow> string \<Rightarrow> nat statement" where
  "deleteCredentialByUserIDQuery env uid now t =
     (case uuid_in env uid of
        None \<Rightarrow> (Inl invalid_uuid, t)
      | Some u \<Rightarrow>
          let gone = filter (\<lambda>r. ac_user_id r = u) (credentials t) in
          if gone = [] then (Inr 0, t)
          else (Inr (length gone),
            t\<lparr>credentials := delete_where (\<lambda>r. ac_user_id r = u) (credentials t),
              codes := delete_where (\<lambda>r. vc_user_id r = u) (codes t),
              tokens := delete_where (\<lambda>r. rt_user_id r = u) (tokens t),
              roles := delete_where (\<lambda>r. ur_user_id r = u) (roles t),
              outbox := outbox t + captured TG_DELETE
                (map CredentialData gone @ map CodeData (filter (\<lambda>r. vc_user_id r = u) (codes t)) @
                 map TokenData (filter (\<lambda>r. rt_user_id r = u) (tokens t)) @
                 map RoleData (filter (\<lambda>r. ur_user_id r = u) (roles t)))\<rparr>))"

subsection \<open>email_verification_codes\<close>

definition createVerificationCodeQuery ::
  "db_env \<Rightarrow> string \<Rightarrow> string \<Rightarrow> string \<Rightarrow> time \<Rightarrow> unit statement" where
  "createVerificationCodeQuery env cid uid hash expires now t =
     (case (uuid_in env cid, uuid_in env uid) of
        (Some c, Some u) \<Rightarrow>
          if list_ex (\<lambda>r. vc_id r = c) (codes t)
          then (Inl (unique_violation ''email_verification_codes_pkey''), t)
          else if \<not> list_ex (\<lambda>r. ac_user_id r = u) (credentials t)
          then (Inl (foreign_key_violation ''email_verification_codes_user_id_fkey''), t)
          else
            let r = \<lparr>vc_id = c, vc_user_id = u, vc_token_hash = hash, vc_expires_at = expires,
                      vc_used_at = None, vc_created_at = now\<rparr>
            in (Inr (), t\<lparr>codes := codes t @ [r],
                         outbox := outbox t + captured TG_INSERT [CodeData r]\<rparr>)
      | _ \<Rightarrow> (Inl invalid_uuid, t))"

definition code_matches :: "string \<Rightarrow> string \<Rightarrow> time \<Rightarrow> email_verification_codes \<Rightarrow> bool" where
  "code_matches u hash at r \<longleftrightarrow>
     vc_user_id r = u \<and> vc_token_hash r = hash \<and> vc_used_at r = None \<and> at < vc_expires_at r"

text \<open>
  The CTE marks every matching code as used; the outer UPDATE verifies the credential only when
  the CTE returned a row, and its RETURNING clause yields the updated row. Both halves see the
  tables as they were before the statement. No row returned is sql.ErrNoRows to the caller.
\<close>

definition verifyRegistrationEmailQuery ::
  "db_env \<Rightarrow> string \<Rightarrow> string \<Rightarrow> time \<Rightarrow> auth_credentials statement" where
  "verifyRegistrationEmailQuery env uid hash at now t =
     (case uuid_in env uid of
        None \<Rightarrow> (Inl invalid_uuid, t)
      | Some u \<Rightarrow>
          let use = (\<lambda>r. r\<lparr>vc_used_at := Some now\<rparr>);
              used = map use (filter (code_matches u hash at) (codes t));
              t1 = t\<lparr>codes := update_where (code_matches u hash at) use (codes t),
                     outbox := outbox t + captured TG_UPDATE (map CodeData used)\<rparr>;
              (new, t2) = update_credentials (\<lambda>r. used \<noteq> [] \<and> ac_user_id r = u)
                (\<lambda>r. r\<lparr>ac_email_verified := True, ac_status := ''email_verified''\<rparr>) now t1
          in (case new of [] \<Rightarrow> (Inl ErrNoRows, t2) | r # _ \<Rightarrow> (Inr r, t2)))"

subsection \<open>refresh_tokens\<close>

definition createRefreshTokenQuery ::
  "db_env \<Rightarrow> string \<Rightarrow> string \<Rightarrow> string \<Rightarrow> time \<Rightarrow> unit statement" where
  "createRefreshTokenQuery env tid uid hash expires now t =
     (case (uuid_in env tid, uuid_in env uid) of
        (Some i, Some u) \<Rightarrow>
          if list_ex (\<lambda>r. rt_id r = i) (tokens t)
          then (Inl (unique_violation ''refresh_tokens_pkey''), t)
          else if \<not> list_ex (\<lambda>r. ac_user_id r = u) (credentials t)
          then (Inl (foreign_key_violation ''refresh_tokens_user_id_fkey''), t)
          else
            let r = \<lparr>rt_id = i, rt_user_id = u, rt_token_hash = hash, rt_expires_at = expires,
                      rt_revoked_at = None, rt_created_at = now\<rparr>
            in (Inr (), t\<lparr>tokens := tokens t @ [r],
                         outbox := outbox t + captured TG_INSERT [TokenData r]\<rparr>)
      | _ \<Rightarrow> (Inl invalid_uuid, t))"

text \<open>The join of a token with its credential, in scan order; QueryRow takes the first row.\<close>

definition refreshTokenForRotationQuery ::
  "db_env \<Rightarrow> string \<Rightarrow> (refresh_tokens \<times> auth_credentials) statement" where
  "refreshTokenForRotationQuery env hash now t =
     (case [(rt, ac). rt \<leftarrow> filter (\<lambda>rt. rt_token_hash rt = hash) (scan_tokens env (tokens t)),
                      ac \<leftarrow> filter (\<lambda>ac. ac_user_id ac = rt_user_id rt) (credentials t)] of
        [] \<Rightarrow> (Inl ErrNoRows, t) | p # _ \<Rightarrow> (Inr p, t))"

definition refreshTokenForRevokeQuery ::
  "db_env \<Rightarrow> string \<Rightarrow> (refresh_tokens \<times> auth_credentials) statement" where
  "refreshTokenForRevokeQuery = refreshTokenForRotationQuery"

definition revokeRefreshTokenQuery :: "db_env \<Rightarrow> string \<Rightarrow> time \<Rightarrow> nat statement" where
  "revokeRefreshTokenQuery env tid at now t =
     (case uuid_in env tid of
        None \<Rightarrow> (Inl invalid_uuid, t)
      | Some i \<Rightarrow>
          let P = (\<lambda>r. rt_id r = i \<and> rt_revoked_at r = None);
              revoke = (\<lambda>r. r\<lparr>rt_revoked_at := Some at\<rparr>);
              new = map revoke (filter P (tokens t))
          in (Inr (length new), t\<lparr>tokens := update_where P revoke (tokens t),
                outbox := outbox t + captured TG_UPDATE (map TokenData new)\<rparr>))"

subsection \<open>auth_user_roles\<close>

definition listRolesByUserIDQuery :: "db_env \<Rightarrow> string \<Rightarrow> string list statement" where
  "listRolesByUserIDQuery env uid now t =
     (case uuid_in env uid of
        None \<Rightarrow> (Inl invalid_uuid, t)
      | Some u \<Rightarrow>
          (Inr (collate_roles env (map ur_role (filter (\<lambda>r. ur_user_id r = u) (roles t)))), t))"

lemmas query_defs =
  createCredentialQuery_def update_credentials_def getCredentialByUserIDQuery_def
  getCredentialByIdentifierQuery_def existsCredentialByEmailQuery_def
  deactivateRegistrationAuthQuery_def deleteCredentialByUserIDQuery_def
  createVerificationCodeQuery_def verifyRegistrationEmailQuery_def createRefreshTokenQuery_def
  refreshTokenForRotationQuery_def refreshTokenForRevokeQuery_def revokeRefreshTokenQuery_def
  listRolesByUserIDQuery_def

end
