(* ===== verification/Schema.thy ===== *)
theory Schema
  imports Queries
begin

text \<open>
  What the schema's keys and foreign keys keep true of the tables, what the service keeps true of
  the status column, and that every statement preserves both.
\<close>

definition users :: "tables \<Rightarrow> string set" where
  "users t = ac_user_id ` set (credentials t)"

definition keys_ok :: "tables \<Rightarrow> bool" where
  "keys_ok t \<longleftrightarrow> distinct (map ac_user_id (credentials t)) \<and> distinct (map ac_email (credentials t)) \<and>
     distinct (map vc_id (codes t)) \<and> distinct (map rt_id (tokens t)) \<and> distinct (roles t)"

definition refs_ok :: "tables \<Rightarrow> bool" where
  "refs_ok t \<longleftrightarrow> vc_user_id ` set (codes t) \<subseteq> users t \<and> rt_user_id ` set (tokens t) \<subseteq> users t \<and>
     ur_user_id ` set (roles t) \<subseteq> users t"

definition uuids_ok :: "db_env \<Rightarrow> tables \<Rightarrow> bool" where
  "uuids_ok env t \<longleftrightarrow> (\<forall>u \<in> users t. uuid_in env u = Some u) \<and>
     (\<forall>r \<in> set (tokens t). uuid_in env (rt_id r) = Some (rt_id r))"

definition status_ok :: "auth_credentials \<Rightarrow> bool" where
  "status_ok r \<longleftrightarrow>
     ac_status r \<in> {CredentialStatusPendingRegistration, CredentialStatusEmailVerified,
                    CredentialStatusRegistrationFailed} \<and>
     (ac_email_verified r \<longleftrightarrow> ac_status r = CredentialStatusEmailVerified)"

definition statuses_ok :: "tables \<Rightarrow> bool" where
  "statuses_ok t \<longleftrightarrow> (\<forall>r \<in> set (credentials t). status_ok r)"

definition db_ok :: "db_env \<Rightarrow> tables \<Rightarrow> bool" where
  "db_ok env t \<longleftrightarrow> keys_ok t \<and> refs_ok t \<and> uuids_ok env t \<and> statuses_ok t"

lemmas db_ok_defs = db_ok_def keys_ok_def refs_ok_def uuids_ok_def statuses_ok_def users_def

lemmas status_defs = status_ok_def CredentialStatusPendingRegistration_def
  CredentialStatusEmailVerified_def CredentialStatusRegistrationFailed_def

lemma list_ex_simp [simp]: "list_ex P xs \<longleftrightarrow> (\<exists>x \<in> set xs. P x)"
  by (induction xs) auto

text \<open>Updating rows in place: the key columns stay, so only the changed columns matter.\<close>

lemma image_update_where:
  assumes "\<And>r. k (f r) = k r"
  shows "k ` set (update_where P f rows) = k ` set rows"
  by (metis assms map_update_where set_map)

lemma db_ok_set_credentials:
  assumes "db_ok env t" and "\<And>r. ac_user_id (g r) = ac_user_id r" "\<And>r. ac_email (g r) = ac_email r"
    and "\<And>r. r \<in> set (credentials t) \<Longrightarrow> P r \<Longrightarrow> status_ok r \<Longrightarrow> status_ok (g r)"
  shows "db_ok env (t\<lparr>credentials := update_where P g (credentials t), outbox := x\<rparr>)"
proof -
  have "map ac_user_id (update_where P g (credentials t)) = map ac_user_id (credentials t)"
    "map ac_email (update_where P g (credentials t)) = map ac_email (credentials t)"
    "ac_user_id ` set (update_where P g (credentials t)) = ac_user_id ` set (credentials t)"
    using assms(2,3) by (simp_all add: map_update_where image_update_where)
  moreover have "\<forall>r \<in> set (update_where P g (credentials t)). status_ok r"
    using assms(1,4) by (auto simp: set_update_where db_ok_defs)
  ultimately show ?thesis using assms(1) by (simp add: db_ok_defs)
qed

lemma db_ok_set_codes:
  assumes "db_ok env t" and "\<And>r. vc_id (g r) = vc_id r" "\<And>r. vc_user_id (g r) = vc_user_id r"
  shows "db_ok env (t\<lparr>codes := update_where P g (codes t), outbox := x\<rparr>)"
  using assms by (simp add: db_ok_defs map_update_where image_update_where)

lemma db_ok_set_tokens:
  assumes "db_ok env t" and "\<And>r. rt_id (g r) = rt_id r" "\<And>r. rt_user_id (g r) = rt_user_id r"
  shows "db_ok env (t\<lparr>tokens := update_where P g (tokens t), outbox := x\<rparr>)"
proof -
  have "\<forall>r \<in> set (update_where P g (tokens t)). uuid_in env (rt_id r) = Some (rt_id r)"
    using assms by (auto simp: db_ok_defs set_update_where)
  with assms show ?thesis by (simp add: db_ok_defs map_update_where image_update_where)
qed

lemma update_credentials_ok:
  assumes "db_ok env t" and "\<And>r. ac_user_id (f r) = ac_user_id r" and "\<And>r. ac_email (f r) = ac_email r"
    and "\<And>r. status_ok r \<Longrightarrow> status_ok ((f r)\<lparr>ac_updated_at := now\<rparr>)"
  shows "db_ok env (snd (update_credentials P f now t))"
  using assms by (simp add: update_credentials_def Let_def db_ok_set_credentials)

lemma status_ok_written [simp]:
  "status_ok (r\<lparr>ac_email_verified := False, ac_status := ''registration_failed'', ac_updated_at := now\<rparr>)"
  "status_ok (r\<lparr>ac_email_verified := True, ac_status := ''email_verified'', ac_updated_at := now\<rparr>)"
  by (simp_all add: status_defs)

text \<open>One lemma per statement.\<close>

lemma create_credential_keeps [keeps]:
  assumes "db_env_ok env" "db_ok env t"
  shows "db_ok env (snd (createCredentialQuery env uid email name pw now t))"
  using assms db_env_okD(1) [OF assms(1)]
  by (auto simp: createCredentialQuery_def db_ok_defs status_defs Let_def split: option.splits)

lemma deactivate_ok [keeps]:
  "db_ok env t \<Longrightarrow> db_ok env (snd (deactivateRegistrationAuthQuery env uid now t))"
  by (auto simp: deactivateRegistrationAuthQuery_def split: option.splits prod.splits
      dest!: arg_cong [where f = snd] intro!: update_credentials_ok)

lemma verify_ok [keeps]:
  assumes "db_ok env t"
  shows "db_ok env (snd (verifyRegistrationEmailQuery env uid hash at now t))"
proof (cases "uuid_in env uid")
  case None
  with assms show ?thesis by (simp add: verifyRegistrationEmailQuery_def)
next
  case (Some u)
  let ?used = "map (\<lambda>r. r\<lparr>vc_used_at := Some now\<rparr>) (filter (code_matches u hash at) (codes t))"
  let ?t1 = "t\<lparr>codes := update_where (code_matches u hash at) (\<lambda>r. r\<lparr>vc_used_at := Some now\<rparr>) (codes t),
                outbox := outbox t + captured TG_UPDATE (map CodeData ?used)\<rparr>"
  have "db_ok env ?t1" using assms by (rule db_ok_set_codes) simp_all
  then have "db_ok env (snd (update_credentials (\<lambda>r. ?used \<noteq> [] \<and> ac_user_id r = u)
      (\<lambda>r. r\<lparr>ac_email_verified := True, ac_status := ''email_verified''\<rparr>) now ?t1))"
    by (rule update_credentials_ok) simp_all
  with Some show ?thesis
    by (simp add: verifyRegistrationEmailQuery_def Let_def case_prod_beta split: list.splits)
qed

lemma delete_ok [keeps]:
  assumes "db_ok env t"
  shows "db_ok env (snd (deleteCredentialByUserIDQuery env uid now t))"
proof (cases "uuid_in env uid")
  case None
  with assms show ?thesis by (simp add: deleteCredentialByUserIDQuery_def)
next
  case (Some u)
  with assms show ?thesis
    by (auto simp: deleteCredentialByUserIDQuery_def db_ok_defs Let_def distinct_map_delete_where
        delete_where_def image_subset_iff distinct_map_filter)
qed

lemma create_code_ok [keeps]:
  "db_ok env t \<Longrightarrow> db_ok env (snd (createVerificationCodeQuery env cid uid hash expires now t))"
  by (auto simp: createVerificationCodeQuery_def db_ok_defs Let_def split: option.splits)

lemma create_token_ok [keeps]:
  assumes "db_env_ok env" "db_ok env t"
  shows "db_ok env (snd (createRefreshTokenQuery env tid uid hash expires now t))"
  using assms db_env_okD(1) [OF assms(1)]
  by (auto simp: createRefreshTokenQuery_def db_ok_defs Let_def split: option.splits)

lemma revoke_token_ok [keeps]:
  "db_ok env t \<Longrightarrow> db_ok env (snd (revokeRefreshTokenQuery env tid at now t))"
  by (auto simp: revokeRefreshTokenQuery_def Let_def split: option.splits intro!: db_ok_set_tokens)

text \<open>The SELECT statements change nothing.\<close>

lemma select_frame [frame]:
  "snd (getCredentialByUserIDQuery env uid now t) = t"
  "snd (getCredentialByIdentifierQuery env ident now t) = t"
  "snd (existsCredentialByEmailQuery email now t) = t"
  "snd (refreshTokenForRotationQuery env hash now t) = t"
  "snd (refreshTokenForRevokeQuery env hash now t) = t"
  "snd (listRolesByUserIDQuery env uid now t) = t"
  by (simp_all add: query_defs split: option.splits list.splits)

text \<open>A statement sent keeps the invariant, whether it fails, succeeds or loses its reply.\<close>

lemma send_ok:
  assumes "db_ok env (tabs s)" and "\<And>now t. db_ok env t \<Longrightarrow> db_ok env (snd (stmt now t))"
  shows "db_ok env (tabs (snd (send env stmt s)))"
  using assms by (auto simp: send_def Let_def split: option.splits fault.splits)

lemma send_frame:
  "(\<And>now t. snd (stmt now t) = t) \<Longrightarrow> tabs (snd (send env stmt s)) = tabs s"
  by (auto simp: send_def Let_def split: option.splits fault.splits)

end
