(* ===== verification/Translator.thy ===== *)
theory Translator
  imports Store
begin

text \<open>
  The interface DBErrorTranslator (type.go), its PostgreSQL implementation
  (error_translator.go), and the contract the repository relies on, as a locale.
\<close>

record DBErrorTranslator =
  TranslateCreateCredentialError :: "db_err \<Rightarrow> auth_error"
  TranslateCreateVerificationCodeError :: "db_err \<Rightarrow> auth_error"
  TranslateVerifyEmailError :: "db_err \<Rightarrow> auth_error"
  TranslateCreateRefreshTokenError :: "db_err \<Rightarrow> auth_error"
  TranslateRotateRefreshTokenError :: "db_err \<Rightarrow> auth_error"
  TranslateFindCredentialError :: "db_err \<Rightarrow> auth_error"
  TranslateDeactivateCredentialError :: "db_err \<Rightarrow> auth_error"
  TranslateDeleteCredentialError :: "db_err \<Rightarrow> auth_error"

definition authCredentialsPrimaryKeyConstraint :: string where
  "authCredentialsPrimaryKeyConstraint = ''auth_credentials_pkey''"

definition authCredentialsEmailConstraint :: string where
  "authCredentialsEmailConstraint = ''auth_credentials_email_key''"

definition pg_TranslateCreateCredentialError :: "db_err \<Rightarrow> auth_error" where
  "pg_TranslateCreateCredentialError err =
     (case errors_As_Pg err of
        Some (code, con) \<Rightarrow>
          if code = UniqueViolation then
            if con = authCredentialsPrimaryKeyConstraint then ErrAuthCredentialsAlreadyExist
            else if con = authCredentialsEmailConstraint then ErrEmailAlreadyTaken
            else if Contains (err_Error err) authCredentialsPrimaryKeyConstraint
            then ErrAuthCredentialsAlreadyExist
            else if Contains (err_Error err) authCredentialsEmailConstraint
            then ErrEmailAlreadyTaken
            else ErrFailedToCreateCredential
          else if code = InvalidTextRepresentation then ErrInvalidUserID
          else ErrFailedToCreateCredential
      | None \<Rightarrow> ErrFailedToCreateCredential)"

definition pg_TranslateCreateVerificationCodeError :: "db_err \<Rightarrow> auth_error" where
  "pg_TranslateCreateVerificationCodeError err =
     (case errors_As_Pg err of
        Some (code, con) \<Rightarrow>
          if code = InvalidTextRepresentation then ErrInvalidUserID
          else if code = ForeignKeyViolation then ErrAuthNotFound
          else ErrFailedToCreateVerificationCode
      | None \<Rightarrow> ErrFailedToCreateVerificationCode)"

definition pg_TranslateVerifyEmailError :: "db_err \<Rightarrow> auth_error" where
  "pg_TranslateVerifyEmailError err =
     (if errors_Is_NoRows err then ErrInvalidVerificationCode
      else case errors_As_Pg err of
        Some (code, con) \<Rightarrow>
          if code = InvalidTextRepresentation then ErrInvalidUserID else ErrFailedToVerifyEmail
      | None \<Rightarrow> ErrFailedToVerifyEmail)"

definition pg_TranslateCreateRefreshTokenError :: "db_err \<Rightarrow> auth_error" where
  "pg_TranslateCreateRefreshTokenError err =
     (case errors_As_Pg err of
        Some (code, con) \<Rightarrow>
          if code = InvalidTextRepresentation then ErrInvalidUserID
          else if code = ForeignKeyViolation then ErrAuthNotFound
          else ErrFailedToCreateRefreshToken
      | None \<Rightarrow> ErrFailedToCreateRefreshToken)"

definition pg_TranslateRotateRefreshTokenError :: "db_err \<Rightarrow> auth_error" where
  "pg_TranslateRotateRefreshTokenError err =
     (case errors_As_Pg err of
        Some (code, con) \<Rightarrow>
          if code = InvalidTextRepresentation then ErrInvalidRefreshToken
          else if code = ForeignKeyViolation then ErrAuthNotFound
          else ErrFailedToRotateRefreshToken
      | None \<Rightarrow> ErrFailedToRotateRefreshToken)"

definition pg_TranslateFindCredentialError :: "db_err \<Rightarrow> auth_error" where
  "pg_TranslateFindCredentialError err =
     (if errors_Is_NoRows err then ErrAuthNotFound else ErrFailedToFindCredential)"

definition pg_TranslateDeactivateCredentialError :: "db_err \<Rightarrow> auth_error" where
  "pg_TranslateDeactivateCredentialError err =
     (case errors_As_Pg err of
        Some (code, con) \<Rightarrow>
          if code = InvalidTextRepresentation then ErrInvalidUserID
          else ErrFailedToDeactivateCredential
      | None \<Rightarrow> ErrFailedToDeactivateCredential)"

definition pg_TranslateDeleteCredentialError :: "db_err \<Rightarrow> auth_error" where
  "pg_TranslateDeleteCredentialError err = ErrFailedToDeleteCredential"

definition NewPgErrorTranslator :: DBErrorTranslator where
  "NewPgErrorTranslator =
     \<lparr>TranslateCreateCredentialError = pg_TranslateCreateCredentialError,
      TranslateCreateVerificationCodeError = pg_TranslateCreateVerificationCodeError,
      TranslateVerifyEmailError = pg_TranslateVerifyEmailError,
      TranslateCreateRefreshTokenError = pg_TranslateCreateRefreshTokenError,
      TranslateRotateRefreshTokenError = pg_TranslateRotateRefreshTokenError,
      TranslateFindCredentialError = pg_TranslateFindCredentialError,
      TranslateDeactivateCredentialError = pg_TranslateDeactivateCredentialError,
      TranslateDeleteCredentialError = pg_TranslateDeleteCredentialError\<rparr>"

lemmas translator_defs =
  pg_TranslateCreateCredentialError_def pg_TranslateCreateVerificationCodeError_def
  pg_TranslateVerifyEmailError_def pg_TranslateCreateRefreshTokenError_def
  pg_TranslateRotateRefreshTokenError_def pg_TranslateFindCredentialError_def
  pg_TranslateDeactivateCredentialError_def pg_TranslateDeleteCredentialError_def

lemmas sqlstate_defs = unique_violation_def foreign_key_violation_def invalid_uuid_def
  UniqueViolation_def ForeignKeyViolation_def InvalidTextRepresentation_def
  authCredentialsPrimaryKeyConstraint_def authCredentialsEmailConstraint_def

subsection \<open>The contract\<close>

text \<open>
  What the repository's answers rest on: a missing row, a refused key, a refused reference and a
  malformed identifier each come out as the domain error that names them.
\<close>

locale db_error_translator =
  fixes tr :: DBErrorTranslator
  assumes create_pkey: "TranslateCreateCredentialError tr (unique_violation ''auth_credentials_pkey'')
      = ErrAuthCredentialsAlreadyExist"
    and create_email: "TranslateCreateCredentialError tr (unique_violation ''auth_credentials_email_key'')
      = ErrEmailAlreadyTaken"
    and create_uuid: "TranslateCreateCredentialError tr invalid_uuid = ErrInvalidUserID"
    and code_fkey: "TranslateCreateVerificationCodeError tr (foreign_key_violation c) = ErrAuthNotFound"
    and code_uuid: "TranslateCreateVerificationCodeError tr invalid_uuid = ErrInvalidUserID"
    and verify_none: "TranslateVerifyEmailError tr ErrNoRows = ErrInvalidVerificationCode"
    and verify_uuid: "TranslateVerifyEmailError tr invalid_uuid = ErrInvalidUserID"
    and token_fkey: "TranslateCreateRefreshTokenError tr (foreign_key_violation c) = ErrAuthNotFound"
    and token_uuid: "TranslateCreateRefreshTokenError tr invalid_uuid = ErrInvalidUserID"
    and find_none: "TranslateFindCredentialError tr ErrNoRows = ErrAuthNotFound"
    and find_other: "\<not> errors_Is_NoRows e \<Longrightarrow> TranslateFindCredentialError tr e = ErrFailedToFindCredential"
    and deactivate_uuid: "TranslateDeactivateCredentialError tr invalid_uuid = ErrInvalidUserID"
    and delete_any: "TranslateDeleteCredentialError tr e = ErrFailedToDeleteCredential"
begin

lemmas answers = create_pkey create_email create_uuid code_fkey code_uuid verify_none verify_uuid
  token_fkey token_uuid find_none find_other deactivate_uuid delete_any

end

interpretation pg_translator: db_error_translator NewPgErrorTranslator
  by unfold_locales (simp_all add: NewPgErrorTranslator_def translator_defs sqlstate_defs)

text \<open>Wrapping an error never changes how it is classified, except by the text it adds.\<close>

fun wrap_all :: "string list \<Rightarrow> db_err \<Rightarrow> db_err" where
  "wrap_all [] e = e"
| "wrap_all (p # ps) e = Wrapped p (wrap_all ps e)"

lemma errors_wrap_all [simp]:
  "errors_As_Pg (wrap_all ps e) = errors_As_Pg e"
  "errors_Is_NoRows (wrap_all ps e) = errors_Is_NoRows e"
  by (induction ps) simp_all

end
