(* ===== verification/Repository.thy ===== *)
theory Repository
  imports Schema Translator
begin

text \<open>
  internal/infra/write/postgres/repository.go: the PostgreSQL implementation of AuthRepository.
  Each method sends its statements in the source's order, translates a driver error through the
  DBErrorTranslator and loads the roles of the credential it returns. The metrics and the context
  are left out. The pointer a mapper returns is never nil, so attachRoles has no nil case.
\<close>

subsection \<open>Row shapes and mapping\<close>

record CredentialRow =
  UserID_row :: string
  Email_row :: string
  Username_row :: string
  PasswordHash_row :: string
  EmailVerified_row :: bool
  Status_row :: string
  Roles_row :: "string list"
  CreatedAt_row :: time
  UpdatedAt_row :: time

record RefreshTokenRotationRow =
  RefreshTokenID_rot :: string
  RefreshTokenUserID_rot :: string
  RefreshTokenHash_rot :: string
  RefreshTokenExpiry_rot :: time
  RefreshTokenRevokedAt_rot :: "time option"
  CredentialUserID_rot :: string
  Email_rot :: string
  Username_rot :: string
  PasswordHash_rot :: string
  EmailVerified_rot :: bool
  Status_rot :: string
  CreatedAt_rot :: time
  UpdatedAt_rot :: time

record refreshTokenMutationRow =
  RefreshTokenID_mut :: string
  Credential_mut :: Credential

definition scan_credential_row :: "auth_credentials \<Rightarrow> CredentialRow" where
  "scan_credential_row r =
     \<lparr>UserID_row = ac_user_id r, Email_row = ac_email r, Username_row = ac_username r,
      PasswordHash_row = ac_password_hash r, EmailVerified_row = ac_email_verified r,
      Status_row = ac_status r, Roles_row = [], CreatedAt_row = ac_created_at r,
      UpdatedAt_row = ac_updated_at r\<rparr>"

definition scan_rotation_row :: "refresh_tokens \<times> auth_credentials \<Rightarrow> RefreshTokenRotationRow" where
  "scan_rotation_row p =
     (case p of (rt, ac) \<Rightarrow>
       \<lparr>RefreshTokenID_rot = rt_id rt, RefreshTokenUserID_rot = rt_user_id rt,
        RefreshTokenHash_rot = rt_token_hash rt, RefreshTokenExpiry_rot = rt_expires_at rt,
        RefreshTokenRevokedAt_rot = rt_revoked_at rt, CredentialUserID_rot = ac_user_id ac,
        Email_rot = ac_email ac, Username_rot = ac_username ac, PasswordHash_rot = ac_password_hash ac,
        EmailVerified_rot = ac_email_verified ac, Status_rot = ac_status ac,
        CreatedAt_rot = ac_created_at ac, UpdatedAt_rot = ac_updated_at ac\<rparr>)"

definition MapCredentialRowToDomain :: "CredentialRow \<Rightarrow> Credential" where
  "MapCredentialRowToDomain row =
     \<lparr>UserID = UserID_row row, Email = Email_row row, Username = Username_row row,
      PasswordHash = PasswordHash_row row, EmailVerified = EmailVerified_row row,
      Status = Status_row row, Roles = Roles_row row, CreatedAt = CreatedAt_row row,
      UpdatedAt = UpdatedAt_row row\<rparr>"

subsection \<open>The methods\<close>

definition repo_ListRolesByUserID ::
  "db_env \<Rightarrow> DBErrorTranslator \<Rightarrow> string \<Rightarrow> (store, auth_error, string list) op" where
  "repo_ListRolesByUserID env tr uid s =
     (case send env (listRolesByUserIDQuery env uid) s of
        (Inl err, s1) \<Rightarrow> (Inl (TranslateFindCredentialError tr err), s1)
      | (Inr rs, s1) \<Rightarrow> (Inr rs, s1))"

definition attachRoles ::
  "db_env \<Rightarrow> DBErrorTranslator \<Rightarrow> Credential \<Rightarrow> (store, auth_error, Credential) op" where
  "attachRoles env tr credential s =
     (case repo_ListRolesByUserID env tr (UserID credential) s of
        (Inl err, s1) \<Rightarrow> (Inl err, s1)
      | (Inr rs, s1) \<Rightarrow> (Inr (credential\<lparr>Roles := rs\<rparr>), s1))"

definition repo_Create ::
  "db_env \<Rightarrow> DBErrorTranslator \<Rightarrow> CreateCredentialParams \<Rightarrow> (store, auth_error, Credential) op" where
  "repo_Create env tr params s =
     (case send env (createCredentialQuery env (UserID_cc params) (Email_cc params)
             (Username_cc params) (PasswordHash_cc params)) s of
        (Inl err, s1) \<Rightarrow> (Inl (TranslateCreateCredentialError tr err), s1)
      | (Inr r, s1) \<Rightarrow> attachRoles env tr (MapCredentialRowToDomain (scan_credential_row r)) s1)"

definition repo_CreateVerificationCode ::
  "db_env \<Rightarrow> DBErrorTranslator \<Rightarrow> CreateVerificationCodeParams \<Rightarrow> (store, auth_error, unit) op" where
  "repo_CreateVerificationCode env tr params s =
     (case send env (createVerificationCodeQuery env (ID_vc params) (UserID_vc params)
             (TokenHash_vc params) (ExpiresAt_vc params)) s of
        (Inl err, s1) \<Rightarrow> (Inl (TranslateCreateVerificationCodeError tr err), s1)
      | (Inr _, s1) \<Rightarrow> (Inr (), s1))"

definition repo_VerifyRegistrationEmail ::
  "db_env \<Rightarrow> DBErrorTranslator \<Rightarrow> string \<Rightarrow> string \<Rightarrow> time \<Rightarrow> (store, auth_error, Credential) op" where
  "repo_VerifyRegistrationEmail env tr uid tokenHash now s =
     (case send env (verifyRegistrationEmailQuery env uid tokenHash now) s of
        (Inl err, s1) \<Rightarrow> (Inl (TranslateVerifyEmailError tr err), s1)
      | (Inr r, s1) \<Rightarrow> attachRoles env tr (MapCredentialRowToDomain (scan_credential_row r)) s1)"

definition repo_CreateRefreshToken ::
  "db_env \<Rightarrow> DBErrorTranslator \<Rightarrow> CreateRefreshTokenParams \<Rightarrow> (store, auth_error, unit) op" where
  "repo_CreateRefreshToken env tr params s =
     (case send env (createRefreshTokenQuery env (ID_rt params) (UserID_rt params)
             (TokenHash_rt params) (ExpiresAt_rt params)) s of
        (Inl err, s1) \<Rightarrow> (Inl (TranslateCreateRefreshTokenError tr err), s1)
      | (Inr _, s1) \<Rightarrow> (Inr (), s1))"

text \<open>
  Transactions: BEGIN and COMMIT are statements that can fail like any other. A rollback puts the
  tables of the transaction's start back; the statements sent stay counted.
\<close>

definition begin_tx :: "unit statement" where
  "begin_tx now t = (Inr (), t)"

definition rollback :: "store \<Rightarrow> store \<Rightarrow> store" where
  "rollback start s = s\<lparr>tabs := tabs start\<rparr>"

definition commit_tx :: "db_env \<Rightarrow> store \<Rightarrow> (store, db_err, unit) op" where
  "commit_tx env start s =
     (let s' = s\<lparr>ticks := Suc (ticks s)\<rparr>
      in case fault_at env (ticks s) of
           None \<Rightarrow> (Inr (), s')
         | Some (Rejected e) \<Rightarrow> (Inl e, rollback start s')
         | Some (Lost e) \<Rightarrow> (Inl e, s'))"

definition loadRefreshTokenForMutation ::
  "db_env \<Rightarrow> DBErrorTranslator \<Rightarrow> (refresh_tokens \<times> auth_credentials) statement \<Rightarrow> time
    \<Rightarrow> (store, auth_error, refreshTokenMutationRow) op" where
  "loadRefreshTokenForMutation env tr query now s =
     (case send env query s of
        (Inl err, s1) \<Rightarrow>
          (Inl (if err = ErrNoRows then ErrInvalidRefreshToken
                else TranslateRotateRefreshTokenError tr err), s1)
      | (Inr p, s1) \<Rightarrow>
          let row = scan_rotation_row p in
          if RefreshTokenRevokedAt_rot row \<noteq> None then (Inl ErrRefreshTokenRevoked, s1)
          else if \<not> now < RefreshTokenExpiry_rot row then (Inl ErrRefreshTokenExpired, s1)
          else
            (Inr \<lparr>RefreshTokenID_mut = RefreshTokenID_rot row,
                  Credential_mut = MapCredentialRowToDomain
                    \<lparr>UserID_row = CredentialUserID_rot row, Email_row = Email_rot row,
                     Username_row = Username_rot row, PasswordHash_row = PasswordHash_rot row,
                     EmailVerified_row = EmailVerified_rot row, Status_row = Status_rot row,
                     Roles_row = [], CreatedAt_row = CreatedAt_rot row,
                     UpdatedAt_row = UpdatedAt_rot row\<rparr>\<rparr>, s1))"

definition repo_RotateRefreshToken ::
  "db_env \<Rightarrow> DBErrorTranslator \<Rightarrow> RotateRefreshTokenParams \<Rightarrow> (store, auth_error, Credential) op" where
  "repo_RotateRefreshToken env tr params s =
     (case send env begin_tx s of
        (Inl err, s1) \<Rightarrow> (Inl (TranslateRotateRefreshTokenError tr err), s1)
      | (Inr _, s1) \<Rightarrow>
     (case loadRefreshTokenForMutation env tr
             (refreshTokenForRotationQuery env (CurrentTokenHash_ro params)) (Now_ro params) s1 of
        (Inl err, s2) \<Rightarrow> (Inl err, rollback s1 s2)
      | (Inr row, s2) \<Rightarrow>
     (case send env (revokeRefreshTokenQuery env (RefreshTokenID_mut row) (Now_ro params)) s2 of
        (Inl err, s3) \<Rightarrow> (Inl (TranslateRotateRefreshTokenError tr err), rollback s1 s3)
      | (Inr _, s3) \<Rightarrow>
     (case send env (createRefreshTokenQuery env (NewTokenID_ro params)
             (UserID (Credential_mut row)) (NewTokenHash_ro params) (NewExpiresAt_ro params)) s3 of
        (Inl err, s4) \<Rightarrow> (Inl (TranslateRotateRefreshTokenError tr err), rollback s1 s4)
      | (Inr _, s4) \<Rightarrow>
     (case commit_tx env s1 s4 of
        (Inl err, s5) \<Rightarrow> (Inl (TranslateRotateRefreshTokenError tr err), s5)
      | (Inr _, s5) \<Rightarrow> attachRoles env tr (Credential_mut row) s5)))))"

definition repo_RevokeRefreshToken ::
  "db_env \<Rightarrow> DBErrorTranslator \<Rightarrow> RevokeRefreshTokenParams \<Rightarrow> (store, auth_error, Credential) op" where
  "repo_RevokeRefreshToken env tr params s =
     (case send env begin_tx s of
        (Inl err, s1) \<Rightarrow> (Inl (TranslateRotateRefreshTokenError tr err), s1)
      | (Inr _, s1) \<Rightarrow>
     (case loadRefreshTokenForMutation env tr
             (refreshTokenForRevokeQuery env (CurrentTokenHash_rv params)) (Now_rv params) s1 of
        (Inl err, s2) \<Rightarrow> (Inl err, rollback s1 s2)
      | (Inr row, s2) \<Rightarrow>
     (case send env (revokeRefreshTokenQuery env (RefreshTokenID_mut row) (Now_rv params)) s2 of
        (Inl err, s3) \<Rightarrow> (Inl (TranslateRotateRefreshTokenError tr err), rollback s1 s3)
      | (Inr _, s3) \<Rightarrow>
     (case commit_tx env s1 s3 of
        (Inl err, s4) \<Rightarrow> (Inl (TranslateRotateRefreshTokenError tr err), s4)
      | (Inr _, s4) \<Rightarrow> attachRoles env tr (Credential_mut row) s4))))"

definition repo_GetByUserID ::
  "db_env \<Rightarrow> DBErrorTranslator \<Rightarrow> string \<Rightarrow> (store, auth_error, Credential) op" where
  "repo_GetByUserID env tr uid s =
     (case send env (getCredentialByUserIDQuery env uid) s of
        (Inl err, s1) \<Rightarrow> (Inl (TranslateFindCredentialError tr err), s1)
      | (Inr r, s1) \<Rightarrow> attachRoles env tr (MapCredentialRowToDomain (scan_credential_row r)) s1)"

definition repo_GetByIdentifier ::
  "db_env \<Rightarrow> DBErrorTranslator \<Rightarrow> string \<Rightarrow> (store, auth_error, Credential) op" where
  "repo_GetByIdentifier env tr identifier s =
     (case send env (getCredentialByIdentifierQuery env identifier) s of
        (Inl err, s1) \<Rightarrow> (Inl (TranslateFindCredentialError tr err), s1)
      | (Inr r, s1) \<Rightarrow> (Inr (MapCredentialRowToDomain (scan_credential_row r)), s1))"

definition repo_ExistsByEmail :: "db_env \<Rightarrow> string \<Rightarrow> (store, auth_error, bool) op" where
  "repo_ExistsByEmail env email s =
     (case send env (existsCredentialByEmailQuery email) s of
        (Inl err, s1) \<Rightarrow> (Inl ErrFailedToFindCredential, s1)
      | (Inr b, s1) \<Rightarrow> (Inr b, s1))"

text \<open>The RowsAffected of a result, which may itself fail.\<close>

definition RowsAffected :: "db_env \<Rightarrow> store \<Rightarrow> nat \<Rightarrow> db_err + nat" where
  "RowsAffected env s n =
     (case rows_affected_err env (ticks s) of Some e \<Rightarrow> Inl e | None \<Rightarrow> Inr n)"

definition repo_DeactivateRegistrationAuth ::
  "db_env \<Rightarrow> DBErrorTranslator \<Rightarrow> string \<Rightarrow> (store, auth_error, unit) op" where
  "repo_DeactivateRegistrationAuth env tr uid s =
     (case send env (deactivateRegistrationAuthQuery env uid) s of
        (Inl err, s1) \<Rightarrow> (Inl (TranslateDeactivateCredentialError tr err), s1)
      | (Inr n, s1) \<Rightarrow>
          (case RowsAffected env s n of
             Inl err \<Rightarrow> (Inl (TranslateDeactivateCredentialError tr err), s1)
           | Inr k \<Rightarrow> if k = 0 then (Inl ErrAuthNotFound, s1) else (Inr (), s1)))"

definition repo_DeleteByUserID ::
  "db_env \<Rightarrow> DBErrorTranslator \<Rightarrow> string \<Rightarrow> (store, auth_error, unit) op" where
  "repo_DeleteByUserID env tr uid s =
     (case send env (deleteCredentialByUserIDQuery env uid) s of
        (Inl err, s1) \<Rightarrow> (Inl (TranslateDeleteCredentialError tr err), s1)
      | (Inr n, s1) \<Rightarrow>
          (case RowsAffected env s n of
             Inl err \<Rightarrow> (Inl (TranslateDeleteCredentialError tr err), s1)
           | Inr k \<Rightarrow> if k = 0 then (Inl ErrAuthNotFound, s1) else (Inr (), s1)))"

subsection \<open>The constructor\<close>

datatype repo_config_error = ErrNilPostgresDB | ErrNilDBErrorTranslator

definition pg_repository :: "db_env \<Rightarrow> DBErrorTranslator \<Rightarrow> store AuthRepository" where
  "pg_repository env tr =
     \<lparr>Create = repo_Create env tr,
      CreateVerificationCode = repo_CreateVerificationCode env tr,
      VerifyEmail = repo_VerifyRegistrationEmail env tr,
      CreateRefreshToken = repo_CreateRefreshToken env tr,
      RotateRefreshToken = repo_RotateRefreshToken env tr,
      RevokeRefreshToken = repo_RevokeRefreshToken env tr,
      GetByUserID = repo_GetByUserID env tr,
      GetByIdentifier = repo_GetByIdentifier env tr,
      ListRolesByUserID = repo_ListRolesByUserID env tr,
      ExistsEmail = repo_ExistsByEmail env,
      DeactivateAuth = repo_DeactivateRegistrationAuth env tr,
      DeleteByUserID = repo_DeleteByUserID env tr\<rparr>"

definition repo_New ::
  "db_env option \<Rightarrow> DBErrorTranslator option \<Rightarrow> repo_config_error + store AuthRepository" where
  "repo_New db translator =
     (case db of None \<Rightarrow> Inl ErrNilPostgresDB
      | Some env \<Rightarrow>
     (case translator of None \<Rightarrow> Inl ErrNilDBErrorTranslator
      | Some tr \<Rightarrow> Inr (pg_repository env tr)))"

end
