(* ===== verification/Auth_Spec.thy ===== *)
theory Auth_Spec
  imports Domain
begin

text \<open>
  What the auth store promises, without tables or SQL: accounts by user id, refresh-token
  sessions by token id, the verification codes still open, and the roles granted. The abstract
  operations are functions on this view; \<open>auth_step\<close> is the state machine they form, each step
  with its guard.
\<close>

record account =
  acc_email :: string
  acc_username :: string
  acc_password_hash :: string
  acc_verified :: bool
  acc_status :: string

record session =
  ses_user :: string
  ses_hash :: string
  ses_expires :: time
  ses_revoked :: "time option"

record auth_view =
  accounts :: "string \<rightharpoonup> account"
  sessions :: "string \<rightharpoonup> session"
  open_codes :: "(string \<times> string \<times> time) set"
  granted :: "string \<Rightarrow> string set"

definition empty_view :: auth_view where
  "empty_view = \<lparr>accounts = Map.empty, sessions = Map.empty, open_codes = {},
     granted = (\<lambda>_. {})\<rparr>"

subsection \<open>Abstract operations\<close>

definition spec_create :: "string \<Rightarrow> string \<Rightarrow> string \<Rightarrow> string \<Rightarrow> auth_view \<Rightarrow> auth_view" where
  "spec_create u e n p v = v\<lparr>accounts := (accounts v)(u \<mapsto>
     \<lparr>acc_email = e, acc_username = n, acc_password_hash = p, acc_verified = False,
      acc_status = CredentialStatusPendingRegistration\<rparr>)\<rparr>"

definition spec_add_code :: "string \<Rightarrow> string \<Rightarrow> time \<Rightarrow> auth_view \<Rightarrow> auth_view" where
  "spec_add_code u h x v = v\<lparr>open_codes := insert (u, h, x) (open_codes v)\<rparr>"

definition spec_verify :: "string \<Rightarrow> string \<Rightarrow> time \<Rightarrow> auth_view \<Rightarrow> auth_view" where
  "spec_verify u h at v = v\<lparr>
     accounts := (accounts v)(u := map_option
       (\<lambda>a. a\<lparr>acc_verified := True, acc_status := CredentialStatusEmailVerified\<rparr>) (accounts v u)),
     open_codes := {(u', h', x) \<in> open_codes v. \<not> (u' = u \<and> h' = h \<and> at < x)}\<rparr>"

definition spec_add_session ::
  "string \<Rightarrow> string \<Rightarrow> string \<Rightarrow> time \<Rightarrow> auth_view \<Rightarrow> auth_view" where
  "spec_add_session i u h x v = v\<lparr>sessions := (sessions v)(i \<mapsto>
     \<lparr>ses_user = u, ses_hash = h, ses_expires = x, ses_revoked = None\<rparr>)\<rparr>"

definition spec_revoke :: "string \<Rightarrow> time \<Rightarrow> auth_view \<Rightarrow> auth_view" where
  "spec_revoke i at v = v\<lparr>sessions := (sessions v)(i := map_option
     (\<lambda>r. if ses_revoked r = None then r\<lparr>ses_revoked := Some at\<rparr> else r) (sessions v i))\<rparr>"

definition spec_deactivate :: "string \<Rightarrow> auth_view \<Rightarrow> auth_view" where
  "spec_deactivate u v = v\<lparr>accounts := (accounts v)(u := map_option
     (\<lambda>a. a\<lparr>acc_verified := False, acc_status := CredentialStatusRegistrationFailed\<rparr>) (accounts v u))\<rparr>"

definition spec_delete :: "string \<Rightarrow> auth_view \<Rightarrow> auth_view" where
  "spec_delete u v = v\<lparr>accounts := (accounts v)(u := None),
     sessions := (\<lambda>i. case sessions v i of
       Some r \<Rightarrow> if ses_user r = u then None else Some r | None \<Rightarrow> None),
     open_codes := {(u', h', x) \<in> open_codes v. u' \<noteq> u},
     granted := (granted v)(u := {})\<rparr>"

lemmas spec_defs = spec_create_def spec_add_code_def spec_verify_def spec_add_session_def
  spec_revoke_def spec_deactivate_def spec_delete_def

text \<open>A credential record that says of its user what the view says.\<close>

definition knows :: "auth_view \<Rightarrow> Credential \<Rightarrow> bool" where
  "knows v c \<longleftrightarrow> accounts v (UserID c) = Some \<lparr>acc_email = Email c, acc_username = Username c,
     acc_password_hash = PasswordHash c, acc_verified = EmailVerified c, acc_status = Status c\<rparr>"

definition email_taken :: "string \<Rightarrow> auth_view \<Rightarrow> bool" where
  "email_taken e v \<longleftrightarrow> (\<exists>u a. accounts v u = Some a \<and> acc_email a = e)"

text \<open>A code of the user with that hash is open and not yet expired.\<close>

definition code_available :: "string \<Rightarrow> string \<Rightarrow> time \<Rightarrow> auth_view \<Rightarrow> bool" where
  "code_available u h at v \<longleftrightarrow> (\<exists>x. (u, h, x) \<in> open_codes v \<and> at < x)"

definition live_at :: "time \<Rightarrow> session \<Rightarrow> bool" where
  "live_at at r \<longleftrightarrow> ses_revoked r = None \<and> at < ses_expires r"

subsection \<open>The effect of a repository call\<close>

text \<open>
  What a call may do to the view when it takes effect: its abstract operation, under its guard.
  \<open>norm\<close> is the canonical form the database gives a user id.
\<close>

definition effect_create :: "(string \<Rightarrow> string option) \<Rightarrow> CreateCredentialParams \<Rightarrow> auth_view \<Rightarrow> auth_view \<Rightarrow> bool" where
  "effect_create norm p v w \<longleftrightarrow> (\<exists>u. norm (UserID_cc p) = Some u \<and> accounts v u = None \<and>
     \<not> email_taken (Email_cc p) v \<and> w = spec_create u (Email_cc p) (Username_cc p) (PasswordHash_cc p) v)"

definition effect_code :: "(string \<Rightarrow> string option) \<Rightarrow> CreateVerificationCodeParams \<Rightarrow> auth_view \<Rightarrow> auth_view \<Rightarrow> bool" where
  "effect_code norm p v w \<longleftrightarrow> (\<exists>u. norm (UserID_vc p) = Some u \<and> accounts v u \<noteq> None \<and>
     w = spec_add_code u (TokenHash_vc p) (ExpiresAt_vc p) v)"

definition effect_verify :: "(string \<Rightarrow> string option) \<Rightarrow> string \<Rightarrow> string \<Rightarrow> time \<Rightarrow> auth_view \<Rightarrow> auth_view \<Rightarrow> bool" where
  "effect_verify norm uid h at v w \<longleftrightarrow> (\<exists>u. norm uid = Some u \<and> accounts v u \<noteq> None \<and>
     code_available u h at v \<and> w = spec_verify u h at v)"

definition effect_token :: "(string \<Rightarrow> string option) \<Rightarrow> CreateRefreshTokenParams \<Rightarrow> auth_view \<Rightarrow> auth_view \<Rightarrow> bool" where
  "effect_token norm p v w \<longleftrightarrow> (\<exists>i u. norm (ID_rt p) = Some i \<and> norm (UserID_rt p) = Some u \<and>
     accounts v u \<noteq> None \<and> sessions v i = None \<and> w = spec_add_session i u (TokenHash_rt p) (ExpiresAt_rt p) v)"

definition effect_rotate :: "(string \<Rightarrow> string option) \<Rightarrow> RotateRefreshTokenParams \<Rightarrow> auth_view \<Rightarrow> auth_view \<Rightarrow> bool" where
  "effect_rotate norm p v w \<longleftrightarrow> (\<exists>i q i'. sessions v i = Some q \<and> ses_hash q = CurrentTokenHash_ro p \<and>
     live_at (Now_ro p) q \<and> accounts v (ses_user q) \<noteq> None \<and> norm (NewTokenID_ro p) = Some i' \<and>
     sessions v i' = None \<and>
     w = spec_add_session i' (ses_user q) (NewTokenHash_ro p) (NewExpiresAt_ro p) (spec_revoke i (Now_ro p) v))"

definition effect_revoke :: "RevokeRefreshTokenParams \<Rightarrow> auth_view \<Rightarrow> auth_view \<Rightarrow> bool" where
  "effect_revoke p v w \<longleftrightarrow> (\<exists>i q. sessions v i = Some q \<and> ses_hash q = CurrentTokenHash_rv p \<and>
     live_at (Now_rv p) q \<and> w = spec_revoke i (Now_rv p) v)"

definition effect_deactivate :: "(string \<Rightarrow> string option) \<Rightarrow> string \<Rightarrow> auth_view \<Rightarrow> auth_view \<Rightarrow> bool" where
  "effect_deactivate norm uid v w \<longleftrightarrow> (\<exists>u. norm uid = Some u \<and> accounts v u \<noteq> None \<and> w = spec_deactivate u v)"

definition effect_delete :: "(string \<Rightarrow> string option) \<Rightarrow> string \<Rightarrow> auth_view \<Rightarrow> auth_view \<Rightarrow> bool" where
  "effect_delete norm uid v w \<longleftrightarrow> (\<exists>u. norm uid = Some u \<and> accounts v u \<noteq> None \<and> w = spec_delete u v)"

lemmas effect_defs = effect_create_def effect_code_def effect_verify_def effect_token_def
  effect_rotate_def effect_revoke_def effect_deactivate_def effect_delete_def

subsection \<open>The state machine\<close>

inductive auth_step :: "auth_view \<Rightarrow> auth_view \<Rightarrow> bool" where
  created: "accounts v u = None \<Longrightarrow> \<not> email_taken e v \<Longrightarrow> auth_step v (spec_create u e n p v)"
| code_added: "accounts v u \<noteq> None \<Longrightarrow> auth_step v (spec_add_code u h x v)"
| verified: "accounts v u \<noteq> None \<Longrightarrow> (u, h, x) \<in> open_codes v \<Longrightarrow> at < x \<Longrightarrow>
    auth_step v (spec_verify u h at v)"
| session_added: "accounts v u \<noteq> None \<Longrightarrow> sessions v i = None \<Longrightarrow>
    auth_step v (spec_add_session i u h x v)"
| rotated: "sessions v i = Some r \<Longrightarrow> live_at at r \<Longrightarrow> accounts v (ses_user r) \<noteq> None \<Longrightarrow>
    sessions v i' = None \<Longrightarrow>
    auth_step v (spec_add_session i' (ses_user r) h x (spec_revoke i at v))"
| revoked: "sessions v i = Some r \<Longrightarrow> live_at at r \<Longrightarrow> auth_step v (spec_revoke i at v)"
| deactivated: "accounts v u \<noteq> None \<Longrightarrow> auth_step v (spec_deactivate u v)"
| deleted: "accounts v u \<noteq> None \<Longrightarrow> auth_step v (spec_delete u v)"

abbreviation auth_steps :: "auth_view \<Rightarrow> auth_view \<Rightarrow> bool" where
  "auth_steps \<equiv> auth_step\<^sup>*\<^sup>*"

text \<open>An operation that may not have happened: no step or one.\<close>

definition auth_maybe :: "auth_view \<Rightarrow> auth_view \<Rightarrow> bool" where
  "auth_maybe v w \<longleftrightarrow> v = w \<or> auth_step v w"

lemma effect_steps:
  "effect_create norm cp v w \<Longrightarrow> auth_step v w"
  "effect_code norm vp v w \<Longrightarrow> auth_step v w"
  "effect_verify norm uid h at v w \<Longrightarrow> auth_step v w"
  "effect_token norm tp v w \<Longrightarrow> auth_step v w"
  "effect_rotate norm ro v w \<Longrightarrow> auth_step v w"
  "effect_revoke rv v w \<Longrightarrow> auth_step v w"
  "effect_deactivate norm uid v w \<Longrightarrow> auth_step v w"
  "effect_delete norm uid v w \<Longrightarrow> auth_step v w"
  by (auto simp: effect_defs code_available_def intro: auth_step.intros)

lemma maybe_refl [simp, intro]: "auth_maybe v v"
  by (simp add: auth_maybe_def)

lemma maybe_step [intro]: "auth_step v w \<Longrightarrow> auth_maybe v w"
  by (simp add: auth_maybe_def)

lemma maybe_steps: "auth_maybe v w \<Longrightarrow> auth_steps v w"
  by (auto simp: auth_maybe_def)

subsection \<open>What every run keeps\<close>

text \<open>A revoked session stays revoked at the same time, until its account is deleted.\<close>

lemma step_revoked_stays:
  assumes "auth_step v w" "sessions v i = Some r" "ses_revoked r = Some at"
  shows "sessions w i = Some r \<or> sessions w i = None"
  using assms by (cases rule: auth_step.cases) (auto simp: spec_defs live_at_def)

lemma step_keeps_revoked:
  assumes "auth_maybe v w" "sessions v i = Some r" "ses_revoked r \<noteq> None"
  shows "sessions w i = Some r \<or> accounts w (ses_user r) = None"
  using assms unfolding auth_maybe_def
  by (elim disjE) (simp, erule auth_step.cases, auto simp: spec_defs live_at_def)

text \<open>A session never changes its user, its token hash or its expiry.\<close>

lemma step_session_frame:
  assumes "auth_step v w" "sessions v i = Some r" "sessions w i = Some r'"
  shows "ses_user r' = ses_user r \<and> ses_hash r' = ses_hash r \<and> ses_expires r' = ses_expires r"
  using assms by (cases rule: auth_step.cases) (auto simp: spec_defs split: if_splits)

text \<open>An account becomes verified only by consuming an open code of that user.\<close>

lemma step_verified_needs_code:
  assumes "auth_step v w" "accounts w u = Some a" "acc_verified a"
    and "\<not> (\<exists>b. accounts v u = Some b \<and> acc_verified b)"
  shows "\<exists>h x at. (u, h, x) \<in> open_codes v \<and> at < x \<and> w = spec_verify u h at v"
  using assms by (cases rule: auth_step.cases) (auto simp: spec_defs split: if_splits)

text \<open>Emails are pairwise distinct, and the status agrees with the verified flag.\<close>

definition view_ok :: "auth_view \<Rightarrow> bool" where
  "view_ok v \<longleftrightarrow>
     (\<forall>u u' a a'. accounts v u = Some a \<longrightarrow> accounts v u' = Some a' \<longrightarrow>
        acc_email a = acc_email a' \<longrightarrow> u = u') \<and>
     (\<forall>u a. accounts v u = Some a \<longrightarrow> (acc_verified a \<longleftrightarrow> acc_status a = CredentialStatusEmailVerified)) \<and>
     (\<forall>i r. sessions v i = Some r \<longrightarrow> accounts v (ses_user r) \<noteq> None) \<and>
     (\<forall>u h x. (u, h, x) \<in> open_codes v \<longrightarrow> accounts v u \<noteq> None)"

lemma view_okD:
  assumes "view_ok v"
  shows "accounts v u = Some a \<Longrightarrow> accounts v u' = Some a' \<Longrightarrow> acc_email a = acc_email a' \<Longrightarrow> u = u'"
    and "accounts v u = Some a \<Longrightarrow> acc_verified a \<longleftrightarrow> acc_status a = CredentialStatusEmailVerified"
    and "sessions v i = Some r \<Longrightarrow> accounts v (ses_user r) \<noteq> None"
    and "(u, h, x) \<in> open_codes v \<Longrightarrow> accounts v u \<noteq> None"
  using assms unfolding view_ok_def by blast+

lemma view_ok_empty: "view_ok empty_view"
  by (simp add: view_ok_def empty_view_def)

lemma step_emails_distinct:
  assumes "auth_step v w" "view_ok v" "accounts w u = Some a" "accounts w u' = Some a'"
    "acc_email a = acc_email a'"
  shows "u = u'"
  using assms(1)
proof (cases rule: auth_step.cases)
  case (created u0 e n p)
  have fresh: "accounts v x = Some b \<Longrightarrow> acc_email b = e \<Longrightarrow> False" for x b
    using created(3) by (auto simp: email_taken_def)
  from created(1) assms(3-5) view_okD(1) [OF assms(2)] show ?thesis
    by (auto simp: spec_defs split: if_splits dest: fresh fresh [OF _ sym])
qed (use assms(3-5) view_okD(1) [OF assms(2)] in \<open>auto simp: spec_defs split: if_splits\<close>)

lemma step_status_agrees:
  assumes "auth_step v w" "view_ok v" "accounts w u = Some a"
  shows "acc_verified a \<longleftrightarrow> acc_status a = CredentialStatusEmailVerified"
  using assms(1)
  by (cases rule: auth_step.cases)
    (use assms(3) view_okD(2) [OF assms(2)] in \<open>auto simp: spec_defs split: if_splits\<close>)

lemma step_sessions_owned:
  assumes "auth_step v w" "view_ok v" "sessions w i = Some r"
  shows "accounts w (ses_user r) \<noteq> None"
  using assms(1)
  by (cases rule: auth_step.cases)
    (use assms(3) view_okD(3) [OF assms(2)] in
      \<open>auto simp: spec_defs split: if_splits option.splits\<close>)

lemma step_codes_owned:
  assumes "auth_step v w" "view_ok v" "(u, h, x) \<in> open_codes w"
  shows "accounts w u \<noteq> None"
  using assms(1)
  by (cases rule: auth_step.cases)
    (use assms(3) view_okD(4) [OF assms(2)] in \<open>auto simp: spec_defs split: if_splits\<close>)

lemma step_view_ok:
  assumes "auth_step v w" "view_ok v"
  shows "view_ok w"
  unfolding view_ok_def
  using step_emails_distinct [OF assms] step_status_agrees [OF assms] step_sessions_owned [OF assms]
    step_codes_owned [OF assms] by blast

lemma steps_view_ok: "auth_steps v w \<Longrightarrow> view_ok v \<Longrightarrow> view_ok w"
  by (induction rule: rtranclp_induct) (auto intro: step_view_ok)

text \<open>
  Over any run that does not delete the account, a revoked session stays exactly as it is: no
  later step revives a spent refresh token.
\<close>

lemma steps_revoked_stays:
  assumes "(\<lambda>v w. auth_step v w \<and> accounts w u \<noteq> None)\<^sup>*\<^sup>* v w"
    and "sessions v i = Some r" "ses_user r = u" "ses_revoked r = Some at"
  shows "sessions w i = Some r"
  using assms
proof (induction rule: rtranclp_induct)
  case base
  then show ?case by simp
next
  case (step w w')
  then have IH: "sessions w i = Some r" by simp
  from step.hyps(2) have st: "auth_step w w'" and keep: "accounts w' u \<noteq> None" by simp_all
  from st show ?case
    by (cases rule: auth_step.cases)
      (use IH keep step.prems in \<open>auto simp: spec_defs live_at_def split: if_splits\<close>)
qed

text \<open>
  On any run at whose end an account is verified and at whose start it was not, one of the steps
  consumed an open, unexpired code of that account.
\<close>

lemma steps_verified_needs_code:
  assumes "auth_steps v w" "accounts w u = Some a" "acc_verified a"
    and "\<not> (\<exists>b. accounts v u = Some b \<and> acc_verified b)"
  shows "\<exists>v' h x at. auth_steps v v' \<and> (u, h, x) \<in> open_codes v' \<and> at < x \<and> auth_steps (spec_verify u h at v') w"
  using assms
proof (induction arbitrary: a rule: rtranclp_induct)
  case base
  then show ?case by blast
next
  case (step w w')
  show ?case
  proof (cases "\<exists>b. accounts w u = Some b \<and> acc_verified b")
    case True
    with step.IH step.prems(3) obtain v' h x at where "auth_steps v v'" "(u, h, x) \<in> open_codes v'" "at < x"
      "auth_steps (spec_verify u h at v') w" by blast
    with step.hyps(2) show ?thesis by (meson rtranclp.rtrancl_into_rtrancl)
  next
    case False
    from step_verified_needs_code [OF step.hyps(2) step.prems(1,2) False] step.hyps(1) show ?thesis by blast
  qed
qed

end
