(* ===== verification/View.thy ===== *)
theory View
  imports Schema Auth_Spec
begin

text \<open>
  The abstraction from tables to the view of Auth_Spec, and for every SQL statement the lemma
  that its success is one abstract operation whose guard held, and its refusal changes nothing.
\<close>

definition account_of :: "auth_credentials \<Rightarrow> account" where
  "account_of r = \<lparr>acc_email = ac_email r, acc_username = ac_username r,
     acc_password_hash = ac_password_hash r, acc_verified = ac_email_verified r,
     acc_status = ac_status r\<rparr>"

definition session_of :: "refresh_tokens \<Rightarrow> session" where
  "session_of r = \<lparr>ses_user = rt_user_id r, ses_hash = rt_token_hash r,
     ses_expires = rt_expires_at r, ses_revoked = rt_revoked_at r\<rparr>"

definition open_code :: "email_verification_codes \<Rightarrow> string \<times> string \<times> time" where
  "open_code r = (vc_user_id r, vc_token_hash r, vc_expires_at r)"

definition view_of :: "tables \<Rightarrow> auth_view" where
  "view_of t = \<lparr>accounts = (\<lambda>u. map_option account_of (lookup_by ac_user_id (credentials t) u)),
     sessions = (\<lambda>i. map_option session_of (lookup_by rt_id (tokens t) i)),
     open_codes = open_code ` {r \<in> set (codes t). vc_used_at r = None},
     granted = (\<lambda>u. {ur_role r | r. r \<in> set (roles t) \<and> ur_user_id r = u})\<rparr>"

lemma view_fields [simp]:
  "accounts (view_of t) u = map_option account_of (lookup_by ac_user_id (credentials t) u)"
  "sessions (view_of t) i = map_option session_of (lookup_by rt_id (tokens t) i)"
  by (simp_all add: view_of_def)

lemma view_outbox [simp]: "view_of (t\<lparr>outbox := x\<rparr>) = view_of t"
  by (simp add: view_of_def)

lemma account_of_fields [simp]:
  "acc_email (account_of r) = ac_email r" "acc_username (account_of r) = ac_username r"
  "acc_password_hash (account_of r) = ac_password_hash r"
  "acc_verified (account_of r) = ac_email_verified r" "acc_status (account_of r) = ac_status r"
  by (simp_all add: account_of_def)

lemma session_of_fields [simp]:
  "ses_user (session_of r) = rt_user_id r" "ses_hash (session_of r) = rt_token_hash r"
  "ses_expires (session_of r) = rt_expires_at r" "ses_revoked (session_of r) = rt_revoked_at r"
  by (simp_all add: session_of_def)

lemma users_lookup: "u \<in> users t \<longleftrightarrow> lookup_by ac_user_id (credentials t) u \<noteq> None"
  by (simp add: users_def lookup_by_None)

lemma db_ok_keys:
  assumes "db_ok env t"
  shows "distinct (map ac_user_id (credentials t))" "distinct (map rt_id (tokens t))"
    "distinct (map vc_id (codes t))" "distinct (map ac_email (credentials t))"
  using assms by (simp_all add: db_ok_def keys_ok_def)

lemma email_taken_view:
  assumes "db_ok env t"
  shows "email_taken e (view_of t) \<longleftrightarrow> (\<exists>r \<in> set (credentials t). ac_email r = e)"
proof
  assume "email_taken e (view_of t)"
  then show "\<exists>r \<in> set (credentials t). ac_email r = e"
    by (auto simp: email_taken_def dest!: lookup_by_Some)
next
  assume "\<exists>r \<in> set (credentials t). ac_email r = e"
  then obtain r where "r \<in> set (credentials t)" "ac_email r = e" by blast
  moreover from this lookup_by_mem [OF db_ok_keys(1) [OF assms]]
  have "lookup_by ac_user_id (credentials t) (ac_user_id r) = Some r" by simp
  ultimately show "email_taken e (view_of t)"
    unfolding email_taken_def by (intro exI [of _ "ac_user_id r"] exI [of _ "account_of r"]) simp
qed

subsection \<open>Statements that write credentials\<close>

lemma create_credential_refines:
  assumes ok: "db_ok env t" and run: "createCredentialQuery env uid e n p now t = (Inr r, t')"
  obtains u where "uuid_in env uid = Some u" "accounts (view_of t) u = None"
    "\<not> email_taken e (view_of t)" "view_of t' = spec_create u e n p (view_of t)"
    "ac_user_id r = u" "ac_email r = e" "ac_username r = n" "ac_password_hash r = p"
    "\<not> ac_email_verified r" "ac_status r = CredentialStatusPendingRegistration"
proof -
  from run obtain u where u: "uuid_in env uid = Some u"
    by (auto simp: createCredentialQuery_def split: option.splits)
  with run have new: "\<forall>x \<in> set (credentials t). ac_user_id x \<noteq> u"
    and fresh: "\<not> (\<exists>x \<in> set (credentials t). ac_email x = e)"
    and r: "r = \<lparr>ac_user_id = u, ac_email = e, ac_username = n, ac_password_hash = p,
                 ac_email_verified = False, ac_status = ''pending_registration'',
                 ac_created_at = now, ac_updated_at = now\<rparr>"
    and t': "t' = t\<lparr>credentials := credentials t @ [r],
                    outbox := outbox t + captured TG_INSERT [CredentialData r]\<rparr>"
    by (auto simp: createCredentialQuery_def Let_def split: if_splits)
  have none: "lookup_by ac_user_id (credentials t) u = None"
    using new by (auto simp: lookup_by_None)
  have "view_of t' = spec_create u e n p (view_of t)"
    by (auto simp: t' r view_of_def spec_create_def lookup_by_snoc none account_of_def fun_eq_iff
        CredentialStatusPendingRegistration_def split: option.splits)
  with u none fresh r show thesis
    by (intro that [of u]) (simp_all add: email_taken_view [OF ok] CredentialStatusPendingRegistration_def)
qed

lemma create_credential_refused:
  "createCredentialQuery env uid e n p now t = (Inl err, t') \<Longrightarrow> t' = t"
  by (auto simp: createCredentialQuery_def Let_def split: option.splits if_splits)

text \<open>An UPDATE of the row with one key, under the restriction \<open>c\<close>.\<close>

lemma update_credentials_view:
  assumes "\<And>r. ac_user_id (f r) = ac_user_id r"
    and "\<And>r. account_of ((f r)\<lparr>ac_updated_at := now\<rparr>) = g (account_of r)"
  shows "view_of (snd (update_credentials (\<lambda>r. c \<and> ac_user_id r = u) f now t)) =
      (if c then (view_of t)\<lparr>accounts := (accounts (view_of t))(u := map_option g (accounts (view_of t) u))\<rparr>
       else view_of t)"
proof -
  let ?g = "\<lambda>r. (f r)\<lparr>ac_updated_at := now\<rparr>"
  have *: "map_option account_of (lookup_by ac_user_id
      (update_where (\<lambda>r. c \<and> ac_user_id r = u) ?g (credentials t)) x) =
    (if c \<and> x = u then map_option g (map_option account_of (lookup_by ac_user_id (credentials t) x))
     else map_option account_of (lookup_by ac_user_id (credentials t) x))" for x
    by (cases "lookup_by ac_user_id (credentials t) x")
      (auto simp: lookup_by_update assms dest: lookup_by_Some)
  show ?thesis
    by (auto simp: update_credentials_def Let_def view_of_def * fun_eq_iff)
qed

lemma update_credentials_rows:
  assumes "db_ok env t"
  shows "fst (update_credentials (\<lambda>r. c \<and> ac_user_id r = u) f now t) =
    (case lookup_by ac_user_id (credentials t) u of
       None \<Rightarrow> [] | Some r \<Rightarrow> if c then [(f r)\<lparr>ac_updated_at := now\<rparr>] else [])"
proof (cases c)
  case True
  with filter_by_key [OF db_ok_keys(1) [OF assms], of u] show ?thesis
    by (simp add: update_credentials_def Let_def split: option.splits)
qed (simp add: update_credentials_def Let_def split: option.splits)

lemma deactivate_refines:
  assumes ok: "db_ok env t" and run: "deactivateRegistrationAuthQuery env uid now t = (Inr k, t')"
  obtains u where "uuid_in env uid = Some u"
    "k = (if accounts (view_of t) u = None then 0 else 1)"
    "view_of t' = spec_deactivate u (view_of t)"
proof -
  let ?f = "\<lambda>r. r\<lparr>ac_email_verified := False, ac_status := ''registration_failed''\<rparr>"
  let ?g = "\<lambda>a. a\<lparr>acc_verified := False, acc_status := CredentialStatusRegistrationFailed\<rparr>"
  from run obtain u where u: "uuid_in env uid = Some u"
    by (auto simp: deactivateRegistrationAuthQuery_def split: option.splits)
  let ?upd = "update_credentials (\<lambda>r. True \<and> ac_user_id r = u) ?f now t"
  from run u have k: "k = length (fst ?upd)" and t': "t' = snd ?upd"
    by (auto simp: deactivateRegistrationAuthQuery_def split: prod.splits)
  have "view_of (snd ?upd) = spec_deactivate u (view_of t)"
    by (subst update_credentials_view [where g = ?g])
      (simp_all add: account_of_def spec_deactivate_def CredentialStatusRegistrationFailed_def)
  with u k t' update_credentials_rows [OF ok, of True u ?f now] show thesis
    by (intro that [of u]) (simp_all split: option.splits)
qed

lemma deactivate_refused:
  "deactivateRegistrationAuthQuery env uid now t = (Inl err, t') \<Longrightarrow> t' = t"
  by (auto simp: deactivateRegistrationAuthQuery_def split: option.splits prod.splits)

lemma spec_deactivate_absent: "accounts v u = None \<Longrightarrow> spec_deactivate u v = v"
  by (simp add: spec_deactivate_def fun_upd_idem)

lemma delete_refines:
  assumes ok: "db_ok env t" and run: "deleteCredentialByUserIDQuery env uid now t = (Inr k, t')"
  obtains u where "uuid_in env uid = Some u"
    "k = (if accounts (view_of t) u = None then 0 else 1)"
    "view_of t' = (if accounts (view_of t) u = None then view_of t else spec_delete u (view_of t))"
proof -
  from run obtain u where u: "uuid_in env uid = Some u"
    by (auto simp: deleteCredentialByUserIDQuery_def split: option.splits)
  have gone: "filter (\<lambda>r. ac_user_id r = u) (credentials t) =
      (case lookup_by ac_user_id (credentials t) u of None \<Rightarrow> [] | Some r \<Rightarrow> [r])"
    by (rule filter_by_key [OF db_ok_keys(1) [OF ok]])
  show thesis
  proof (cases "lookup_by ac_user_id (credentials t) u")
    case None
    with u run gone show thesis
      by (intro that [of u]) (simp_all add: deleteCredentialByUserIDQuery_def)
  next
    case (Some r)
    with run u gone have k: "k = 1" and t': "\<exists>x. t' = t\<lparr>
        credentials := delete_where (\<lambda>r. ac_user_id r = u) (credentials t),
        codes := delete_where (\<lambda>r. vc_user_id r = u) (codes t),
        tokens := delete_where (\<lambda>r. rt_user_id r = u) (tokens t),
        roles := delete_where (\<lambda>r. ur_user_id r = u) (roles t), outbox := x\<rparr>"
      by (auto simp: deleteCredentialByUserIDQuery_def)
    from t' have "accounts (view_of t') = accounts (spec_delete u (view_of t))"
      by (auto simp: fun_eq_iff spec_delete_def lookup_by_delete [OF db_ok_keys(1) [OF ok]]
          dest: lookup_by_Some split: option.splits)
    moreover from t' have "sessions (view_of t') = sessions (spec_delete u (view_of t))"
      by (auto simp: fun_eq_iff spec_delete_def lookup_by_delete [OF db_ok_keys(2) [OF ok]]
          split: option.splits)
    moreover from t' have "open_codes (view_of t') = open_codes (spec_delete u (view_of t))"
      by (auto simp: view_of_def spec_delete_def open_code_def)
    moreover from t' have "granted (view_of t') = granted (spec_delete u (view_of t))"
      by (auto simp: view_of_def spec_delete_def fun_eq_iff)
    ultimately have "view_of t' = spec_delete u (view_of t)" by simp
    with u k Some show thesis by (intro that [of u]) simp_all
  qed
qed

lemma delete_refused:
  "deleteCredentialByUserIDQuery env uid now t = (Inl err, t') \<Longrightarrow> t' = t"
  by (auto simp: deleteCredentialByUserIDQuery_def Let_def split: option.splits if_splits)

subsection \<open>Statements on codes\<close>

lemma create_code_refines:
  assumes "createVerificationCodeQuery env cid uid h x now t = (Inr (), t')"
  obtains u where "uuid_in env uid = Some u" "accounts (view_of t) u \<noteq> None"
    "view_of t' = spec_add_code u h x (view_of t)"
proof -
  from assms obtain c u where u: "uuid_in env cid = Some c" "uuid_in env uid = Some u"
    by (auto simp: createVerificationCodeQuery_def split: option.splits)
  with assms have "u \<in> users t" and t': "\<exists>y. t' = t\<lparr>codes := codes t @
      [\<lparr>vc_id = c, vc_user_id = u, vc_token_hash = h, vc_expires_at = x, vc_used_at = None,
        vc_created_at = now\<rparr>], outbox := y\<rparr>"
    by (auto simp: createVerificationCodeQuery_def Let_def users_def split: if_splits)
  have "{r \<in> set (codes t @ [c]). vc_used_at r = None} =
      (if vc_used_at c = None then insert c else id) {r \<in> set (codes t). vc_used_at r = None}" for c
    by auto
  with t' have "view_of t' = spec_add_code u h x (view_of t)"
    by (auto simp: view_of_def spec_add_code_def open_code_def)
  with u \<open>u \<in> users t\<close> show thesis by (intro that [of u]) (simp_all add: users_lookup)
qed

lemma create_code_refused:
  "createVerificationCodeQuery env cid uid h x now t = (Inl err, t') \<Longrightarrow> t' = t"
  by (auto simp: createVerificationCodeQuery_def Let_def split: option.splits if_splits)

lemma code_open: "code_matches u h at r \<longleftrightarrow>
    vc_used_at r = None \<and> (\<exists>x. open_code r = (u, h, x) \<and> at < x)"
  by (auto simp: code_matches_def open_code_def)

text \<open>
  Verification: the step of the view when a code of the user with that hash is open and not yet
  expired, and otherwise nothing and no row. By the foreign key a code always has its credential.
\<close>

lemma code_available_view:
  "code_available u h at (view_of t) \<longleftrightarrow> filter (code_matches u h at) (codes t) \<noteq> []"
  by (auto simp: code_available_def view_of_def code_matches_def open_code_def filter_empty_conv image_iff)

lemma used_codes_view:
  "open_code ` {r \<in> set (update_where (code_matches u h at) (\<lambda>r. r\<lparr>vc_used_at := Some now\<rparr>) (codes t)).
      vc_used_at r = None} =
   {(u', h', x) \<in> open_codes (view_of t). \<not> (u' = u \<and> h' = h \<and> at < x)}"
proof -
  have "{r \<in> set (update_where (code_matches u h at) (\<lambda>r. r\<lparr>vc_used_at := Some now\<rparr>) (codes t)).
      vc_used_at r = None} = {r \<in> set (codes t). vc_used_at r = None \<and> \<not> code_matches u h at r}"
    by (auto simp: set_update_where split: if_splits)
  then show ?thesis
    by (auto simp: view_of_def code_matches_def open_code_def)
qed

lemma verify_refines:
  assumes ok: "db_ok env t" and u: "uuid_in env uid = Some u"
  shows "verifyRegistrationEmailQuery env uid h at now t =
    (if code_available u h at (view_of t)
     then (Inr ((the (lookup_by ac_user_id (credentials t) u))\<lparr>ac_email_verified := True,
                 ac_status := ''email_verified'', ac_updated_at := now\<rparr>),
           snd (verifyRegistrationEmailQuery env uid h at now t))
     else (Inl ErrNoRows, snd (verifyRegistrationEmailQuery env uid h at now t)))"
    and "code_available u h at (view_of t) \<Longrightarrow> accounts (view_of t) u \<noteq> None"
    and "view_of (snd (verifyRegistrationEmailQuery env uid h at now t)) =
      (if code_available u h at (view_of t) then spec_verify u h at (view_of t) else view_of t)"
proof -
  let ?M = "filter (code_matches u h at) (codes t)"
  let ?used = "map (\<lambda>r. r\<lparr>vc_used_at := Some now\<rparr>) ?M"
  let ?f = "\<lambda>r. r\<lparr>ac_email_verified := True, ac_status := ''email_verified''\<rparr>"
  let ?g = "\<lambda>a. a\<lparr>acc_verified := True, acc_status := CredentialStatusEmailVerified\<rparr>"
  let ?t1 = "t\<lparr>codes := update_where (code_matches u h at) (\<lambda>r. r\<lparr>vc_used_at := Some now\<rparr>) (codes t),
                outbox := outbox t + captured TG_UPDATE (map CodeData ?used)\<rparr>"
  define upd where "upd = update_credentials (\<lambda>r. ?used \<noteq> [] \<and> ac_user_id r = u) ?f now ?t1"
  have q: "verifyRegistrationEmailQuery env uid h at now t =
      (case fst upd of [] \<Rightarrow> (Inl ErrNoRows, snd upd) | r # _ \<Rightarrow> (Inr r, snd upd))"
    by (simp only: verifyRegistrationEmailQuery_def u option.case Let_def case_prod_beta upd_def)
  have ok1: "db_ok env ?t1" by (rule db_ok_set_codes [OF ok]) simp_all
  show known: "accounts (view_of t) u \<noteq> None" if "code_available u h at (view_of t)"
  proof -
    from that obtain r where "r \<in> set (codes t)" "vc_user_id r = u"
      by (auto simp: code_available_view filter_empty_conv code_matches_def)
    with ok have "u \<in> users t" by (auto simp: db_ok_def refs_ok_def)
    then show ?thesis by (simp add: users_lookup)
  qed
  have rows: "fst upd = (if code_available u h at (view_of t)
      then [(?f (the (lookup_by ac_user_id (credentials t) u)))\<lparr>ac_updated_at := now\<rparr>] else [])"
    unfolding upd_def update_credentials_rows [OF ok1] code_available_view
    using known [unfolded code_available_view] by (cases "?M = []") (auto split: option.splits)
  have snd_q: "snd (verifyRegistrationEmailQuery env uid h at now t) = snd upd"
    by (simp add: q split: list.splits)
  show "verifyRegistrationEmailQuery env uid h at now t =
    (if code_available u h at (view_of t)
     then (Inr ((the (lookup_by ac_user_id (credentials t) u))\<lparr>ac_email_verified := True,
                 ac_status := ''email_verified'', ac_updated_at := now\<rparr>),
           snd (verifyRegistrationEmailQuery env uid h at now t))
     else (Inl ErrNoRows, snd (verifyRegistrationEmailQuery env uid h at now t)))"
    unfolding snd_q by (simp add: q rows)
  have v1: "view_of (t\<lparr>codes := update_where (code_matches u h at) (\<lambda>r. r\<lparr>vc_used_at := Some now\<rparr>) (codes t)\<rparr>) = (view_of t)\<lparr>open_codes :=
      {(u', h', x) \<in> open_codes (view_of t). \<not> (u' = u \<and> h' = h \<and> at < x)}\<rparr>"
    unfolding used_codes_view [symmetric, of t u h at now] by (simp add: view_of_def)
  have "view_of (snd upd) = (if ?used \<noteq> [] then spec_verify u h at (view_of t) else view_of ?t1)"
    unfolding upd_def by (subst update_credentials_view [where g = ?g])
      (simp_all add: account_of_def CredentialStatusEmailVerified_def v1 spec_verify_def)
  moreover have "view_of ?t1 = view_of t" if "?M = []"
    using that by (simp add: update_where_none filter_empty_conv view_of_def)
  ultimately show "view_of (snd (verifyRegistrationEmailQuery env uid h at now t)) =
      (if code_available u h at (view_of t) then spec_verify u h at (view_of t) else view_of t)"
    by (simp add: snd_q code_available_view)
qed

subsection \<open>Statements on refresh tokens\<close>

lemma create_token_refines:
  assumes "createRefreshTokenQuery env tid uid h x now t = (Inr (), t')"
  obtains i u where "uuid_in env tid = Some i" "uuid_in env uid = Some u"
    "accounts (view_of t) u \<noteq> None" "sessions (view_of t) i = None"
    "view_of t' = spec_add_session i u h x (view_of t)"
proof -
  from assms obtain i u where u: "uuid_in env tid = Some i" "uuid_in env uid = Some u"
    by (auto simp: createRefreshTokenQuery_def split: option.splits)
  with assms have "u \<in> users t" and new: "i \<notin> rt_id ` set (tokens t)" and t': "\<exists>y. t' = t\<lparr>tokens := tokens t @
      [\<lparr>rt_id = i, rt_user_id = u, rt_token_hash = h, rt_expires_at = x, rt_revoked_at = None,
        rt_created_at = now\<rparr>], outbox := y\<rparr>"
    by (auto simp: createRefreshTokenQuery_def Let_def users_def split: if_splits)
  from new have none: "lookup_by rt_id (tokens t) i = None" by (simp add: lookup_by_None)
  with t' have "view_of t' = spec_add_session i u h x (view_of t)"
    by (auto simp: view_of_def spec_add_session_def lookup_by_snoc fun_eq_iff session_of_def
        split: option.splits)
  with u none \<open>u \<in> users t\<close> show thesis by (intro that [of i u]) (simp_all add: users_lookup)
qed

lemma create_token_refused:
  "createRefreshTokenQuery env tid uid h x now t = (Inl err, t') \<Longrightarrow> t' = t"
  by (auto simp: createRefreshTokenQuery_def Let_def split: option.splits if_splits)

text \<open>The row QueryRow takes: a token with that hash, joined with the credential it names.\<close>

lemma rotation_query_Inr:
  assumes env: "db_env_ok env" and ok: "db_ok env t"
    and run: "refreshTokenForRotationQuery env h now t = (Inr (rt, ac), t')"
  shows "t' = t" and "rt \<in> set (tokens t)" and "rt_token_hash rt = h" and "ac \<in> set (credentials t)"
    and "ac_user_id ac = rt_user_id rt"
    and "sessions (view_of t) (rt_id rt) = Some (session_of rt)"
    and "accounts (view_of t) (rt_user_id rt) = Some (account_of ac)"
    and "uuid_in env (rt_id rt) = Some (rt_id rt)" "uuid_in env (ac_user_id ac) = Some (ac_user_id ac)"
proof -
  define rows where
    "rows = [(rt, ac). rt \<leftarrow> filter (\<lambda>rt. rt_token_hash rt = h) (scan_tokens env (tokens t)),
                       ac \<leftarrow> filter (\<lambda>ac. ac_user_id ac = rt_user_id rt) (credentials t)]"
  from run have "\<exists>ps. rows = (rt, ac) # ps \<and> t' = t"
    by (simp add: refreshTokenForRotationQuery_def rows_def [symmetric] split: list.splits)
  then have mem: "(rt, ac) \<in> set rows" and "t' = t" by auto
  then show "t' = t" by simp
  from mem show rt: "rt \<in> set (tokens t)" and "rt_token_hash rt = h" and ac: "ac \<in> set (credentials t)"
    and user: "ac_user_id ac = rt_user_id rt"
    by (auto simp: rows_def set_scans [OF env])
  show "sessions (view_of t) (rt_id rt) = Some (session_of rt)"
    using lookup_by_mem [OF db_ok_keys(2) [OF ok] rt] by simp
  show "accounts (view_of t) (rt_user_id rt) = Some (account_of ac)"
    using lookup_by_mem [OF db_ok_keys(1) [OF ok] ac] user by simp
  show "uuid_in env (rt_id rt) = Some (rt_id rt)" "uuid_in env (ac_user_id ac) = Some (ac_user_id ac)"
    using ok rt ac by (auto simp: db_ok_def uuids_ok_def users_def)
qed

lemma rotation_query_Inl:
  assumes env: "db_env_ok env" and ok: "db_ok env t"
    and run: "refreshTokenForRotationQuery env h now t = (Inl err, t')"
  shows "t' = t" and "err = ErrNoRows" and "\<forall>rt \<in> set (tokens t). rt_token_hash rt \<noteq> h"
proof -
  from run have "t' = t \<and> err = ErrNoRows \<and>
      [(rt, ac). rt \<leftarrow> filter (\<lambda>rt. rt_token_hash rt = h) (scan_tokens env (tokens t)),
                 ac \<leftarrow> filter (\<lambda>ac. ac_user_id ac = rt_user_id rt) (credentials t)] = []"
    by (auto simp: refreshTokenForRotationQuery_def split: list.splits)
  then have none: "\<forall>rt \<in> set (tokens t). rt_token_hash rt = h \<longrightarrow>
      filter (\<lambda>ac. ac_user_id ac = rt_user_id rt) (credentials t) = []"
    and "t' = t" "err = ErrNoRows"
    by (auto simp: set_scans [OF env] filter_empty_conv)
  then show "t' = t" "err = ErrNoRows" by simp_all
  have "rt_user_id rt \<in> users t" if "rt \<in> set (tokens t)" for rt
    using ok that by (auto simp: db_ok_def refs_ok_def)
  with none show "\<forall>rt \<in> set (tokens t). rt_token_hash rt \<noteq> h"
    by (fastforce simp: users_def filter_empty_conv)
qed

lemma revoke_token_refines:
  assumes "uuid_in env i = Some i"
  shows "view_of (snd (revokeRefreshTokenQuery env i at now t)) = spec_revoke i at (view_of t)"
    and "\<exists>k. fst (revokeRefreshTokenQuery env i at now t) = Inr k"
proof -
  let ?P = "\<lambda>r. rt_id r = i \<and> rt_revoked_at r = None"
  let ?f = "\<lambda>r. r\<lparr>rt_revoked_at := Some at\<rparr>"
  let ?g = "\<lambda>r. if ses_revoked r = None then r\<lparr>ses_revoked := Some at\<rparr> else r"
  have *: "map_option session_of (lookup_by rt_id (update_where ?P ?f (tokens t)) x) =
    (if x = i then map_option ?g (map_option session_of (lookup_by rt_id (tokens t) x))
     else map_option session_of (lookup_by rt_id (tokens t) x))" for x
    by (cases "lookup_by rt_id (tokens t) x")
      (auto simp: lookup_by_update session_of_def dest: lookup_by_Some)
  show "view_of (snd (revokeRefreshTokenQuery env i at now t)) = spec_revoke i at (view_of t)"
    by (simp add: revokeRefreshTokenQuery_def assms Let_def view_of_def spec_revoke_def fun_eq_iff *)
  show "\<exists>k. fst (revokeRefreshTokenQuery env i at now t) = Inr k"
    by (simp add: revokeRefreshTokenQuery_def assms Let_def)
qed

declare view_fields [simp del]

end
