(* ===== verification/Repo_Refines.thy ===== *)
theory Repo_Refines
  imports Repository View
begin

text \<open>
  The repository against its specification: whatever the database answers, refuses or loses, a
  method keeps the invariant of the tables and either leaves the abstract view alone or has
  exactly its own abstract effect.
\<close>

abbreviation sview :: "store \<Rightarrow> auth_view" where
  "sview s \<equiv> view_of (tabs s)"

definition store_ok :: "db_env \<Rightarrow> store \<Rightarrow> bool" where
  "store_ok env s \<longleftrightarrow> db_env_ok env \<and> db_ok env (tabs s)"

subsection \<open>One statement\<close>

lemma send_Inr:
  "send env stmt s = (Inr x, s') \<longleftrightarrow>
     fault_at env (ticks s) = None \<and>
     (\<exists>t'. stmt (db_now env (ticks s)) (tabs s) = (Inr x, t') \<and> s' = s\<lparr>tabs := t', ticks := Suc (ticks s)\<rparr>)"
  by (cases "stmt (db_now env (ticks s)) (tabs s)")
    (auto simp: send_def Let_def split: option.splits fault.splits)

lemma send_tabs:
  "tabs (snd (send env stmt s)) = tabs s \<or>
   tabs (snd (send env stmt s)) = snd (stmt (db_now env (ticks s)) (tabs s))"
  by (auto simp: send_def Let_def split: option.splits fault.splits)

lemma send_fault_free:
  "fault_free env \<Longrightarrow> send env stmt s =
     (let r = stmt (db_now env (ticks s)) (tabs s)
      in (fst r, s\<lparr>tabs := snd r, ticks := Suc (ticks s)\<rparr>))"
  by (simp add: send_def fault_free_def Let_def)

text \<open>What a statement leaves in the view: nothing new, or its abstract effect.\<close>

lemma create_credential_effect:
  assumes "db_ok env t"
  shows "view_of (snd (createCredentialQuery env (UserID_cc p) (Email_cc p) (Username_cc p) (PasswordHash_cc p) now t)) = view_of t \<or>
    effect_create (uuid_in env) p (view_of t)
      (view_of (snd (createCredentialQuery env (UserID_cc p) (Email_cc p) (Username_cc p) (PasswordHash_cc p) now t)))"
proof (cases "createCredentialQuery env (UserID_cc p) (Email_cc p) (Username_cc p) (PasswordHash_cc p) now t")
  case (Pair r t')
  show ?thesis
  proof (cases r)
    case (Inl err)
    with Pair create_credential_refused show ?thesis by fastforce
  next
    case (Inr c)
    with Pair assms show ?thesis by (auto simp: effect_create_def elim!: create_credential_refines)
  qed
qed

lemma deactivate_effect:
  assumes "db_ok env t"
  shows "view_of (snd (deactivateRegistrationAuthQuery env uid now t)) = view_of t \<or>
    effect_deactivate (uuid_in env) uid (view_of t) (view_of (snd (deactivateRegistrationAuthQuery env uid now t)))"
proof (cases "deactivateRegistrationAuthQuery env uid now t")
  case (Pair r t')
  show ?thesis
  proof (cases r)
    case (Inl err)
    with Pair deactivate_refused show ?thesis by fastforce
  next
    case (Inr k)
    with Pair assms obtain u where "uuid_in env uid = Some u" "view_of t' = spec_deactivate u (view_of t)"
      by (auto elim: deactivate_refines)
    with Pair show ?thesis
      by (cases "accounts (view_of t) u = None") (auto simp: spec_deactivate_absent effect_deactivate_def)
  qed
qed

lemma delete_effect:
  assumes "db_ok env t"
  shows "view_of (snd (deleteCredentialByUserIDQuery env uid now t)) = view_of t \<or>
    effect_delete (uuid_in env) uid (view_of t) (view_of (snd (deleteCredentialByUserIDQuery env uid now t)))"
proof (cases "deleteCredentialByUserIDQuery env uid now t")
  case (Pair r t')
  show ?thesis
  proof (cases r)
    case (Inl err)
    with Pair delete_refused show ?thesis by fastforce
  next
    case (Inr k)
    with Pair assms obtain u where "uuid_in env uid = Some u"
      "view_of t' = (if accounts (view_of t) u = None then view_of t else spec_delete u (view_of t))"
      by (auto elim: delete_refines)
    with Pair show ?thesis by (auto simp: effect_delete_def split: if_splits)
  qed
qed

lemma verify_effect:
  assumes "db_ok env t"
  shows "view_of (snd (verifyRegistrationEmailQuery env uid h at now t)) = view_of t \<or>
    effect_verify (uuid_in env) uid h at (view_of t) (view_of (snd (verifyRegistrationEmailQuery env uid h at now t)))"
proof (cases "uuid_in env uid")
  case None
  then show ?thesis by (simp add: verifyRegistrationEmailQuery_def)
next
  case (Some u)
  from verify_refines(2) [OF assms Some, of h at] Some show ?thesis
    unfolding verify_refines(3) [OF assms Some] by (auto simp: effect_verify_def)
qed

lemma create_code_effect:
  "view_of (snd (createVerificationCodeQuery env (ID_vc p) (UserID_vc p) (TokenHash_vc p) (ExpiresAt_vc p) now t)) = view_of t \<or>
    effect_code (uuid_in env) p (view_of t)
      (view_of (snd (createVerificationCodeQuery env (ID_vc p) (UserID_vc p) (TokenHash_vc p) (ExpiresAt_vc p) now t)))"
proof (cases "createVerificationCodeQuery env (ID_vc p) (UserID_vc p) (TokenHash_vc p) (ExpiresAt_vc p) now t")
  case (Pair r t')
  show ?thesis
  proof (cases r)
    case (Inl err)
    with Pair create_code_refused show ?thesis by fastforce
  next
    case (Inr c)
    with Pair show ?thesis by (auto simp: effect_code_def elim!: create_code_refines)
  qed
qed

lemma create_token_effect:
  "view_of (snd (createRefreshTokenQuery env (ID_rt p) (UserID_rt p) (TokenHash_rt p) (ExpiresAt_rt p) now t)) = view_of t \<or>
    effect_token (uuid_in env) p (view_of t)
      (view_of (snd (createRefreshTokenQuery env (ID_rt p) (UserID_rt p) (TokenHash_rt p) (ExpiresAt_rt p) now t)))"
proof (cases "createRefreshTokenQuery env (ID_rt p) (UserID_rt p) (TokenHash_rt p) (ExpiresAt_rt p) now t")
  case (Pair r t')
  show ?thesis
  proof (cases r)
    case (Inl err)
    with Pair create_token_refused show ?thesis by fastforce
  next
    case (Inr c)
    with Pair show ?thesis by (auto simp: effect_token_def elim!: create_token_refines)
  qed
qed

subsection \<open>Methods: the invariant\<close>

text \<open>
  Composition: a send keeps the invariant when its statement does, and attachRoles only reads.
\<close>

lemma send_store_ok:
  assumes "store_ok env s" and "\<And>now t. db_env_ok env \<Longrightarrow> db_ok env t \<Longrightarrow> db_ok env (snd (stmt now t))"
  shows "store_ok env (snd (send env stmt s))"
  using assms unfolding store_ok_def by (blast intro: send_ok)

lemma list_roles_tabs [frame]: "tabs (snd (repo_ListRolesByUserID env tr uid s)) = tabs s"
  using send_frame [of "listRolesByUserIDQuery env uid" env s]
  by (auto simp: repo_ListRolesByUserID_def frame split: prod.splits sum.splits)

lemma attachRoles_tabs [frame]: "tabs (snd (attachRoles env tr c s)) = tabs s"
  using list_roles_tabs [of env tr "UserID c" s]
  by (auto simp: attachRoles_def split: prod.splits sum.splits)

lemma read_tabs [frame]:
  "tabs (snd (repo_GetByUserID env tr uid s)) = tabs s"
  "tabs (snd (repo_GetByIdentifier env tr ident s)) = tabs s"
  "tabs (snd (repo_ExistsByEmail env email s)) = tabs s"
proof -
  note fs = send_frame [of "getCredentialByUserIDQuery env uid" env s]
    send_frame [of "getCredentialByIdentifierQuery env ident" env s]
    send_frame [of "existsCredentialByEmailQuery email" env s]
  show "tabs (snd (repo_GetByUserID env tr uid s)) = tabs s"
    using fs(1) by (auto simp: repo_GetByUserID_def frame split: prod.splits sum.splits)
  show "tabs (snd (repo_GetByIdentifier env tr ident s)) = tabs s"
    using fs(2) by (auto simp: repo_GetByIdentifier_def frame split: prod.splits sum.splits)
  show "tabs (snd (repo_ExistsByEmail env email s)) = tabs s"
    using fs(3) by (auto simp: repo_ExistsByEmail_def frame split: prod.splits sum.splits)
qed

text \<open>What a method that sends one statement leaves in the tables.\<close>

lemma one_statement_tabs:
  "tabs (snd (repo_Create env tr cp s)) = tabs (snd (send env (createCredentialQuery env (UserID_cc cp)
     (Email_cc cp) (Username_cc cp) (PasswordHash_cc cp)) s))"
  "tabs (snd (repo_CreateVerificationCode env tr vp s)) = tabs (snd (send env
     (createVerificationCodeQuery env (ID_vc vp) (UserID_vc vp) (TokenHash_vc vp) (ExpiresAt_vc vp)) s))"
  "tabs (snd (repo_VerifyRegistrationEmail env tr uid h at s)) =
     tabs (snd (send env (verifyRegistrationEmailQuery env uid h at) s))"
  "tabs (snd (repo_CreateRefreshToken env tr rp s)) = tabs (snd (send env
     (createRefreshTokenQuery env (ID_rt rp) (UserID_rt rp) (TokenHash_rt rp) (ExpiresAt_rt rp)) s))"
  "tabs (snd (repo_DeactivateRegistrationAuth env tr uid s)) =
     tabs (snd (send env (deactivateRegistrationAuthQuery env uid) s))"
  "tabs (snd (repo_DeleteByUserID env tr uid s)) =
     tabs (snd (send env (deleteCredentialByUserIDQuery env uid) s))"
  by (auto simp: repo_Create_def repo_CreateVerificationCode_def repo_VerifyRegistrationEmail_def
      repo_CreateRefreshToken_def repo_DeactivateRegistrationAuth_def repo_DeleteByUserID_def
      attachRoles_tabs split: prod.splits sum.splits)

lemma store_ok_tabs: "store_ok env s \<Longrightarrow> tabs s' = tabs s \<Longrightarrow> store_ok env s'"
  by (simp add: store_ok_def)

lemma one_statement_ok [keeps]:
  assumes "store_ok env s"
  shows "store_ok env (snd (repo_Create env tr cp s))"
    "store_ok env (snd (repo_CreateVerificationCode env tr vp s))"
    "store_ok env (snd (repo_VerifyRegistrationEmail env tr uid h at s))"
    "store_ok env (snd (repo_CreateRefreshToken env tr rp s))"
    "store_ok env (snd (repo_DeactivateRegistrationAuth env tr uid s))"
    "store_ok env (snd (repo_DeleteByUserID env tr uid s))"
  by (rule store_ok_tabs [OF send_store_ok [OF assms] one_statement_tabs(1)], rule keeps, assumption+)
    (rule store_ok_tabs [OF send_store_ok [OF assms] one_statement_tabs(2)], rule keeps, assumption+,
     rule store_ok_tabs [OF send_store_ok [OF assms] one_statement_tabs(3)], rule keeps, assumption+,
     rule store_ok_tabs [OF send_store_ok [OF assms] one_statement_tabs(4)], rule keeps, assumption+,
     rule store_ok_tabs [OF send_store_ok [OF assms] one_statement_tabs(5)], rule keeps, assumption+,
     rule store_ok_tabs [OF send_store_ok [OF assms] one_statement_tabs(6)], rule keeps, assumption+)

lemma read_ok [keeps]:
  assumes "store_ok env s"
  shows "store_ok env (snd (repo_GetByUserID env tr uid s))"
    "store_ok env (snd (repo_GetByIdentifier env tr ident s))"
    "store_ok env (snd (repo_ExistsByEmail env email s))"
    "store_ok env (snd (repo_ListRolesByUserID env tr uid s))"
  using assms by (simp_all add: store_ok_def frame)

text \<open>The view after a method that sends one statement: the same, or its abstract effect.\<close>

lemma one_statement_effect:
  assumes "store_ok env s"
  shows "sview (snd (repo_Create env tr cp s)) = sview s \<or>
      effect_create (uuid_in env) cp (sview s) (sview (snd (repo_Create env tr cp s)))"
    "sview (snd (repo_CreateVerificationCode env tr vp s)) = sview s \<or>
      effect_code (uuid_in env) vp (sview s) (sview (snd (repo_CreateVerificationCode env tr vp s)))"
    "sview (snd (repo_VerifyRegistrationEmail env tr uid h at s)) = sview s \<or>
      effect_verify (uuid_in env) uid h at (sview s) (sview (snd (repo_VerifyRegistrationEmail env tr uid h at s)))"
    "sview (snd (repo_CreateRefreshToken env tr rp s)) = sview s \<or>
      effect_token (uuid_in env) rp (sview s) (sview (snd (repo_CreateRefreshToken env tr rp s)))"
    "sview (snd (repo_DeactivateRegistrationAuth env tr uid s)) = sview s \<or>
      effect_deactivate (uuid_in env) uid (sview s) (sview (snd (repo_DeactivateRegistrationAuth env tr uid s)))"
    "sview (snd (repo_DeleteByUserID env tr uid s)) = sview s \<or>
      effect_delete (uuid_in env) uid (sview s) (sview (snd (repo_DeleteByUserID env tr uid s)))"
proof -
  from assms have ok: "db_ok env (tabs s)" by (simp add: store_ok_def)
  note st = send_tabs [of env _ s]
  show "sview (snd (repo_Create env tr cp s)) = sview s \<or>
      effect_create (uuid_in env) cp (sview s) (sview (snd (repo_Create env tr cp s)))"
    unfolding one_statement_tabs using st create_credential_effect [OF ok] by metis
  show "sview (snd (repo_CreateVerificationCode env tr vp s)) = sview s \<or>
      effect_code (uuid_in env) vp (sview s) (sview (snd (repo_CreateVerificationCode env tr vp s)))"
    unfolding one_statement_tabs using st create_code_effect by metis
  show "sview (snd (repo_VerifyRegistrationEmail env tr uid h at s)) = sview s \<or>
      effect_verify (uuid_in env) uid h at (sview s) (sview (snd (repo_VerifyRegistrationEmail env tr uid h at s)))"
    unfolding one_statement_tabs using st verify_effect [OF ok] by metis
  show "sview (snd (repo_CreateRefreshToken env tr rp s)) = sview s \<or>
      effect_token (uuid_in env) rp (sview s) (sview (snd (repo_CreateRefreshToken env tr rp s)))"
    unfolding one_statement_tabs using st create_token_effect by metis
  show "sview (snd (repo_DeactivateRegistrationAuth env tr uid s)) = sview s \<or>
      effect_deactivate (uuid_in env) uid (sview s) (sview (snd (repo_DeactivateRegistrationAuth env tr uid s)))"
    unfolding one_statement_tabs using st deactivate_effect [OF ok] by metis
  show "sview (snd (repo_DeleteByUserID env tr uid s)) = sview s \<or>
      effect_delete (uuid_in env) uid (sview s) (sview (snd (repo_DeleteByUserID env tr uid s)))"
    unfolding one_statement_tabs using st delete_effect [OF ok] by metis
qed

subsection \<open>Transactions on refresh tokens\<close>

text \<open>The row a transaction loads: a live session with that hash, and its credential.\<close>

lemma load_tabs [frame]:
  "tabs (snd (loadRefreshTokenForMutation env tr (refreshTokenForRotationQuery env h) at s)) = tabs s"
  using send_frame [of "refreshTokenForRotationQuery env h" env s]
  by (auto simp: loadRefreshTokenForMutation_def Let_def frame split: prod.splits sum.splits)

lemma load_Inr:
  assumes ok: "store_ok env s"
    and run: "loadRefreshTokenForMutation env tr (refreshTokenForRotationQuery env h) at s = (Inr row, s')"
  obtains q where "sessions (sview s) (RefreshTokenID_mut row) = Some q" "ses_hash q = h" "live_at at q"
    "UserID (Credential_mut row) = ses_user q" "knows (sview s) (Credential_mut row)"
    "uuid_in env (RefreshTokenID_mut row) = Some (RefreshTokenID_mut row)"
    "uuid_in env (ses_user q) = Some (ses_user q)" "tabs s' = tabs s"
proof -
  from ok have env: "db_env_ok env" and db: "db_ok env (tabs s)" by (simp_all add: store_ok_def)
  from run obtain p s1 where sent: "send env (refreshTokenForRotationQuery env h) s = (Inr p, s1)"
    by (auto simp: loadRefreshTokenForMutation_def split: prod.splits sum.splits)
  obtain rt ac where p: "p = (rt, ac)" by (cases p)
  from sent p obtain now t' where q: "refreshTokenForRotationQuery env h now (tabs s) = (Inr (rt, ac), t')"
    by (auto simp: send_Inr)
  note facts = rotation_query_Inr [OF env db q]
  from run sent p have row: "row = \<lparr>RefreshTokenID_mut = rt_id rt, Credential_mut = \<lparr>UserID = ac_user_id ac,
        Email = ac_email ac, Username = ac_username ac, PasswordHash = ac_password_hash ac,
        EmailVerified = ac_email_verified ac, Status = ac_status ac, Roles = [],
        CreatedAt = ac_created_at ac, UpdatedAt = ac_updated_at ac\<rparr>\<rparr>"
    and live: "rt_revoked_at rt = None" "at < rt_expires_at rt"
    by (auto simp: loadRefreshTokenForMutation_def Let_def scan_rotation_row_def
        MapCredentialRowToDomain_def split: if_splits)
  have "tabs s' = tabs s" using load_tabs [of env tr h at s] run by simp
  with facts live show thesis
    by (intro that [of "session_of rt"]) (simp_all add: row live_at_def knows_def account_of_def)
qed

lemma begin_tabs: "send env begin_tx s = (r, s1) \<Longrightarrow> tabs s1 = tabs s"
  using send_frame [of begin_tx env s] by (simp add: begin_tx_def)

lemma commit_tabs:
  assumes "commit_tx env s1 s2 = (r, s3)"
  shows "tabs s3 = tabs s1 \<and> r \<noteq> Inr () \<or> tabs s3 = tabs s2"
  using assms by (auto simp: commit_tx_def rollback_def Let_def split: option.splits fault.splits)

lemma commit_Inr: "commit_tx env s1 s2 = (Inr x, s3) \<Longrightarrow> tabs s3 = tabs s2"
  by (auto simp: commit_tx_def Let_def split: option.splits fault.splits)

lemma roles_Inr:
  assumes "store_ok env s" and "repo_ListRolesByUserID env tr uid s = (Inr rs, s')"
  obtains u where "uuid_in env uid = Some u" "set rs = granted (sview s) u"
  using assms
  by (auto simp: repo_ListRolesByUserID_def send_Inr listRolesByUserIDQuery_def store_ok_def view_of_def setcompr_eq_image
      split: prod.splits sum.splits option.splits)

lemma attach_Inr:
  assumes "store_ok env s" and "attachRoles env tr c s = (Inr d, s')"
  obtains u where "d = c\<lparr>Roles := Roles d\<rparr>" "uuid_in env (UserID c) = Some u"
    "set (Roles d) = granted (sview s) u"
  using assms by (auto simp: attachRoles_def elim!: roles_Inr split: prod.splits sum.splits)

lemma knows_roles [simp]: "knows v (c\<lparr>Roles := rs\<rparr>) = knows v c"
  by (simp add: knows_def)

lemma revoke_statement:
  assumes ok: "store_ok env s" and i: "uuid_in env i = Some i"
    and run: "send env (revokeRefreshTokenQuery env i at) s = (Inr k, s')"
  shows "store_ok env s'" "sview s' = spec_revoke i at (sview s)"
proof -
  from run obtain now where "revokeRefreshTokenQuery env i at now (tabs s) = (Inr k, tabs s')"
    by (auto simp: send_Inr)
  with revoke_token_refines(1) [OF i, of at now "tabs s"] show "sview s' = spec_revoke i at (sview s)"
    by simp
  show "store_ok env s'"
    using send_store_ok [OF ok, of "revokeRefreshTokenQuery env i at"] run by (simp add: keeps)
qed

lemma token_statement:
  assumes ok: "store_ok env s"
    and run: "send env (createRefreshTokenQuery env tid uid h x) s = (Inr y, s')"
  obtains i u where "uuid_in env tid = Some i" "uuid_in env uid = Some u" "accounts (sview s) u \<noteq> None"
    "sessions (sview s) i = None" "sview s' = spec_add_session i u h x (sview s)" "store_ok env s'"
proof -
  from run obtain now where "createRefreshTokenQuery env tid uid h x now (tabs s) = (Inr (), tabs s')"
    by (auto simp: send_Inr)
  then obtain i u where "uuid_in env tid = Some i" "uuid_in env uid = Some u"
    "accounts (sview s) u \<noteq> None" "sessions (sview s) i = None"
    "sview s' = spec_add_session i u h x (sview s)"
    by (rule create_token_refines)
  moreover have "store_ok env s'"
    using send_store_ok [OF ok, of "createRefreshTokenQuery env tid uid h x"] run by (simp add: keeps)
  ultimately show thesis by (rule that)
qed

lemma attach_keeps:
  assumes ok: "store_ok env s" and run: "attachRoles env tr d s = (Inr c, s')"
  shows "UserID c = UserID d" "knows v c \<longleftrightarrow> knows v d"
    and "uuid_in env (UserID d) = Some u \<Longrightarrow> set (Roles c) = granted (sview s) u"
proof -
  from attach_Inr [OF ok run] obtain w where c: "c = d\<lparr>Roles := Roles c\<rparr>" "uuid_in env (UserID d) = Some w"
    "set (Roles c) = granted (sview s) w" .
  show "UserID c = UserID d" "knows v c \<longleftrightarrow> knows v d"
    using knows_roles c(1) by (metis Credential.select_convs(1) Credential.surjective Credential.update_convs(7))+
  show "uuid_in env (UserID d) = Some u \<Longrightarrow> set (Roles c) = granted (sview s) u" using c(2,3) by simp
qed

text \<open>
  The two transactions: either the tables are as they were and an error is answered, or every
  statement was carried out and the transaction's tables stay.
\<close>

lemma rotate_script:
  assumes run: "repo_RotateRefreshToken env tr p s = (res, s')"
  obtains (kept) e where "tabs s' = tabs s" "res = Inl e"
  | (sent) row s1 s2 x s3 y s4 s5 where "tabs s1 = tabs s"
      "loadRefreshTokenForMutation env tr (refreshTokenForRotationQuery env (CurrentTokenHash_ro p)) (Now_ro p) s1 = (Inr row, s2)"
      "send env (revokeRefreshTokenQuery env (RefreshTokenID_mut row) (Now_ro p)) s2 = (Inr x, s3)"
      "send env (createRefreshTokenQuery env (NewTokenID_ro p) (UserID (Credential_mut row)) (NewTokenHash_ro p)
        (NewExpiresAt_ro p)) s3 = (Inr y, s4)"
      "tabs s5 = tabs s4" "tabs s' = tabs s4" "\<And>c. res = Inr c \<Longrightarrow> attachRoles env tr (Credential_mut row) s5 = (Inr c, s')"
proof -
  obtain r1 s1 where b: "send env begin_tx s = (r1, s1)" by fastforce
  note t1 = begin_tabs [OF b]
  obtain r2 s2 where l: "loadRefreshTokenForMutation env tr
      (refreshTokenForRotationQuery env (CurrentTokenHash_ro p)) (Now_ro p) s1 = (r2, s2)" by fastforce
  show thesis
  proof (cases "\<exists>x row. r1 = Inr x \<and> r2 = Inr row")
    case False
    then consider (r1) e where "r1 = Inl e" | (r2) x e where "r1 = Inr x" "r2 = Inl e"
      by (cases r1; cases r2; auto)
    then show thesis
      by cases (use run b l t1 in \<open>auto intro!: kept simp: repo_RotateRefreshToken_def rollback_def\<close>)
  next
    case True
    then obtain x row where begun: "r1 = Inr x" and loaded: "r2 = Inr row" by blast
    obtain r3 s3 where rv: "send env (revokeRefreshTokenQuery env (RefreshTokenID_mut row) (Now_ro p)) s2
        = (r3, s3)" by fastforce
    obtain r4 s4 where cr: "send env (createRefreshTokenQuery env (NewTokenID_ro p)
        (UserID (Credential_mut row)) (NewTokenHash_ro p) (NewExpiresAt_ro p)) s3 = (r4, s4)" by fastforce
    obtain r5 s5 where co: "commit_tx env s1 s4 = (r5, s5)" by fastforce
    note all = run b begun l loaded rv cr co t1
    show thesis
    proof (cases "\<exists>x y. r3 = Inr x \<and> r4 = Inr y \<and> tabs s5 = tabs s4")
      case False
      then consider (r3) e where "r3 = Inl e" | (r4) x e where "r3 = Inr x" "r4 = Inl e"
        | (r5) x y e where "r3 = Inr x" "r4 = Inr y" "r5 = Inl e" "tabs s5 = tabs s1"
        using commit_tabs [OF co] by (cases r3; cases r4; cases r5; auto)
      then show thesis
        by cases (use all in \<open>auto intro!: kept simp: repo_RotateRefreshToken_def rollback_def\<close>)
    next
      case True
      then obtain x y where r: "r3 = Inr x" "r4 = Inr y" and t5: "tabs s5 = tabs s4" by blast
      have "tabs s' = tabs s4" "\<And>c. res = Inr c \<Longrightarrow> attachRoles env tr (Credential_mut row) s5 = (Inr c, s')"
        using all r t5 attachRoles_tabs [of env tr "Credential_mut row" s5]
        by (auto simp: repo_RotateRefreshToken_def split: sum.splits)
      with t1 l loaded rv cr r t5 show thesis by (intro sent) simp_all
    qed
  qed
qed

lemma revoke_script:
  assumes run: "repo_RevokeRefreshToken env tr p s = (res, s')"
  obtains (kept) e where "tabs s' = tabs s" "res = Inl e"
  | (sent) row s1 s2 x s3 s4 where "tabs s1 = tabs s"
      "loadRefreshTokenForMutation env tr (refreshTokenForRotationQuery env (CurrentTokenHash_rv p)) (Now_rv p) s1 = (Inr row, s2)"
      "send env (revokeRefreshTokenQuery env (RefreshTokenID_mut row) (Now_rv p)) s2 = (Inr x, s3)"
      "tabs s4 = tabs s3" "tabs s' = tabs s3" "\<And>c. res = Inr c \<Longrightarrow> attachRoles env tr (Credential_mut row) s4 = (Inr c, s')"
proof -
  obtain r1 s1 where b: "send env begin_tx s = (r1, s1)" by fastforce
  note t1 = begin_tabs [OF b] and defs = repo_RevokeRefreshToken_def refreshTokenForRevokeQuery_def rollback_def
  obtain r2 s2 where l: "loadRefreshTokenForMutation env tr
      (refreshTokenForRotationQuery env (CurrentTokenHash_rv p)) (Now_rv p) s1 = (r2, s2)" by fastforce
  show thesis
  proof (cases "\<exists>x row. r1 = Inr x \<and> r2 = Inr row")
    case False
    then consider (r1) e where "r1 = Inl e" | (r2) x e where "r1 = Inr x" "r2 = Inl e"
      by (cases r1; cases r2; auto)
    then show thesis by cases (use run b l t1 in \<open>auto intro!: kept simp: defs\<close>)
  next
    case True
    then obtain x row where begun: "r1 = Inr x" and loaded: "r2 = Inr row" by blast
    obtain r3 s3 where rv: "send env (revokeRefreshTokenQuery env (RefreshTokenID_mut row) (Now_rv p)) s2
        = (r3, s3)" by fastforce
    obtain r4 s4 where co: "commit_tx env s1 s3 = (r4, s4)" by fastforce
    note all = run b begun l loaded rv co t1
    show thesis
    proof (cases "\<exists>y. r3 = Inr y \<and> tabs s4 = tabs s3")
      case False
      then consider (r3) e where "r3 = Inl e" | (r4) y e where "r3 = Inr y" "r4 = Inl e" "tabs s4 = tabs s1"
        using commit_tabs [OF co] by (cases r3; cases r4; auto)
      then show thesis by cases (use all in \<open>auto intro!: kept simp: defs\<close>)
    next
      case True
      then obtain y where r3: "r3 = Inr y" and t4: "tabs s4 = tabs s3" by blast
      have "tabs s' = tabs s3" "\<And>c. res = Inr c \<Longrightarrow> attachRoles env tr (Credential_mut row) s4 = (Inr c, s')"
        using all r3 t4 attachRoles_tabs [of env tr "Credential_mut row" s4] by (auto simp: defs split: sum.splits)
      with t1 l loaded rv r3 t4 show thesis by (intro sent) simp_all
    qed
  qed
qed

text \<open>
  A rotation either leaves the tables as they were and answers an error, or commits exactly the
  abstract rotation; in the second case the answer may still be an error.
\<close>

lemma rotate_cases:
  assumes ok: "store_ok env s" and run: "repo_RotateRefreshToken env tr p s = (res, s')"
  obtains (kept) e where "tabs s' = tabs s" "res = Inl e"
  | (committed) i q i' where "sessions (sview s) i = Some q" "ses_hash q = CurrentTokenHash_ro p"
      "live_at (Now_ro p) q" "accounts (sview s) (ses_user q) \<noteq> None"
      "uuid_in env (NewTokenID_ro p) = Some i'" "sessions (sview s) i' = None"
      "sview s' = spec_add_session i' (ses_user q) (NewTokenHash_ro p) (NewExpiresAt_ro p)
         (spec_revoke i (Now_ro p) (sview s))" "store_ok env s'"
      "\<And>c. res = Inr c \<Longrightarrow> UserID c = ses_user q \<and> knows (sview s) c \<and>
         set (Roles c) = granted (sview s) (ses_user q)"
proof (cases rule: rotate_script [OF run, case_names kept sent])
  case kept
  then show thesis by (rule that(1))
next
  case (sent row s1 s2 x s3 y s4 s5)
  note t1 = sent(1) and ok1 = store_ok_tabs [OF ok sent(1)]
  obtain q where q: "sessions (sview s1) (RefreshTokenID_mut row) = Some q"
      "ses_hash q = CurrentTokenHash_ro p" "live_at (Now_ro p) q"
      "UserID (Credential_mut row) = ses_user q" "knows (sview s1) (Credential_mut row)"
      "uuid_in env (RefreshTokenID_mut row) = Some (RefreshTokenID_mut row)"
      "uuid_in env (ses_user q) = Some (ses_user q)" and t2: "tabs s2 = tabs s1"
    by (rule load_Inr [OF ok1 sent(2)])
  from revoke_statement [OF store_ok_tabs [OF ok1 t2] q(6) sent(3)]
  have ok3: "store_ok env s3" and v3: "sview s3 = spec_revoke (RefreshTokenID_mut row) (Now_ro p) (sview s)"
    using t1 t2 by simp_all
  from token_statement [OF ok3 sent(4)] obtain i' where new: "uuid_in env (NewTokenID_ro p) = Some i'"
      "sessions (sview s3) i' = None" "store_ok env s4"
      "sview s4 = spec_add_session i' (ses_user q) (NewTokenHash_ro p) (NewExpiresAt_ro p) (sview s3)"
    using q(4,7) by (metis option.inject)
  have gr: "granted (sview s5) = granted (sview s)"
    using new(4) v3 sent(5) by (simp add: spec_add_session_def spec_revoke_def)
  show thesis
  proof (rule that(2))
    show "sessions (sview s) i' = None" using new(2) by (simp add: v3 spec_revoke_def split: if_splits)
    show "sview s' = spec_add_session i' (ses_user q) (NewTokenHash_ro p) (NewExpiresAt_ro p)
        (spec_revoke (RefreshTokenID_mut row) (Now_ro p) (sview s))" using new(4) v3 sent(6) by simp
    show "store_ok env s'" by (rule store_ok_tabs [OF new(3) sent(6)])
    fix c assume "res = Inr c"
    from attach_keeps [OF store_ok_tabs [OF new(3) sent(5)] sent(7) [OF this]] q(4,5,7) t1
    show "UserID c = ses_user q \<and> knows (sview s) c \<and> set (Roles c) = granted (sview s) (ses_user q)"
      by (simp add: gr)
  qed (use q t1 new(1) in \<open>auto simp: knows_def\<close>)
qed

lemma revoke_cases:
  assumes ok: "store_ok env s" and run: "repo_RevokeRefreshToken env tr p s = (res, s')"
  obtains (kept) e where "tabs s' = tabs s" "res = Inl e"
  | (committed) i q where "sessions (sview s) i = Some q" "ses_hash q = CurrentTokenHash_rv p"
      "live_at (Now_rv p) q" "sview s' = spec_revoke i (Now_rv p) (sview s)" "store_ok env s'"
      "\<And>c. res = Inr c \<Longrightarrow> UserID c = ses_user q \<and> knows (sview s) c"
proof (cases rule: revoke_script [OF run, case_names kept sent])
  case kept
  then show thesis by (rule that(1))
next
  case (sent row s1 s2 x s3 s4)
  note t1 = sent(1) and ok1 = store_ok_tabs [OF ok sent(1)]
  obtain q where q: "sessions (sview s1) (RefreshTokenID_mut row) = Some q"
      "ses_hash q = CurrentTokenHash_rv p" "live_at (Now_rv p) q"
      "UserID (Credential_mut row) = ses_user q" "knows (sview s1) (Credential_mut row)"
      "uuid_in env (RefreshTokenID_mut row) = Some (RefreshTokenID_mut row)" and t2: "tabs s2 = tabs s1"
    by (rule load_Inr [OF ok1 sent(2)])
  from revoke_statement [OF store_ok_tabs [OF ok1 t2] q(6) sent(3)]
  have ok3: "store_ok env s3" and v3: "sview s3 = spec_revoke (RefreshTokenID_mut row) (Now_rv p) (sview s)"
    using t1 t2 by simp_all
  show thesis
  proof (rule that(2))
    show "sview s' = spec_revoke (RefreshTokenID_mut row) (Now_rv p) (sview s)" using v3 sent(5) by simp
    show "store_ok env s'" by (rule store_ok_tabs [OF ok3 sent(5)])
    fix c assume "res = Inr c"
    from attach_keeps [OF store_ok_tabs [OF ok3 sent(4)] sent(6) [OF this]] q(4,5) t1
    show "UserID c = ses_user q \<and> knows (sview s) c" by simp
  qed (use q t1 in simp_all)
qed

subsection \<open>What success means\<close>

lemma attach_knows:
  assumes "store_ok env s" and "attachRoles env tr c s = (Inr d, s')"
  shows "UserID d = UserID c" "Email d = Email c" "Username d = Username c"
    "knows v d = knows v c" "tabs s' = tabs s"
    "uuid_in env (UserID c) = Some (UserID c) \<Longrightarrow> set (Roles d) = granted (sview s) (UserID c)"
proof -
  from attach_Inr [OF assms] obtain u where d: "d = c\<lparr>Roles := Roles d\<rparr>"
    and u: "uuid_in env (UserID c) = Some u" "set (Roles d) = granted (sview s) u" .
  show "UserID d = UserID c" "Email d = Email c" "Username d = Username c" "knows v d = knows v c"
    by (subst d, simp)+
  show "tabs s' = tabs s" using attachRoles_tabs [of env tr c s] assms(2) by simp
  show "set (Roles d) = granted (sview s) (UserID c)" if "uuid_in env (UserID c) = Some (UserID c)"
    using that u by simp
qed

text \<open>The credential a row is mapped to.\<close>

abbreviation credential_of :: "auth_credentials \<Rightarrow> Credential" where
  "credential_of r \<equiv> MapCredentialRowToDomain (scan_credential_row r)"

lemma credential_of_fields [simp]:
  "UserID (credential_of r) = ac_user_id r" "Email (credential_of r) = ac_email r"
  "Username (credential_of r) = ac_username r" "PasswordHash (credential_of r) = ac_password_hash r"
  "EmailVerified (credential_of r) = ac_email_verified r" "Status (credential_of r) = ac_status r"
  "Roles (credential_of r) = []"
  by (simp_all add: MapCredentialRowToDomain_def scan_credential_row_def)

lemma knows_credential_of [simp]:
  "knows v (credential_of r) \<longleftrightarrow> accounts v (ac_user_id r) = Some (account_of r)"
  by (simp add: knows_def account_of_def)

end
