(* ===== verification/Repo_Contract.thy ===== *)
theory Repo_Contract
  imports Auth_Spec
begin

text \<open>
  What the application service relies on when it calls its AuthRepository, as two locales over
  any store with a view of Auth_Spec. \<open>auth_repository\<close> holds however the database fails: a read
  leaves the view alone, a write has no effect or exactly its own abstract effect, and an answer
  without error means that the effect happened. \<open>reliable_repository\<close>
  adds what holds when the database does not fail: an error means that nothing happened, and the
  operations succeed when their guards hold.
\<close>

locale auth_repository =
  fixes repo :: "'s AuthRepository"
    and view :: "'s \<Rightarrow> auth_view"
    and inv :: "'s \<Rightarrow> bool"
    and norm :: "string \<Rightarrow> string option"
  assumes inv_view_ok: "inv s \<Longrightarrow> view_ok (view s)"
    and inv_norm: "inv s \<Longrightarrow> accounts (view s) u \<noteq> None \<Longrightarrow> norm u = Some u"
    and inv_plain: "inv s \<Longrightarrow> norm uid = Some u \<Longrightarrow> u \<noteq> [] \<and> TrimSpace u = u"
    and create_run: "inv s \<Longrightarrow> Create repo p s = (r, s') \<Longrightarrow> inv s' \<and> (view s' = view s \<or> effect_create norm p (view s) (view s'))"
    and create_ok: "inv s \<Longrightarrow> Create repo p s = (Inr c, s') \<Longrightarrow>
      norm (UserID_cc p) = Some (UserID c) \<and> accounts (view s) (UserID c) = None \<and>
      \<not> email_taken (Email_cc p) (view s) \<and> Email c = Email_cc p \<and> knows (view s') c \<and>
      view s' = spec_create (UserID c) (Email_cc p) (Username_cc p) (PasswordHash_cc p) (view s)"
    and code_run: "inv s \<Longrightarrow> CreateVerificationCode repo vp s = (ru, s') \<Longrightarrow>
      inv s' \<and> (view s' = view s \<or> effect_code norm vp (view s) (view s'))"
    and code_ok: "inv s \<Longrightarrow> CreateVerificationCode repo vp s = (Inr x, s') \<Longrightarrow>
      \<exists>u. norm (UserID_vc vp) = Some u \<and> accounts (view s) u \<noteq> None \<and>
        view s' = spec_add_code u (TokenHash_vc vp) (ExpiresAt_vc vp) (view s)"
    and verify_run: "inv s \<Longrightarrow> VerifyEmail repo uid h at s = (r, s') \<Longrightarrow>
      inv s' \<and> (view s' = view s \<or> effect_verify norm uid h at (view s) (view s'))"
    and verify_ok: "inv s \<Longrightarrow> VerifyEmail repo uid h at s = (Inr c, s') \<Longrightarrow>
      norm uid = Some (UserID c) \<and> code_available (UserID c) h at (view s) \<and> knows (view s') c \<and>
      view s' = spec_verify (UserID c) h at (view s)"
    and token_run: "inv s \<Longrightarrow> CreateRefreshToken repo tp s = (ru, s') \<Longrightarrow>
      inv s' \<and> (view s' = view s \<or> effect_token norm tp (view s) (view s'))"
    and token_ok: "inv s \<Longrightarrow> CreateRefreshToken repo tp s = (Inr x, s') \<Longrightarrow>
      \<exists>i u. norm (ID_rt tp) = Some i \<and> norm (UserID_rt tp) = Some u \<and> accounts (view s) u \<noteq> None \<and>
        sessions (view s) i = None \<and>
        view s' = spec_add_session i u (TokenHash_rt tp) (ExpiresAt_rt tp) (view s)"
    and rotate_run: "inv s \<Longrightarrow> RotateRefreshToken repo ro s = (r, s') \<Longrightarrow>
      inv s' \<and> (view s' = view s \<or> effect_rotate norm ro (view s) (view s'))"
    and rotate_ok: "inv s \<Longrightarrow> RotateRefreshToken repo ro s = (Inr c, s') \<Longrightarrow>
      \<exists>i q i'. sessions (view s) i = Some q \<and> ses_hash q = CurrentTokenHash_ro ro \<and>
        live_at (Now_ro ro) q \<and> UserID c = ses_user q \<and> knows (view s) c \<and>
        set (Roles c) = granted (view s) (UserID c) \<and>
        norm (NewTokenID_ro ro) = Some i' \<and> sessions (view s) i' = None \<and>
        view s' = spec_add_session i' (ses_user q) (NewTokenHash_ro ro) (NewExpiresAt_ro ro)
          (spec_revoke i (Now_ro ro) (view s))"
    and revoke_run: "inv s \<Longrightarrow> RevokeRefreshToken repo rv s = (r, s') \<Longrightarrow>
      inv s' \<and> (view s' = view s \<or> effect_revoke rv (view s) (view s'))"
    and revoke_ok: "inv s \<Longrightarrow> RevokeRefreshToken repo rv s = (Inr c, s') \<Longrightarrow>
      \<exists>i q. sessions (view s) i = Some q \<and> ses_hash q = CurrentTokenHash_rv rv \<and>
        live_at (Now_rv rv) q \<and> UserID c = ses_user q \<and> knows (view s) c \<and>
        view s' = spec_revoke i (Now_rv rv) (view s)"
    and get_run: "inv s \<Longrightarrow> GetByUserID repo uid s = (r, s') \<Longrightarrow> inv s' \<and> view s' = view s"
    and get_ok: "inv s \<Longrightarrow> GetByUserID repo uid s = (Inr c, s') \<Longrightarrow>
      norm uid = Some (UserID c) \<and> knows (view s) c \<and> set (Roles c) = granted (view s) (UserID c)"
    and find_run: "inv s \<Longrightarrow> GetByIdentifier repo ident s = (r, s') \<Longrightarrow> inv s' \<and> view s' = view s"
    and find_ok: "inv s \<Longrightarrow> GetByIdentifier repo ident s = (Inr c, s') \<Longrightarrow>
      knows (view s) c \<and> (Username c = ident \<or> Email c = ident) \<and> Roles c = []"
    and exists_run: "inv s \<Longrightarrow> ExistsEmail repo email s = (rb, s') \<Longrightarrow> inv s' \<and> view s' = view s"
    and exists_ok: "inv s \<Longrightarrow> ExistsEmail repo email s = (Inr b, s') \<Longrightarrow> b \<longleftrightarrow> email_taken email (view s)"
    and deactivate_run: "inv s \<Longrightarrow> DeactivateAuth repo uid s = (ru, s') \<Longrightarrow>
      inv s' \<and> (view s' = view s \<or> effect_deactivate norm uid (view s) (view s'))"
    and deactivate_ok: "inv s \<Longrightarrow> DeactivateAuth repo uid s = (Inr x, s') \<Longrightarrow>
      \<exists>u. norm uid = Some u \<and> accounts (view s) u \<noteq> None \<and> view s' = spec_deactivate u (view s)"
    and delete_run: "inv s \<Longrightarrow> DeleteByUserID repo uid s = (ru, s') \<Longrightarrow>
      inv s' \<and> (view s' = view s \<or> effect_delete norm uid (view s) (view s'))"
    and delete_ok: "inv s \<Longrightarrow> DeleteByUserID repo uid s = (Inr x, s') \<Longrightarrow>
      \<exists>u. norm uid = Some u \<and> accounts (view s) u \<noteq> None \<and> view s' = spec_delete u (view s)"

locale reliable_repository = auth_repository +
  assumes create_err: "inv s \<Longrightarrow> Create repo p s = (Inl e, s') \<Longrightarrow> view s' = view s"
    and code_err: "inv s \<Longrightarrow> CreateVerificationCode repo vp s = (Inl e, s') \<Longrightarrow> view s' = view s"
    and verify_err: "inv s \<Longrightarrow> VerifyEmail repo uid h at s = (Inl e, s') \<Longrightarrow> view s' = view s"
    and token_err: "inv s \<Longrightarrow> CreateRefreshToken repo tp s = (Inl e, s') \<Longrightarrow> view s' = view s"
    and rotate_err: "inv s \<Longrightarrow> RotateRefreshToken repo ro s = (Inl e, s') \<Longrightarrow> view s' = view s"
    and revoke_err: "inv s \<Longrightarrow> RevokeRefreshToken repo rv s = (Inl e, s') \<Longrightarrow> view s' = view s"
    and deactivate_err: "inv s \<Longrightarrow> DeactivateAuth repo uid s = (Inl e, s') \<Longrightarrow> view s' = view s"
    and delete_err: "inv s \<Longrightarrow> DeleteByUserID repo uid s = (Inl e, s') \<Longrightarrow> view s' = view s"
    and create_live: "inv s \<Longrightarrow> norm (UserID_cc p) = Some u \<Longrightarrow> accounts (view s) u = None \<Longrightarrow>
      \<not> email_taken (Email_cc p) (view s) \<Longrightarrow> \<exists>c s'. Create repo p s = (Inr c, s')"
    and create_known: "inv s \<Longrightarrow> norm (UserID_cc p) = Some u \<Longrightarrow> accounts (view s) u \<noteq> None \<Longrightarrow>
      fst (Create repo p s) = Inl ErrAuthCredentialsAlreadyExist"
    and create_taken: "inv s \<Longrightarrow> norm (UserID_cc p) = Some u \<Longrightarrow> accounts (view s) u = None \<Longrightarrow>
      email_taken (Email_cc p) (view s) \<Longrightarrow> fst (Create repo p s) = Inl ErrEmailAlreadyTaken"
    and verify_live: "inv s \<Longrightarrow> norm uid = Some u \<Longrightarrow> code_available u h at (view s) \<Longrightarrow>
      \<exists>c s'. VerifyEmail repo uid h at s = (Inr c, s')"
    and verify_none: "inv s \<Longrightarrow> norm uid = Some u \<Longrightarrow> \<not> code_available u h at (view s) \<Longrightarrow>
      fst (VerifyEmail repo uid h at s) = Inl ErrInvalidVerificationCode"
    and token_live: "inv s \<Longrightarrow> norm (ID_rt tp) = Some i \<Longrightarrow> sessions (view s) i = None \<Longrightarrow>
      norm (UserID_rt tp) = Some u \<Longrightarrow> accounts (view s) u \<noteq> None \<Longrightarrow>
      \<exists>s'. CreateRefreshToken repo tp s = (Inr (), s')"
    and code_live: "inv s \<Longrightarrow> norm (UserID_vc vp) = Some u \<Longrightarrow> accounts (view s) u \<noteq> None \<Longrightarrow>
      norm (ID_vc vp) = Some i \<Longrightarrow>
      (\<exists>s'. CreateVerificationCode repo vp s = (Inr (), s')) \<or>
      fst (CreateVerificationCode repo vp s) = Inl ErrFailedToCreateVerificationCode"
    and deactivate_live: "inv s \<Longrightarrow> norm uid = Some u \<Longrightarrow> accounts (view s) u \<noteq> None \<Longrightarrow>
      \<exists>s'. DeactivateAuth repo uid s = (Inr (), s')"
    and deactivate_absent: "inv s \<Longrightarrow> norm uid = Some u \<Longrightarrow> accounts (view s) u = None \<Longrightarrow>
      fst (DeactivateAuth repo uid s) = Inl ErrAuthNotFound"
    and delete_live: "inv s \<Longrightarrow> norm uid = Some u \<Longrightarrow> accounts (view s) u \<noteq> None \<Longrightarrow>
      \<exists>s'. DeleteByUserID repo uid s = (Inr (), s')"
    and delete_absent: "inv s \<Longrightarrow> norm uid = Some u \<Longrightarrow> accounts (view s) u = None \<Longrightarrow>
      fst (DeleteByUserID repo uid s) = Inl ErrAuthNotFound"
    and get_live: "inv s \<Longrightarrow> norm uid = Some u \<Longrightarrow> accounts (view s) u \<noteq> None \<Longrightarrow>
      \<exists>c s'. GetByUserID repo uid s = (Inr c, s')"
    and find_live: "inv s \<Longrightarrow> accounts (view s) u = Some a \<Longrightarrow> acc_email a = ident \<or> acc_username a = ident \<Longrightarrow>
      \<exists>c s'. GetByIdentifier repo ident s = (Inr c, s')"
    and exists_live: "inv s \<Longrightarrow> \<exists>b s'. ExistsEmail repo email s = (Inr b, s')"
    and rotate_unknown: "inv s \<Longrightarrow> (\<And>i q. sessions (view s) i = Some q \<Longrightarrow> ses_hash q \<noteq> CurrentTokenHash_ro ro)
      \<Longrightarrow> fst (RotateRefreshToken repo ro s) = Inl ErrInvalidRefreshToken"
    and rotate_revoked: "inv s \<Longrightarrow> sessions (view s) i = Some q \<Longrightarrow> ses_hash q = CurrentTokenHash_ro ro \<Longrightarrow>
      (\<And>i q. sessions (view s) i = Some q \<Longrightarrow> ses_hash q = CurrentTokenHash_ro ro \<Longrightarrow> ses_revoked q \<noteq> None)
      \<Longrightarrow> fst (RotateRefreshToken repo ro s) = Inl ErrRefreshTokenRevoked"
    and rotate_live: "inv s \<Longrightarrow> sessions (view s) i = Some q \<Longrightarrow> ses_hash q = CurrentTokenHash_ro ro \<Longrightarrow>
      live_at (Now_ro ro) q \<Longrightarrow>
      (\<And>j q'. sessions (view s) j = Some q' \<Longrightarrow> ses_hash q' = CurrentTokenHash_ro ro \<Longrightarrow> j = i) \<Longrightarrow>
      norm (NewTokenID_ro ro) = Some i' \<Longrightarrow> sessions (view s) i' = None \<Longrightarrow>
      \<exists>c s'. RotateRefreshToken repo ro s = (Inr c, s')"
    and revoke_live: "inv s \<Longrightarrow> sessions (view s) i = Some q \<Longrightarrow> ses_hash q = CurrentTokenHash_rv rv \<Longrightarrow>
      live_at (Now_rv rv) q \<Longrightarrow>
      (\<And>j q'. sessions (view s) j = Some q' \<Longrightarrow> ses_hash q' = CurrentTokenHash_rv rv \<Longrightarrow> j = i) \<Longrightarrow>
      \<exists>c s'. RevokeRefreshToken repo rv s = (Inr c, s')"
    and rotate_refused: "inv s \<Longrightarrow>
      (\<And>i q. sessions (view s) i = Some q \<Longrightarrow> ses_hash q = CurrentTokenHash_ro ro \<Longrightarrow> \<not> live_at (Now_ro ro) q) \<Longrightarrow>
      fst (RotateRefreshToken repo ro s) \<in> Inl ` {ErrInvalidRefreshToken, ErrRefreshTokenExpired, ErrRefreshTokenRevoked}"
    and revoke_refused: "inv s \<Longrightarrow>
      (\<And>i q. sessions (view s) i = Some q \<Longrightarrow> ses_hash q = CurrentTokenHash_rv rv \<Longrightarrow> \<not> live_at (Now_rv rv) q) \<Longrightarrow>
      fst (RevokeRefreshToken repo rv s) \<in> Inl ` {ErrInvalidRefreshToken, ErrRefreshTokenExpired, ErrRefreshTokenRevoked}"

end
