(* ===== verification/Repo_Laws.thy ===== *)
theory Repo_Laws
  imports Repo_Refines Repo_Contract
begin

text \<open>
  The PostgreSQL repository meets the contract of Repo_Contract: the first interpretation for
  every database, the second for one whose statements never fail.
\<close>

abbreviation pg :: "db_env \<Rightarrow> store AuthRepository" where
  "pg env \<equiv> pg_repository env NewPgErrorTranslator"

lemma store_okD: "store_ok env s \<Longrightarrow> db_env_ok env \<and> db_ok env (tabs s)"
  by (simp add: store_ok_def)

subsection \<open>Reads\<close>

lemma get_query_Inr:
  assumes ok: "db_ok env t" and run: "getCredentialByUserIDQuery env uid now t = (Inr r, t')"
  shows "uuid_in env uid = Some (ac_user_id r)" "uuid_in env (ac_user_id r) = Some (ac_user_id r)"
    "accounts (view_of t) (ac_user_id r) = Some (account_of r)"
proof -
  from run obtain u where u: "uuid_in env uid = Some u"
    by (auto simp: getCredentialByUserIDQuery_def split: option.splits)
  with run have "r \<in> set (filter (\<lambda>r. ac_user_id r = u) (credentials t))"
    by (auto simp: getCredentialByUserIDQuery_def simp del: set_filter split: list.splits)
  then have r: "r \<in> set (credentials t)" "ac_user_id r = u" by auto
  with u show "uuid_in env uid = Some (ac_user_id r)" by simp
  show "accounts (view_of t) (ac_user_id r) = Some (account_of r)"
    using lookup_by_mem [OF db_ok_keys(1) [OF ok] r(1)] by (simp add: view_fields)
  show "uuid_in env (ac_user_id r) = Some (ac_user_id r)"
    using ok r(1) by (auto simp: db_ok_def uuids_ok_def users_def)
qed

lemma find_query_Inr:
  assumes env: "db_env_ok env" and ok: "db_ok env t"
    and run: "getCredentialByIdentifierQuery env ident now t = (Inr r, t')"
  shows "accounts (view_of t) (ac_user_id r) = Some (account_of r)"
    "ac_username r = ident \<or> ac_email r = ident"
proof -
  from run have "r \<in> set (filter (\<lambda>r. ac_username r = ident \<or> ac_email r = ident)
      (scan_credentials env (credentials t)))"
    by (auto simp: getCredentialByIdentifierQuery_def simp del: set_filter split: list.splits)
  then have r: "r \<in> set (credentials t)" and "ac_username r = ident \<or> ac_email r = ident"
    by (auto simp: set_scans [OF env])
  then show "ac_username r = ident \<or> ac_email r = ident" by simp
  show "accounts (view_of t) (ac_user_id r) = Some (account_of r)"
    using lookup_by_mem [OF db_ok_keys(1) [OF ok] r] by (simp add: view_fields)
qed

lemma pg_get_ok:
  assumes ok: "store_ok env s" and run: "repo_GetByUserID env tr uid s = (Inr c, s')"
  shows "uuid_in env uid = Some (UserID c) \<and> knows (sview s) c \<and>
    set (Roles c) = granted (sview s) (UserID c)"
proof -
  from run obtain r s1 where sent: "send env (getCredentialByUserIDQuery env uid) s = (Inr r, s1)"
    and att: "attachRoles env tr (credential_of r) s1 = (Inr c, s')"
    by (auto simp: repo_GetByUserID_def split: prod.splits sum.splits)
  from sent obtain now t' where q: "getCredentialByUserIDQuery env uid now (tabs s) = (Inr r, t')"
    by (auto simp: send_Inr)
  note g = get_query_Inr [OF store_okD [OF ok, THEN conjunct2] q]
  have same: "tabs s1 = tabs s"
    using send_frame [of "getCredentialByUserIDQuery env uid" env s] sent by (simp add: frame)
  note a = attach_knows [OF store_ok_tabs [OF ok same] att]
  show ?thesis using g a same by simp
qed

lemma pg_find_ok:
  assumes ok: "store_ok env s" and run: "repo_GetByIdentifier env tr ident s = (Inr c, s')"
  shows "knows (sview s) c \<and> (Username c = ident \<or> Email c = ident) \<and> Roles c = []"
proof -
  from run obtain r s1 where sent: "send env (getCredentialByIdentifierQuery env ident) s = (Inr r, s1)"
    and c: "c = credential_of r"
    by (auto simp: repo_GetByIdentifier_def split: prod.splits sum.splits)
  from sent obtain now t' where "getCredentialByIdentifierQuery env ident now (tabs s) = (Inr r, t')"
    by (auto simp: send_Inr)
  with store_okD [OF ok] show ?thesis by (auto simp: c dest: find_query_Inr)
qed

lemma pg_exists_ok:
  assumes ok: "store_ok env s" and run: "repo_ExistsByEmail env email s = (Inr b, s')"
  shows "b \<longleftrightarrow> email_taken email (sview s)"
  using run store_okD [OF ok]
  by (auto simp: repo_ExistsByEmail_def send_Inr existsCredentialByEmailQuery_def
      email_taken_view [of env] split: prod.splits sum.splits)

subsection \<open>Writes of one statement\<close>

lemma pg_create_ok:
  assumes ok: "store_ok env s" and run: "repo_Create env tr p s = (Inr c, s')"
  shows "uuid_in env (UserID_cc p) = Some (UserID c) \<and> accounts (sview s) (UserID c) = None \<and>
    \<not> email_taken (Email_cc p) (sview s) \<and> Email c = Email_cc p \<and> knows (sview s') c \<and>
    sview s' = spec_create (UserID c) (Email_cc p) (Username_cc p) (PasswordHash_cc p) (sview s)"
proof -
  let ?q = "createCredentialQuery env (UserID_cc p) (Email_cc p) (Username_cc p) (PasswordHash_cc p)"
  from run obtain r s1 where sent: "send env ?q s = (Inr r, s1)"
    and att: "attachRoles env tr (credential_of r) s1 = (Inr c, s')"
    by (auto simp: repo_Create_def split: prod.splits sum.splits)
  from sent obtain now where q: "?q now (tabs s) = (Inr r, tabs s1)" by (auto simp: send_Inr)
  from create_credential_refines [OF store_okD [OF ok, THEN conjunct2] q] obtain u where
    u: "uuid_in env (UserID_cc p) = Some u" "accounts (sview s) u = None"
      "\<not> email_taken (Email_cc p) (sview s)"
      "sview s1 = spec_create u (Email_cc p) (Username_cc p) (PasswordHash_cc p) (sview s)"
    and r: "ac_user_id r = u" "ac_email r = Email_cc p" "ac_username r = Username_cc p"
      "ac_password_hash r = PasswordHash_cc p" "\<not> ac_email_verified r"
      "ac_status r = CredentialStatusPendingRegistration" .
  have ok1: "store_ok env s1" using send_store_ok [OF ok, of ?q] sent by (simp add: keeps)
  note a = attach_knows [OF ok1 att]
  have "knows (sview s1) (credential_of r)" by (simp add: u(4) r spec_create_def account_of_def)
  with a u r show ?thesis by simp
qed

lemma pg_verify_ok:
  assumes ok: "store_ok env s" and run: "repo_VerifyRegistrationEmail env tr uid h at s = (Inr c, s')"
  shows "uuid_in env uid = Some (UserID c) \<and> code_available (UserID c) h at (sview s) \<and>
    knows (sview s') c \<and> sview s' = spec_verify (UserID c) h at (sview s)"
proof -
  let ?q = "verifyRegistrationEmailQuery env uid h at"
  from run obtain r s1 where sent: "send env ?q s = (Inr r, s1)"
    and att: "attachRoles env tr (credential_of r) s1 = (Inr c, s')"
    by (auto simp: repo_VerifyRegistrationEmail_def split: prod.splits sum.splits)
  from sent obtain now where q: "?q now (tabs s) = (Inr r, tabs s1)" by (auto simp: send_Inr)
  from q obtain u where u: "uuid_in env uid = Some u"
    by (auto simp: verifyRegistrationEmailQuery_def split: option.splits)
  note v = verify_refines [OF store_okD [OF ok, THEN conjunct2] u, of h at]
  from v(1) [of now, unfolded q] have av: "code_available u h at (sview s)"
    and r: "r = (the (lookup_by ac_user_id (credentials (tabs s)) u))\<lparr>ac_email_verified := True,
      ac_status := ''email_verified'', ac_updated_at := now\<rparr>"
    by (simp_all split: if_splits)
  from v(2) [OF av] obtain r0 where r0: "lookup_by ac_user_id (credentials (tabs s)) u = Some r0"
    by (auto simp: view_fields)
  have w: "sview s1 = spec_verify u h at (sview s)" using v(3) [of now] av q by simp
  have id: "ac_user_id r = u" using r0 r lookup_by_Some [OF r0] by simp
  have ok1: "store_ok env s1" using send_store_ok [OF ok, of ?q] sent by (simp add: keeps)
  note a = attach_knows [OF ok1 att]
  have "knows (sview s1) (credential_of r)"
    using r0 by (simp add: w id spec_verify_def view_fields)
      (simp add: r account_of_def CredentialStatusEmailVerified_def)
  with a u av w id show ?thesis by simp
qed

lemma pg_code_ok:
  assumes "repo_CreateVerificationCode env tr p s = (Inr x, s')"
  shows "\<exists>u. uuid_in env (UserID_vc p) = Some u \<and> accounts (sview s) u \<noteq> None \<and>
    sview s' = spec_add_code u (TokenHash_vc p) (ExpiresAt_vc p) (sview s)"
  using assms
  by (auto simp: repo_CreateVerificationCode_def send_Inr split: prod.splits sum.splits
      elim!: create_code_refines)

lemma pg_token_ok:
  assumes "repo_CreateRefreshToken env tr p s = (Inr x, s')"
  shows "\<exists>i u. uuid_in env (ID_rt p) = Some i \<and> uuid_in env (UserID_rt p) = Some u \<and>
    accounts (sview s) u \<noteq> None \<and> sessions (sview s) i = None \<and>
    sview s' = spec_add_session i u (TokenHash_rt p) (ExpiresAt_rt p) (sview s)"
  using assms
  by (auto simp: repo_CreateRefreshToken_def send_Inr split: prod.splits sum.splits
      elim!: create_token_refines)

lemma pg_deactivate_ok:
  assumes ok: "store_ok env s" and run: "repo_DeactivateRegistrationAuth env tr uid s = (Inr x, s')"
  shows "\<exists>u. uuid_in env uid = Some u \<and> accounts (sview s) u \<noteq> None \<and> sview s' = spec_deactivate u (sview s)"
proof -
  let ?q = "deactivateRegistrationAuthQuery env uid"
  from run obtain k where sent: "send env ?q s = (Inr k, s')" and k: "k \<noteq> 0"
    by (auto simp: repo_DeactivateRegistrationAuth_def RowsAffected_def
        split: prod.splits sum.splits option.splits if_splits)
  from sent obtain now where q: "?q now (tabs s) = (Inr k, tabs s')" by (auto simp: send_Inr)
  with deactivate_refines [OF store_okD [OF ok, THEN conjunct2] q] k show ?thesis by metis
qed

lemma pg_delete_ok:
  assumes ok: "store_ok env s" and run: "repo_DeleteByUserID env tr uid s = (Inr x, s')"
  shows "\<exists>u. uuid_in env uid = Some u \<and> accounts (sview s) u \<noteq> None \<and> sview s' = spec_delete u (sview s)"
proof -
  let ?q = "deleteCredentialByUserIDQuery env uid"
  from run obtain k where sent: "send env ?q s = (Inr k, s')" and k: "k \<noteq> 0"
    by (auto simp: repo_DeleteByUserID_def RowsAffected_def
        split: prod.splits sum.splits option.splits if_splits)
  from sent obtain now where q: "?q now (tabs s) = (Inr k, tabs s')" by (auto simp: send_Inr)
  with delete_refines [OF store_okD [OF ok, THEN conjunct2] q] k show ?thesis by metis
qed

subsection \<open>The invariant of the tables gives the invariant of the view\<close>

lemma db_view_ok:
  assumes ok: "db_ok env t"
  shows "view_ok (view_of t)"
  unfolding view_ok_def
proof (intro conjI allI impI)
  fix u u' a a'
  assume "accounts (view_of t) u = Some a" "accounts (view_of t) u' = Some a'" "acc_email a = acc_email a'"
  then obtain r r' where "r \<in> set (credentials t)" "r' \<in> set (credentials t)" "ac_user_id r = u"
    "ac_user_id r' = u'" "ac_email r = ac_email r'"
    by (auto simp: view_fields dest!: lookup_by_Some)
  with db_ok_keys(4) [OF ok] show "u = u'" by (auto simp: distinct_map dest: inj_onD)
next
  fix u a assume "accounts (view_of t) u = Some a"
  then obtain r where "r \<in> set (credentials t)" "a = account_of r"
    by (auto simp: view_fields dest!: lookup_by_Some)
  with ok show "acc_verified a \<longleftrightarrow> acc_status a = CredentialStatusEmailVerified"
    by (auto simp: db_ok_def statuses_ok_def status_ok_def)
next
  fix i q assume "sessions (view_of t) i = Some q"
  then obtain r where "r \<in> set (tokens t)" "q = session_of r"
    by (auto simp: view_fields dest!: lookup_by_Some)
  with ok show "accounts (view_of t) (ses_user q) \<noteq> None"
    by (auto simp: db_ok_def refs_ok_def view_fields users_lookup subset_iff)
next
  fix u h x assume "(u, h, x) \<in> open_codes (view_of t)"
  then obtain r where "r \<in> set (codes t)" "vc_user_id r = u" by (auto simp: view_of_def open_code_def)
  with ok show "accounts (view_of t) u \<noteq> None"
    by (auto simp: db_ok_def refs_ok_def view_fields users_lookup subset_iff)
qed

subsection \<open>The contract under any database\<close>

lemma pg_rotate_run:
  assumes "store_ok env s" and "repo_RotateRefreshToken env tr p s = (r, s')"
  shows "store_ok env s' \<and> (sview s' = sview s \<or> effect_rotate (uuid_in env) p (sview s) (sview s'))"
  using assms
proof (cases rule: rotate_cases)
  case (kept e)
  with assms(1) show ?thesis by (auto intro: store_ok_tabs)
next
  case (committed i q i')
  then have "effect_rotate (uuid_in env) p (sview s) (sview s')" unfolding effect_rotate_def by blast
  with committed show ?thesis by blast
qed

lemma pg_rotate_ok:
  assumes "store_ok env s" and "repo_RotateRefreshToken env tr ro s = (Inr c, s')"
  shows "\<exists>i q i'. sessions (sview s) i = Some q \<and> ses_hash q = CurrentTokenHash_ro ro \<and>
    live_at (Now_ro ro) q \<and> UserID c = ses_user q \<and> knows (sview s) c \<and>
    set (Roles c) = granted (sview s) (UserID c) \<and>
    uuid_in env (NewTokenID_ro ro) = Some i' \<and> sessions (sview s) i' = None \<and>
    sview s' = spec_add_session i' (ses_user q) (NewTokenHash_ro ro) (NewExpiresAt_ro ro)
      (spec_revoke i (Now_ro ro) (sview s))"
  using assms
proof (cases rule: rotate_cases)
  case (committed i q i')
  then show ?thesis by (intro exI [of _ i] exI [of _ q] exI [of _ i']) simp
qed simp

lemma pg_revoke_run:
  assumes "store_ok env s" and "repo_RevokeRefreshToken env tr p s = (r, s')"
  shows "store_ok env s' \<and> (sview s' = sview s \<or> effect_revoke p (sview s) (sview s'))"
  using assms
proof (cases rule: revoke_cases)
  case (kept e)
  with assms(1) show ?thesis by (auto intro: store_ok_tabs)
next
  case (committed i q)
  then have "effect_revoke p (sview s) (sview s')" unfolding effect_revoke_def by blast
  with committed show ?thesis by blast
qed

lemma pg_revoke_ok:
  assumes "store_ok env s" and "repo_RevokeRefreshToken env tr rv s = (Inr c, s')"
  shows "\<exists>i q. sessions (sview s) i = Some q \<and> ses_hash q = CurrentTokenHash_rv rv \<and>
    live_at (Now_rv rv) q \<and> UserID c = ses_user q \<and> knows (sview s) c \<and>
    sview s' = spec_revoke i (Now_rv rv) (sview s)"
  using assms
proof (cases rule: revoke_cases)
  case (committed i q)
  then show ?thesis by (intro exI [of _ i] exI [of _ q]) simp
qed simp

lemma pg_run:
  assumes "store_ok env s"
  shows "repo_Create env tr cp s = (r, s') \<Longrightarrow> store_ok env s' \<and> (sview s' = sview s \<or> effect_create (uuid_in env) cp (sview s) (sview s'))"
    and "repo_CreateVerificationCode env tr vp s = (ru, s') \<Longrightarrow> store_ok env s' \<and> (sview s' = sview s \<or> effect_code (uuid_in env) vp (sview s) (sview s'))"
    and "repo_VerifyRegistrationEmail env tr uid h at s = (r, s') \<Longrightarrow> store_ok env s' \<and> (sview s' = sview s \<or> effect_verify (uuid_in env) uid h at (sview s) (sview s'))"
    and "repo_CreateRefreshToken env tr rp s = (ru, s') \<Longrightarrow> store_ok env s' \<and> (sview s' = sview s \<or> effect_token (uuid_in env) rp (sview s) (sview s'))"
    and "repo_DeactivateRegistrationAuth env tr uid s = (ru, s') \<Longrightarrow> store_ok env s' \<and> (sview s' = sview s \<or> effect_deactivate (uuid_in env) uid (sview s) (sview s'))"
    and "repo_DeleteByUserID env tr uid s = (ru, s') \<Longrightarrow> store_ok env s' \<and> (sview s' = sview s \<or> effect_delete (uuid_in env) uid (sview s) (sview s'))"
  using one_statement_ok [OF assms] one_statement_effect [OF assms] by (metis snd_conv)+

lemma pg_read:
  assumes "store_ok env s"
  shows "repo_GetByUserID env tr uid s = (r, s') \<Longrightarrow> store_ok env s' \<and> sview s' = sview s"
    and "repo_GetByIdentifier env tr uid s = (r, s') \<Longrightarrow> store_ok env s' \<and> sview s' = sview s"
    and "repo_ExistsByEmail env uid s = (rb, s') \<Longrightarrow> store_ok env s' \<and> sview s' = sview s"
  using read_ok [OF assms] read_tabs by (metis snd_conv)+

lemmas pg_methods = AuthRepository.select_convs pg_repository_def

lemma store_view_ok: "store_ok env s \<Longrightarrow> view_ok (sview s)"
  by (auto simp: store_ok_def intro: db_view_ok)

lemma store_norm: "store_ok env s \<Longrightarrow> accounts (sview s) u \<noteq> None \<Longrightarrow> uuid_in env u = Some u"
  by (auto simp: store_ok_def db_ok_def uuids_ok_def users_lookup view_fields)

lemma store_plain: "store_ok env s \<Longrightarrow> uuid_in env x = Some u \<Longrightarrow> u \<noteq> [] \<and> TrimSpace u = u"
  by (auto simp: store_ok_def dest: db_env_okD(2))

lemmas pg_laws = store_view_ok store_norm store_plain pg_run pg_read pg_rotate_run pg_revoke_run pg_create_ok pg_verify_ok
  pg_code_ok pg_token_ok pg_deactivate_ok pg_delete_ok pg_rotate_ok pg_revoke_ok pg_get_ok
  pg_find_ok pg_exists_ok

interpretation pg: auth_repository "pg env" sview "store_ok env" "uuid_in env" for env
  by unfold_locales (unfold pg_methods, (rule pg_laws, assumption+)+)

subsection \<open>A database that does not fail\<close>

lemma send_reliable: "fault_free env \<Longrightarrow> send env stmt s =
    (fst (stmt (db_now env (ticks s)) (tabs s)),
     s\<lparr>tabs := snd (stmt (db_now env (ticks s)) (tabs s)), ticks := Suc (ticks s)\<rparr>)"
  by (simp add: send_fault_free Let_def)

lemma attach_reliable:
  assumes "fault_free env" "uuid_in env (UserID c) = Some u"
  obtains d where "attachRoles env tr c s = (Inr d, snd (attachRoles env tr c s))"
  using assms by (auto simp: attachRoles_def repo_ListRolesByUserID_def send_reliable
      listRolesByUserIDQuery_def)

lemma create_reliable:
  assumes ff: "fault_free env" and ok: "store_ok env s" and run: "repo_Create env tr p s = (Inl e, s')"
  obtains err where "send env (createCredentialQuery env (UserID_cc p) (Email_cc p) (Username_cc p)
      (PasswordHash_cc p)) s = (Inl err, s')" "e = TranslateCreateCredentialError tr err" "tabs s' = tabs s"
proof -
  let ?q = "createCredentialQuery env (UserID_cc p) (Email_cc p) (Username_cc p) (PasswordHash_cc p)"
  obtain r s1 where sent: "send env ?q s = (r, s1)" by fastforce
  show thesis
  proof (cases r)
    case (Inl err)
    with sent ff create_credential_refused [of env "UserID_cc p" "Email_cc p" "Username_cc p" "PasswordHash_cc p"]
    have "tabs s1 = tabs s" by (auto simp: send_reliable) (metis prod.collapse)
    with Inl sent run show thesis by (intro that) (auto simp: repo_Create_def)
  next
    case (Inr row)
    with sent obtain now where "?q now (tabs s) = (Inr row, tabs s1)" by (auto simp: send_Inr)
    from create_credential_refines [OF store_okD [OF ok, THEN conjunct2] this]
    obtain u where "uuid_in env (UserID_cc p) = Some u" "ac_user_id row = u" by metis
    with db_env_okD(1) [OF store_okD [OF ok, THEN conjunct1]]
    have "uuid_in env (UserID (credential_of row)) = Some u" by simp
    from attach_reliable [OF ff this] Inr sent run show thesis
      by (metis (no_types, lifting) Inl_Inr_False fst_conv old.prod.case old.sum.simps(6) repo_Create_def)
  qed
qed

lemma verify_reliable:
  assumes ff: "fault_free env" and ok: "store_ok env s" and u: "uuid_in env uid = Some u"
    and av: "code_available u h at (sview s)"
  obtains c s' where "repo_VerifyRegistrationEmail env tr uid h at s = (Inr c, s')"
proof -
  note v = verify_refines [OF store_okD [OF ok, THEN conjunct2] u, of h at]
  define now where "now = db_now env (ticks s)"
  define r where "r = (the (lookup_by ac_user_id (credentials (tabs s)) u))\<lparr>ac_email_verified := True,
      ac_status := ''email_verified'', ac_updated_at := now\<rparr>"
  from v(2) [OF av] obtain r0 where r0: "lookup_by ac_user_id (credentials (tabs s)) u = Some r0"
    by (auto simp: view_fields)
  then have "ac_user_id r = u" by (auto simp: r_def dest: lookup_by_Some)
  with db_env_okD(1) [OF store_okD [OF ok, THEN conjunct1] u]
  have id: "uuid_in env (UserID (credential_of r)) = Some u" by simp
  have "fst (verifyRegistrationEmailQuery env uid h at now (tabs s)) = Inr r"
    unfolding r_def by (subst v(1)) (simp add: av)
  then obtain s1 where sent: "send env (verifyRegistrationEmailQuery env uid h at) s = (Inr r, s1)"
    by (simp add: send_reliable [OF ff] now_def)
  from attach_reliable [OF ff id, of tr s1] obtain d where
    "attachRoles env tr (credential_of r) s1 = (Inr d, snd (attachRoles env tr (credential_of r) s1))" .
  with sent show thesis
    by (intro that) (simp only: repo_VerifyRegistrationEmail_def prod.case sum.case)
qed

lemma pg_write_err:
  assumes ff: "fault_free env" and ok: "store_ok env s"
  shows "repo_Create env tr p s = (Inl e, s') \<Longrightarrow> sview s' = sview s"
    and "repo_CreateVerificationCode env tr vp s = (Inl e, s') \<Longrightarrow> sview s' = sview s"
    and "repo_CreateRefreshToken env tr rp s = (Inl e, s') \<Longrightarrow> sview s' = sview s"
proof -
  show "repo_Create env tr p s = (Inl e, s') \<Longrightarrow> sview s' = sview s"
    by (erule create_reliable [OF ff ok]) simp
  show "sview s' = sview s" if "repo_CreateVerificationCode env tr vp s = (Inl e, s')"
    using that create_code_refused [of env "ID_vc vp" "UserID_vc vp" "TokenHash_vc vp" "ExpiresAt_vc vp"]
    by (auto simp: repo_CreateVerificationCode_def send_reliable [OF ff] split: sum.splits)
      (metis prod.collapse)
  show "sview s' = sview s" if "repo_CreateRefreshToken env tr rp s = (Inl e, s')"
    using that create_token_refused [of env "ID_rt rp" "UserID_rt rp" "TokenHash_rt rp" "ExpiresAt_rt rp"]
    by (auto simp: repo_CreateRefreshToken_def send_reliable [OF ff] split: sum.splits)
      (metis prod.collapse)
qed

lemma pg_verify_err:
  assumes ff: "fault_free env" and ok: "store_ok env s"
    and run: "repo_VerifyRegistrationEmail env tr uid h at s = (Inl e, s')"
  shows "sview s' = sview s"
proof (cases "uuid_in env uid")
  case None
  with run show ?thesis
    by (simp add: repo_VerifyRegistrationEmail_def send_reliable [OF ff] verifyRegistrationEmailQuery_def)
      auto
next
  case (Some u)
  show ?thesis
  proof (cases "code_available u h at (sview s)")
    case True
    with verify_reliable [OF ff ok Some] run show ?thesis by (metis Inl_Inr_False fst_conv)
  next
    case False
    note v = verify_refines(1,3) [OF store_okD [OF ok, THEN conjunct2] Some, of h at "db_now env (ticks s)"]
    from v(1) False have "fst (verifyRegistrationEmailQuery env uid h at (db_now env (ticks s)) (tabs s)) = Inl ErrNoRows"
      by (metis fst_conv)
    with v(2) False run show ?thesis
      by (auto simp: repo_VerifyRegistrationEmail_def send_reliable [OF ff])
  qed
qed

lemma pg_verify_none:
  assumes ff: "fault_free env" and ok: "store_ok env s" and u: "uuid_in env uid = Some u"
    and none: "\<not> code_available u h at (sview s)"
  shows "fst (repo_VerifyRegistrationEmail env NewPgErrorTranslator uid h at s) = Inl ErrInvalidVerificationCode"
proof -
  have "fst (verifyRegistrationEmailQuery env uid h at (db_now env (ticks s)) (tabs s)) = Inl ErrNoRows"
    using verify_refines(1) [OF store_okD [OF ok, THEN conjunct2] u, of h at] none by (metis fst_conv)
  then show ?thesis
    by (simp add: repo_VerifyRegistrationEmail_def send_reliable [OF ff] pg_translator.verify_none)
qed

lemma pg_row_err:
  assumes ff: "fault_free env" and ok: "store_ok env s"
  shows "repo_DeactivateRegistrationAuth env tr uid s = (Inl e, s') \<Longrightarrow> sview s' = sview s"
    and "repo_DeleteByUserID env tr uid s = (Inl e, s') \<Longrightarrow> sview s' = sview s"
proof -
  note db = store_okD [OF ok, THEN conjunct2]
  have rows: "RowsAffected env s n = Inr n" for n using ff by (simp add: RowsAffected_def fault_free_def)
  let ?q = "deactivateRegistrationAuthQuery env uid" and ?d = "deleteCredentialByUserIDQuery env uid"
  show "sview s' = sview s" if run: "repo_DeactivateRegistrationAuth env tr uid s = (Inl e, s')"
  proof (cases "?q (db_now env (ticks s)) (tabs s)")
    case (Pair r t')
    with run show ?thesis
      by (cases r) (auto simp: repo_DeactivateRegistrationAuth_def send_reliable [OF ff] rows
          spec_deactivate_absent dest: deactivate_refused elim!: deactivate_refines [OF db] split: if_splits)
  qed
  show "sview s' = sview s" if run: "repo_DeleteByUserID env tr uid s = (Inl e, s')"
  proof (cases "?d (db_now env (ticks s)) (tabs s)")
    case (Pair r t')
    with run show ?thesis
      by (cases r) (auto simp: repo_DeleteByUserID_def send_reliable [OF ff] rows
          dest: delete_refused elim!: delete_refines [OF db] split: if_splits)
  qed
qed

lemma pg_row_answers:
  assumes ff: "fault_free env" and ok: "store_ok env s" and u: "uuid_in env uid = Some u"
  shows "accounts (sview s) u \<noteq> None \<Longrightarrow> \<exists>s'. repo_DeactivateRegistrationAuth env tr uid s = (Inr (), s')"
    and "accounts (sview s) u = None \<Longrightarrow> fst (repo_DeactivateRegistrationAuth env tr uid s) = Inl ErrAuthNotFound"
    and "accounts (sview s) u \<noteq> None \<Longrightarrow> \<exists>s'. repo_DeleteByUserID env tr uid s = (Inr (), s')"
    and "accounts (sview s) u = None \<Longrightarrow> fst (repo_DeleteByUserID env tr uid s) = Inl ErrAuthNotFound"
proof -
  note db = store_okD [OF ok, THEN conjunct2]
  have rows: "RowsAffected env s n = Inr n" for n using ff by (simp add: RowsAffected_def fault_free_def)
  let ?k = "if accounts (sview s) u = None then 0 else 1 :: nat"
  have "fst (deactivateRegistrationAuthQuery env uid (db_now env (ticks s)) (tabs s)) = Inr ?k"
  proof (cases "deactivateRegistrationAuthQuery env uid (db_now env (ticks s)) (tabs s)")
    case (Pair r t')
    with u have "\<exists>k. r = Inr k" by (auto simp: deactivateRegistrationAuthQuery_def split: prod.splits)
    with Pair u show ?thesis by (auto elim!: deactivate_refines [OF db])
  qed
  moreover have "fst (deleteCredentialByUserIDQuery env uid (db_now env (ticks s)) (tabs s)) = Inr ?k"
  proof (cases "deleteCredentialByUserIDQuery env uid (db_now env (ticks s)) (tabs s)")
    case (Pair r t')
    with u have "\<exists>k. r = Inr k" by (auto simp: deleteCredentialByUserIDQuery_def Let_def split: if_splits)
    with Pair u show ?thesis by (auto elim!: delete_refines [OF db])
  qed
  ultimately show "accounts (sview s) u \<noteq> None \<Longrightarrow> \<exists>s'. repo_DeactivateRegistrationAuth env tr uid s = (Inr (), s')"
    "accounts (sview s) u = None \<Longrightarrow> fst (repo_DeactivateRegistrationAuth env tr uid s) = Inl ErrAuthNotFound"
    "accounts (sview s) u \<noteq> None \<Longrightarrow> \<exists>s'. repo_DeleteByUserID env tr uid s = (Inr (), s')"
    "accounts (sview s) u = None \<Longrightarrow> fst (repo_DeleteByUserID env tr uid s) = Inl ErrAuthNotFound"
    by (simp_all add: repo_DeactivateRegistrationAuth_def repo_DeleteByUserID_def send_reliable [OF ff] rows)
qed

lemma pg_code_live:
  assumes ff: "fault_free env" and u: "uuid_in env (UserID_vc p) = Some u" "accounts (sview s) u \<noteq> None"
    and i: "uuid_in env (ID_vc p) = Some i"
  shows "(\<exists>s'. repo_CreateVerificationCode env NewPgErrorTranslator p s = (Inr (), s')) \<or>
    fst (repo_CreateVerificationCode env NewPgErrorTranslator p s) = Inl ErrFailedToCreateVerificationCode"
proof -
  have "list_ex (\<lambda>r. ac_user_id r = u) (credentials (tabs s))"
    using u(2) by (auto simp: view_fields lookup_by_None)
  with u(1) i show ?thesis
    by (auto simp: repo_CreateVerificationCode_def send_reliable [OF ff] createVerificationCodeQuery_def Let_def
        NewPgErrorTranslator_def translator_defs sqlstate_defs simp del: list_ex_simp)
qed

lemma pg_create_answers:
  assumes ff: "fault_free env" and ok: "store_ok env s" and u: "uuid_in env (UserID_cc p) = Some u"
  shows "accounts (sview s) u = None \<Longrightarrow> \<not> email_taken (Email_cc p) (sview s) \<Longrightarrow>
      \<exists>c s'. repo_Create env NewPgErrorTranslator p s = (Inr c, s')"
    and "accounts (sview s) u \<noteq> None \<Longrightarrow>
      fst (repo_Create env NewPgErrorTranslator p s) = Inl ErrAuthCredentialsAlreadyExist"
    and "accounts (sview s) u = None \<Longrightarrow> email_taken (Email_cc p) (sview s) \<Longrightarrow>
      fst (repo_Create env NewPgErrorTranslator p s) = Inl ErrEmailAlreadyTaken"
proof -
  let ?q = "createCredentialQuery env (UserID_cc p) (Email_cc p) (Username_cc p) (PasswordHash_cc p)"
  note db = store_okD [OF ok, THEN conjunct2]
  have key: "list_ex (\<lambda>r. ac_user_id r = u) (credentials (tabs s)) \<longleftrightarrow> accounts (sview s) u \<noteq> None"
    by (auto simp: view_fields lookup_by_None)
  have mail: "list_ex (\<lambda>r. ac_email r = Email_cc p) (credentials (tabs s)) \<longleftrightarrow> email_taken (Email_cc p) (sview s)"
    by (simp add: email_taken_view [OF db])
  show "\<exists>c s'. repo_Create env NewPgErrorTranslator p s = (Inr c, s')"
    if "accounts (sview s) u = None" "\<not> email_taken (Email_cc p) (sview s)"
  proof (cases "repo_Create env NewPgErrorTranslator p s")
    case (Pair r s')
    have "\<exists>row. fst (?q (db_now env (ticks s)) (tabs s)) = Inr row"
      using that key mail u by (simp add: createCredentialQuery_def Let_def del: list_ex_simp)
    with Pair show ?thesis
      by (cases r) (auto simp: send_reliable [OF ff] elim!: create_reliable [OF ff ok])
  qed
  show "fst (repo_Create env NewPgErrorTranslator p s) = Inl ErrAuthCredentialsAlreadyExist"
    if "accounts (sview s) u \<noteq> None"
    using that key u by (simp add: repo_Create_def send_reliable [OF ff] createCredentialQuery_def
        pg_translator.create_pkey del: list_ex_simp)
  show "fst (repo_Create env NewPgErrorTranslator p s) = Inl ErrEmailAlreadyTaken"
    if "accounts (sview s) u = None" "email_taken (Email_cc p) (sview s)"
    using that key mail u by (simp add: repo_Create_def send_reliable [OF ff] createCredentialQuery_def
        pg_translator.create_email del: list_ex_simp)
qed

lemma token_accepted:
  assumes "uuid_in env tid = Some i" "sessions (view_of t) i = None"
    and "uuid_in env uid = Some u" "accounts (view_of t) u \<noteq> None"
  shows "fst (createRefreshTokenQuery env tid uid h x now t) = Inr ()"
proof -
  have "\<not> list_ex (\<lambda>r. rt_id r = i) (tokens t)" "list_ex (\<lambda>r. ac_user_id r = u) (credentials t)"
    using assms(2,4) by (auto simp: view_fields lookup_by_None)
  with assms(1,3) show ?thesis by (simp add: createRefreshTokenQuery_def Let_def del: list_ex_simp)
qed

lemma pg_token_live:
  assumes ff: "fault_free env" and i: "uuid_in env (ID_rt p) = Some i" "sessions (sview s) i = None"
    and u: "uuid_in env (UserID_rt p) = Some u" "accounts (sview s) u \<noteq> None"
  shows "\<exists>s'. repo_CreateRefreshToken env tr p s = (Inr (), s')"
  by (simp add: repo_CreateRefreshToken_def send_reliable [OF ff] token_accepted [OF i u])

lemma pg_get_live:
  assumes ff: "fault_free env" and ok: "store_ok env s" and u: "uuid_in env uid = Some u"
    and known: "accounts (sview s) u \<noteq> None"
  shows "\<exists>c s'. repo_GetByUserID env tr uid s = (Inr c, s')"
proof -
  from known obtain r rs where rows: "filter (\<lambda>r. ac_user_id r = u) (credentials (tabs s)) = r # rs"
    by (cases "filter (\<lambda>r. ac_user_id r = u) (credentials (tabs s))")
      (auto simp: view_fields lookup_by_None filter_empty_conv)
  then have r: "ac_user_id r = u" by (metis (mono_tags, lifting) filter_eq_ConsD)
  have id: "uuid_in env (UserID (credential_of r)) = Some u"
    using db_env_okD(1) [OF store_okD [OF ok, THEN conjunct1] u] r by simp
  obtain s1 where sent: "send env (getCredentialByUserIDQuery env uid) s = (Inr r, s1)"
    by (simp add: send_reliable [OF ff] getCredentialByUserIDQuery_def u rows)
  from attach_reliable [OF ff id, of tr s1] obtain d where
    "attachRoles env tr (credential_of r) s1 = (Inr d, snd (attachRoles env tr (credential_of r) s1))" .
  with sent show ?thesis
    by (intro exI) (simp only: repo_GetByUserID_def prod.case sum.case)
qed

lemma pg_find_live:
  assumes ff: "fault_free env" and ok: "store_ok env s" and known: "accounts (sview s) u = Some a"
    and ident: "acc_email a = ident \<or> acc_username a = ident"
  shows "\<exists>c s'. repo_GetByIdentifier env tr ident s = (Inr c, s')"
proof -
  let ?P = "\<lambda>r. ac_username r = ident \<or> ac_email r = ident"
  from known obtain r where "r \<in> set (credentials (tabs s))" "a = account_of r"
    by (auto simp: view_fields dest!: lookup_by_Some)
  with ident store_okD [OF ok] have "filter ?P (scan_credentials env (credentials (tabs s))) \<noteq> []"
    by (auto simp: filter_empty_conv set_scans)
  then obtain x xs where "filter ?P (scan_credentials env (credentials (tabs s))) = x # xs"
    by (meson neq_Nil_conv)
  then show ?thesis
    by (simp add: repo_GetByIdentifier_def send_reliable [OF ff] getCredentialByIdentifierQuery_def)
qed

subsection \<open>Transactions when nothing fails\<close>

text \<open>The first row of the scan with the hash decides the answer.\<close>

lemma load_unknown:
  assumes ff: "fault_free env" and ok: "store_ok env s"
    and none: "\<And>i q. sessions (sview s) i = Some q \<Longrightarrow> ses_hash q \<noteq> h"
  shows "fst (loadRefreshTokenForMutation env tr (refreshTokenForRotationQuery env h) at s)
    = Inl ErrInvalidRefreshToken"
proof (cases "refreshTokenForRotationQuery env h (db_now env (ticks s)) (tabs s)")
  case (Pair r t')
  show ?thesis
  proof (cases r)
    case (Inl e)
    with Pair rotation_query_Inl(2) [OF store_okD [OF ok, THEN conjunct1] store_okD [OF ok, THEN conjunct2]]
    have "e = ErrNoRows" by blast
    with Pair Inl show ?thesis by (simp add: loadRefreshTokenForMutation_def send_reliable [OF ff])
  next
    case (Inr x)
    obtain rt ac where "x = (rt, ac)" by (cases x)
    with Inr Pair none rotation_query_Inr(3,6) [OF store_okD [OF ok, THEN conjunct1] store_okD [OF ok, THEN conjunct2]]
    show ?thesis by (metis session_of_fields(2))
  qed
qed

lemma load_first:
  assumes ff: "fault_free env" and ok: "store_ok env s"
    and some: "sessions (sview s) i = Some q" "ses_hash q = h"
  obtains j q' where "sessions (sview s) j = Some q'" "ses_hash q' = h"
    "ses_revoked q' \<noteq> None \<Longrightarrow>
      fst (loadRefreshTokenForMutation env tr (refreshTokenForRotationQuery env h) at s) = Inl ErrRefreshTokenRevoked"
    "ses_revoked q' = None \<Longrightarrow> \<not> at < ses_expires q' \<Longrightarrow>
      fst (loadRefreshTokenForMutation env tr (refreshTokenForRotationQuery env h) at s) = Inl ErrRefreshTokenExpired"
    "live_at at q' \<Longrightarrow> \<exists>row. fst (loadRefreshTokenForMutation env tr (refreshTokenForRotationQuery env h) at s) = Inr row"
proof -
  note db = store_okD [OF ok, THEN conjunct1] store_okD [OF ok, THEN conjunct2]
  obtain r t' where run: "refreshTokenForRotationQuery env h (db_now env (ticks s)) (tabs s) = (r, t')" by fastforce
  from some obtain x where x: "x \<in> set (tokens (tabs s))" "rt_token_hash x = h"
    by (auto simp: view_fields dest!: lookup_by_Some)
  obtain rt ac where r: "r = Inr (rt, ac)"
  proof (cases r)
    case (Inl e)
    with run x rotation_query_Inl(3) [OF db] have False by blast
    then show thesis ..
  qed (auto intro: that)
  note f = rotation_query_Inr(3,6) [OF db run [unfolded r]]
  show thesis
    by (rule that [OF f(2)])
      (simp_all add: loadRefreshTokenForMutation_def send_reliable [OF ff] run r Let_def f(1)
        scan_rotation_row_def live_at_def)
qed

abbreviation next_tick :: "store \<Rightarrow> store" where
  "next_tick s \<equiv> s\<lparr>ticks := Suc (ticks s)\<rparr>"

lemma begin_reliable: "fault_free env \<Longrightarrow> send env begin_tx s = (Inr (), next_tick s)"
  by (simp add: send_reliable begin_tx_def)

lemma commit_reliable: "fault_free env \<Longrightarrow> commit_tx env s1 s2 = (Inr (), next_tick s2)"
  by (simp add: commit_tx_def fault_free_def Let_def)

lemma load_refused:
  assumes ff: "fault_free env"
    and load: "fst (loadRefreshTokenForMutation env tr (refreshTokenForRotationQuery env h) at (next_tick s)) = Inl e"
  shows "CurrentTokenHash_ro p = h \<Longrightarrow> Now_ro p = at \<Longrightarrow> fst (repo_RotateRefreshToken env tr p s) = Inl e"
    and "CurrentTokenHash_rv p' = h \<Longrightarrow> Now_rv p' = at \<Longrightarrow> fst (repo_RevokeRefreshToken env tr p' s) = Inl e"
  using load by (auto simp: repo_RotateRefreshToken_def repo_RevokeRefreshToken_def begin_reliable [OF ff]
      refreshTokenForRevokeQuery_def split: prod.splits)

lemma revoke_fresh: "sessions (spec_revoke i at v) j = None \<longleftrightarrow> sessions v j = None"
  by (simp add: spec_revoke_def)

lemma revoke_reliable:
  assumes "fault_free env" "uuid_in env i = Some i"
  obtains k s' where "send env (revokeRefreshTokenQuery env i at) s = (Inr k, s')"
  using revoke_token_refines(2) [OF assms(2), of at "db_now env (ticks s)" "tabs s"]
  by (auto simp: send_reliable [OF assms(1)])

lemma token_refused:
  assumes ff: "fault_free env" and u: "uuid_in env uid = Some u" and acc: "accounts (sview s) u \<noteq> None"
    and run: "send env (createRefreshTokenQuery env tid uid h x) s = (Inl e, s')"
  shows "\<nexists>i'. uuid_in env tid = Some i' \<and> sessions (sview s) i' = None"
proof
  assume "\<exists>i'. uuid_in env tid = Some i' \<and> sessions (sview s) i' = None"
  then obtain i' where "uuid_in env tid = Some i'" "sessions (sview s) i' = None" by blast
  from token_accepted [OF this u acc, of h x "db_now env (ticks s)"] run show False
    by (simp add: send_reliable [OF ff])
qed

text \<open>After the load, a rotation fails only when the new token's row is refused.\<close>

lemma rotate_after_load:
  assumes ff: "fault_free env" and ok: "store_ok env s"
    and load: "loadRefreshTokenForMutation env tr (refreshTokenForRotationQuery env (CurrentTokenHash_ro p))
      (Now_ro p) (next_tick s) = (Inr row, s2)"
  obtains (refused) e where "repo_RotateRefreshToken env tr p s = (Inl e, next_tick s\<lparr>ticks := Suc (Suc (Suc (Suc (ticks s))))\<rparr>)"
      "\<nexists>i'. uuid_in env (NewTokenID_ro p) = Some i' \<and> sessions (sview s) i' = None"
  | (rotated) c s' where "repo_RotateRefreshToken env tr p s = (Inr c, s')"
proof -
  have ok1: "store_ok env (next_tick s)" using ok by (simp add: store_ok_def)
  obtain q where "sessions (sview (next_tick s)) (RefreshTokenID_mut row) = Some q"
    "ses_hash q = CurrentTokenHash_ro p" "live_at (Now_ro p) q" "UserID (Credential_mut row) = ses_user q"
    "knows (sview (next_tick s)) (Credential_mut row)"
    "uuid_in env (RefreshTokenID_mut row) = Some (RefreshTokenID_mut row)"
    "uuid_in env (ses_user q) = Some (ses_user q)" "tabs s2 = tabs (next_tick s)"
    by (rule load_Inr [OF ok1 load])
  then have q: "UserID (Credential_mut row) = ses_user q" "knows (sview s) (Credential_mut row)"
    "uuid_in env (RefreshTokenID_mut row) = Some (RefreshTokenID_mut row)"
    "uuid_in env (ses_user q) = Some (ses_user q)" and t2: "tabs s2 = tabs s"
    by simp_all
  have n2: "ticks s2 = Suc (Suc (ticks s))"
    using load by (auto simp: loadRefreshTokenForMutation_def send_reliable [OF ff] Let_def
        split: prod.splits sum.splits if_splits)
  obtain k s3 where rv: "send env (revokeRefreshTokenQuery env (RefreshTokenID_mut row) (Now_ro p)) s2 = (Inr k, s3)"
    using revoke_reliable [OF ff q(3)] .
  have n3: "ticks s3 = Suc (ticks s2)" using rv by (auto simp: send_reliable [OF ff])
  have v3: "sview s3 = spec_revoke (RefreshTokenID_mut row) (Now_ro p) (sview s)"
    using revoke_statement(2) [OF store_ok_tabs [OF ok t2] q(3) rv] t2 by simp
  obtain r4 s4 where cr: "send env (createRefreshTokenQuery env (NewTokenID_ro p)
      (UserID (Credential_mut row)) (NewTokenHash_ro p) (NewExpiresAt_ro p)) s3 = (r4, s4)" by fastforce
  have n4: "ticks s4 = Suc (ticks s3)" using cr by (auto simp: send_reliable [OF ff])
  show thesis
  proof (cases r4)
    case (Inl e)
    have "accounts (sview s3) (ses_user q) \<noteq> None"
      using q(1,2) by (simp add: v3 knows_def spec_revoke_def)
    from token_refused [OF ff _ this cr [unfolded Inl]] q(1,4)
    have "\<nexists>i'. uuid_in env (NewTokenID_ro p) = Some i' \<and> sessions (sview s) i' = None"
      by (simp add: v3 revoke_fresh)
    moreover have "repo_RotateRefreshToken env tr p s =
        (Inl (TranslateRotateRefreshTokenError tr e), next_tick s\<lparr>ticks := Suc (Suc (Suc (Suc (ticks s))))\<rparr>)"
      using Inl load rv cr n2 n3 n4
      by (simp add: repo_RotateRefreshToken_def begin_reliable [OF ff] rollback_def)
    ultimately show thesis by (intro refused)
  next
    case (Inr y)
    from q(1,4) have id: "uuid_in env (UserID (Credential_mut row)) = Some (ses_user q)" by simp
    from attach_reliable [OF ff id, of tr "next_tick s4"] obtain d where
      "attachRoles env tr (Credential_mut row) (next_tick s4) =
        (Inr d, snd (attachRoles env tr (Credential_mut row) (next_tick s4)))" .
    with Inr load rv cr show thesis
      by (intro rotated) (simp only: repo_RotateRefreshToken_def begin_reliable [OF ff]
          commit_reliable [OF ff] prod.case sum.case)
  qed
qed

lemma revoke_after_load:
  assumes ff: "fault_free env" and ok: "store_ok env s"
    and load: "loadRefreshTokenForMutation env tr (refreshTokenForRotationQuery env (CurrentTokenHash_rv p))
      (Now_rv p) (next_tick s) = (Inr row, s2)"
  obtains c s' where "repo_RevokeRefreshToken env tr p s = (Inr c, s')"
proof -
  have ok1: "store_ok env (next_tick s)" using ok by (simp add: store_ok_def)
  obtain q where q: "sessions (sview (next_tick s)) (RefreshTokenID_mut row) = Some q"
    "ses_hash q = CurrentTokenHash_rv p" "live_at (Now_rv p) q" "UserID (Credential_mut row) = ses_user q"
    "knows (sview (next_tick s)) (Credential_mut row)"
    "uuid_in env (RefreshTokenID_mut row) = Some (RefreshTokenID_mut row)"
    "uuid_in env (ses_user q) = Some (ses_user q)" "tabs s2 = tabs (next_tick s)"
    by (rule load_Inr [OF ok1 load])
  obtain k s3 where rv: "send env (revokeRefreshTokenQuery env (RefreshTokenID_mut row) (Now_rv p)) s2 = (Inr k, s3)"
    using revoke_reliable [OF ff q(6)] .
  from q(4,7) have id: "uuid_in env (UserID (Credential_mut row)) = Some (ses_user q)" by simp
  from attach_reliable [OF ff id, of tr "next_tick s3"] obtain d where
    "attachRoles env tr (Credential_mut row) (next_tick s3) =
      (Inr d, snd (attachRoles env tr (Credential_mut row) (next_tick s3)))" .
  with load rv show thesis
    by (intro that) (simp only: repo_RevokeRefreshToken_def refreshTokenForRevokeQuery_def
        begin_reliable [OF ff] commit_reliable [OF ff] prod.case sum.case)
qed

lemma pg_rotate_err:
  assumes ff: "fault_free env" and ok: "store_ok env s" and run: "repo_RotateRefreshToken env tr p s = (Inl e, s')"
  shows "sview s' = sview s"
proof (cases "loadRefreshTokenForMutation env tr (refreshTokenForRotationQuery env (CurrentTokenHash_ro p))
      (Now_ro p) (next_tick s)")
  case (Pair r s2)
  show ?thesis
  proof (cases r)
    case (Inl err)
    with Pair run show ?thesis by (auto simp: repo_RotateRefreshToken_def begin_reliable [OF ff] rollback_def)
  next
    case (Inr row)
    from rotate_after_load [OF ff ok Pair [unfolded Inr]] show ?thesis
      by cases (use run in auto)
  qed
qed

lemma pg_revoke_err:
  assumes ff: "fault_free env" and ok: "store_ok env s" and run: "repo_RevokeRefreshToken env tr p s = (Inl e, s')"
  shows "sview s' = sview s"
proof (cases "loadRefreshTokenForMutation env tr (refreshTokenForRotationQuery env (CurrentTokenHash_rv p))
      (Now_rv p) (next_tick s)")
  case (Pair r s2)
  show ?thesis
  proof (cases r)
    case (Inl err)
    with Pair run show ?thesis by (auto simp: repo_RevokeRefreshToken_def refreshTokenForRevokeQuery_def
          begin_reliable [OF ff] rollback_def)
  next
    case (Inr row)
    from revoke_after_load [OF ff ok Pair [unfolded Inr]] run show ?thesis by (metis Inl_Inr_False prod.inject)
  qed
qed

lemma pg_rotate_answers:
  assumes ff: "fault_free env" and ok: "store_ok env s"
  shows "(\<And>i q. sessions (sview s) i = Some q \<Longrightarrow> ses_hash q \<noteq> CurrentTokenHash_ro p) \<Longrightarrow>
      fst (repo_RotateRefreshToken env tr p s) = Inl ErrInvalidRefreshToken"
    and "sessions (sview s) i = Some q \<Longrightarrow> ses_hash q = CurrentTokenHash_ro p \<Longrightarrow>
      (\<And>i q. sessions (sview s) i = Some q \<Longrightarrow> ses_hash q = CurrentTokenHash_ro p \<Longrightarrow> ses_revoked q \<noteq> None) \<Longrightarrow>
      fst (repo_RotateRefreshToken env tr p s) = Inl ErrRefreshTokenRevoked"
    and "sessions (sview s) i = Some q \<Longrightarrow> ses_hash q = CurrentTokenHash_ro p \<Longrightarrow> live_at (Now_ro p) q \<Longrightarrow>
      (\<And>j q'. sessions (sview s) j = Some q' \<Longrightarrow> ses_hash q' = CurrentTokenHash_ro p \<Longrightarrow> j = i) \<Longrightarrow>
      uuid_in env (NewTokenID_ro p) = Some i' \<Longrightarrow> sessions (sview s) i' = None \<Longrightarrow>
      \<exists>c s'. repo_RotateRefreshToken env tr p s = (Inr c, s')"
proof -
  have ok1: "store_ok env (next_tick s)" and same: "sview (next_tick s) = sview s"
    using ok by (simp_all add: store_ok_def)
  show "fst (repo_RotateRefreshToken env tr p s) = Inl ErrInvalidRefreshToken"
    if "\<And>i q. sessions (sview s) i = Some q \<Longrightarrow> ses_hash q \<noteq> CurrentTokenHash_ro p"
    by (rule load_refused(1) [OF ff load_unknown [OF ff ok1]]) (use that in auto)
  show "fst (repo_RotateRefreshToken env tr p s) = Inl ErrRefreshTokenRevoked"
    if "sessions (sview s) i = Some q" "ses_hash q = CurrentTokenHash_ro p"
      and "\<And>i q. sessions (sview s) i = Some q \<Longrightarrow> ses_hash q = CurrentTokenHash_ro p \<Longrightarrow> ses_revoked q \<noteq> None"
  proof -
    from load_first [OF ff ok1 that(1) [folded same] that(2), of tr "Now_ro p"] obtain j q' where
      "sessions (sview s) j = Some q'" "ses_hash q' = CurrentTokenHash_ro p"
      and "ses_revoked q' \<noteq> None \<Longrightarrow> fst (loadRefreshTokenForMutation env tr
        (refreshTokenForRotationQuery env (CurrentTokenHash_ro p)) (Now_ro p) (next_tick s)) = Inl ErrRefreshTokenRevoked"
      unfolding same by metis
    with that(3) load_refused(1) [OF ff] show ?thesis by metis
  qed
  show "\<exists>c s'. repo_RotateRefreshToken env tr p s = (Inr c, s')"
    if s: "sessions (sview s) i = Some q" "ses_hash q = CurrentTokenHash_ro p" and live: "live_at (Now_ro p) q"
      and only: "\<And>j q'. sessions (sview s) j = Some q' \<Longrightarrow> ses_hash q' = CurrentTokenHash_ro p \<Longrightarrow> j = i"
      and new: "uuid_in env (NewTokenID_ro p) = Some i'" "sessions (sview s) i' = None"
  proof -
    from load_first [OF ff ok1 s(1) [folded same] s(2), of tr "Now_ro p"] obtain j q' where
      j: "sessions (sview s) j = Some q'" "ses_hash q' = CurrentTokenHash_ro p"
      and l: "live_at (Now_ro p) q' \<Longrightarrow> \<exists>row. fst (loadRefreshTokenForMutation env tr
        (refreshTokenForRotationQuery env (CurrentTokenHash_ro p)) (Now_ro p) (next_tick s)) = Inr row"
      unfolding same by metis
    from only [OF j] j(1) s(1) live l obtain row s2 where "loadRefreshTokenForMutation env tr
        (refreshTokenForRotationQuery env (CurrentTokenHash_ro p)) (Now_ro p) (next_tick s) = (Inr row, s2)"
      by (metis option.inject prod.collapse)
    from rotate_after_load [OF ff ok this] new show ?thesis by (cases; metis)
  qed
qed

lemma pg_revoke_live:
  assumes ff: "fault_free env" and ok: "store_ok env s"
    and s: "sessions (sview s) i = Some q" "ses_hash q = CurrentTokenHash_rv p" and live: "live_at (Now_rv p) q"
    and only: "\<And>j q'. sessions (sview s) j = Some q' \<Longrightarrow> ses_hash q' = CurrentTokenHash_rv p \<Longrightarrow> j = i"
  shows "\<exists>c s'. repo_RevokeRefreshToken env tr p s = (Inr c, s')"
proof -
  have ok1: "store_ok env (next_tick s)" and same: "sview (next_tick s) = sview s"
    using ok by (simp_all add: store_ok_def)
  from load_first [OF ff ok1 s(1) [folded same] s(2), of tr "Now_rv p"] obtain j q' where
    j: "sessions (sview s) j = Some q'" "ses_hash q' = CurrentTokenHash_rv p"
    and l: "live_at (Now_rv p) q' \<Longrightarrow> \<exists>row. fst (loadRefreshTokenForMutation env tr
      (refreshTokenForRotationQuery env (CurrentTokenHash_rv p)) (Now_rv p) (next_tick s)) = Inr row"
    unfolding same by metis
  from only [OF j] j(1) s(1) live l obtain row s2 where "loadRefreshTokenForMutation env tr
      (refreshTokenForRotationQuery env (CurrentTokenHash_rv p)) (Now_rv p) (next_tick s) = (Inr row, s2)"
    by (metis option.inject prod.collapse)
  from revoke_after_load [OF ff ok this] show ?thesis by metis
qed

text \<open>Without a live session of that hash both operations are refused with an error that says so.\<close>

lemma pg_refused:
  assumes ff: "fault_free env" and ok: "store_ok env s"
  shows "(\<And>i q. sessions (sview s) i = Some q \<Longrightarrow> ses_hash q = CurrentTokenHash_ro p \<Longrightarrow> \<not> live_at (Now_ro p) q) \<Longrightarrow>
      fst (repo_RotateRefreshToken env tr p s) \<in> Inl ` {ErrInvalidRefreshToken, ErrRefreshTokenExpired, ErrRefreshTokenRevoked}"
    and "(\<And>i q. sessions (sview s) i = Some q \<Longrightarrow> ses_hash q = CurrentTokenHash_rv p' \<Longrightarrow> \<not> live_at (Now_rv p') q) \<Longrightarrow>
      fst (repo_RevokeRefreshToken env tr p' s) \<in> Inl ` {ErrInvalidRefreshToken, ErrRefreshTokenExpired, ErrRefreshTokenRevoked}"
proof -
  have ok1: "store_ok env (next_tick s)" and same: "sview (next_tick s) = sview s"
    using ok by (simp_all add: store_ok_def)
  have load: "\<exists>e \<in> {ErrInvalidRefreshToken, ErrRefreshTokenExpired, ErrRefreshTokenRevoked}.
      fst (loadRefreshTokenForMutation env tr (refreshTokenForRotationQuery env h) at (next_tick s)) = Inl e"
    if dead: "\<And>i q. sessions (sview s) i = Some q \<Longrightarrow> ses_hash q = h \<Longrightarrow> \<not> live_at at q" for h at
  proof (cases "\<exists>i q. sessions (sview s) i = Some q \<and> ses_hash q = h")
    case False
    have "fst (loadRefreshTokenForMutation env tr (refreshTokenForRotationQuery env h) at (next_tick s)) = Inl ErrInvalidRefreshToken"
      by (rule load_unknown [OF ff ok1]) (use False same in auto)
    then show ?thesis by blast
  next
    case True
    then obtain i q where "sessions (sview (next_tick s)) i = Some q" "ses_hash q = h" unfolding same by blast
    from load_first [OF ff ok1 this, of tr at] dead show ?thesis unfolding same live_at_def by (metis insertI1 insertI2)
  qed
  show "fst (repo_RotateRefreshToken env tr p s) \<in> Inl ` {ErrInvalidRefreshToken, ErrRefreshTokenExpired, ErrRefreshTokenRevoked}"
    if "\<And>i q. sessions (sview s) i = Some q \<Longrightarrow> ses_hash q = CurrentTokenHash_ro p \<Longrightarrow> \<not> live_at (Now_ro p) q"
    using load [of "CurrentTokenHash_ro p" "Now_ro p"] that load_refused(1) [OF ff _ refl refl] by (metis imageI)
  show "fst (repo_RevokeRefreshToken env tr p' s) \<in> Inl ` {ErrInvalidRefreshToken, ErrRefreshTokenExpired, ErrRefreshTokenRevoked}"
    if "\<And>i q. sessions (sview s) i = Some q \<Longrightarrow> ses_hash q = CurrentTokenHash_rv p' \<Longrightarrow> \<not> live_at (Now_rv p') q"
    using load [of "CurrentTokenHash_rv p'" "Now_rv p'"] that load_refused(2) [OF ff _ refl refl] by (metis imageI)
qed

text \<open>The invariant of the second interpretation: the first one's, and no statement fails.\<close>

definition reliable_ok :: "db_env \<Rightarrow> store \<Rightarrow> bool" where
  "reliable_ok env s \<longleftrightarrow> store_ok env s \<and> fault_free env"

lemma reliable_okD: "reliable_ok env s \<Longrightarrow> store_ok env s" "reliable_ok env s \<Longrightarrow> fault_free env"
  by (simp_all add: reliable_ok_def)

lemma pg_exists_live: "fault_free env \<Longrightarrow> \<exists>b s'. repo_ExistsByEmail env email s = (Inr b, s')"
  by (simp add: repo_ExistsByEmail_def send_reliable existsCredentialByEmailQuery_def)

lemmas pg_reliable_laws = pg_write_err pg_verify_err pg_row_err pg_rotate_err pg_revoke_err
  pg_create_answers pg_row_answers pg_code_live pg_verify_none pg_token_live pg_get_live pg_find_live pg_exists_live
  pg_rotate_answers pg_revoke_live pg_refused

lemma pg_verify_live:
  "fault_free env \<Longrightarrow> store_ok env s \<Longrightarrow> uuid_in env uid = Some u \<Longrightarrow> code_available u h at (sview s) \<Longrightarrow>
    \<exists>c s'. repo_VerifyRegistrationEmail env tr uid h at s = (Inr c, s')"
  by (erule (3) verify_reliable) blast

text \<open>The contract stays when the invariant is strengthened by a fact about the database.\<close>

lemma auth_repository_restrict:
  assumes "auth_repository repo view I norm"
  shows "auth_repository repo view (\<lambda>s. I s \<and> P) norm"
proof (cases P)
  case True
  then have "(\<lambda>s. I s \<and> P) = I" by simp
  with assms show ?thesis by (simp only:)
next
  case False
  then show ?thesis by unfold_locales simp_all
qed

interpretation reliable_pg: reliable_repository "pg env" sview "reliable_ok env" "uuid_in env" for env
proof (intro reliable_repository.intro)
  show "auth_repository (pg env) sview (reliable_ok env) (uuid_in env)"
    using auth_repository_restrict [OF pg.auth_repository_axioms, of env "fault_free env"]
    by (simp only: reliable_ok_def [abs_def])
  show "reliable_repository_axioms (pg env) sview (reliable_ok env) (uuid_in env)"
    by (rule reliable_repository_axioms.intro; unfold pg_methods; frule reliable_okD(1);
        drule reliable_okD(2);
        ((rule pg_reliable_laws pg_verify_live; assumption) | (rule pg_rotate_answers pg_revoke_live pg_refused; blast)))
qed

end
