(* ===== verification/Service.thy ===== *)
theory Service
  imports Config
begin

text \<open>
  internal/application/service.go: the application service over an AuthRepository. What a method
  takes from its surroundings is \<open>call_env\<close>: the environment variables, crypto/rand, the UUID it
  draws and the clock; each method reads each of them at most once. The JWT signer and bcrypt are
  library code and come with the service as functions. Logging is left out.
\<close>

unbundle bit_operations_syntax

subsection \<open>Surroundings\<close>

record call_env =
  Getenv :: "string \<Rightarrow> string"
  rand_Read :: "nat \<Rightarrow> byte list option"
  uuid_NewV7 :: string
  time_Now :: time

record Claims =
  Subject :: string
  Email_cl :: string
  Username_cl :: string
  Roles_cl :: "string list"
  IssuedAt :: int
  ExpiresAt_cl :: int

record 's authService =
  repo :: "'s AuthRepository"
  cfg :: JWTConfig
  Sign :: "Claims \<Rightarrow> string + string"
  CompareHashAndPassword :: "string \<Rightarrow> string \<Rightarrow> string option"

datatype service_config_error = ErrNilAuthRepository | ErrNilLogger | SignerError string

definition service_New ::
  "(string \<Rightarrow> string + (Claims \<Rightarrow> string + string)) \<Rightarrow> (string \<Rightarrow> string \<Rightarrow> string option)
    \<Rightarrow> 's AuthRepository option \<Rightarrow> JWTConfig \<Rightarrow> unit option \<Rightarrow> service_config_error + 's authService" where
  "service_New NewSigner compare r c log =
     (case r of None \<Rightarrow> Inl ErrNilAuthRepository
      | Some r \<Rightarrow>
     (case log of None \<Rightarrow> Inl ErrNilLogger
      | Some _ \<Rightarrow>
     (case NewSigner (AccessSecret c) of
        Inl err \<Rightarrow> Inl (SignerError err)
      | Inr signer \<Rightarrow>
          Inr \<lparr>repo = r, cfg = c, Sign = signer, CompareHashAndPassword = compare\<rparr>)))"

subsection \<open>Helpers\<close>

definition generateVerificationCode :: "call_env \<Rightarrow> string option" where
  "generateVerificationCode env =
     (let code = TrimSpace (Getenv env ''AUTH_FIXED_VERIFICATION_CODE'') in
      if Getenv env ''APP_ENV'' = ''local'' \<and> length code = 6 then Some code
      else case rand_Read env 3 of
             None \<Rightarrow> None
           | Some buf \<Rightarrow>
               let value = push_bit 16 (unat (buf ! 0)) OR push_bit 8 (unat (buf ! 1)) OR unat (buf ! 2)
               in Some (pad_decimal 6 (value mod 1000000)))"

definition hashVerificationCode :: "string \<Rightarrow> string" where
  "hashVerificationCode code = hex_encode (Sum256 (bytes_of code))"

definition generateRandomToken :: "call_env \<Rightarrow> int \<Rightarrow> string option" where
  "generateRandomToken env bytesLen =
     (let n = (if bytesLen \<le> 0 then 32 else bytesLen) in
      case rand_Read env (nat n) of None \<Rightarrow> None | Some buf \<Rightarrow> Some (b64_encode buf))"

text \<open>int64(d.Seconds()): truncation toward zero.\<close>

definition int_Seconds :: "duration \<Rightarrow> int" where
  "int_Seconds d = (if 0 \<le> d then d div second else - (- d div second))"

definition signAccessToken :: "'s authService \<Rightarrow> Credential \<Rightarrow> time \<Rightarrow> string + string" where
  "signAccessToken svc credential now =
     Sign svc \<lparr>Subject = UserID credential, Email_cl = Email credential,
       Username_cl = Username credential, Roles_cl = Roles credential, IssuedAt = Unix now,
       ExpiresAt_cl = Unix (now + AccessTokenTTL (cfg svc))\<rparr>"

definition lift_repo :: "(auth_error + 'a) \<times> 's \<Rightarrow> (go_error + 'a) \<times> 's" where
  "lift_repo p = (case p of (Inl e, s) \<Rightarrow> (Inl (AuthErr e), s) | (Inr x, s) \<Rightarrow> (Inr x, s))"

subsection \<open>Credentials\<close>

definition svc_CreateCredential ::
  "'s authService \<Rightarrow> string \<Rightarrow> string \<Rightarrow> string \<Rightarrow> string \<Rightarrow> ('s, go_error, Credential) op" where
  "svc_CreateCredential svc userID email username passwordHash s =
     (if userID = [] then (Inl (AuthErr ErrInvalidUserID), s)
      else if TrimSpace email = [] then (Inl (AuthErr ErrInvalidEmail), s)
      else if TrimSpace username = [] then (Inl (AuthErr ErrInvalidUsername), s)
      else if TrimSpace passwordHash = [] then (Inl (AuthErr ErrInvalidPasswordHash), s)
      else lift_repo (Create (repo svc) \<lparr>UserID_cc = userID, Email_cc = email,
             Username_cc = username, PasswordHash_cc = passwordHash\<rparr> s))"

definition svc_DeleteCredential :: "'s authService \<Rightarrow> string \<Rightarrow> ('s, go_error, unit) op" where
  "svc_DeleteCredential svc userID s =
     (if userID = [] then (Inl (AuthErr ErrInvalidUserID), s)
      else lift_repo (DeleteByUserID (repo svc) userID s))"

definition svc_ExistsByEmail :: "'s authService \<Rightarrow> string \<Rightarrow> ('s, go_error, bool) op" where
  "svc_ExistsByEmail svc email s =
     (if TrimSpace email = [] then (Inl (AuthErr ErrInvalidEmail), s)
      else lift_repo (ExistsEmail (repo svc) (TrimSpace email) s))"

definition svc_GetEmailByUserID :: "'s authService \<Rightarrow> string \<Rightarrow> ('s, go_error, string) op" where
  "svc_GetEmailByUserID svc userID s =
     (case GetByUserID (repo svc) (TrimSpace userID) s of
        (Inl err, s1) \<Rightarrow> (Inl (AuthErr err), s1)
      | (Inr credential, s1) \<Rightarrow> (Inr (Email credential), s1))"

subsection \<open>Registration\<close>

definition svc_CreatePendingRegistration ::
  "'s authService \<Rightarrow> call_env \<Rightarrow> string \<Rightarrow> string \<Rightarrow> string \<Rightarrow> string
    \<Rightarrow> ('s, go_error, PendingRegistrationResult) op" where
  "svc_CreatePendingRegistration svc env userID email username passwordHash s =
     (case svc_CreateCredential svc userID email username passwordHash s of
        (Inl err, s1) \<Rightarrow> (Inl err, s1)
      | (Inr credential, s1) \<Rightarrow>
     (case generateVerificationCode env of
        None \<Rightarrow> (Inl (AuthErr ErrFailedToCreateVerificationCode), s1)
      | Some code \<Rightarrow>
          let expiresAt = time_Now env + 10 * minute in
     (case CreateVerificationCode (repo svc) \<lparr>ID_vc = uuid_NewV7 env, UserID_vc = userID,
             TokenHash_vc = hashVerificationCode code, ExpiresAt_vc = expiresAt\<rparr> s1 of
        (Inl err, s2) \<Rightarrow> (Inl (AuthErr err), s2)
      | (Inr _, s2) \<Rightarrow>
          (Inr \<lparr>UserID_pr = UserID credential, Email_pr = Email credential,
                VerificationCode_pr = code, ExpiresIn_pr = ''10 minutes''\<rparr>, s2))))"

definition svc_VerifyRegistrationEmail ::
  "'s authService \<Rightarrow> call_env \<Rightarrow> string \<Rightarrow> string
    \<Rightarrow> ('s, go_error, RegistrationEmailVerificationResult) op" where
  "svc_VerifyRegistrationEmail svc env userID code s =
     (if TrimSpace userID = [] then (Inl (AuthErr ErrInvalidUserID), s)
      else if TrimSpace code = [] then (Inl (AuthErr ErrInvalidVerificationCode), s)
      else
        case VerifyEmail (repo svc) (TrimSpace userID) (hashVerificationCode (TrimSpace code))
               (time_Now env) s of
          (Inl err, s1) \<Rightarrow> (Inl (AuthErr err), s1)
        | (Inr credential, s1) \<Rightarrow>
            (Inr \<lparr>UserID_ev = UserID credential, Email_ev = Email credential,
                  Status_ev = ''verified''\<rparr>, s1))"

subsection \<open>Tokens\<close>

text \<open>
  The tail IssueRegistrationTokens and SignIn share word for word: sign an access token, draw a
  refresh token, store its hash, answer with the pair.
\<close>

definition issueTokens ::
  "'s authService \<Rightarrow> call_env \<Rightarrow> Credential \<Rightarrow> ('s, go_error, TokenPair) op" where
  "issueTokens svc env credential s =
     (let now = time_Now env in
      case signAccessToken svc credential now of
        Inl err \<Rightarrow> (Inl (ExtErr err), s)
      | Inr accessToken \<Rightarrow>
     (case generateRandomToken env (RefreshTokenBytes (cfg svc)) of
        None \<Rightarrow> (Inl (AuthErr ErrFailedToCreateRefreshToken), s)
      | Some refreshToken \<Rightarrow>
     (case CreateRefreshToken (repo svc) \<lparr>ID_rt = uuid_NewV7 env, UserID_rt = UserID credential,
             TokenHash_rt = hashVerificationCode refreshToken,
             ExpiresAt_rt = now + RefreshTokenTTL (cfg svc)\<rparr> s of
        (Inl err, s1) \<Rightarrow> (Inl (AuthErr err), s1)
      | (Inr _, s1) \<Rightarrow>
          (Inr \<lparr>UserID_tp = UserID credential, AccessToken = accessToken,
                RefreshToken = refreshToken, TokenType = ''Bearer'',
                ExpiresIn = int_Seconds (AccessTokenTTL (cfg svc))\<rparr>, s1))))"

definition svc_IssueRegistrationTokens ::
  "'s authService \<Rightarrow> call_env \<Rightarrow> string \<Rightarrow> ('s, go_error, TokenPair) op" where
  "svc_IssueRegistrationTokens svc env userID s =
     (if TrimSpace userID = [] then (Inl (AuthErr ErrInvalidUserID), s)
      else
        case GetByUserID (repo svc) (TrimSpace userID) s of
          (Inl err, s1) \<Rightarrow> (Inl (AuthErr err), s1)
        | (Inr credential, s1) \<Rightarrow>
            if \<not> EmailVerified credential then (Inl (AuthErr ErrEmailNotVerified), s1)
            else if Status credential \<noteq> CredentialStatusEmailVerified
            then (Inl (AuthErr ErrEmailNotVerified), s1)
            else issueTokens svc env credential s1)"

definition svc_SignIn ::
  "'s authService \<Rightarrow> call_env \<Rightarrow> string \<Rightarrow> string \<Rightarrow> ('s, go_error, TokenPair) op" where
  "svc_SignIn svc env identifier password s =
     (let identifier = TrimSpace identifier in
      if identifier = [] \<or> TrimSpace password = [] then (Inl (AuthErr ErrInvalidCredentials), s)
      else
        case GetByIdentifier (repo svc) identifier s of
          (Inl err, s1) \<Rightarrow> (Inl (AuthErr ErrInvalidCredentials), s1)
        | (Inr credential, s1) \<Rightarrow>
            if \<not> EmailVerified credential \<or> Status credential \<noteq> CredentialStatusEmailVerified
            then (Inl (AuthErr ErrInvalidCredentials), s1)
            else if CompareHashAndPassword svc (PasswordHash credential) password \<noteq> None
            then (Inl (AuthErr ErrInvalidCredentials), s1)
            else issueTokens svc env credential s1)"

definition svc_Refresh ::
  "'s authService \<Rightarrow> call_env \<Rightarrow> string \<Rightarrow> ('s, go_error, TokenPair) op" where
  "svc_Refresh svc env refreshToken s =
     (let refreshToken = TrimSpace refreshToken in
      if refreshToken = [] then (Inl (AuthErr ErrInvalidRefreshToken), s)
      else
        let now = time_Now env in
        case generateRandomToken env (RefreshTokenBytes (cfg svc)) of
          None \<Rightarrow> (Inl (AuthErr ErrFailedToCreateRefreshToken), s)
        | Some newRefreshToken \<Rightarrow>
       (case RotateRefreshToken (repo svc) \<lparr>CurrentTokenHash_ro = hashVerificationCode refreshToken,
               NewTokenID_ro = uuid_NewV7 env, NewTokenHash_ro = hashVerificationCode newRefreshToken,
               NewExpiresAt_ro = now + RefreshTokenTTL (cfg svc), Now_ro = now\<rparr> s of
          (Inl err, s1) \<Rightarrow> (Inl (AuthErr err), s1)
        | (Inr credential, s1) \<Rightarrow>
       (case signAccessToken svc credential now of
          Inl err \<Rightarrow> (Inl (ExtErr err), s1)
        | Inr accessToken \<Rightarrow>
            (Inr \<lparr>UserID_tp = UserID credential, AccessToken = accessToken,
                  RefreshToken = newRefreshToken, TokenType = ''Bearer'',
                  ExpiresIn = int_Seconds (AccessTokenTTL (cfg svc))\<rparr>, s1))))"

definition svc_SignOut :: "'s authService \<Rightarrow> call_env \<Rightarrow> string \<Rightarrow> ('s, go_error, unit) op" where
  "svc_SignOut svc env refreshToken s =
     (let refreshToken = TrimSpace refreshToken in
      if refreshToken = [] then (Inl (AuthErr ErrInvalidRefreshToken), s)
      else
        case RevokeRefreshToken (repo svc) \<lparr>CurrentTokenHash_rv = hashVerificationCode refreshToken,
               Now_rv = time_Now env\<rparr> s of
          (Inl err, s1) \<Rightarrow> (Inl (AuthErr err), s1)
        | (Inr _, s1) \<Rightarrow> (Inr (), s1))"

definition svc_DeactivateRegistrationAuth ::
  "'s authService \<Rightarrow> string \<Rightarrow> ('s, go_error, unit) op" where
  "svc_DeactivateRegistrationAuth svc userID s =
     (if TrimSpace userID = [] then (Inl (AuthErr ErrInvalidUserID), s)
      else lift_repo (DeactivateAuth (repo svc) (TrimSpace userID) s))"

subsection \<open>The interface\<close>

record 's AuthService =
  CreateCredential :: "string \<Rightarrow> string \<Rightarrow> string \<Rightarrow> string \<Rightarrow> ('s, go_error, Credential) op"
  CreatePendingRegistration :: "call_env \<Rightarrow> string \<Rightarrow> string \<Rightarrow> string \<Rightarrow> string
    \<Rightarrow> ('s, go_error, PendingRegistrationResult) op"
  ExistsByEmail :: "string \<Rightarrow> ('s, go_error, bool) op"
  GetEmailByUserID :: "string \<Rightarrow> ('s, go_error, string) op"
  VerifyRegistrationEmail :: "call_env \<Rightarrow> string \<Rightarrow> string
    \<Rightarrow> ('s, go_error, RegistrationEmailVerificationResult) op"
  IssueRegistrationTokens :: "call_env \<Rightarrow> string \<Rightarrow> ('s, go_error, TokenPair) op"
  SignIn :: "call_env \<Rightarrow> string \<Rightarrow> string \<Rightarrow> ('s, go_error, TokenPair) op"
  Refresh :: "call_env \<Rightarrow> string \<Rightarrow> ('s, go_error, TokenPair) op"
  SignOut :: "call_env \<Rightarrow> string \<Rightarrow> ('s, go_error, unit) op"
  DeactivateRegistrationAuth :: "string \<Rightarrow> ('s, go_error, unit) op"
  DeleteCredential :: "string \<Rightarrow> ('s, go_error, unit) op"

definition auth_service :: "'s authService \<Rightarrow> 's AuthService" where
  "auth_service svc =
     \<lparr>CreateCredential = svc_CreateCredential svc,
      CreatePendingRegistration = svc_CreatePendingRegistration svc,
      ExistsByEmail = svc_ExistsByEmail svc,
      GetEmailByUserID = svc_GetEmailByUserID svc,
      VerifyRegistrationEmail = svc_VerifyRegistrationEmail svc,
      IssueRegistrationTokens = svc_IssueRegistrationTokens svc,
      SignIn = svc_SignIn svc,
      Refresh = svc_Refresh svc,
      SignOut = svc_SignOut svc,
      DeactivateRegistrationAuth = svc_DeactivateRegistrationAuth svc,
      DeleteCredential = svc_DeleteCredential svc\<rparr>"

end
