(* ===== verification/Service_Laws.thy ===== *)
theory Service_Laws
  imports Service Repo_Contract
begin

text \<open>
  What the service's methods do to the view of the store, proved once for every repository that
  keeps the contract of Repo_Contract.
\<close>

locale service_over = auth_repository R view inv norm
  for R :: "'s AuthRepository" and view :: "'s \<Rightarrow> auth_view" and inv :: "'s \<Rightarrow> bool"
    and norm :: "string \<Rightarrow> string option" +
  fixes svc :: "'s authService"
  assumes wired: "repo svc = R"

subsection \<open>No method breaks the invariant or leaves the state machine\<close>

lemma lift_repo_run: "lift_repo p = (r, s') \<Longrightarrow> \<exists>x. p = (x, s')"
  by (cases p) (auto simp: lift_repo_def split: sum.splits)

lemma lift_repo_Inr: "lift_repo p = (Inr x, s') \<longleftrightarrow> p = (Inr x, s')"
  by (cases p) (auto simp: lift_repo_def split: sum.splits)

lemma lift_repo_Inl: "lift_repo p = (Inl e, s') \<longleftrightarrow> (\<exists>a. e = AuthErr a \<and> p = (Inl a, s'))"
  by (cases p) (auto simp: lift_repo_def split: sum.splits)

text \<open>The pair answered: the access token is signed for the credential, the refresh token drawn.\<close>

definition pair_for :: "'s authService \<Rightarrow> call_env \<Rightarrow> Credential \<Rightarrow> TokenPair \<Rightarrow> bool" where
  "pair_for svc env c tp \<longleftrightarrow> UserID_tp tp = UserID c \<and>
     signAccessToken svc c (time_Now env) = Inr (AccessToken tp) \<and>
     generateRandomToken env (RefreshTokenBytes (cfg svc)) = Some (RefreshToken tp) \<and>
     TokenType tp = ''Bearer'' \<and> ExpiresIn tp = int_Seconds (AccessTokenTTL (cfg svc))"

context service_over
begin

text \<open>The laws with the call as their major premise, the effects read as steps.\<close>

lemma writes_run:
  "Create R p s = (r, s') \<Longrightarrow> inv s \<Longrightarrow> inv s' \<and> auth_maybe (view s) (view s')"
  "CreateVerificationCode R vp s = (ru, s') \<Longrightarrow> inv s \<Longrightarrow> inv s' \<and> auth_maybe (view s) (view s')"
  "VerifyEmail R uid h at s = (r, s') \<Longrightarrow> inv s \<Longrightarrow> inv s' \<and> auth_maybe (view s) (view s')"
  "CreateRefreshToken R tp s = (ru, s') \<Longrightarrow> inv s \<Longrightarrow> inv s' \<and> auth_maybe (view s) (view s')"
  "RotateRefreshToken R ro s = (r, s') \<Longrightarrow> inv s \<Longrightarrow> inv s' \<and> auth_maybe (view s) (view s')"
  "RevokeRefreshToken R rv s = (r, s') \<Longrightarrow> inv s \<Longrightarrow> inv s' \<and> auth_maybe (view s) (view s')"
  "DeactivateAuth R uid s = (ru, s') \<Longrightarrow> inv s \<Longrightarrow> inv s' \<and> auth_maybe (view s) (view s')"
  "DeleteByUserID R uid s = (ru, s') \<Longrightarrow> inv s \<Longrightarrow> inv s' \<and> auth_maybe (view s) (view s')"
  by (auto simp: auth_maybe_def dest: create_run code_run verify_run token_run rotate_run revoke_run
      deactivate_run delete_run effect_steps)

lemmas runs = writes_run get_run [rotated] find_run [rotated] exists_run [rotated]

lemmas oks = create_ok [rotated] code_ok [rotated] verify_ok [rotated] token_ok [rotated]
  rotate_ok [rotated] revoke_ok [rotated] get_ok [rotated] find_ok [rotated]
  exists_ok [rotated] deactivate_ok [rotated] delete_ok [rotated]

lemma create_credential_run:
  assumes "inv s" "svc_CreateCredential svc uid e n p s = (r, s')"
  shows "inv s' \<and> auth_maybe (view s) (view s')"
  using assms by (auto simp: svc_CreateCredential_def wired dest!: lift_repo_run runs split: if_splits)

lemma create_credential_ok:
  assumes "inv s" "svc_CreateCredential svc uid e n p s = (Inr c, s')"
  shows "uid \<noteq> [] \<and> TrimSpace e \<noteq> [] \<and> TrimSpace n \<noteq> [] \<and> TrimSpace p \<noteq> [] \<and>
    norm uid = Some (UserID c) \<and> accounts (view s) (UserID c) = None \<and> \<not> email_taken e (view s) \<and>
    Email c = e \<and> view s' = spec_create (UserID c) e n p (view s)"
  using assms by (auto simp: svc_CreateCredential_def wired lift_repo_Inr dest!: oks split: if_splits)

lemma pending_run:
  assumes "inv s" "svc_CreatePendingRegistration svc env uid e n p s = (r, s')"
  shows "inv s' \<and> auth_steps (view s) (view s')"
proof -
  obtain r1 s1 where one: "svc_CreateCredential svc uid e n p s = (r1, s1)" by fastforce
  from create_credential_run [OF assms(1) one] have i1: "inv s1" and st: "auth_steps (view s) (view s1)"
    by (auto intro: maybe_steps)
  show ?thesis
  proof (cases "\<exists>c code. r1 = Inr c \<and> generateVerificationCode env = Some code")
    case False
    with assms(2) one i1 st show ?thesis
      by (auto simp: svc_CreatePendingRegistration_def split: sum.splits option.splits)
  next
    case True
    with assms(2) one obtain vp ru where "CreateVerificationCode R vp s1 = (ru, s')"
      by (auto simp: svc_CreatePendingRegistration_def wired Let_def split: prod.splits sum.splits)
    from writes_run(2) [OF this i1] st show ?thesis by (meson maybe_steps rtranclp_trans)
  qed
qed

text \<open>A registration touches no session.\<close>

lemma create_credential_sessions:
  assumes "inv s" "svc_CreateCredential svc uid e n p s = (r, s')"
  shows "sessions (view s') = sessions (view s)"
  using assms by (auto simp: svc_CreateCredential_def wired effect_create_def spec_create_def
      dest!: lift_repo_run create_run [rotated] split: if_splits)

lemma pending_sessions:
  assumes s: "inv s" and run: "svc_CreatePendingRegistration svc env uid e n p s = (r, s')"
  shows "sessions (view s') = sessions (view s)"
proof -
  obtain r1 s1 where one: "svc_CreateCredential svc uid e n p s = (r1, s1)" by fastforce
  note c = create_credential_sessions [OF s one] and i1 = create_credential_run [OF s one, THEN conjunct1]
  with run one show ?thesis
    by (auto simp: svc_CreatePendingRegistration_def wired Let_def effect_code_def spec_add_code_def
        dest!: code_run [rotated] split: prod.splits sum.splits option.splits)
qed

lemma pending_ok:
  assumes "inv s" "svc_CreatePendingRegistration svc env uid e n p s = (Inr r, s')"
  obtains u where "norm uid = Some u" "accounts (view s) u = None" "\<not> email_taken e (view s)"
    "generateVerificationCode env = Some (VerificationCode_pr r)" "UserID_pr r = u" "Email_pr r = e"
    "view s' = spec_add_code u (hashVerificationCode (VerificationCode_pr r)) (time_Now env + 10 * minute)
       (spec_create u e n p (view s))"
proof -
  from assms(2) obtain c s1 code where one: "svc_CreateCredential svc uid e n p s = (Inr c, s1)"
    and code: "generateVerificationCode env = Some code"
    and two: "CreateVerificationCode R \<lparr>ID_vc = uuid_NewV7 env, UserID_vc = uid,
      TokenHash_vc = hashVerificationCode code, ExpiresAt_vc = time_Now env + 10 * minute\<rparr> s1 = (Inr (), s')"
    and r: "r = \<lparr>UserID_pr = UserID c, Email_pr = Email c, VerificationCode_pr = code, ExpiresIn_pr = ''10 minutes''\<rparr>"
    by (auto simp: svc_CreatePendingRegistration_def wired Let_def split: prod.splits sum.splits option.splits)
  note c = create_credential_ok [OF assms(1) one]
  have "inv s1" using create_credential_run [OF assms(1) one] by simp
  from code_ok [OF this two] c obtain u where "norm uid = Some u" "UserID c = u"
    "view s' = spec_add_code u (hashVerificationCode code) (time_Now env + 10 * minute) (view s1)" by auto
  with c r code show thesis by (intro that [of u]) auto
qed

lemma verify_email_run:
  assumes "inv s" "svc_VerifyRegistrationEmail svc env uid code s = (r, s')"
  shows "inv s' \<and> auth_maybe (view s) (view s')"
  using assms by (auto simp: svc_VerifyRegistrationEmail_def wired dest!: runs
      split: if_splits prod.splits sum.splits)

lemma verify_email_ok:
  assumes "inv s" "svc_VerifyRegistrationEmail svc env uid code s = (Inr r, s')"
  shows "norm (TrimSpace uid) = Some (UserID_ev r) \<and>
    code_available (UserID_ev r) (hashVerificationCode (TrimSpace code)) (time_Now env) (view s) \<and>
    view s' = spec_verify (UserID_ev r) (hashVerificationCode (TrimSpace code)) (time_Now env) (view s) \<and>
    Status_ev r = ''verified''"
  using assms by (auto simp: svc_VerifyRegistrationEmail_def wired dest!: oks
      split: if_splits prod.splits sum.splits)

subsection \<open>Tokens\<close>

lemma issue_tokens_run:
  assumes "inv s" "issueTokens svc env c s = (r, s')"
  shows "inv s' \<and> auth_maybe (view s) (view s')"
  using assms by (auto simp: issueTokens_def wired Let_def dest!: runs
      split: prod.splits sum.splits option.splits)

lemma knows_accounts: "knows v c \<Longrightarrow> accounts v (UserID c) \<noteq> None"
  by (simp add: knows_def)

lemma issue_tokens_ok:
  assumes "inv s" "knows (view s) c" "issueTokens svc env c s = (Inr tp, s')"
  obtains i where "norm (uuid_NewV7 env) = Some i" "sessions (view s) i = None" "pair_for svc env c tp"
    "view s' = spec_add_session i (UserID c) (hashVerificationCode (RefreshToken tp))
       (time_Now env + RefreshTokenTTL (cfg svc)) (view s)"
  using assms(1,3) inv_norm [OF assms(1) knows_accounts [OF assms(2)]]
  by (auto simp: issueTokens_def wired Let_def pair_for_def dest!: oks intro: that
      split: prod.splits sum.splits option.splits)

lemma issue_run:
  assumes "inv s" "svc_IssueRegistrationTokens svc env uid s = (r, s')"
  shows "inv s' \<and> auth_maybe (view s) (view s')"
  using assms by (auto simp: svc_IssueRegistrationTokens_def wired dest!: runs issue_tokens_run [rotated]
      split: if_splits prod.splits sum.splits)

text \<open>Tokens are issued only for a verified account, with the roles it has been granted.\<close>

lemma issue_ok:
  assumes "inv s" "svc_IssueRegistrationTokens svc env uid s = (Inr tp, s')"
  obtains c i where "norm (TrimSpace uid) = Some (UserID c)" "knows (view s) c" "EmailVerified c"
    "Status c = CredentialStatusEmailVerified" "set (Roles c) = granted (view s) (UserID c)"
    "norm (uuid_NewV7 env) = Some i" "sessions (view s) i = None" "pair_for svc env c tp"
    "view s' = spec_add_session i (UserID c) (hashVerificationCode (RefreshToken tp))
       (time_Now env + RefreshTokenTTL (cfg svc)) (view s)"
proof -
  from assms(2) obtain c s1 where g: "GetByUserID R (TrimSpace uid) s = (Inr c, s1)"
    and c: "EmailVerified c" "Status c = CredentialStatusEmailVerified"
    and t: "issueTokens svc env c s1 = (Inr tp, s')"
    by (auto simp: svc_IssueRegistrationTokens_def wired split: if_splits prod.splits sum.splits)
  from get_run [OF assms(1) g] get_ok [OF assms(1) g] have s1: "inv s1" "view s1 = view s" "knows (view s1) c"
    and k: "norm (TrimSpace uid) = Some (UserID c)" "set (Roles c) = granted (view s) (UserID c)" by auto
  from issue_tokens_ok [OF s1(1,3) t] obtain i where "norm (uuid_NewV7 env) = Some i"
    "sessions (view s1) i = None" "pair_for svc env c tp"
    "view s' = spec_add_session i (UserID c) (hashVerificationCode (RefreshToken tp))
       (time_Now env + RefreshTokenTTL (cfg svc)) (view s1)" .
  with s1 c k show thesis by (intro that) auto
qed

lemma sign_in_run:
  assumes "inv s" "svc_SignIn svc env ident pw s = (r, s')"
  shows "inv s' \<and> auth_maybe (view s) (view s')"
  using assms by (auto simp: svc_SignIn_def wired Let_def dest!: runs issue_tokens_run [rotated]
      split: if_splits prod.splits sum.splits)

text \<open>
  A sign-in names a verified account by its username or email and presents a password bcrypt
  accepts against its hash. The access token it yields is signed without any role.
\<close>

lemma sign_in_ok:
  assumes "inv s" "svc_SignIn svc env ident pw s = (Inr tp, s')"
  obtains c i where "TrimSpace ident \<noteq> []" "TrimSpace pw \<noteq> []" "knows (view s) c"
    "Username c = TrimSpace ident \<or> Email c = TrimSpace ident" "EmailVerified c"
    "Status c = CredentialStatusEmailVerified" "CompareHashAndPassword svc (PasswordHash c) pw = None"
    "Roles c = []" "norm (uuid_NewV7 env) = Some i" "sessions (view s) i = None" "pair_for svc env c tp"
    "view s' = spec_add_session i (UserID c) (hashVerificationCode (RefreshToken tp))
       (time_Now env + RefreshTokenTTL (cfg svc)) (view s)"
proof -
  from assms(2) obtain c s1 where ne: "TrimSpace ident \<noteq> []" "TrimSpace pw \<noteq> []"
    and g: "GetByIdentifier R (TrimSpace ident) s = (Inr c, s1)"
    and c: "EmailVerified c" "Status c = CredentialStatusEmailVerified"
      "CompareHashAndPassword svc (PasswordHash c) pw = None"
    and t: "issueTokens svc env c s1 = (Inr tp, s')"
    by (auto simp: svc_SignIn_def wired Let_def split: if_splits prod.splits sum.splits)
  from find_run [OF assms(1) g] find_ok [OF assms(1) g] have s1: "inv s1" "view s1 = view s" "knows (view s1) c"
    and k: "Username c = TrimSpace ident \<or> Email c = TrimSpace ident" "Roles c = []" by auto
  from issue_tokens_ok [OF s1(1,3) t] obtain i where "norm (uuid_NewV7 env) = Some i"
    "sessions (view s1) i = None" "pair_for svc env c tp"
    "view s' = spec_add_session i (UserID c) (hashVerificationCode (RefreshToken tp))
       (time_Now env + RefreshTokenTTL (cfg svc)) (view s1)" .
  with s1 ne c k show thesis by (intro that) auto
qed

lemma refresh_run:
  assumes "inv s" "svc_Refresh svc env tok s = (r, s')"
  shows "inv s' \<and> auth_maybe (view s) (view s')"
  using assms by (auto simp: svc_Refresh_def wired Let_def dest!: runs
      split: if_splits prod.splits sum.splits option.splits)

lemma refresh_ok:
  assumes "inv s" "svc_Refresh svc env tok s = (Inr tp, s')"
  obtains c i q i' where "sessions (view s) i = Some q" "ses_hash q = hashVerificationCode (TrimSpace tok)"
    "live_at (time_Now env) q" "UserID c = ses_user q" "knows (view s) c"
    "set (Roles c) = granted (view s) (UserID c)" "norm (uuid_NewV7 env) = Some i'"
    "sessions (view s) i' = None" "pair_for svc env c tp"
    "view s' = spec_add_session i' (ses_user q) (hashVerificationCode (RefreshToken tp))
       (time_Now env + RefreshTokenTTL (cfg svc)) (spec_revoke i (time_Now env) (view s))"
proof -
  from assms(2) obtain c new where new: "generateRandomToken env (RefreshTokenBytes (cfg svc)) = Some new"
    and rot: "RotateRefreshToken R \<lparr>CurrentTokenHash_ro = hashVerificationCode (TrimSpace tok),
      NewTokenID_ro = uuid_NewV7 env, NewTokenHash_ro = hashVerificationCode new,
      NewExpiresAt_ro = time_Now env + RefreshTokenTTL (cfg svc), Now_ro = time_Now env\<rparr> s = (Inr c, s')"
    and tp: "pair_for svc env c tp" "RefreshToken tp = new"
    by (auto simp: svc_Refresh_def wired Let_def pair_for_def split: if_splits prod.splits sum.splits option.splits)
  from rotate_ok [OF assms(1) rot] tp show thesis by (auto intro: that)
qed

lemma sign_out_run:
  assumes "inv s" "svc_SignOut svc env tok s = (r, s')"
  shows "inv s' \<and> auth_maybe (view s) (view s')"
  using assms by (auto simp: svc_SignOut_def wired Let_def dest!: runs split: if_splits prod.splits sum.splits)

lemma sign_out_ok:
  assumes "inv s" "svc_SignOut svc env tok s = (Inr x, s')"
  obtains i q where "sessions (view s) i = Some q" "ses_hash q = hashVerificationCode (TrimSpace tok)"
    "live_at (time_Now env) q" "view s' = spec_revoke i (time_Now env) (view s)"
  using assms by (auto simp: svc_SignOut_def wired Let_def dest!: oks intro: that
      split: if_splits prod.splits sum.splits)

subsection \<open>Compensation and queries\<close>

lemma compensate_run:
  assumes "inv s"
  shows "svc_DeactivateRegistrationAuth svc uid s = (r, s') \<Longrightarrow> inv s' \<and> auth_maybe (view s) (view s')"
    and "svc_DeleteCredential svc uid s = (r, s') \<Longrightarrow> inv s' \<and> auth_maybe (view s) (view s')"
  using assms by (auto simp: svc_DeactivateRegistrationAuth_def svc_DeleteCredential_def wired
      dest!: lift_repo_run runs split: if_splits)

lemma compensate_ok:
  assumes "inv s"
  shows "svc_DeactivateRegistrationAuth svc uid s = (Inr x, s') \<Longrightarrow>
      \<exists>u. norm (TrimSpace uid) = Some u \<and> accounts (view s) u \<noteq> None \<and> view s' = spec_deactivate u (view s)"
    and "svc_DeleteCredential svc uid s = (Inr x, s') \<Longrightarrow>
      \<exists>u. norm uid = Some u \<and> accounts (view s) u \<noteq> None \<and> view s' = spec_delete u (view s)"
  using assms by (auto simp: svc_DeactivateRegistrationAuth_def svc_DeleteCredential_def wired
      lift_repo_Inr dest!: oks split: if_splits)

lemma query_run:
  assumes "inv s"
  shows "svc_ExistsByEmail svc e s = (rb, s') \<Longrightarrow> inv s' \<and> view s' = view s"
    and "svc_GetEmailByUserID svc uid s = (re, s') \<Longrightarrow> inv s' \<and> view s' = view s"
  using assms by (auto simp: svc_ExistsByEmail_def svc_GetEmailByUserID_def wired
      dest!: lift_repo_run runs split: if_splits prod.splits sum.splits)

lemma query_ok:
  assumes "inv s"
  shows "svc_ExistsByEmail svc e s = (Inr b, s') \<Longrightarrow> b \<longleftrightarrow> email_taken (TrimSpace e) (view s)"
    and "svc_GetEmailByUserID svc uid s = (Inr m, s') \<Longrightarrow>
      \<exists>u a. norm (TrimSpace uid) = Some u \<and> accounts (view s) u = Some a \<and> m = acc_email a"
  using assms by (auto simp: svc_ExistsByEmail_def svc_GetEmailByUserID_def wired lift_repo_Inr knows_def
      dest!: oks split: if_splits prod.splits sum.splits)

end

end
