(* ===== verification/Service_Reliable.thy ===== *)
theory Service_Reliable
  imports Service_Laws
begin

text \<open>
  The service over a repository that does not fail: sequences of calls, what they answer, and
  what an error leaves behind.
\<close>

subsection \<open>Codes and tokens survive trimming\<close>

text \<open>rand.Read fills the buffer it is given.\<close>

definition rand_ok :: "call_env \<Rightarrow> bool" where
  "rand_ok env \<longleftrightarrow> (\<forall>n. \<exists>buf. rand_Read env n = Some buf \<and> length buf = n)"

lemma verification_code_shape:
  assumes "generateVerificationCode env = Some code"
  shows "length code = 6" "TrimSpace code = code"
proof -
  show "length code = 6"
    using assms by (auto simp: generateVerificationCode_def Let_def length_pad_decimal
        split: if_splits option.splits)
  show "TrimSpace code = code"
    using assms by (auto simp: generateVerificationCode_def Let_def
        intro: TrimSpace_plain digits_plain pad_decimal_digits split: if_splits option.splits)
qed

lemma verification_code_nonempty: "generateVerificationCode env = Some code \<Longrightarrow> code \<noteq> []"
  by (auto dest: verification_code_shape(1))

lemma random_token_shape:
  assumes "generateRandomToken env n = Some tok"
  shows "TrimSpace tok = tok" and "rand_ok env \<Longrightarrow> tok \<noteq> []"
proof -
  from assms obtain buf where buf: "rand_Read env (nat (if n \<le> 0 then 32 else n)) = Some buf"
    and tok: "tok = b64_encode buf"
    by (auto simp: generateRandomToken_def Let_def split: option.splits)
  show "TrimSpace tok = tok" by (simp add: tok TrimSpace_plain b64_encode_plain)
  assume "rand_ok env"
  with buf have "length buf = nat (if n \<le> 0 then 32 else n)" unfolding rand_ok_def by (metis option.inject)
  then have "0 < length buf" by (auto split: if_splits)
  then have "1 \<le> (length buf * 4 + 2) div 3" by linarith
  then have "0 < length tok" by (simp only: tok length_b64_encode)
  then show "tok \<noteq> []" by auto
qed

lemma random_token_exists: "rand_ok env \<Longrightarrow> generateRandomToken env n \<noteq> None"
  unfolding rand_ok_def generateRandomToken_def Let_def by (metis option.case(2) option.discI)

text \<open>At most one session carries a hash.\<close>

definition hash_unique :: "string \<Rightarrow> auth_view \<Rightarrow> bool" where
  "hash_unique h v \<longleftrightarrow> (\<forall>i j q q'. sessions v i = Some q \<longrightarrow> ses_hash q = h \<longrightarrow>
     sessions v j = Some q' \<longrightarrow> ses_hash q' = h \<longrightarrow> i = j)"

lemma hash_uniqueD: "hash_unique h v \<Longrightarrow> sessions v i = Some q \<Longrightarrow> ses_hash q = h \<Longrightarrow>
    sessions v j = Some q' \<Longrightarrow> ses_hash q' = h \<Longrightarrow> j = i"
  by (auto simp: hash_unique_def)

lemma revoke_origin:
  assumes "sessions (spec_revoke i at v) j = Some r"
  shows "\<exists>r0. sessions v j = Some r0 \<and> ses_hash r0 = ses_hash r \<and> (j = i \<longrightarrow> ses_revoked r \<noteq> None)"
  using assms by (auto simp: spec_revoke_def split: if_splits) (drule arg_cong [where f = ses_revoked], simp)

lemma add_session_other:
  assumes "sessions (spec_add_session i' u h' x v) j = Some r" "ses_hash r \<noteq> h'"
  shows "sessions v j = Some r"
  using assms by (auto simp: spec_add_session_def split: if_splits)

text \<open>After the one session with a hash is revoked, every session with that hash is.\<close>

lemma unique_revoked:
  assumes uniq: "hash_unique h v" and q: "sessions v i = Some q" "ses_hash q = h"
    and r: "sessions (spec_revoke i at v) j = Some r" "ses_hash r = h"
  shows "ses_revoked r \<noteq> None"
proof -
  from revoke_origin [OF r(1)] obtain r0 where "sessions v j = Some r0" "ses_hash r0 = ses_hash r"
    "j = i \<longrightarrow> ses_revoked r \<noteq> None" by blast
  with hash_uniqueD [OF uniq q] r(2) show ?thesis by metis
qed

locale reliable_service = service_over R view inv norm svc + reliable_repository R view inv norm
  for R :: "'s AuthRepository" and view :: "'s \<Rightarrow> auth_view" and inv :: "'s \<Rightarrow> bool"
    and norm :: "string \<Rightarrow> string option" and svc :: "'s authService"
begin

subsection \<open>Registration\<close>

text \<open>A pending registration verifies with the code it was given, within ten minutes.\<close>

lemma pending_verifies:
  assumes s: "inv s" and reg: "svc_CreatePendingRegistration svc env uid e n p s = (Inr r, s1)"
    and time: "time_Now env2 < time_Now env + 10 * minute"
  obtains ev s2 where
    "svc_VerifyRegistrationEmail svc env2 (UserID_pr r) (VerificationCode_pr r) s1 = (Inr ev, s2)"
    "UserID_ev ev = UserID_pr r" "Email_ev ev = e"
    "accounts (view s2) (UserID_pr r) = Some \<lparr>acc_email = e, acc_username = n, acc_password_hash = p,
       acc_verified = True, acc_status = CredentialStatusEmailVerified\<rparr>"
proof -
  from pending_ok [OF s reg] obtain u where u: "norm uid = Some u" "UserID_pr r = u"
    and gen: "generateVerificationCode env = Some (VerificationCode_pr r)"
    and v1: "view s1 = spec_add_code u (hashVerificationCode (VerificationCode_pr r)) (time_Now env + 10 * minute)
       (spec_create u e n p (view s))" by metis
  have s1: "inv s1" using pending_run [OF s reg] by simp
  have acc: "accounts (view s1) u = Some \<lparr>acc_email = e, acc_username = n, acc_password_hash = p,
       acc_verified = False, acc_status = CredentialStatusPendingRegistration\<rparr>"
    by (simp add: v1 spec_add_code_def spec_create_def)
  have norm: "norm u = Some u" by (rule inv_norm [OF s1]) (simp add: acc)
  have av: "code_available u (hashVerificationCode (VerificationCode_pr r)) (time_Now env2) (view s1)"
    using time by (auto simp: v1 code_available_def spec_add_code_def)
  from verify_live [OF s1 norm av] obtain c s2 where run: "VerifyEmail R u
      (hashVerificationCode (VerificationCode_pr r)) (time_Now env2) s1 = (Inr c, s2)" by blast
  note ok = verify_ok [OF s1 run]
  from ok norm have c: "UserID c = u" by simp
  have acc2: "accounts (view s2) u = Some \<lparr>acc_email = e, acc_username = n, acc_password_hash = p,
       acc_verified = True, acc_status = CredentialStatusEmailVerified\<rparr>"
    using ok by (simp add: c spec_verify_def acc)
  moreover have "accounts (view s2) u = Some \<lparr>acc_email = Email c, acc_username = Username c,
       acc_password_hash = PasswordHash c, acc_verified = EmailVerified c, acc_status = Status c\<rparr>"
    using ok c unfolding knows_def by blast
  ultimately have "Email c = e" by simp
  moreover have "TrimSpace u = u" "u \<noteq> []" using inv_plain [OF s u(1)] by auto
  ultimately show thesis
    using run verification_code_nonempty [OF gen] verification_code_shape(2) [OF gen] u acc2 c
    by (intro that [of "\<lparr>UserID_ev = u, Email_ev = e, Status_ev = ''verified''\<rparr>" s2])
      (simp_all add: svc_VerifyRegistrationEmail_def wired)
qed

text \<open>A code works once.\<close>

lemma verify_once:
  assumes s: "inv s" and ver: "svc_VerifyRegistrationEmail svc env uid code s = (Inr ev, s1)"
    and later: "time_Now env \<le> time_Now env2"
  shows "fst (svc_VerifyRegistrationEmail svc env2 uid code s1) = Inl (AuthErr ErrInvalidVerificationCode)"
proof -
  note ok = verify_email_ok [OF s ver]
  have s1: "inv s1" using verify_email_run [OF s ver] by simp
  have "\<not> code_available (UserID_ev ev) (hashVerificationCode (TrimSpace code)) (time_Now env2) (view s1)"
    using ok later by (auto simp: code_available_def spec_verify_def)
  from verify_none [OF s1 _ this] ok
  have "fst (VerifyEmail R (TrimSpace uid) (hashVerificationCode (TrimSpace code)) (time_Now env2) s1)
      = Inl ErrInvalidVerificationCode" by blast
  moreover have "TrimSpace uid \<noteq> []" "TrimSpace code \<noteq> []"
    using ver by (auto simp: svc_VerifyRegistrationEmail_def split: if_splits)
  ultimately show ?thesis
    by (auto simp: svc_VerifyRegistrationEmail_def wired split: prod.splits)
qed

text \<open>A user id or an email is registered once.\<close>

lemma create_twice:
  assumes s: "inv s" and reg: "svc_CreatePendingRegistration svc env uid e n p s = (Inr r, s1)"
    and valid: "TrimSpace e2 \<noteq> []" "TrimSpace n2 \<noteq> []" "TrimSpace p2 \<noteq> []"
  shows "fst (svc_CreatePendingRegistration svc env2 uid e2 n2 p2 s1) = Inl (AuthErr ErrAuthCredentialsAlreadyExist)"
    and "norm uid2 = Some u2 \<Longrightarrow> accounts (view s1) u2 = None \<Longrightarrow> uid2 \<noteq> [] \<Longrightarrow>
      fst (svc_CreatePendingRegistration svc env2 uid2 e n2 p2 s1) = Inl (AuthErr ErrEmailAlreadyTaken)"
proof -
  from pending_ok [OF s reg] obtain u h x where u: "norm uid = Some u"
    and v1: "view s1 = spec_add_code u h x (spec_create u e n p (view s))" by metis
  have s1: "inv s1" using pending_run [OF s reg] by simp
  have "uid \<noteq> []" and e: "TrimSpace e \<noteq> []"
    using reg by (auto simp: svc_CreatePendingRegistration_def svc_CreateCredential_def
        split: if_splits prod.splits sum.splits)
  have acc: "accounts (view s1) u \<noteq> None" "email_taken e (view s1)"
    by (auto simp: v1 email_taken_def spec_add_code_def spec_create_def)
  show "fst (svc_CreatePendingRegistration svc env2 uid e2 n2 p2 s1) = Inl (AuthErr ErrAuthCredentialsAlreadyExist)"
    using create_known [OF s1, where u = u and p = "\<lparr>UserID_cc = uid, Email_cc = e2, Username_cc = n2, PasswordHash_cc = p2\<rparr>"]
      u acc(1) valid \<open>uid \<noteq> []\<close>
    by (auto simp: svc_CreatePendingRegistration_def svc_CreateCredential_def wired lift_repo_def split: prod.splits sum.splits)
  show "fst (svc_CreatePendingRegistration svc env2 uid2 e n2 p2 s1) = Inl (AuthErr ErrEmailAlreadyTaken)"
    if "norm uid2 = Some u2" "accounts (view s1) u2 = None" "uid2 \<noteq> []"
    using create_taken [OF s1, where u = u2 and p = "\<lparr>UserID_cc = uid2, Email_cc = e, Username_cc = n2, PasswordHash_cc = p2\<rparr>"]
      that acc(2) valid e
    by (auto simp: svc_CreatePendingRegistration_def svc_CreateCredential_def wired lift_repo_def split: prod.splits sum.splits)
qed

text \<open>A registration that fails after its credential was stored leaves it there.\<close>

lemma pending_partial:
  assumes s: "inv s" and reg: "svc_CreatePendingRegistration svc env uid e n p s = (Inl err, s1)"
    and cred: "svc_CreateCredential svc uid e n p s = (Inr c, s0)"
  shows "view s1 = spec_create (UserID c) e n p (view s)"
proof -
  note ok = create_credential_ok [OF s cred]
  have "inv s0" using create_credential_run [OF s cred] by simp
  then have "view s1 = view s0"
    using reg cred by (auto simp: svc_CreatePendingRegistration_def wired Let_def
        dest!: code_err [rotated] split: prod.splits sum.splits option.splits)
  with ok show ?thesis by simp
qed

subsection \<open>Tokens\<close>

text \<open>A verified account gets its tokens whenever the signer and the random source work.\<close>

lemma issue_live:
  assumes s: "inv s" and u: "norm (TrimSpace uid) = Some u" "TrimSpace uid \<noteq> []"
    and acc: "accounts (view s) u = Some a" "acc_verified a"
    and sign: "\<And>c. UserID c = u \<Longrightarrow> \<exists>t. signAccessToken svc c (time_Now env) = Inr t"
    and rnd: "rand_ok env" and fresh: "norm (uuid_NewV7 env) = Some i" "sessions (view s) i = None"
  obtains tp s' where "svc_IssueRegistrationTokens svc env uid s = (Inr tp, s')"
proof -
  from get_live [OF s u(1)] acc obtain c s1 where g: "GetByUserID R (TrimSpace uid) s = (Inr c, s1)" by auto
  from get_run [OF s g] get_ok [OF s g] have s1: "inv s1" "view s1 = view s" and c: "UserID c = u" "knows (view s) c"
    using u by auto
  from c acc have "EmailVerified c" by (auto simp: knows_def)
  moreover have "acc_status a = CredentialStatusEmailVerified"
    using view_okD(2) [OF inv_view_ok [OF s] acc(1)] acc(2) by simp
  with c acc have "Status c = CredentialStatusEmailVerified" by (auto simp: knows_def)
  moreover obtain t where "signAccessToken svc c (time_Now env) = Inr t" using sign c by blast
  moreover obtain rt where "generateRandomToken env (RefreshTokenBytes (cfg svc)) = Some rt"
    using random_token_exists [OF rnd] by blast
  moreover have "\<exists>s2. CreateRefreshToken R \<lparr>ID_rt = uuid_NewV7 env, UserID_rt = UserID c,
      TokenHash_rt = h, ExpiresAt_rt = x\<rparr> s1 = (Inr (), s2)" for h x
    by (rule token_live [OF s1(1), where i = i and u = u])
      (use fresh s1(2) c acc inv_norm [OF s, of u] in auto)
  then obtain s2 where "CreateRefreshToken R \<lparr>ID_rt = uuid_NewV7 env, UserID_rt = UserID c,
      TokenHash_rt = hashVerificationCode rt, ExpiresAt_rt = time_Now env + RefreshTokenTTL (cfg svc)\<rparr> s1 = (Inr (), s2)"
    by blast
  ultimately show thesis
    using u(2) g by (intro that) (simp add: svc_IssueRegistrationTokens_def issueTokens_def wired)
qed

text \<open>An error of Refresh from the domain leaves the view alone; one from the signer comes after the rotation.\<close>

lemma refresh_err:
  assumes s: "inv s" and run: "svc_Refresh svc env tok s = (Inl (AuthErr e), s')"
  shows "view s' = view s"
  using s run by (auto simp: svc_Refresh_def wired Let_def dest!: rotate_err [rotated]
      split: if_splits prod.splits sum.splits option.splits)

lemma refresh_signer_err:
  assumes s: "inv s" and run: "svc_Refresh svc env tok s = (Inl (ExtErr e), s')"
  obtains i q i' h where "sessions (view s) i = Some q" "ses_hash q = hashVerificationCode (TrimSpace tok)"
    "live_at (time_Now env) q" "sessions (view s) i' = None"
    "view s' = spec_add_session i' (ses_user q) h (time_Now env + RefreshTokenTTL (cfg svc))
      (spec_revoke i (time_Now env) (view s))"
  using s run by (auto simp: svc_Refresh_def wired Let_def dest!: oks intro: that
      split: if_splits prod.splits sum.splits option.splits)

text \<open>Every other method that answers an error has changed nothing.\<close>

lemma errors_keep:
  assumes s: "inv s"
  shows "svc_CreateCredential svc uid e n p s = (Inl err, s') \<Longrightarrow> view s' = view s"
    and "svc_VerifyRegistrationEmail svc env uid code s = (Inl err, s') \<Longrightarrow> view s' = view s"
    and "svc_IssueRegistrationTokens svc env uid s = (Inl err, s') \<Longrightarrow> view s' = view s"
    and "svc_SignIn svc env ident pw s = (Inl err, s') \<Longrightarrow> view s' = view s"
    and "svc_SignOut svc env tok s = (Inl err, s') \<Longrightarrow> view s' = view s"
    and "svc_DeactivateRegistrationAuth svc uid s = (Inl err, s') \<Longrightarrow> view s' = view s"
    and "svc_DeleteCredential svc uid s = (Inl err, s') \<Longrightarrow> view s' = view s"
proof -
  note errs = create_err [rotated] code_err [rotated] verify_err [rotated] token_err [rotated]
    revoke_err [rotated] deactivate_err [rotated] delete_err [rotated]
  note reads = get_run [rotated] find_run [rotated]
  have issue: "issueTokens svc env c s = (Inl err, s') \<Longrightarrow> inv s \<Longrightarrow> view s' = view s" for c s
    by (auto simp: issueTokens_def wired Let_def dest!: errs split: prod.splits sum.splits option.splits)
  show "svc_CreateCredential svc uid e n p s = (Inl err, s') \<Longrightarrow> view s' = view s"
    using s by (auto simp: svc_CreateCredential_def wired lift_repo_Inl dest!: errs split: if_splits)
  show "svc_VerifyRegistrationEmail svc env uid code s = (Inl err, s') \<Longrightarrow> view s' = view s"
    using s by (auto simp: svc_VerifyRegistrationEmail_def wired dest!: errs split: if_splits prod.splits sum.splits)
  show "svc_IssueRegistrationTokens svc env uid s = (Inl err, s') \<Longrightarrow> view s' = view s"
    using s by (auto simp: svc_IssueRegistrationTokens_def wired dest!: reads issue split: if_splits prod.splits sum.splits)
  show "svc_SignIn svc env ident pw s = (Inl err, s') \<Longrightarrow> view s' = view s"
    using s by (auto simp: svc_SignIn_def wired Let_def dest!: reads issue split: if_splits prod.splits sum.splits)
  show "svc_SignOut svc env tok s = (Inl err, s') \<Longrightarrow> view s' = view s"
    using s by (auto simp: svc_SignOut_def wired Let_def dest!: errs split: if_splits prod.splits sum.splits)
  show "svc_DeactivateRegistrationAuth svc uid s = (Inl err, s') \<Longrightarrow> view s' = view s"
    using s by (auto simp: svc_DeactivateRegistrationAuth_def wired lift_repo_Inl dest!: errs split: if_splits)
  show "svc_DeleteCredential svc uid s = (Inl err, s') \<Longrightarrow> view s' = view s"
    using s by (auto simp: svc_DeleteCredential_def wired lift_repo_Inl dest!: errs split: if_splits)
qed

text \<open>What Refresh answers to a token none of whose sessions is live.\<close>

lemma refresh_answers:
  assumes s: "inv s" and tok: "TrimSpace tok \<noteq> []" and rnd: "rand_ok env"
  shows "(\<And>i q. sessions (view s) i = Some q \<Longrightarrow> ses_hash q \<noteq> hashVerificationCode (TrimSpace tok)) \<Longrightarrow>
      fst (svc_Refresh svc env tok s) = Inl (AuthErr ErrInvalidRefreshToken)"
    and "sessions (view s) i = Some q \<Longrightarrow> ses_hash q = hashVerificationCode (TrimSpace tok) \<Longrightarrow>
      (\<And>i q. sessions (view s) i = Some q \<Longrightarrow> ses_hash q = hashVerificationCode (TrimSpace tok) \<Longrightarrow> ses_revoked q \<noteq> None) \<Longrightarrow>
      fst (svc_Refresh svc env tok s) = Inl (AuthErr ErrRefreshTokenRevoked)"
proof -
  obtain new where new: "generateRandomToken env (RefreshTokenBytes (cfg svc)) = Some new"
    using random_token_exists [OF rnd] by blast
  let ?ro = "\<lparr>CurrentTokenHash_ro = hashVerificationCode (TrimSpace tok),
      NewTokenID_ro = uuid_NewV7 env, NewTokenHash_ro = hashVerificationCode new,
      NewExpiresAt_ro = time_Now env + RefreshTokenTTL (cfg svc), Now_ro = time_Now env\<rparr>"
  have go: "fst (RotateRefreshToken R ?ro s) = Inl e \<Longrightarrow> fst (svc_Refresh svc env tok s) = Inl (AuthErr e)" for e
    using tok new by (auto simp: svc_Refresh_def wired Let_def split: prod.splits)
  show "fst (svc_Refresh svc env tok s) = Inl (AuthErr ErrInvalidRefreshToken)"
    if "\<And>i q. sessions (view s) i = Some q \<Longrightarrow> ses_hash q \<noteq> hashVerificationCode (TrimSpace tok)"
    by (rule go, rule rotate_unknown [OF s]) (simp add: that)
  show "fst (svc_Refresh svc env tok s) = Inl (AuthErr ErrRefreshTokenRevoked)"
    if "sessions (view s) i = Some q" "ses_hash q = hashVerificationCode (TrimSpace tok)"
      "\<And>i q. sessions (view s) i = Some q \<Longrightarrow> ses_hash q = hashVerificationCode (TrimSpace tok) \<Longrightarrow> ses_revoked q \<noteq> None"
    by (rule go, rule rotate_revoked [OF s that(1)]) (use that in auto)
qed

text \<open>A token without a live session is refused with one of three errors, by Refresh and by SignOut.\<close>

lemma refresh_refused:
  assumes s: "inv s" and rnd: "rand_ok env"
    and dead: "\<And>i q. sessions (view s) i = Some q \<Longrightarrow> ses_hash q = hashVerificationCode (TrimSpace tok) \<Longrightarrow>
      \<not> live_at (time_Now env) q"
  shows "fst (svc_Refresh svc env tok s) \<in>
    (Inl \<circ> AuthErr) ` {ErrInvalidRefreshToken, ErrRefreshTokenExpired, ErrRefreshTokenRevoked}"
proof (cases "TrimSpace tok = []")
  case True
  then show ?thesis by (simp add: svc_Refresh_def)
next
  case False
  obtain new where new: "generateRandomToken env (RefreshTokenBytes (cfg svc)) = Some new"
    using random_token_exists [OF rnd] by blast
  have "fst (RotateRefreshToken R \<lparr>CurrentTokenHash_ro = hashVerificationCode (TrimSpace tok),
      NewTokenID_ro = uuid_NewV7 env, NewTokenHash_ro = hashVerificationCode new,
      NewExpiresAt_ro = time_Now env + RefreshTokenTTL (cfg svc), Now_ro = time_Now env\<rparr> s)
    \<in> Inl ` {ErrInvalidRefreshToken, ErrRefreshTokenExpired, ErrRefreshTokenRevoked}"
    by (rule rotate_refused [OF s]) (use dead in auto)
  with new False show ?thesis by (auto simp: svc_Refresh_def wired Let_def split: prod.splits)
qed

lemma sign_out_refused:
  assumes s: "inv s"
    and dead: "\<And>i q. sessions (view s) i = Some q \<Longrightarrow> ses_hash q = hashVerificationCode (TrimSpace tok) \<Longrightarrow>
      \<not> live_at (time_Now env) q"
  shows "fst (svc_SignOut svc env tok s) \<in>
    (Inl \<circ> AuthErr) ` {ErrInvalidRefreshToken, ErrRefreshTokenExpired, ErrRefreshTokenRevoked}"
proof (cases "TrimSpace tok = []")
  case True
  then show ?thesis by (simp add: svc_SignOut_def)
next
  case False
  have "fst (RevokeRefreshToken R \<lparr>CurrentTokenHash_rv = hashVerificationCode (TrimSpace tok), Now_rv = time_Now env\<rparr> s)
    \<in> Inl ` {ErrInvalidRefreshToken, ErrRefreshTokenExpired, ErrRefreshTokenRevoked}"
    by (rule revoke_refused [OF s]) (use dead in auto)
  with False show ?thesis by (auto simp: svc_SignOut_def wired Let_def split: prod.splits)
qed

text \<open>A refresh token works once, and not after a sign-out.\<close>

lemma refresh_once:
  assumes s: "inv s" and run: "svc_Refresh svc env tok s = (Inr tp, s1)" and rnd: "rand_ok env2"
    and uniq: "hash_unique (hashVerificationCode (TrimSpace tok)) (view s)"
    and new: "hashVerificationCode (RefreshToken tp) \<noteq> hashVerificationCode (TrimSpace tok)"
  shows "fst (svc_Refresh svc env2 tok s1) = Inl (AuthErr ErrRefreshTokenRevoked)"
proof -
  from refresh_ok [OF s run] obtain i q i' where q: "sessions (view s) i = Some q"
      "ses_hash q = hashVerificationCode (TrimSpace tok)" "sessions (view s) i' = None"
    and v1: "view s1 = spec_add_session i' (ses_user q) (hashVerificationCode (RefreshToken tp))
       (time_Now env + RefreshTokenTTL (cfg svc)) (spec_revoke i (time_Now env) (view s))" by metis
  have s1: "inv s1" using refresh_run [OF s run] by simp
  have tok: "TrimSpace tok \<noteq> []" using run by (auto simp: svc_Refresh_def Let_def split: if_splits)
  have "i \<noteq> i'" using q by auto
  then obtain q1 where q1: "sessions (view s1) i = Some q1" "ses_hash q1 = hashVerificationCode (TrimSpace tok)"
    using q by (auto simp: v1 spec_add_session_def spec_revoke_def)
  have "ses_revoked r \<noteq> None" if "sessions (view s1) j = Some r" "ses_hash r = hashVerificationCode (TrimSpace tok)" for j r
    using unique_revoked [OF uniq q(1,2)] add_session_other [OF that(1) [unfolded v1]] that(2) new by metis
  from refresh_answers(2) [OF s1 tok rnd q1 this] show ?thesis .
qed

lemma sign_out_ends:
  assumes s: "inv s" and run: "svc_SignOut svc env tok s = (Inr x, s1)" and rnd: "rand_ok env2"
    and uniq: "hash_unique (hashVerificationCode (TrimSpace tok)) (view s)"
  shows "fst (svc_Refresh svc env2 tok s1) = Inl (AuthErr ErrRefreshTokenRevoked)"
proof -
  from sign_out_ok [OF s run] obtain i q where q: "sessions (view s) i = Some q"
      "ses_hash q = hashVerificationCode (TrimSpace tok)"
    and v1: "view s1 = spec_revoke i (time_Now env) (view s)" by metis
  have s1: "inv s1" using sign_out_run [OF s run] by simp
  have tok: "TrimSpace tok \<noteq> []" using run by (auto simp: svc_SignOut_def Let_def split: if_splits)
  obtain q1 where q1: "sessions (view s1) i = Some q1" "ses_hash q1 = hashVerificationCode (TrimSpace tok)"
    using q by (auto simp: v1 spec_revoke_def)
  have "ses_revoked r \<noteq> None" if "sessions (view s1) j = Some r" "ses_hash r = hashVerificationCode (TrimSpace tok)" for j r
    by (rule unique_revoked [OF uniq q that(1) [unfolded v1] that(2)])
  from refresh_answers(2) [OF s1 tok rnd q1 this] show ?thesis .
qed

subsection \<open>Calls that succeed\<close>

lemma refresh_live:
  assumes s: "inv s" and tok: "TrimSpace tok \<noteq> []" and q: "sessions (view s) i = Some q"
      "ses_hash q = hashVerificationCode (TrimSpace tok)" and live: "live_at (time_Now env) q"
    and uniq: "hash_unique (hashVerificationCode (TrimSpace tok)) (view s)"
    and sign: "\<And>c. UserID c = ses_user q \<Longrightarrow> \<exists>t. signAccessToken svc c (time_Now env) = Inr t"
    and rnd: "rand_ok env" and fresh: "norm (uuid_NewV7 env) = Some i'" "sessions (view s) i' = None"
  obtains tp s' where "svc_Refresh svc env tok s = (Inr tp, s')"
proof -
  obtain new where new: "generateRandomToken env (RefreshTokenBytes (cfg svc)) = Some new"
    using random_token_exists [OF rnd] by blast
  let ?ro = "\<lparr>CurrentTokenHash_ro = hashVerificationCode (TrimSpace tok),
      NewTokenID_ro = uuid_NewV7 env, NewTokenHash_ro = hashVerificationCode new,
      NewExpiresAt_ro = time_Now env + RefreshTokenTTL (cfg svc), Now_ro = time_Now env\<rparr>"
  have "\<exists>c s'. RotateRefreshToken R ?ro s = (Inr c, s')"
    by (rule rotate_live [OF s q(1), where i' = i']) (use q live fresh hash_uniqueD [OF uniq q] in auto)
  then obtain c s' where run: "RotateRefreshToken R ?ro s = (Inr c, s')" by blast
  from rotate_ok [OF s run] obtain j q' where "sessions (view s) j = Some q'"
    "ses_hash q' = hashVerificationCode (TrimSpace tok)" "UserID c = ses_user q'" by auto
  with hash_uniqueD [OF uniq q this(1,2)] q(1) have "UserID c = ses_user q" by simp
  then obtain t where "signAccessToken svc c (time_Now env) = Inr t" using sign by blast
  with run new tok show thesis by (intro that) (simp add: svc_Refresh_def wired Let_def)
qed

lemma sign_out_live:
  assumes s: "inv s" and tok: "TrimSpace tok \<noteq> []" and q: "sessions (view s) i = Some q"
      "ses_hash q = hashVerificationCode (TrimSpace tok)" and live: "live_at (time_Now env) q"
    and uniq: "hash_unique (hashVerificationCode (TrimSpace tok)) (view s)"
  obtains s' where "svc_SignOut svc env tok s = (Inr (), s')"
proof -
  let ?rv = "\<lparr>CurrentTokenHash_rv = hashVerificationCode (TrimSpace tok), Now_rv = time_Now env\<rparr>"
  have "\<exists>c s'. RevokeRefreshToken R ?rv s = (Inr c, s')"
    by (rule revoke_live [OF s q(1)]) (use q live hash_uniqueD [OF uniq q] in auto)
  with tok show thesis by (auto simp: svc_SignOut_def wired Let_def intro: that)
qed

text \<open>
  Sign-in succeeds for a verified account, given its password, when no other account has the
  identifier as its username or email.
\<close>

lemma sign_in_live:
  assumes s: "inv s" and acc: "accounts (view s) u = Some a" "acc_verified a"
    and ident: "TrimSpace ident \<noteq> []" "acc_email a = TrimSpace ident \<or> acc_username a = TrimSpace ident"
    and only: "\<And>u' a'. accounts (view s) u' = Some a' \<Longrightarrow>
      acc_email a' = TrimSpace ident \<or> acc_username a' = TrimSpace ident \<Longrightarrow> u' = u"
    and pw: "TrimSpace pw \<noteq> []" "CompareHashAndPassword svc (acc_password_hash a) pw = None"
    and sign: "\<And>c. UserID c = u \<Longrightarrow> \<exists>t. signAccessToken svc c (time_Now env) = Inr t"
    and rnd: "rand_ok env" and fresh: "norm (uuid_NewV7 env) = Some i" "sessions (view s) i = None"
  obtains tp s' where "svc_SignIn svc env ident pw s = (Inr tp, s')" "UserID_tp tp = u"
proof -
  from find_live [OF s acc(1) ident(2)] obtain c s1 where g: "GetByIdentifier R (TrimSpace ident) s = (Inr c, s1)"
    by blast
  from find_run [OF s g] find_ok [OF s g] have s1: "inv s1" "view s1 = view s" and k: "knows (view s) c"
    and c: "Username c = TrimSpace ident \<or> Email c = TrimSpace ident" by auto
  have cu: "UserID c = u" using k c by (intro only) (auto simp: knows_def)
  with k acc have fields: "EmailVerified c" "PasswordHash c = acc_password_hash a" "Status c = acc_status a"
    by (auto simp: knows_def)
  have "Status c = CredentialStatusEmailVerified"
    using view_okD(2) [OF inv_view_ok [OF s] acc(1)] acc(2) fields(3) by simp
  moreover obtain t where "signAccessToken svc c (time_Now env) = Inr t" using sign cu by blast
  moreover obtain rt where "generateRandomToken env (RefreshTokenBytes (cfg svc)) = Some rt"
    using random_token_exists [OF rnd] by blast
  moreover have "\<exists>s2. CreateRefreshToken R \<lparr>ID_rt = uuid_NewV7 env, UserID_rt = UserID c,
      TokenHash_rt = h, ExpiresAt_rt = x\<rparr> s1 = (Inr (), s2)" for h x
    by (rule token_live [OF s1(1), where i = i and u = u])
      (use fresh s1(2) cu acc inv_norm [OF s, of u] in auto)
  then obtain s2 where "CreateRefreshToken R \<lparr>ID_rt = uuid_NewV7 env, UserID_rt = UserID c,
      TokenHash_rt = hashVerificationCode rt, ExpiresAt_rt = time_Now env + RefreshTokenTTL (cfg svc)\<rparr> s1 = (Inr (), s2)"
    by blast
  ultimately show thesis
    using ident(1) pw g fields cu
    by (intro that [of "\<lparr>UserID_tp = u, AccessToken = t, RefreshToken = rt, TokenType = ''Bearer'',
        ExpiresIn = int_Seconds (AccessTokenTTL (cfg svc))\<rparr>" s2])
      (simp_all add: svc_SignIn_def issueTokens_def wired Let_def)
qed

end

end
