(* ===== verification/Wiring.thy ===== *)
theory Wiring
  imports Repo_Laws Service_Reliable
begin

text \<open>
  The service as internal/fx wires it: the application service over the PostgreSQL repository
  with the PostgreSQL error translator. The contract's lemmas hold of it by interpretation.
\<close>

definition pg_service ::
  "db_env \<Rightarrow> JWTConfig \<Rightarrow> (Claims \<Rightarrow> string + string) \<Rightarrow> (string \<Rightarrow> string \<Rightarrow> string option)
    \<Rightarrow> store authService" where
  "pg_service env c sign compare =
     \<lparr>repo = pg env, cfg = c, Sign = sign, CompareHashAndPassword = compare\<rparr>"

lemma pg_service_fields [simp]:
  "repo (pg_service env c sign compare) = pg env" "cfg (pg_service env c sign compare) = c"
  "Sign (pg_service env c sign compare) = sign"
  "CompareHashAndPassword (pg_service env c sign compare) = compare"
  by (simp_all add: pg_service_def)

interpretation app: service_over "pg env" sview "store_ok env" "uuid_in env"
  "pg_service env c sign compare" for env c sign compare
  by unfold_locales simp

interpretation reliable_app: reliable_service "pg env" sview "reliable_ok env" "uuid_in env"
  "pg_service env c sign compare" for env c sign compare
  by unfold_locales simp

text \<open>The constructors, given their dependencies, build exactly this service.\<close>

lemma constructors_wire:
  assumes "NewSigner (AccessSecret c) = Inr sign"
  shows "repo_New (Some env) (Some NewPgErrorTranslator) = Inr (pg env)"
    and "service_New NewSigner compare (Some (pg env)) c (Some ()) = Inr (pg_service env c sign compare)"
  using assms by (simp_all add: repo_New_def service_New_def pg_service_def)

lemma constructors_refuse:
  "repo_New None tr = Inl ErrNilPostgresDB"
  "repo_New (Some env) None = Inl ErrNilDBErrorTranslator"
  "service_New NewSigner compare None c log = Inl ErrNilAuthRepository"
  "service_New NewSigner compare (Some r) c None = Inl ErrNilLogger"
  "NewSigner (AccessSecret c) = Inl e \<Longrightarrow> service_New NewSigner compare (Some r) c (Some ()) = Inl (SignerError e)"
  by (simp_all add: repo_New_def service_New_def)

end
