(* ===== verification/Service_Runs.thy ===== *)
theory Service_Runs
  imports Wiring
begin

text \<open>
  Runs of the deployed service: any sequence of calls of its methods, with any arguments and
  surroundings, over a database that may fail at any statement.
\<close>

inductive served :: "store authService \<Rightarrow> store \<Rightarrow> store \<Rightarrow> bool" for svc where
  create: "svc_CreateCredential svc uid e n p s = (rc, s') \<Longrightarrow> served svc s s'"
| register: "svc_CreatePendingRegistration svc env uid e n p s = (rp, s') \<Longrightarrow> served svc s s'"
| exists_email: "svc_ExistsByEmail svc e s = (rb, s') \<Longrightarrow> served svc s s'"
| get_email: "svc_GetEmailByUserID svc uid s = (re, s') \<Longrightarrow> served svc s s'"
| verify: "svc_VerifyRegistrationEmail svc env uid code s = (rv, s') \<Longrightarrow> served svc s s'"
| issue: "svc_IssueRegistrationTokens svc env uid s = (rt, s') \<Longrightarrow> served svc s s'"
| sign_in: "svc_SignIn svc env ident pw s = (rt, s') \<Longrightarrow> served svc s s'"
| refresh: "svc_Refresh svc env tok s = (rt, s') \<Longrightarrow> served svc s s'"
| sign_out: "svc_SignOut svc env tok s = (ru, s') \<Longrightarrow> served svc s s'"
| deactivate: "svc_DeactivateRegistrationAuth svc uid s = (ru, s') \<Longrightarrow> served svc s s'"
| delete: "svc_DeleteCredential svc uid s = (ru, s') \<Longrightarrow> served svc s s'"

inductive_cases served_cases: "served svc s s'"

lemma served_step:
  assumes ok: "store_ok env s" and run: "served (pg_service env c sign compare) s s'"
  shows "store_ok env s' \<and> auth_steps (sview s) (sview s')"
  using run
  by (rule served_cases)
    (auto dest!: app.create_credential_run [OF ok] app.pending_run [OF ok] app.query_run [OF ok]
      app.verify_email_run [OF ok] app.issue_run [OF ok] app.sign_in_run [OF ok]
      app.refresh_run [OF ok] app.sign_out_run [OF ok] app.compensate_run [OF ok] intro: maybe_steps)

lemma served_steps:
  assumes "(served (pg_service env c sign compare))\<^sup>*\<^sup>* s s'" and "store_ok env s"
  shows "store_ok env s' \<and> auth_steps (sview s) (sview s')"
  using assms
proof (induction rule: rtranclp_induct)
  case base
  then show ?case by simp
next
  case (step s1 s2)
  from step.IH [OF step.prems] have i: "store_ok env s1" and p: "auth_steps (sview s) (sview s1)" by simp_all
  from served_step [OF i step.hyps(2)] p show ?case by (meson rtranclp_trans)
qed

text \<open>
  A revoked session stays exactly as it is through every call but the deletion of its account.
\<close>

definition served_by_registration ::
  "store authService \<Rightarrow> call_env \<Rightarrow> string \<Rightarrow> string \<Rightarrow> string \<Rightarrow> string \<Rightarrow> store \<Rightarrow> store \<Rightarrow> bool" where
  "served_by_registration svc call uid e n p s s' \<longleftrightarrow>
     (\<exists>rp. svc_CreatePendingRegistration svc call uid e n p s = (rp, s'))"

lemma served_keeps_revoked:
  assumes ok: "store_ok env s" and run: "served (pg_service env c sign compare) s s'"
    and r: "sessions (sview s) i = Some r" "ses_revoked r \<noteq> None"
  shows "sessions (sview s') i = Some r \<or> accounts (sview s') (ses_user r) = None"
proof (cases "\<exists>call uid e n p. served_by_registration (pg_service env c sign compare) call uid e n p s s'")
  case True
  then obtain call uid e n p rp where
    "svc_CreatePendingRegistration (pg_service env c sign compare) call uid e n p s = (rp, s')"
    by (auto simp: served_by_registration_def)
  from app.pending_sessions [OF ok this] r show ?thesis by simp
next
  case False
  have "auth_maybe (sview s) (sview s')"
    using run
    by (rule served_cases)
      (use False in \<open>auto simp: served_by_registration_def dest!: app.create_credential_run [OF ok]
        app.query_run [OF ok] app.verify_email_run [OF ok] app.issue_run [OF ok] app.sign_in_run [OF ok]
        app.refresh_run [OF ok] app.sign_out_run [OF ok] app.compensate_run [OF ok]\<close>)
  from step_keeps_revoked [OF this r] show ?thesis .
qed

lemma served_spent_forever:
  assumes "(\<lambda>s s'. served (pg_service env c sign compare) s s' \<and> accounts (sview s') u \<noteq> None)\<^sup>*\<^sup>* s s'"
    and "store_ok env s" "sessions (sview s) i = Some r" "ses_revoked r \<noteq> None" "ses_user r = u"
  shows "store_ok env s' \<and> sessions (sview s') i = Some r"
  using assms
proof (induction rule: rtranclp_induct)
  case base
  then show ?case by simp
next
  case (step s1 s2)
  then have IH: "store_ok env s1" "sessions (sview s1) i = Some r"
    and st: "served (pg_service env c sign compare) s1 s2" and keep: "accounts (sview s2) u \<noteq> None" by simp_all
  from served_keeps_revoked [OF IH(1) st IH(2)] keep step.prems served_step [OF IH(1) st] show ?case by auto
qed

text \<open>A Refresh that succeeds found a live session with the token's hash: never a revoked one.\<close>

lemma refresh_needs_live:
  assumes "store_ok env s" "sessions (sview s) i = Some r" "ses_revoked r \<noteq> None"
    and "svc_Refresh (pg_service env c sign compare) call tok s = (Inr tp, s')"
  shows "\<exists>j q. j \<noteq> i \<and> sessions (sview s) j = Some q \<and>
    ses_hash q = hashVerificationCode (TrimSpace tok) \<and> live_at (time_Now call) q"
  using app.refresh_ok [OF assms(1,4)] assms(2,3) by (metis live_at_def option.inject)

end
