(* ===== verification/Fixtures.thy ===== *)
theory Fixtures
  imports Wiring
begin

text \<open>
  Concrete inputs: a database whose UUIDs are the visible strings, that scans in table order and
  never fails, and one that loses every reply; a service whose signer signs with the subject and
  whose bcrypt accepts a password equal to the hash; and a few small stores.
\<close>

definition demo_uuid :: "string \<Rightarrow> string option" where
  "demo_uuid s = (if s \<noteq> [] \<and> list_all plain_char s then Some s else None)"

definition demo_db :: "db_env" where
  "demo_db = \<lparr>uuid_in = demo_uuid, db_now = int, fault_at = (\<lambda>_. None), rows_affected_err = (\<lambda>_. None),
     scan_credentials = id, scan_tokens = id, collate_roles = id\<rparr>"

definition lossy_db :: "db_env" where
  "lossy_db = demo_db\<lparr>fault_at := (\<lambda>_. Some (Lost (OtherErr ''connection reset'')))\<rparr>"

definition demo_sign :: "Claims \<Rightarrow> string + string" where
  "demo_sign c = Inr (Subject c)"

definition demo_compare :: "string \<Rightarrow> string \<Rightarrow> string option" where
  "demo_compare h p = (if h = p then None else Some ''mismatch'')"

abbreviation demo_service :: "store authService" where
  "demo_service \<equiv> pg_service demo_db default_jwt demo_sign demo_compare"

text \<open>The same service configured to give refresh tokens no time to live.\<close>

abbreviation demo_short_service :: "store authService" where
  "demo_short_service \<equiv> pg_service demo_db (default_jwt\<lparr>RefreshTokenTTL := 0\<rparr>) demo_sign demo_compare"

definition demo_call :: "time \<Rightarrow> string \<Rightarrow> call_env" where
  "demo_call t u = \<lparr>Getenv = (\<lambda>_. []), rand_Read = (\<lambda>n. Some (replicate n 7)), uuid_NewV7 = u, time_Now = t\<rparr>"

definition store0 :: store where
  "store0 = \<lparr>tabs = \<lparr>credentials = [], codes = [], tokens = [], roles = [], outbox = {#}\<rparr>, ticks = 0\<rparr>"

definition ann :: auth_credentials where
  "ann = \<lparr>ac_user_id = ''u1'', ac_email = ''ann@x.org'', ac_username = ''ann'', ac_password_hash = ''pw'',
     ac_email_verified = True, ac_status = ''email_verified'', ac_created_at = 0, ac_updated_at = 0\<rparr>"

definition ann_token :: refresh_tokens where
  "ann_token = \<lparr>rt_id = ''t1'', rt_user_id = ''u1'', rt_token_hash = hashVerificationCode ''secret'',
     rt_expires_at = 1000, rt_revoked_at = None, rt_created_at = 0\<rparr>"

definition store1 :: store where
  "store1 = \<lparr>tabs = \<lparr>credentials = [ann], codes = [], tokens = [ann_token],
     roles = [\<lparr>ur_user_id = ''u1'', ur_role = RoleAdmin\<rparr>], outbox = {#}\<rparr>, ticks = 0\<rparr>"

lemma demo_db_ok [simp]: "db_env_ok demo_db" "db_env_ok lossy_db"
  by (auto simp: db_env_ok_def demo_db_def lossy_db_def demo_uuid_def split: if_splits)

lemma demo_fault_free [simp]: "fault_free demo_db"
  by (simp add: fault_free_def demo_db_def)

lemma demo_plain [simp]: "list_all plain_char ''u1''" "list_all plain_char ''t1''" "list_all plain_char ''t2''"
  "list_all plain_char ''c1''" "list_all plain_char ''ann''" "list_all plain_char ''ann@x.org''"
  "list_all plain_char ''pw''" "list_all plain_char ''secret''"
  by code_simp+

lemma demo_db_fields [simp]:
  "uuid_in demo_db = demo_uuid" "uuid_in lossy_db = demo_uuid" "collate_roles demo_db = id"
  "scan_credentials demo_db = id" "scan_tokens demo_db = id"
  by (simp_all add: demo_db_def lossy_db_def)

lemma demo_uuids [simp]:
  "demo_uuid ''u1'' = Some ''u1''" "demo_uuid ''t1'' = Some ''t1''"
  "demo_uuid ''t2'' = Some ''t2''" "demo_uuid ''c1'' = Some ''c1''"
  by (simp_all add: demo_uuid_def plain_char_def)

lemma demo_stores_ok [simp]: "store_ok demo_db store0" "store_ok lossy_db store0"
  "store_ok demo_db store1" "store_ok lossy_db store1"
  by (simp_all add: store_ok_def db_ok_defs store0_def store1_def ann_def ann_token_def status_defs)

lemma demo_reliable [simp]: "reliable_ok demo_db store0" "reliable_ok demo_db store1"
  by (simp_all add: reliable_ok_def)

lemma demo_call_fields [simp]: "time_Now (demo_call t u) = t" "uuid_NewV7 (demo_call t u) = u"
  "rand_Read (demo_call t u) n = Some (replicate n 7)" "Getenv (demo_call t u) x = []"
  by (simp_all add: demo_call_def)

lemma demo_rand_ok [simp]: "rand_ok (demo_call t u)"
  by (simp add: rand_ok_def)

lemma store0_view [simp]: "accounts (sview store0) u = None" "sessions (sview store0) i = None"
  "open_codes (sview store0) = {}"
  by (simp_all add: store0_def view_of_def)

lemma store1_view:
  "accounts (sview store1) = [''u1'' \<mapsto> account_of ann]"
  "sessions (sview store1) = [''t1'' \<mapsto> session_of ann_token]"
  "open_codes (sview store1) = {}"
  by (auto simp: store1_def view_of_def fun_eq_iff ann_def ann_token_def lookup_by_def)

lemma demo_trim [simp]: "TrimSpace ''u1'' = ''u1''" "TrimSpace ''ann@x.org'' = ''ann@x.org''"
  "TrimSpace ''ann'' = ''ann''" "TrimSpace ''pw'' = ''pw''" "TrimSpace ''secret'' = ''secret''"
  by (rule TrimSpace_plain, rule demo_plain)+

lemmas demo_eval = lift_repo_def pg_methods send_reliable Let_def
  repo_Create_def createCredentialQuery_def attachRoles_def repo_ListRolesByUserID_def listRolesByUserIDQuery_def
  repo_CreateVerificationCode_def createVerificationCodeQuery_def generateVerificationCode_def
  generateRandomToken_def signAccessToken_def demo_sign_def

lemma demo_registration:
  assumes "demo_uuid u = Some u"
  obtains r s1 where "svc_CreatePendingRegistration demo_service (demo_call t u) ''u1'' ''ann@x.org'' ''ann'' ''pw''
    store0 = (Inr r, s1)"
  using assms
  by (simp add: svc_CreatePendingRegistration_def svc_CreateCredential_def demo_eval store0_def)

lemma demo_sign_in: "signAccessToken (pg_service demo_db cf demo_sign demo_compare) c t = Inr (UserID c)"
  by (simp add: signAccessToken_def demo_sign_def)

lemma demo_session:
  "sessions (sview store1) ''t1'' = Some (session_of ann_token)" "sessions (sview store1) ''t2'' = None"
  "ses_hash (session_of ann_token) = hashVerificationCode ''secret''"
  "ses_user (session_of ann_token) = ''u1''" "t < 1000 \<Longrightarrow> live_at t (session_of ann_token)"
  "hash_unique h (sview store1)"
  by (auto simp: store1_view ann_token_def live_at_def hash_unique_def split: if_splits)

lemma demo_refresh:
  assumes "t < 1000"
  obtains tp s' where "svc_Refresh (pg_service demo_db cf demo_sign demo_compare) (demo_call t ''t2'') ''secret'' store1
    = (Inr tp, s')"
  by (rule reliable_app.refresh_live [OF demo_reliable(2), where tok = "''secret''" and i = "''t1''" and
        env = "demo_call t ''t2''" and i' = "''t2''" and q = "session_of ann_token" and c = cf and
        sign = demo_sign and compare = demo_compare])
    (use assms demo_session demo_sign_in in auto)

lemma demo_refreshed_view:
  assumes "svc_Refresh demo_short_service (demo_call t ''t2'') ''secret'' store1 = (Inr tp, s')"
  shows "sessions (sview s') = [''t1'' \<mapsto> (session_of ann_token)\<lparr>ses_revoked := Some t\<rparr>,
    ''t2'' \<mapsto> \<lparr>ses_user = ''u1'', ses_hash = hashVerificationCode (RefreshToken tp), ses_expires = t, ses_revoked = None\<rparr>]"
  by (rule app.refresh_ok [OF demo_stores_ok(3) assms])
    (auto simp: store1_view spec_add_session_def spec_revoke_def fun_eq_iff ann_token_def split: if_splits)

lemma demo_sign_out:
  assumes "t < 1000"
  obtains s' where "svc_SignOut demo_service (demo_call t ''t2'') ''secret'' store1 = (Inr (), s')"
  by (rule reliable_app.sign_out_live [OF demo_reliable(2), where tok = "''secret''" and i = "''t1''" and
        env = "demo_call t ''t2''" and q = "session_of ann_token" and c = default_jwt and
        sign = demo_sign and compare = demo_compare])
    (use assms demo_session in auto)

lemma demo_login:
  obtains tp s' where "svc_SignIn demo_service (demo_call t ''t2'') ''ann'' ''pw'' store1 = (Inr tp, s')"
  by (rule reliable_app.sign_in_live [OF demo_reliable(2), where ident = "''ann''" and u = "''u1''" and
        env = "demo_call t ''t2''" and i = "''t2''" and a = "account_of ann" and pw = "''pw''" and
        c = default_jwt and sign = demo_sign and compare = demo_compare])
    (use demo_session demo_sign_in in \<open>auto simp: store1_view ann_def demo_compare_def split: if_splits\<close>)

lemma demo_signed_out_view:
  assumes "svc_SignOut demo_service (demo_call t ''t2'') ''secret'' store1 = (Inr x, s')"
  shows "sessions (sview s') = [''t1'' \<mapsto> (session_of ann_token)\<lparr>ses_revoked := Some t\<rparr>]"
  by (rule app.sign_out_ok [OF demo_stores_ok(3) assms])
    (auto simp: store1_view spec_revoke_def fun_eq_iff ann_token_def split: if_splits)

lemma demo_verified:
  obtains r s1 ev s2 a where "svc_CreatePendingRegistration demo_service (demo_call 0 ''c1'') ''u1'' ''ann@x.org''
      ''ann'' ''pw'' store0 = (Inr r, s1)"
    "svc_VerifyRegistrationEmail demo_service (demo_call 1 ''c1'') (UserID_pr r) (VerificationCode_pr r) s1 = (Inr ev, s2)"
    "accounts (sview s2) ''u1'' = Some a" "acc_verified a" "UserID_pr r = ''u1''"
proof -
  obtain r s1 where reg: "svc_CreatePendingRegistration demo_service (demo_call 0 ''c1'') ''u1'' ''ann@x.org''
      ''ann'' ''pw'' store0 = (Inr r, s1)" by (rule demo_registration [of "''c1''", OF demo_uuids(4)])
  have u: "UserID_pr r = ''u1''"
    by (rule app.pending_ok [OF demo_stores_ok(1) reg]) simp
  have "time_Now (demo_call 1 ''c1'') < time_Now (demo_call 0 ''c1'') + 10 * minute"
    by (simp add: minute_def second_def)
  from reliable_app.pending_verifies [OF demo_reliable(1) reg this] reg u show thesis
    by (metis that account.select_convs(4))
qed

lemma store1_granted: "granted (sview store1) ''u1'' = {RoleAdmin}"
  by (auto simp: store1_def view_of_def)

lemma demo_issue:
  obtains tp s' where "svc_IssueRegistrationTokens demo_service (demo_call t ''t2'') ''u1'' store1 = (Inr tp, s')"
  by (rule reliable_app.issue_live [OF demo_reliable(2), where uid = "''u1''" and u = "''u1''" and
        env = "demo_call t ''t2''" and i = "''t2''" and a = "account_of ann" and
        c = default_jwt and sign = demo_sign and compare = demo_compare])
    (use demo_session demo_sign_in in \<open>auto simp: store1_view ann_def\<close>)

text \<open>A random source that fails, and a signer that fails.\<close>

definition demo_no_random :: call_env where
  "demo_no_random = (demo_call 0 ''c1'')\<lparr>rand_Read := (\<lambda>_. None)\<rparr>"

lemma demo_no_random_fields [simp]: "rand_Read demo_no_random n = None" "Getenv demo_no_random x = []"
  by (simp_all add: demo_no_random_def)

abbreviation demo_unsigned_service :: "store authService" where
  "demo_unsigned_service \<equiv> pg_service demo_db default_jwt (\<lambda>_. Inl ''no key'') demo_compare"

lemma demo_credential:
  obtains cr s0 where "svc_CreateCredential demo_service ''u1'' ''ann@x.org'' ''ann'' ''pw'' store0 = (Inr cr, s0)"
  by (simp add: svc_CreateCredential_def demo_eval store0_def)

lemma refresh_unsigned:
  assumes "svc_Refresh (pg_service db c sign cmp) call tok s = (Inr tp, s')" and "\<And>cl. sign' cl = Inl e"
  shows "svc_Refresh (pg_service db c sign' cmp) call tok s = (Inl (ExtErr e), s')"
  using assms by (auto simp: svc_Refresh_def signAccessToken_def Let_def split: if_splits prod.splits sum.splits option.splits)

lemma demo_unsigned_refresh:
  assumes "t < 1000"
  obtains e s' where "svc_Refresh demo_unsigned_service (demo_call t ''t2'') ''secret'' store1 = (Inl (ExtErr e), s')"
proof -
  obtain tp s' where ok: "svc_Refresh demo_service (demo_call t ''t2'') ''secret'' store1 = (Inr tp, s')"
    by (rule demo_refresh [OF assms])
  show thesis by (rule that) (rule refresh_unsigned [OF ok refl])
qed

lemma demo_deactivate:
  obtains s1 where "svc_DeactivateRegistrationAuth demo_service ''u1'' store1 = (Inr (), s1)"
  by (simp add: svc_DeactivateRegistrationAuth_def lift_repo_def pg_methods send_reliable
      repo_DeactivateRegistrationAuth_def deactivateRegistrationAuthQuery_def update_credentials_def
      RowsAffected_def store1_def ann_def Let_def) (simp add: demo_db_def)

lemma demo_failed_registration:
  obtains r :: PendingRegistrationResult and s1 s2 where "reliable_ok demo_db s1" "TrimSpace (VerificationCode_pr r) \<noteq> []"
    "code_available ''u1'' (hashVerificationCode (TrimSpace (VerificationCode_pr r))) 1 (sview s1)"
    "svc_DeactivateRegistrationAuth demo_service ''u1'' s1 = (Inr (), s2)"
proof -
  obtain r s1 where reg: "svc_CreatePendingRegistration demo_service (demo_call 0 ''c1'') ''u1'' ''ann@x.org''
      ''ann'' ''pw'' store0 = (Inr r, s1)" by (rule demo_registration [of "''c1''", OF demo_uuids(4)])
  have ok: "reliable_ok demo_db s1" using reliable_app.pending_run [OF demo_reliable(1) reg] by simp
  from app.pending_ok [OF demo_stores_ok(1) reg] obtain u where u: "demo_uuid ''u1'' = Some u"
    and gen: "generateVerificationCode (demo_call 0 ''c1'') = Some (VerificationCode_pr r)"
    and v: "sview s1 = spec_add_code u (hashVerificationCode (VerificationCode_pr r)) (0 + 10 * minute)
      (spec_create u ''ann@x.org'' ''ann'' ''pw'' (sview store0))"
    by (metis demo_db_fields(1) demo_call_fields(1))
  have "accounts (sview s1) ''u1'' \<noteq> None" using u by (simp add: v spec_add_code_def spec_create_def)
  from reliable_pg.deactivate_live [OF ok _ this, of "''u1''"] obtain s2 where
    "DeactivateAuth (pg demo_db) ''u1'' s1 = (Inr (), s2)" by auto
  then have off: "svc_DeactivateRegistrationAuth demo_service ''u1'' s1 = (Inr (), s2)"
    by (simp add: svc_DeactivateRegistrationAuth_def lift_repo_def)
  have "code_available ''u1'' (hashVerificationCode (VerificationCode_pr r)) 1 (sview s1)"
    using u by (auto simp: v code_available_def spec_add_code_def spec_create_def minute_def second_def)
  with ok off show thesis
    by (intro that [of s1 r s2]) (simp_all add: verification_code_shape(2) [OF gen] verification_code_nonempty [OF gen])
qed

end
