(* ===== verification/Auth_Properties.thy ===== *)
theory Auth_Properties
  imports Service_Runs Fixtures
begin

text \<open>
  The properties of the deployed service: what its methods guarantee over PostgreSQL, first under
  any faults of the database, then when statements do not fail.
\<close>



text \<open>
  C2. A registration that succeeded verifies with the code it was answered, at any time within ten
  minutes: the verification answers the registered user and email, and the account ends verified
  with exactly the registered email, username and password hash.
\<close>

theorem registration_verifies:
  assumes "reliable_ok env s"
    and "svc_CreatePendingRegistration (pg_service env c sign compare) call uid e n p s = (Inr r, s1)"
    and "time_Now call2 < time_Now call + 10 * minute"
  shows "\<exists>ev s2. svc_VerifyRegistrationEmail (pg_service env c sign compare) call2 (UserID_pr r)
      (VerificationCode_pr r) s1 = (Inr ev, s2) \<and> UserID_ev ev = UserID_pr r \<and> Email_ev ev = e \<and>
    accounts (sview s2) (UserID_pr r) = Some \<lparr>acc_email = e, acc_username = n, acc_password_hash = p,
      acc_verified = True, acc_status = CredentialStatusEmailVerified\<rparr>"
  by (rule reliable_app.pending_verifies [OF assms]) blast

theorem registration_verifies_witness:
  "\<exists>r s1 ev s2. svc_CreatePendingRegistration demo_service (demo_call 0 ''c1'') ''u1'' ''ann@x.org'' ''ann'' ''pw''
      store0 = (Inr r, s1) \<and> svc_VerifyRegistrationEmail demo_service (demo_call minute ''c1'') (UserID_pr r)
      (VerificationCode_pr r) s1 = (Inr ev, s2) \<and> Email_ev ev = ''ann@x.org''"
proof -
  obtain r s1 where reg: "svc_CreatePendingRegistration demo_service (demo_call 0 ''c1'') ''u1'' ''ann@x.org''
      ''ann'' ''pw'' store0 = (Inr r, s1)" by (rule demo_registration [of "''c1''", OF demo_uuids(4)])
  have "time_Now (demo_call minute ''c1'') < time_Now (demo_call 0 ''c1'') + 10 * minute"
    by (simp add: minute_def second_def)
  from registration_verifies [OF demo_reliable(1) reg this] reg show ?thesis by blast
qed

text \<open>
  C3. A refresh token is spent by its first use, whatever the database does afterwards. After a
  Refresh with it succeeded, through any later calls that keep the account, a further success with
  the same token would have to come from another live session that carries the same token hash:
  the session it spent never serves again.
\<close>

theorem spent_token_never_refreshes:
  assumes ok: "store_ok env s"
    and first: "svc_Refresh (pg_service env c sign compare) call tok s = (Inr tp, s1)"
    and later: "(\<lambda>x y. served (pg_service env c sign compare) x y \<and>
      accounts (sview y) (UserID_tp tp) \<noteq> None)\<^sup>*\<^sup>* s1 s2"
  shows "\<exists>i q. sessions (sview s) i = Some q \<and> ses_hash q = hashVerificationCode (TrimSpace tok) \<and>
    live_at (time_Now call) q \<and>
    (\<forall>call2 tp2 s3. svc_Refresh (pg_service env c sign compare) call2 tok s2 = (Inr tp2, s3) \<longrightarrow>
      (\<exists>j q'. j \<noteq> i \<and> sessions (sview s2) j = Some q' \<and>
        ses_hash q' = hashVerificationCode (TrimSpace tok) \<and> live_at (time_Now call2) q'))"
proof -
  from app.refresh_ok [OF ok first] obtain cr i q i' where q: "sessions (sview s) i = Some q"
      "ses_hash q = hashVerificationCode (TrimSpace tok)" "live_at (time_Now call) q" "sessions (sview s) i' = None"
    and u: "UserID cr = ses_user q" "pair_for (pg_service env c sign compare) call cr tp"
    and v1: "sview s1 = spec_add_session i' (ses_user q) (hashVerificationCode (RefreshToken tp))
       (time_Now call + RefreshTokenTTL c) (spec_revoke i (time_Now call) (sview s))"
    by (metis pg_service_fields(2))
  have ok1: "store_ok env s1" using app.refresh_run [OF ok first] by simp
  from q have "i \<noteq> i'" by auto
  then obtain r where r: "sessions (sview s1) i = Some r" "ses_revoked r \<noteq> None" "ses_user r = UserID_tp tp"
    using q u by (auto simp: v1 spec_add_session_def spec_revoke_def pair_for_def)
  from served_spent_forever [OF later ok1 r] have s2: "store_ok env s2" "sessions (sview s2) i = Some r" by simp_all
  from q refresh_needs_live [OF s2 r(2)] show ?thesis by blast
qed

theorem spent_token_never_refreshes_witness:
  "\<exists>tp s1. svc_Refresh demo_short_service (demo_call 5 ''t2'') ''secret'' store1 = (Inr tp, s1) \<and>
     (\<nexists>tp2 s2. svc_Refresh demo_short_service (demo_call 6 ''t3'') ''secret'' s1 = (Inr tp2, s2))"
proof -
  obtain tp s1 where run: "svc_Refresh demo_short_service (demo_call 5 ''t2'') ''secret'' store1 = (Inr tp, s1)"
    by (rule demo_refresh [of 5]) simp
  from demo_refreshed_view [OF run] spent_token_never_refreshes [OF demo_stores_ok(3) run rtranclp.rtrancl_refl] run
  show ?thesis by (fastforce simp: store1_view live_at_def split: if_splits)
qed

text \<open>
  C4. Signing out ends a session for good, whatever the database does: after a SignOut with a
  token succeeded, through any later calls that keep the account, a Refresh with that token could
  only succeed from another live session with the same token hash.
\<close>

theorem signed_out_token_never_refreshes:
  assumes ok: "store_ok env s"
    and out: "svc_SignOut (pg_service env c sign compare) call tok s = (Inr x, s1)"
  shows "\<exists>i q. sessions (sview s) i = Some q \<and> ses_hash q = hashVerificationCode (TrimSpace tok) \<and>
    live_at (time_Now call) q \<and>
    (\<forall>s2 call2 tp s3. (\<lambda>x y. served (pg_service env c sign compare) x y \<and>
        accounts (sview y) (ses_user q) \<noteq> None)\<^sup>*\<^sup>* s1 s2 \<longrightarrow>
      svc_Refresh (pg_service env c sign compare) call2 tok s2 = (Inr tp, s3) \<longrightarrow>
      (\<exists>j q'. j \<noteq> i \<and> sessions (sview s2) j = Some q' \<and>
        ses_hash q' = hashVerificationCode (TrimSpace tok) \<and> live_at (time_Now call2) q'))"
proof -
  from app.sign_out_ok [OF ok out] obtain i q where q: "sessions (sview s) i = Some q"
      "ses_hash q = hashVerificationCode (TrimSpace tok)" "live_at (time_Now call) q"
    and v1: "sview s1 = spec_revoke i (time_Now call) (sview s)" by metis
  have ok1: "store_ok env s1" using app.sign_out_run [OF ok out] by simp
  from q obtain r where r: "sessions (sview s1) i = Some r" "ses_revoked r \<noteq> None" "ses_user r = ses_user q"
    by (auto simp: v1 spec_revoke_def)
  show ?thesis
  proof (rule exI [of _ i], rule exI [of _ q], intro conjI allI impI)
    fix s2 call2 tp s3
    assume "(\<lambda>x y. served (pg_service env c sign compare) x y \<and> accounts (sview y) (ses_user q) \<noteq> None)\<^sup>*\<^sup>* s1 s2"
      and ref: "svc_Refresh (pg_service env c sign compare) call2 tok s2 = (Inr tp, s3)"
    from served_spent_forever [OF this(1) ok1 r] have "store_ok env s2" "sessions (sview s2) i = Some r" by simp_all
    from refresh_needs_live [OF this r(2) ref] show "\<exists>j q'. j \<noteq> i \<and> sessions (sview s2) j = Some q' \<and>
        ses_hash q' = hashVerificationCode (TrimSpace tok) \<and> live_at (time_Now call2) q'" .
  qed (use q in simp_all)
qed

theorem signed_out_token_never_refreshes_witness:
  "\<exists>s1. svc_SignOut demo_service (demo_call 5 ''t2'') ''secret'' store1 = (Inr (), s1) \<and>
     (\<nexists>tp s2. svc_Refresh demo_service (demo_call 6 ''t3'') ''secret'' s1 = (Inr tp, s2))"
proof -
  obtain s1 where run: "svc_SignOut demo_service (demo_call 5 ''t2'') ''secret'' store1 = (Inr (), s1)"
    by (rule demo_sign_out [of 5]) simp
  from demo_signed_out_view [OF run] signed_out_token_never_refreshes [OF demo_stores_ok(3) run] run
  show ?thesis by (fastforce simp: store1_view live_at_def split: if_splits)
qed



text \<open>
  C6. A rotation is all or nothing, also when statements fail or their replies are lost, COMMIT
  included: either the view is unchanged and the answer is an error, or the live session with the
  presented hash is revoked and exactly one new session of the same user is stored; an answer
  without error belongs to the second case and names the session's user.
\<close>

theorem rotation_all_or_nothing:
  assumes "store_ok env s" and "repo_RotateRefreshToken env tr ro s = (res, s')"
  shows "sview s' = sview s \<and> (\<exists>e. res = Inl e) \<or>
    (\<exists>i q i'. sessions (sview s) i = Some q \<and> ses_hash q = CurrentTokenHash_ro ro \<and> live_at (Now_ro ro) q \<and>
      uuid_in env (NewTokenID_ro ro) = Some i' \<and> sessions (sview s) i' = None \<and>
      sview s' = spec_add_session i' (ses_user q) (NewTokenHash_ro ro) (NewExpiresAt_ro ro)
        (spec_revoke i (Now_ro ro) (sview s)) \<and>
      (\<forall>cr. res = Inr cr \<longrightarrow> UserID cr = ses_user q))"
  using assms
proof (cases rule: rotate_cases)
  case (kept e)
  then show ?thesis by simp
next
  case (committed i q i')
  then show ?thesis
    by (intro disjI2 exI [of _ i] exI [of _ q] exI [of _ i']) simp
qed

theorem rotation_all_or_nothing_witness:
  "\<exists>res s'. repo_RotateRefreshToken lossy_db NewPgErrorTranslator \<lparr>CurrentTokenHash_ro = hashVerificationCode ''secret'',
      NewTokenID_ro = ''t2'', NewTokenHash_ro = ''h'', NewExpiresAt_ro = 2000, Now_ro = 5\<rparr> store1 = (res, s') \<and>
    (sview s' = sview store1 \<or> (\<exists>i'. sessions (sview s') i' \<noteq> None \<and> sessions (sview store1) i' = None))"
proof -
  let ?ro = "\<lparr>CurrentTokenHash_ro = hashVerificationCode ''secret'', NewTokenID_ro = ''t2'',
      NewTokenHash_ro = ''h'', NewExpiresAt_ro = 2000, Now_ro = 5\<rparr>"
  obtain res s' where run: "repo_RotateRefreshToken lossy_db NewPgErrorTranslator ?ro store1 = (res, s')" by fastforce
  from rotation_all_or_nothing [OF demo_stores_ok(4) run] run show ?thesis
    by (auto simp: spec_add_session_def)
qed

text \<open>
  C7. A sign-in that succeeds names, by its trimmed identifier, the username or email of a verified
  account whose stored hash bcrypt accepts the untrimmed password against; it opens exactly one new
  session for that account, holding the hash of the refresh token it answers and expiring one
  refresh TTL after the clock reading; and the access token it answers is signed with an empty role
  list, whatever roles the account has been granted.
\<close>

theorem sign_in_sound:
  assumes "store_ok env s" and "svc_SignIn (pg_service env c sign compare) call ident pw s = (Inr tp, s')"
  shows "\<exists>cr i. knows (sview s) cr \<and> (Username cr = TrimSpace ident \<or> Email cr = TrimSpace ident) \<and>
    EmailVerified cr \<and> Status cr = CredentialStatusEmailVerified \<and> compare (PasswordHash cr) pw = None \<and>
    Roles cr = [] \<and> pair_for (pg_service env c sign compare) call cr tp \<and> sessions (sview s) i = None \<and>
    sview s' = spec_add_session i (UserID cr) (hashVerificationCode (RefreshToken tp))
      (time_Now call + RefreshTokenTTL c) (sview s)"
  by (rule app.sign_in_ok [OF assms]) (unfold pg_service_fields, blast)

theorem sign_in_sound_witness:
  "\<exists>tp s'. svc_SignIn demo_service (demo_call 5 ''t2'') ''ann'' ''pw'' store1 = (Inr tp, s') \<and>
     granted (sview store1) ''u1'' = {RoleAdmin} \<and>
     (\<exists>cr. Roles cr = [] \<and> UserID cr = ''u1'' \<and> pair_for demo_service (demo_call 5 ''t2'') cr tp)"
proof -
  obtain tp s' where run: "svc_SignIn demo_service (demo_call 5 ''t2'') ''ann'' ''pw'' store1 = (Inr tp, s')"
    by (rule demo_login)
  from sign_in_sound [OF demo_stores_ok(3) run] run show ?thesis
    by (auto simp: store1_granted store1_view knows_def split: if_splits)
qed

text \<open>
  C8. IssueRegistrationTokens succeeds only for an account that is verified in both its flag and
  its status, signs the access token with exactly the roles granted to it, and opens one session.
\<close>

theorem registration_tokens_sound:
  assumes "store_ok env s" and "svc_IssueRegistrationTokens (pg_service env c sign compare) call uid s = (Inr tp, s')"
  shows "\<exists>cr i. uuid_in env (TrimSpace uid) = Some (UserID cr) \<and> knows (sview s) cr \<and> EmailVerified cr \<and>
    Status cr = CredentialStatusEmailVerified \<and> set (Roles cr) = granted (sview s) (UserID cr) \<and>
    pair_for (pg_service env c sign compare) call cr tp \<and> sessions (sview s) i = None \<and>
    sview s' = spec_add_session i (UserID cr) (hashVerificationCode (RefreshToken tp))
      (time_Now call + RefreshTokenTTL c) (sview s)"
  by (rule app.issue_ok [OF assms]) (unfold pg_service_fields, blast)

theorem registration_tokens_sound_witness:
  "\<exists>tp s'. svc_IssueRegistrationTokens demo_service (demo_call 5 ''t2'') ''u1'' store1 = (Inr tp, s') \<and>
     (\<exists>cr. set (Roles cr) = {RoleAdmin} \<and> pair_for demo_service (demo_call 5 ''t2'') cr tp)"
proof -
  obtain tp s' where run: "svc_IssueRegistrationTokens demo_service (demo_call 5 ''t2'') ''u1'' store1 = (Inr tp, s')"
    by (rule demo_issue)
  from registration_tokens_sound [OF demo_stores_ok(3) run] run show ?thesis
    by (auto simp: store1_granted store1_view knows_def split: if_splits)
qed

text \<open>
  C9. A verification code works once: after a verification succeeded, the same code for the same
  user is refused as an invalid code at every later clock reading.
\<close>

theorem code_works_once:
  assumes "reliable_ok env s"
    and "svc_VerifyRegistrationEmail (pg_service env c sign compare) call uid code s = (Inr ev, s1)"
    and "time_Now call \<le> time_Now call2"
  shows "fst (svc_VerifyRegistrationEmail (pg_service env c sign compare) call2 uid code s1)
    = Inl (AuthErr ErrInvalidVerificationCode)"
  by (rule reliable_app.verify_once [OF assms])

theorem code_works_once_witness:
  "\<exists>s code ev s1. svc_VerifyRegistrationEmail demo_service (demo_call 1 ''c1'') ''u1'' code s = (Inr ev, s1) \<and>
     fst (svc_VerifyRegistrationEmail demo_service (demo_call 2 ''c1'') ''u1'' code s1)
       = Inl (AuthErr ErrInvalidVerificationCode)"
proof -
  obtain r s1 ev s2 a where reg: "svc_CreatePendingRegistration demo_service (demo_call 0 ''c1'') ''u1'' ''ann@x.org''
      ''ann'' ''pw'' store0 = (Inr r, s1)"
    and ver: "svc_VerifyRegistrationEmail demo_service (demo_call 1 ''c1'') ''u1'' (VerificationCode_pr r) s1 = (Inr ev, s2)"
    by (rule demo_verified) metis
  have "reliable_ok demo_db s1" using reliable_app.pending_run [OF demo_reliable(1) reg] by simp
  from code_works_once [OF this ver, of "demo_call 2 ''c1''"] ver show ?thesis by auto
qed





text \<open>
  C12. Registration is not atomic: when the verification code cannot be drawn or stored, the
  credential created just before stays, and registering the same user again is then refused. The
  user is left registered without a code.
\<close>

theorem failed_registration_keeps_credential:
  assumes ok: "reliable_ok env s"
    and cred: "svc_CreateCredential (pg_service env c sign compare) uid e n p s = (Inr cr, s0)"
    and reg: "svc_CreatePendingRegistration (pg_service env c sign compare) call uid e n p s = (Inl err, s1)"
  shows "sview s1 = spec_create (UserID cr) e n p (sview s) \<and>
    fst (svc_CreatePendingRegistration (pg_service env c sign compare) call2 uid e n p s1)
      = Inl (AuthErr ErrAuthCredentialsAlreadyExist)"
proof
  show v: "sview s1 = spec_create (UserID cr) e n p (sview s)" by (rule reliable_app.pending_partial [OF ok reg cred])
  note c = reliable_app.create_credential_ok [OF ok cred]
  have "reliable_ok env s1" using reliable_app.pending_run [OF ok reg] by simp
  from reliable_pg.create_known [OF this, where u = "UserID cr" and
      p = "\<lparr>UserID_cc = uid, Email_cc = e, Username_cc = n, PasswordHash_cc = p\<rparr>"] c v
  show "fst (svc_CreatePendingRegistration (pg_service env c sign compare) call2 uid e n p s1)
      = Inl (AuthErr ErrAuthCredentialsAlreadyExist)"
    by (auto simp: svc_CreatePendingRegistration_def svc_CreateCredential_def lift_repo_def spec_create_def
        split: prod.splits sum.splits)
qed

theorem failed_registration_keeps_credential_witness:
  "\<exists>err s1. svc_CreatePendingRegistration demo_service demo_no_random ''u1'' ''ann@x.org'' ''ann'' ''pw'' store0 = (Inl err, s1) \<and>
     accounts (sview s1) ''u1'' \<noteq> None"
proof -
  obtain cr s0 where cred: "svc_CreateCredential demo_service ''u1'' ''ann@x.org'' ''ann'' ''pw'' store0 = (Inr cr, s0)"
    by (rule demo_credential)
  then obtain s1 where reg: "svc_CreatePendingRegistration demo_service demo_no_random ''u1'' ''ann@x.org'' ''ann'' ''pw'' store0
      = (Inl (AuthErr ErrFailedToCreateVerificationCode), s1)"
    by (simp add: svc_CreatePendingRegistration_def generateVerificationCode_def)
  from failed_registration_keeps_credential [OF demo_reliable(1) cred reg] reg
    reliable_app.create_credential_ok [OF demo_reliable(1) cred]
  show ?thesis by (auto simp: spec_create_def)
qed

text \<open>
  C13. Deactivating an account after a failed registration neither ends its sessions nor bars them:
  a live refresh token of the account still obtains a new token pair, although the account is
  unverified and marked registration_failed.
\<close>

theorem deactivated_account_still_refreshes:
  assumes ok: "reliable_ok env s"
    and off: "svc_DeactivateRegistrationAuth (pg_service env c sign compare) uid s = (Inr x, s1)"
    and q: "sessions (sview s) i = Some q" "ses_hash q = hashVerificationCode (TrimSpace tok)" "TrimSpace tok \<noteq> []"
      "uuid_in env (TrimSpace uid) = Some (ses_user q)" "live_at (time_Now call) q"
      "hash_unique (hashVerificationCode (TrimSpace tok)) (sview s)"
    and env: "rand_ok call" "uuid_in env (uuid_NewV7 call) = Some i'" "sessions (sview s) i' = None"
      "\<And>cl. \<exists>t. sign cl = Inr t"
  shows "(\<exists>a. accounts (sview s1) (ses_user q) = Some a \<and> \<not> acc_verified a \<and>
      acc_status a = CredentialStatusRegistrationFailed) \<and>
    (\<exists>tp s2. svc_Refresh (pg_service env c sign compare) call tok s1 = (Inr tp, s2))"
proof -
  from reliable_app.compensate_ok(1) [OF ok off] q(4) have v: "sview s1 = spec_deactivate (ses_user q) (sview s)"
    and known: "accounts (sview s) (ses_user q) \<noteq> None" by auto
  have ok1: "reliable_ok env s1" using reliable_app.compensate_run(1) [OF ok off] by simp
  have same: "sessions (sview s1) = sessions (sview s)" by (simp add: v spec_deactivate_def)
  have sg: "\<And>cr. \<exists>t. signAccessToken (pg_service env c sign compare) cr (time_Now call) = Inr t"
    using env(4) by (simp add: signAccessToken_def)
  obtain tp s2 where "svc_Refresh (pg_service env c sign compare) call tok s1 = (Inr tp, s2)"
    by (rule reliable_app.refresh_live [OF ok1 q(3), of i q call c sign compare i'])
      (use q env sg in \<open>auto simp: same hash_unique_def\<close>)
  with known show ?thesis by (auto simp: v spec_deactivate_def)
qed

theorem deactivated_account_still_refreshes_witness:
  "\<exists>s1 tp s2. svc_DeactivateRegistrationAuth demo_service ''u1'' store1 = (Inr (), s1) \<and>
     svc_Refresh demo_service (demo_call 5 ''t2'') ''secret'' s1 = (Inr tp, s2)"
proof -
  obtain s1 where off: "svc_DeactivateRegistrationAuth demo_service ''u1'' store1 = (Inr (), s1)"
    by (rule demo_deactivate)
  have "\<And>cl. \<exists>t. demo_sign cl = Inr t" by (simp add: demo_sign_def)
  from deactivated_account_still_refreshes [OF demo_reliable(2) off demo_session(1), of "''secret''" "demo_call 5 ''t2''" "''t2''"]
    demo_session off this show ?thesis by auto
qed

text \<open>
  Deactivation does not withdraw open codes either: a code issued before it still verifies the
  account afterwards, which leaves the state registration_failed and becomes email_verified.
\<close>

theorem deactivated_account_can_verify:
  assumes ok: "reliable_ok env s"
    and off: "svc_DeactivateRegistrationAuth (pg_service env c sign compare) uid s = (Inr x, s1)"
    and code: "uuid_in env (TrimSpace uid) = Some u" "TrimSpace code \<noteq> []"
      "code_available u (hashVerificationCode (TrimSpace code)) (time_Now call) (sview s)"
  shows "\<exists>ev s2 a. svc_VerifyRegistrationEmail (pg_service env c sign compare) call uid code s1 = (Inr ev, s2) \<and>
    accounts (sview s2) u = Some a \<and> acc_verified a \<and> acc_status a = CredentialStatusEmailVerified"
proof -
  from reliable_app.compensate_ok(1) [OF ok off] code(1) have v: "sview s1 = spec_deactivate u (sview s)"
    and known: "accounts (sview s) u \<noteq> None" by auto
  have ok1: "reliable_ok env s1" using reliable_app.compensate_run(1) [OF ok off] by simp
  have uid: "TrimSpace uid \<noteq> []" using off by (auto simp: svc_DeactivateRegistrationAuth_def split: if_splits)
  have "code_available u (hashVerificationCode (TrimSpace code)) (time_Now call) (sview s1)"
    using code(3) by (simp add: v code_available_def spec_deactivate_def)
  from reliable_pg.verify_live [OF ok1 code(1) this] obtain cr s2 where run: "VerifyEmail (pg env) (TrimSpace uid)
      (hashVerificationCode (TrimSpace code)) (time_Now call) s1 = (Inr cr, s2)" by blast
  from reliable_pg.verify_ok [OF ok1 run] code(1) known have "\<exists>a. accounts (sview s2) u = Some a \<and> acc_verified a \<and>
      acc_status a = CredentialStatusEmailVerified" by (auto simp: v spec_verify_def spec_deactivate_def)
  with run uid code(2) show ?thesis by (simp add: svc_VerifyRegistrationEmail_def)
qed

theorem deactivated_account_can_verify_witness:
  "\<exists>s code s1 ev s2. svc_DeactivateRegistrationAuth demo_service ''u1'' s = (Inr (), s1) \<and>
     svc_VerifyRegistrationEmail demo_service (demo_call 1 ''c1'') ''u1'' code s1 = (Inr ev, s2)"
proof -
  obtain r :: PendingRegistrationResult and s1 s2 where st: "reliable_ok demo_db s1" "TrimSpace (VerificationCode_pr r) \<noteq> []"
    "code_available ''u1'' (hashVerificationCode (TrimSpace (VerificationCode_pr r))) 1 (sview s1)"
    and off: "svc_DeactivateRegistrationAuth demo_service ''u1'' s1 = (Inr (), s2)" by (rule demo_failed_registration)
  have "\<exists>ev s3. svc_VerifyRegistrationEmail demo_service (demo_call 1 ''c1'') ''u1'' (VerificationCode_pr r) s2 = (Inr ev, s3)"
    using deactivated_account_can_verify [OF st(1) off, of "''u1''" "VerificationCode_pr r" "demo_call 1 ''c1''"] st(2,3) by auto
  with off show ?thesis by blast
qed

text \<open>
  C15. A Refresh whose access token cannot be signed has already rotated: the error is answered
  after the presented session was revoked and its successor stored, whose token the caller never
  learns. The session is lost.
\<close>

theorem unsigned_refresh_loses_session:
  assumes "reliable_ok env s" and "svc_Refresh (pg_service env c sign compare) call tok s = (Inl (ExtErr e), s')"
  shows "\<exists>i q i' h. sessions (sview s) i = Some q \<and> ses_hash q = hashVerificationCode (TrimSpace tok) \<and>
    live_at (time_Now call) q \<and> sessions (sview s) i' = None \<and>
    sview s' = spec_add_session i' (ses_user q) h (time_Now call + RefreshTokenTTL c) (spec_revoke i (time_Now call) (sview s))"
  by (rule reliable_app.refresh_signer_err [OF assms]) (unfold pg_service_fields, blast)

theorem unsigned_refresh_loses_session_witness:
  "\<exists>e s'. svc_Refresh demo_unsigned_service (demo_call 5 ''t2'') ''secret'' store1 = (Inl (ExtErr e), s') \<and>
     sview s' \<noteq> sview store1"
proof -
  obtain e s' where run: "svc_Refresh demo_unsigned_service (demo_call 5 ''t2'') ''secret'' store1 = (Inl (ExtErr e), s')"
    by (rule demo_unsigned_refresh [of 5]) simp
  from unsigned_refresh_loses_session [OF demo_reliable(2) run] obtain i q i' h where
    q: "sessions (sview store1) i = Some q" "sessions (sview store1) i' = None"
    and v: "sview s' = spec_add_session i' (ses_user q) h (5 + RefreshTokenTTL default_jwt) (spec_revoke i 5 (sview store1))"
    by auto
  from v q have "sessions (sview s') i' \<noteq> sessions (sview store1) i'" by (simp add: spec_add_session_def)
  with run show ?thesis by auto
qed

end
