(* ===== verification/Go_Format.thy ===== *)
theory Go_Format
  imports Go_Text
begin

text \<open>
  Formatting from Go's standard library: the verb %d of package fmt, url.QueryEscape,
  strings.CutPrefix, and time.Time.Format for the layout RFC3339Nano in UTC.
\<close>

subsection \<open>Integers\<close>

definition fmt_d :: "int \<Rightarrow> string" where
  "fmt_d n = (if n < 0 then ''-'' @ decimal (nat (- n)) else decimal (nat n))"

lemma decimal_nonempty [simp]: "decimal n \<noteq> []"
  by (subst decimal.simps) simp

lemma fmt_d_digits: "0 \<le> n \<Longrightarrow> list_all is_digit (fmt_d n)"
  by (simp add: fmt_d_def decimal_digits)

subsection \<open>strings.CutPrefix\<close>

definition CutPrefix :: "string \<Rightarrow> string \<Rightarrow> string \<times> bool" where
  "CutPrefix s pre = (if HasPrefix s pre then (drop (length pre) s, True) else (s, False))"

subsection \<open>url.QueryEscape\<close>

text \<open>
  Letters, digits and the four marks - _ . ~ stand for themselves, a space becomes a plus sign
  and every other byte a percent sign with two upper-case hexadecimal digits.
\<close>

definition upper_hex :: "nat \<Rightarrow> char" where
  "upper_hex n = char_of (if n < 10 then 48 + n else 55 + n)"

definition unreserved :: "char \<Rightarrow> bool" where
  "unreserved c = (let n = of_char c :: nat in
     48 \<le> n \<and> n \<le> 57 \<or> 65 \<le> n \<and> n \<le> 90 \<or> 97 \<le> n \<and> n \<le> 122 \<or> n = 45 \<or> n = 95 \<or> n = 46 \<or> n = 126)"

definition escape_byte :: "char \<Rightarrow> string" where
  "escape_byte c = (if unreserved c then [c] else if c = CHR '' '' then ''+''
     else [CHR ''%'', upper_hex (of_char c div 16), upper_hex (of_char c mod 16)])"

definition QueryEscape :: "string \<Rightarrow> string" where
  "QueryEscape s = concat (map escape_byte s)"

subsection \<open>time.RFC3339Nano\<close>

text \<open>
  The civil date of a day number (days since 1970-01-01): eras of 400 years from the first of
  March of year 0, years counted from March.
\<close>

definition civil_from_days :: "int \<Rightarrow> int \<times> int \<times> int" where
  "civil_from_days d =
     (let z = d + 719468;
          era = z div 146097;
          doe = z mod 146097;
          yoe = (doe - doe div 1460 + doe div 36524 - doe div 146096) div 365;
          doy = doe - (365 * yoe + yoe div 4 - yoe div 100);
          mp = (5 * doy + 2) div 153;
          day = doy - (153 * mp + 2) div 5 + 1;
          month = (if mp < 10 then mp + 3 else mp - 9);
          year = yoe + era * 400 + (if month \<le> 2 then 1 else 0)
      in (year, month, day))"

definition pad_int :: "nat \<Rightarrow> int \<Rightarrow> string" where
  "pad_int w n = (if n < 0 then ''-'' @ pad_decimal w (nat (- n)) else pad_decimal w (nat n))"

text \<open>The fraction: up to nine digits without trailing zeros, and no point when it is zero.\<close>

definition nano_fraction :: "int \<Rightarrow> string" where
  "nano_fraction ns =
     (let digits = rev (dropWhile (\<lambda>c. c = digit_char 0) (rev (pad_decimal 9 (nat ns))))
      in if digits = [] then [] else ''.'' @ digits)"

definition RFC3339Nano :: "int \<Rightarrow> string" where
  "RFC3339Nano t =
     (let ns = t mod 10 ^ 9; secs = t div 10 ^ 9; sod = secs mod 86400;
          (year, month, day) = civil_from_days (secs div 86400)
      in pad_int 4 year @ ''-'' @ pad_int 2 month @ ''-'' @ pad_int 2 day @ ''T'' @
         pad_int 2 (sod div 3600) @ '':'' @ pad_int 2 (sod div 60 mod 60) @ '':'' @ pad_int 2 (sod mod 60) @
         nano_fraction ns @ ''Z'')"

end
