(* ===== verification/Go_Json.thy ===== *)
theory Go_Json
  imports Go_Format Go_Encoding "HOL-Library.Char_ord" "HOL-Library.List_Lexorder"
begin

text \<open>
  Package encoding/json as the service uses it: Marshal on strings, maps and structs of strings,
  Unmarshal into structs of strings. Strings are byte sequences; Marshal escapes for HTML and
  replaces ill-formed UTF-8, Unmarshal checks the whole input before it stores anything.
\<close>

datatype json = JNull | JBool bool | JNum string | JStr string | JArr "json list" | JObj "(string \<times> json) list"

subsection \<open>UTF-8\<close>

definition byte_at :: "string \<Rightarrow> nat \<Rightarrow> nat" where
  "byte_at s i = (if i < length s then of_char (s ! i) else 0)"

abbreviation (input) between :: "nat \<Rightarrow> nat \<Rightarrow> nat \<Rightarrow> bool" where
  "between a b n \<equiv> a \<le> n \<and> n \<le> b"

text \<open>The width of the multi-byte rune a string begins with, 0 when there is no well-formed one.\<close>

definition utf8_width :: "string \<Rightarrow> nat" where
  "utf8_width s =
     (let n = length s; b0 = byte_at s 0; b1 = byte_at s 1; b2 = byte_at s 2; b3 = byte_at s 3 in
      if 2 \<le> n \<and> between 0xC2 0xDF b0 \<and> between 0x80 0xBF b1 then 2
      else if 3 \<le> n \<and> between 0xE0 0xEF b0 \<and>
        between (if b0 = 0xE0 then 0xA0 else 0x80) (if b0 = 0xED then 0x9F else 0xBF) b1 \<and>
        between 0x80 0xBF b2 then 3
      else if 4 \<le> n \<and> between 0xF0 0xF4 b0 \<and>
        between (if b0 = 0xF0 then 0x90 else 0x80) (if b0 = 0xF4 then 0x8F else 0xBF) b1 \<and>
        between 0x80 0xBF b2 \<and> between 0x80 0xBF b3 then 4
      else 0)"

definition ascii :: "char \<Rightarrow> bool" where
  "ascii c \<longleftrightarrow> (of_char c :: nat) < 0x80"

text \<open>utf8.ValidString.\<close>

fun valid_utf8 :: "string \<Rightarrow> bool" where
  "valid_utf8 [] = True"
| "valid_utf8 (c # s) = (if ascii c then valid_utf8 s
     else utf8_width (c # s) \<noteq> 0 \<and> valid_utf8 (drop (utf8_width (c # s) - 1) s))"

text \<open>utf8.EncodeRune.\<close>

definition encode_rune :: "nat \<Rightarrow> string" where
  "encode_rune r = map char_of
     (if r < 0x80 then [r]
      else if r < 0x800 then [0xC0 + r div 64, 0x80 + r mod 64]
      else if r < 0x10000 then [0xE0 + r div 4096, 0x80 + r div 64 mod 64, 0x80 + r mod 64]
      else [0xF0 + r div 262144, 0x80 + r div 4096 mod 64, 0x80 + r div 64 mod 64, 0x80 + r mod 64])"

definition RuneError :: string where
  "RuneError = encode_rune 0xFFFD"

text \<open>A string with every byte that is not part of a well-formed rune replaced.\<close>

fun to_valid :: "string \<Rightarrow> string" where
  "to_valid [] = []"
| "to_valid (c # s) =
     (if ascii c then c # to_valid s
      else let w = utf8_width (c # s) in
        if w = 0 then RuneError @ to_valid s else take w (c # s) @ to_valid (drop (w - 1) s))"

lemma to_valid_id: "valid_utf8 s \<Longrightarrow> to_valid s = s"
proof (induction s rule: valid_utf8.induct)
  case 1
  then show ?case by simp
next
  case (2 c s)
  then show ?case by (cases "utf8_width (c # s)") (auto simp: Let_def split: if_splits)
qed

subsection \<open>Marshal\<close>

abbreviation backslash :: char where "backslash \<equiv> CHR 0x5C"
abbreviation quote :: char where "quote \<equiv> CHR 0x22"

definition json_char :: "char \<Rightarrow> string" where
  "json_char c = (let n = of_char c :: nat in
     if c = quote \<or> c = backslash then [backslash, c]
     else if n = 8 then [backslash, CHR ''b'']
     else if n = 9 then [backslash, CHR ''t'']
     else if n = 10 then [backslash, CHR ''n'']
     else if n = 12 then [backslash, CHR ''f'']
     else if n = 13 then [backslash, CHR ''r'']
     else if n < 32 \<or> c \<in> {CHR ''<'', CHR ''>'', CHR ''&''}
     then [backslash, CHR ''u'', CHR ''0'', CHR ''0'', hex_digit (n div 16), hex_digit (n mod 16)]
     else [c])"

fun json_body :: "string \<Rightarrow> string" where
  "json_body [] = []"
| "json_body (c # s) =
     (if ascii c then json_char c @ json_body s
      else let w = utf8_width (c # s) in
        if w = 0 then backslash # ''ufffd'' @ json_body s
        else if take w (c # s) = encode_rune 0x2028 then backslash # ''u2028'' @ json_body (drop (w - 1) s)
        else if take w (c # s) = encode_rune 0x2029 then backslash # ''u2029'' @ json_body (drop (w - 1) s)
        else take w (c # s) @ json_body (drop (w - 1) s))"

definition json_string :: "string \<Rightarrow> string" where
  "json_string s = quote # json_body s @ [quote]"

fun join :: "string \<Rightarrow> string list \<Rightarrow> string" where
  "join sep [] = []"
| "join sep [x] = x"
| "join sep (x # y # xs) = x @ sep @ join sep (y # xs)"

abbreviation (input) member_text :: "(json \<Rightarrow> string) \<Rightarrow> string \<times> json \<Rightarrow> string" where
  "member_text f \<equiv> \<lambda>(k, v). json_string k @ '':'' @ f v"

fun Marshal :: "json \<Rightarrow> string" where
  "Marshal JNull = ''null''"
| "Marshal (JBool b) = (if b then ''true'' else ''false'')"
| "Marshal (JNum n) = n"
| "Marshal (JStr s) = json_string s"
| "Marshal (JArr vs) = ''['' @ join '','' (map Marshal vs) @ '']''"
| "Marshal (JObj ms) = ''{'' @ join '','' (map (member_text Marshal) ms) @ ''}''"

text \<open>A struct marshals its fields in order, a map its entries sorted by key.\<close>

definition go_map :: "(string \<times> json) list \<Rightarrow> json" where
  "go_map kvs = JObj (sort_key fst kvs)"

text \<open>A struct of strings; with the option omitempty a field with an empty string is left out.\<close>

definition strings :: "(string \<times> string) list \<Rightarrow> (string \<times> json) list" where
  "strings kvs = map (\<lambda>(k, x). (k, JStr x)) kvs"

definition field :: "string \<Rightarrow> string \<Rightarrow> (string \<times> string) list" where
  "field name v = [(name, v)]"

definition omitempty :: "string \<Rightarrow> string \<Rightarrow> (string \<times> string) list" where
  "omitempty name v = (if v = [] then [] else [(name, v)])"

subsection \<open>Unmarshal: strings\<close>

definition hex_value :: "char \<Rightarrow> nat option" where
  "hex_value c = (let n = of_char c :: nat in
     if between 48 57 n then Some (n - 48) else if between 97 102 n then Some (n - 87)
     else if between 65 70 n then Some (n - 55) else None)"

text \<open>The four hexadecimal digits after \<open>\u\<close>.\<close>

definition hex4 :: "string \<Rightarrow> nat option" where
  "hex4 s = (case s of
     a # b # c # d # _ \<Rightarrow>
       (case (hex_value a, hex_value b, hex_value c, hex_value d) of
          (Some w, Some x, Some y, Some z) \<Rightarrow> Some (4096 * w + 256 * x + 16 * y + z)
        | _ \<Rightarrow> None)
   | _ \<Rightarrow> None)"

text \<open>A low surrogate escaped right here: its value.\<close>

definition low_surrogate :: "string \<Rightarrow> nat option" where
  "low_surrogate s = (case s of
     b # u # t \<Rightarrow>
       if b = backslash \<and> u = CHR ''u'' then
         (case hex4 t of Some r \<Rightarrow> if between 0xDC00 0xDFFF r then Some r else None | None \<Rightarrow> None)
       else None
   | _ \<Rightarrow> None)"

definition simple_escape :: "char \<Rightarrow> char option" where
  "simple_escape c =
     (if c \<in> {quote, backslash, CHR ''/''} then Some c
      else if c = CHR ''b'' then Some (char_of (8 :: nat))
      else if c = CHR ''f'' then Some (char_of (12 :: nat))
      else if c = CHR ''n'' then Some (char_of (10 :: nat))
      else if c = CHR ''r'' then Some (char_of (13 :: nat))
      else if c = CHR ''t'' then Some (char_of (9 :: nat)) else None)"

definition prepend :: "string \<Rightarrow> (string \<times> string) option \<Rightarrow> (string \<times> string) option" where
  "prepend p r = map_option (\<lambda>(body, rest). (p @ body, rest)) r"

text \<open>The body of a string literal after its opening quote, and what follows the closing one.\<close>

fun unquote :: "string \<Rightarrow> (string \<times> string) option" where
  "unquote [] = None"
| "unquote (c # s) =
     (if c = quote then Some ([], s)
      else if c = backslash then
        (case s of
           [] \<Rightarrow> None
         | e # t \<Rightarrow>
             if e = CHR ''u'' then
               (case hex4 t of
                  None \<Rightarrow> None
                | Some r \<Rightarrow>
                    if between 0xD800 0xDFFF r then
                      (case (r < 0xDC00, low_surrogate (drop 4 t)) of
                         (True, Some l) \<Rightarrow>
                           prepend (encode_rune (0x10000 + (r - 0xD800) * 1024 + (l - 0xDC00))) (unquote (drop 10 t))
                       | _ \<Rightarrow> prepend RuneError (unquote (drop 4 t)))
                    else prepend (encode_rune r) (unquote (drop 4 t)))
             else
               (case simple_escape e of
                  None \<Rightarrow> None
                | Some d \<Rightarrow> prepend [d] (unquote t)))
      else if (of_char c :: nat) < 0x20 then None
      else if ascii c then prepend [c] (unquote s)
      else let w = utf8_width (c # s) in
        if w = 0 then prepend RuneError (unquote s)
        else prepend (take w (c # s)) (unquote (drop (w - 1) s)))"

lemma unquote_shorter: "unquote s = Some (b, r) \<Longrightarrow> length r < length s"
proof (induction s arbitrary: b r rule: unquote.induct)
  case 1
  then show ?case by simp
next
  case (2 c s)
  then show ?case
    by (auto simp: prepend_def Let_def split: if_splits list.splits option.splits bool.splits) force+
qed

subsection \<open>Unmarshal: values\<close>

definition json_space :: "char \<Rightarrow> bool" where
  "json_space c = (let n = of_char c :: nat in n = 32 \<or> n = 9 \<or> n = 10 \<or> n = 13)"

definition skip :: "string \<Rightarrow> string" where
  "skip s = dropWhile json_space s"

lemma skip_le: "length (skip s) \<le> length s"
  by (simp add: skip_def length_dropWhile_le)

lemma skip_shorter: "skip s = c # t \<Longrightarrow> length t < length s"
  using skip_le [of s] by simp

lemma skip_simps [simp]: "skip [] = []" "\<not> json_space c \<Longrightarrow> skip (c # s) = c # s" "skip (skip s) = skip s"
  by (simp_all add: skip_def)

definition digits1 :: "string \<Rightarrow> (string \<times> string) option" where
  "digits1 s = (if takeWhile is_digit s = [] then None else Some (takeWhile is_digit s, dropWhile is_digit s))"

definition scan_int :: "string \<Rightarrow> (string \<times> string) option" where
  "scan_int s = (case s of
     [] \<Rightarrow> None
   | c # t \<Rightarrow> if c = CHR ''0'' then Some ([c], t) else digits1 s)"

definition scan_fraction :: "string \<Rightarrow> (string \<times> string) option" where
  "scan_fraction s = (case s of
     [] \<Rightarrow> Some ([], s)
   | c # t \<Rightarrow> if c = CHR ''.'' then prepend [c] (digits1 t) else Some ([], s))"

definition scan_exponent :: "string \<Rightarrow> (string \<times> string) option" where
  "scan_exponent s = (case s of
     [] \<Rightarrow> Some ([], s)
   | c # t \<Rightarrow>
       if c = CHR ''e'' \<or> c = CHR ''E'' then
         (case t of
            [] \<Rightarrow> None
          | d # u \<Rightarrow> if d = CHR ''+'' \<or> d = CHR ''-'' then prepend [c, d] (digits1 u) else prepend [c] (digits1 t))
       else Some ([], s))"

definition scan_number :: "string \<Rightarrow> (string \<times> string) option" where
  "scan_number s =
     (let (sign, s0) = (case s of [] \<Rightarrow> ([], s) | c # t \<Rightarrow> if c = CHR ''-'' then ([c], t) else ([], s)) in
      case scan_int s0 of None \<Rightarrow> None
      | Some (i, s1) \<Rightarrow>
     (case scan_fraction s1 of None \<Rightarrow> None
      | Some (f, s2) \<Rightarrow> prepend (sign @ i @ f) (scan_exponent s2)))"

definition literal :: "string \<Rightarrow> json \<Rightarrow> string \<Rightarrow> (json \<times> string) option" where
  "literal word v s = (if prefix word s then Some (v, drop (length word) s) else None)"

text \<open>
  The recursive descent over a value, the elements of an array and the members of an object; the
  number counts the containers that may still be opened. A tail is only parsed when it is shorter
  than what it is the tail of, which \<open>parse_shorter\<close> shows to be always so.
\<close>

function (sequential) parse_value :: "nat \<Rightarrow> string \<Rightarrow> (json \<times> string) option"
  and parse_elems :: "nat \<Rightarrow> string \<Rightarrow> (json list \<times> string) option"
  and parse_members :: "nat \<Rightarrow> string \<Rightarrow> ((string \<times> json) list \<times> string) option" where
  "parse_value d s =
     (case skip s of
        [] \<Rightarrow> None
      | c # t \<Rightarrow>
          if c = quote then map_option (\<lambda>(b, r). (JStr b, r)) (unquote t)
          else if c = CHR ''{'' then
            (if d = 0 then None
             else case skip t of
               [] \<Rightarrow> None
             | e # r \<Rightarrow> if e = CHR ''}'' then Some (JObj [], r)
                 else map_option (\<lambda>(ms, r). (JObj ms, r)) (parse_members (d - 1) (e # r)))
          else if c = CHR ''['' then
            (if d = 0 then None
             else case skip t of
               [] \<Rightarrow> None
             | e # r \<Rightarrow> if e = CHR '']'' then Some (JArr [], r)
                 else map_option (\<lambda>(vs, r). (JArr vs, r)) (parse_elems (d - 1) (e # r)))
          else if c = CHR ''t'' then literal ''true'' (JBool True) (c # t)
          else if c = CHR ''f'' then literal ''false'' (JBool False) (c # t)
          else if c = CHR ''n'' then literal ''null'' JNull (c # t)
          else map_option (\<lambda>(n, r). (JNum n, r)) (scan_number (c # t)))"
| "parse_elems d s =
     (case parse_value d s of
        None \<Rightarrow> None
      | Some (v, r) \<Rightarrow>
          (case skip r of
             [] \<Rightarrow> None
           | c # t \<Rightarrow>
               if c = CHR '']'' then Some ([v], t)
               else if c = CHR '','' \<and> length t < length s then
                 map_option (\<lambda>(vs, r). (v # vs, r)) (parse_elems d t)
               else None))"
| "parse_members d s =
     (case s of
        [] \<Rightarrow> None
      | q # t \<Rightarrow>
          if q \<noteq> quote then None
          else case unquote t of
            None \<Rightarrow> None
          | Some (k, r) \<Rightarrow>
          (case skip r of
             [] \<Rightarrow> None
           | e # u \<Rightarrow>
               if e \<noteq> CHR '':'' then None
               else case parse_value d u of
                 None \<Rightarrow> None
               | Some (v, r) \<Rightarrow>
               (case skip r of
                  [] \<Rightarrow> None
                | c # w \<Rightarrow>
                    if c = CHR ''}'' then Some ([(k, v)], w)
                    else if c = CHR '','' \<and> length (skip w) < length s then
                      map_option (\<lambda>(ms, r). ((k, v) # ms, r)) (parse_members d (skip w))
                    else None)))"
  by pat_completeness auto

termination
  by (relation "measure (\<lambda>p. case p of Inl (d, s) \<Rightarrow> 2 * length s
      | Inr (Inl (d, s)) \<Rightarrow> 2 * length s + 1 | Inr (Inr (d, s)) \<Rightarrow> 2 * length s + 1)")
    (auto dest!: skip_shorter unquote_shorter)

declare parse_value.simps [simp del] parse_elems.simps [simp del] parse_members.simps [simp del]

lemma digits1_shorter: "digits1 s = Some (d, r) \<Longrightarrow> length r < length s"
  by (auto simp: digits1_def split: if_splits)
    (metis append_Nil length_append length_greater_0_conv less_add_same_cancel2 takeWhile_dropWhile_id)

lemma prepend_Some [simp]: "prepend p x = Some (b, r) \<longleftrightarrow> (\<exists>b'. x = Some (b', r) \<and> b = p @ b')"
  by (auto simp: prepend_def)

lemma prepend_None [simp]: "prepend p x = None \<longleftrightarrow> x = None"
  by (simp add: prepend_def)

lemma scan_parts_shorter:
  "scan_int s = Some (d, r) \<Longrightarrow> length r < length s"
  "scan_fraction s = Some (d, r) \<Longrightarrow> length r \<le> length s"
  "scan_exponent s = Some (d, r) \<Longrightarrow> length r \<le> length s"
  by (auto simp: scan_int_def scan_fraction_def scan_exponent_def dest!: digits1_shorter
      split: list.splits if_splits)

lemma scan_number_shorter: "scan_number s = Some (n, r) \<Longrightarrow> length r < length s"
  by (auto simp: scan_number_def Let_def dest!: scan_parts_shorter
      split: list.splits if_splits option.splits prod.splits)

lemma literal_shorter: "literal w v s = Some (x, r) \<Longrightarrow> w \<noteq> [] \<Longrightarrow> length r < length s"
  by (auto simp: literal_def prefix_def split: if_splits)

lemma parse_shorter_upto:
  "(\<forall>d s v r. 2 * length s < n \<longrightarrow> parse_value d s = Some (v, r) \<longrightarrow> length r < length s) \<and>
   (\<forall>d s vs r. 2 * length s + 1 < n \<longrightarrow> parse_elems d s = Some (vs, r) \<longrightarrow> length r < length s) \<and>
   (\<forall>d s ms r. 2 * length s + 1 < n \<longrightarrow> parse_members d s = Some (ms, r) \<longrightarrow> length r < length s)"
proof (induction n)
  case 0
  then show ?case by simp
next
  case (Suc n)
  then have V: "\<And>d s v r. parse_value d s = Some (v, r) \<Longrightarrow> 2 * length s < n \<Longrightarrow> length r < length s"
    and E: "\<And>d s vs r. parse_elems d s = Some (vs, r) \<Longrightarrow> 2 * length s + 1 < n \<Longrightarrow> length r < length s"
    and M: "\<And>d s ms r. parse_members d s = Some (ms, r) \<Longrightarrow> 2 * length s + 1 < n \<Longrightarrow> length r < length s"
    by blast+
  show ?case
  proof (intro conjI allI impI)
    fix d s v r assume n: "2 * length s < Suc n" and p: "parse_value d s = Some (v, r)"
    then obtain c t where t: "skip s = c # t" by (subst (asm) parse_value.simps) (auto split: list.splits)
    note lt = skip_shorter [OF t]
    have tail: "Suc (length u) \<le> length t" if "skip t = e # u" for e u
      using skip_shorter [OF that] by simp
    have E': "length r < length s" if "parse_elems k (e # u) = Some (vs, r)" "skip t = e # u" for k e u vs
      using E [OF that(1)] tail [OF that(2)] n lt by simp
    have M': "length r < length s" if "parse_members k (e # u) = Some (ms, r)" "skip t = e # u" for k e u ms
      using M [OF that(1)] tail [OF that(2)] n lt by simp
    from p show "length r < length s"
      by (subst (asm) parse_value.simps, unfold t)
        (use lt in \<open>auto split: list.splits if_splits dest!: unquote_shorter literal_shorter scan_number_shorter
          dest: E' M' tail\<close>)
  next
    fix d s vs r assume n: "2 * length s + 1 < Suc n" and p: "parse_elems d s = Some (vs, r)"
    have V': "length r < length s" if "parse_value k s = Some (v, r)" for k v r
      using V [OF that] n by simp
    have E': "length r < length s" if "parse_elems k u = Some (vs, r)" "length u < length s" for k u vs
      using E [OF that(1)] that(2) n by simp
    from p show "length r < length s"
      by (subst (asm) parse_elems.simps)
        (auto split: option.splits list.splits if_splits prod.splits dest!: V' skip_shorter dest: E')
  next
    fix d s ms r assume n: "2 * length s + 1 < Suc n" and p: "parse_members d s = Some (ms, r)"
    have V': "length r < length u" if "parse_value k u = Some (v, r)" "length u < length s" for k u v r
      using V [OF that(1)] that(2) n by simp
    have M': "length r < length s" if "parse_members k u = Some (ms, r)" "length u < length s" for k u ms
      using M [OF that(1)] that(2) n by simp
    from p show "length r < length s"
      by (subst (asm) parse_members.simps)
        (auto split: option.splits list.splits if_splits prod.splits dest!: unquote_shorter V' skip_shorter dest: M' intro: le_less_trans [OF skip_le])
  qed
qed

lemma parse_shorter:
  "parse_value d s = Some (v, r) \<Longrightarrow> length r < length s"
  "parse_elems d s = Some (vs, r) \<Longrightarrow> length r < length s"
  "parse_members d s = Some (ms, r) \<Longrightarrow> length r < length s"
  by (use parse_shorter_upto [of "2 * length s + 2"] in fastforce)+

lemma next_shorter:
  "parse_value d s = Some (v, r) \<Longrightarrow> skip r = c # t \<Longrightarrow> length t < length s"
  "unquote s = Some (b, r) \<Longrightarrow> skip r = c # t \<Longrightarrow> length t < length s"
  by (auto dest!: parse_shorter unquote_shorter skip_shorter)

lemma member_shorter:
  assumes "unquote t = Some (k, r)" "skip r = e # u" "parse_value d u = Some (v, r')" "skip r' = c # w"
  shows "length (skip w) < Suc (length t)"
  using next_shorter(1) [OF assms(3,4)] next_shorter(2) [OF assms(1,2)] skip_le [of w] by linarith

text \<open>So the length tests of the two loops never fail: the equations without them hold.\<close>

lemma parse_elems_eq:
  "parse_elems d s = (case parse_value d s of None \<Rightarrow> None
     | Some (v, r) \<Rightarrow> (case skip r of [] \<Rightarrow> None
        | c # t \<Rightarrow> if c = CHR '']'' then Some ([v], t)
            else if c = CHR '','' then map_option (\<lambda>(vs, r). (v # vs, r)) (parse_elems d t) else None))"
proof (cases "parse_value d s")
  case (Some p)
  obtain v r where p: "p = (v, r)" by fastforce
  show ?thesis
  proof (cases "skip r")
    case (Cons c t)
    from next_shorter(1) [OF _ Cons, of d s v] Some p Cons show ?thesis by (subst parse_elems.simps) simp
  qed (subst parse_elems.simps, simp add: Some p)
qed (subst parse_elems.simps, simp)

lemma parse_members_eq:
  "parse_members d s = (case s of [] \<Rightarrow> None
     | q # t \<Rightarrow> if q \<noteq> quote then None
         else case unquote t of None \<Rightarrow> None
         | Some (k, r) \<Rightarrow> (case skip r of [] \<Rightarrow> None
            | e # u \<Rightarrow> if e \<noteq> CHR '':'' then None
                else case parse_value d u of None \<Rightarrow> None
                | Some (v, r) \<Rightarrow> (case skip r of [] \<Rightarrow> None
                   | c # w \<Rightarrow> if c = CHR ''}'' then Some ([(k, v)], w)
                       else if c = CHR '','' then map_option (\<lambda>(ms, r). ((k, v) # ms, r)) (parse_members d (skip w))
                       else None)))"
proof (cases s)
  case (Cons q t)
  have "length (skip w) < length s" if "unquote t = Some (k, r)" "skip r = e # u" "parse_value d u = Some (v, r')"
    "skip r' = c # w" for k r e u v r' c w
    using member_shorter [OF that] Cons by simp
  with Cons show ?thesis
    by (subst parse_members.simps) (simp split: option.split list.split)
qed (subst parse_members.simps, simp)

text \<open>A whole input: one value with white space around it, nested at most 10000 deep.\<close>

definition parse_json :: "string \<Rightarrow> json option" where
  "parse_json s = (case parse_value 10000 s of
     None \<Rightarrow> None
   | Some (v, r) \<Rightarrow> if skip r = [] then Some v else None)"

subsection \<open>Unmarshal: structs of strings\<close>

datatype json_error = SyntaxError | UnmarshalTypeError

text \<open>
  A key names the field spelled the same, else the first one that is the same up to case. Only the
  long s and the Kelvin sign fold into ASCII; every field name here is ASCII.
\<close>

fun fold_name :: "string \<Rightarrow> string" where
  "fold_name [] = []"
| "fold_name (c # s) =
     (let n = of_char c :: nat in
      if between 97 122 n then char_of (n - 32) # fold_name s
      else if prefix (encode_rune 0x17F) (c # s) then CHR ''S'' # fold_name (drop 1 s)
      else if prefix (encode_rune 0x212A) (c # s) then CHR ''K'' # fold_name (drop 2 s)
      else c # fold_name s)"

definition field_for :: "string list \<Rightarrow> string \<Rightarrow> string option" where
  "field_for names k = (if k \<in> set names then Some k
     else find (\<lambda>n. fold_name n = fold_name k) names)"

text \<open>A string is stored, null leaves the field as it is, anything else does not fit.\<close>

definition store_member :: "string list \<Rightarrow> string \<times> json \<Rightarrow> (string \<Rightarrow> string) \<Rightarrow> (string \<Rightarrow> string) option" where
  "store_member names m f = (case field_for names (fst m) of
     None \<Rightarrow> Some f
   | Some n \<Rightarrow> (case snd m of JStr x \<Rightarrow> Some (f(n := x)) | JNull \<Rightarrow> Some f | _ \<Rightarrow> None))"

fun store_members :: "string list \<Rightarrow> (string \<times> json) list \<Rightarrow> (string \<Rightarrow> string) \<Rightarrow> (string \<Rightarrow> string) option" where
  "store_members names [] f = Some f"
| "store_members names (m # ms) f =
     (case store_member names m f of None \<Rightarrow> None | Some g \<Rightarrow> store_members names ms g)"

definition Unmarshal :: "string list \<Rightarrow> string \<Rightarrow> json_error + (string \<Rightarrow> string)" where
  "Unmarshal names s = (case parse_json s of
     None \<Rightarrow> Inl SyntaxError
   | Some v \<Rightarrow>
       (case v of
          JObj ms \<Rightarrow> (case store_members names ms (\<lambda>_. []) of None \<Rightarrow> Inl UnmarshalTypeError | Some f \<Rightarrow> Inr f)
        | JNull \<Rightarrow> Inr (\<lambda>_. [])
        | _ \<Rightarrow> Inl UnmarshalTypeError))"

subsection \<open>Round trips\<close>

lemma hex_value_digit [simp]: "k < 16 \<Longrightarrow> hex_value (hex_digit k) = Some k"
  by (auto simp: hex_value_def of_char_hex_digit Let_def)

lemma hex4_byte: "n < 256 \<Longrightarrow> hex4 (CHR ''0'' # CHR ''0'' # hex_digit (n div 16) # hex_digit (n mod 16) # s) = Some n"
proof -
  assume "n < 256"
  then have "n div 16 < 16" "n mod 16 < 16" by simp_all
  moreover have "hex_value (CHR ''0'') = Some 0" by (simp add: hex_value_def)
  ultimately show ?thesis by (simp add: hex4_def)
qed

lemma encode_ascii: "ascii c \<Longrightarrow> encode_rune (of_char c) = [c]"
  by (simp add: encode_rune_def ascii_def)

lemma char_eqI: "(of_char c :: nat) = n \<Longrightarrow> c = char_of n"
  by (metis char_of_char)

lemma unquote_escape: "simple_escape e = Some d \<Longrightarrow> e \<noteq> CHR ''u'' \<Longrightarrow>
    unquote (backslash # e # t) = prepend [d] (unquote t)"
  by simp

lemma json_char_unquote:
  assumes "ascii c"
  shows "unquote (json_char c @ s) = prepend [c] (unquote s)"
proof -
  define n where "n = (of_char c :: nat)"
  have c: "c = char_of n" by (simp add: n_def)
  have small: "n < 128" using assms by (simp add: n_def ascii_def)
  have u: "unquote (backslash # CHR ''u'' # CHR ''0'' # CHR ''0'' # hex_digit (n div 16) # hex_digit (n mod 16) # s)
      = prepend [c] (unquote s)"
    using small hex4_byte [of n s] encode_ascii [OF assms] by (simp add: n_def)
  show ?thesis
    unfolding json_char_def Let_def n_def [symmetric]
    using small assms u
    by (simp add: unquote_escape simple_escape_def c del: unquote.simps) (simp add: n_def)
qed

lemma utf8_width_cases: "utf8_width s = 0 \<or> utf8_width s = 2 \<or> utf8_width s = 3 \<or> utf8_width s = 4"
  by (simp add: utf8_width_def Let_def)

lemma utf8_width_le: "utf8_width s \<le> length s"
  by (simp add: utf8_width_def Let_def)

lemma byte_at_take: "i < w \<Longrightarrow> w \<le> length s \<Longrightarrow> byte_at (take w s @ r) i = byte_at s i"
  by (simp add: byte_at_def nth_append)

lemma utf8_width_take:
  assumes "utf8_width s = w" "w \<noteq> 0"
  shows "utf8_width (take w s @ r) = w"
proof -
  have le: "w \<le> length s" using assms utf8_width_le by auto
  have len: "w \<le> length (take w s @ r)" using le by simp
  note b = byte_at_take [OF _ le, of _ r]
  consider "w = 2" | "w = 3" | "w = 4" using assms utf8_width_cases [of s] by auto
  then show ?thesis
  proof cases
    case 1
    with assms(1) have "between 0xC2 0xDF (byte_at s 0)" "between 0x80 0xBF (byte_at s 1)"
      by (auto simp: utf8_width_def Let_def split: if_splits)
    with 1 len b [of 0] b [of 1] show ?thesis by (simp add: utf8_width_def Let_def)
  next
    case 2
    with assms(1) have "\<not> between 0xC2 0xDF (byte_at s 0)" "between 0xE0 0xEF (byte_at s 0)"
      "between (if byte_at s 0 = 0xE0 then 0xA0 else 0x80) (if byte_at s 0 = 0xED then 0x9F else 0xBF) (byte_at s 1)"
      "between 0x80 0xBF (byte_at s 2)"
      by (auto simp: utf8_width_def Let_def split: if_splits)
    with 2 len b [of 0] b [of 1] b [of 2] show ?thesis by (simp add: utf8_width_def Let_def)
  next
    case 3
    with assms(1) have "\<not> between 0xC2 0xDF (byte_at s 0)" "\<not> between 0xE0 0xEF (byte_at s 0)"
      "between 0xF0 0xF4 (byte_at s 0)"
      "between (if byte_at s 0 = 0xF0 then 0x90 else 0x80) (if byte_at s 0 = 0xF4 then 0x8F else 0xBF) (byte_at s 1)"
      "between 0x80 0xBF (byte_at s 2)" "between 0x80 0xBF (byte_at s 3)"
      by (auto simp: utf8_width_def Let_def split: if_splits)
    with 3 len b [of 0] b [of 1] b [of 2] b [of 3] show ?thesis by (simp add: utf8_width_def Let_def)
  qed
qed

lemma unquote_multibyte:
  assumes c: "\<not> ascii c" and w: "utf8_width (c # s) = w" "w \<noteq> 0"
  shows "unquote (take w (c # s) @ r) = prepend (take w (c # s)) (unquote r)"
proof -
  obtain w' where w': "w = Suc w'" using w(2) by (cases w) auto
  have le: "w' \<le> length s" using utf8_width_le [of "c # s"] w w' by simp
  have "utf8_width (c # take w' s @ r) = w" using utf8_width_take [OF w, of r] w' by simp
  moreover have "c \<noteq> quote" "c \<noteq> backslash" "\<not> (of_char c :: nat) < 32" using c by (auto simp: ascii_def)
  ultimately show ?thesis using c w' le by (simp add: w(2))
qed

lemma unquote_separator:
  "unquote (backslash # ''u2028'' @ r) = prepend (encode_rune 0x2028) (unquote r)"
  "unquote (backslash # ''u2029'' @ r) = prepend (encode_rune 0x2029) (unquote r)"
  by (simp_all add: hex4_def hex_value_def)

lemma separators_differ: "encode_rune 0x2029 \<noteq> encode_rune 0x2028"
  by (simp add: encode_rune_def)

lemma unquote_replaced: "unquote (backslash # ''ufffd'' @ r) = prepend RuneError (unquote r)"
  by (simp add: hex4_def hex_value_def RuneError_def)

lemma unquote_body: "unquote (json_body s @ quote # r) = Some (to_valid s, r)"
proof (induction s rule: json_body.induct)
  case 1
  then show ?case by simp
next
  case (2 c s)
  define w where "w = utf8_width (c # s)"
  show ?case
  proof (cases "ascii c")
    case True
    with 2 show ?thesis by (simp add: json_char_unquote)
  next
    case notascii: False
    show ?thesis
    proof (cases "w = 0")
      case True
      have "json_body (c # s) = backslash # ''ufffd'' @ json_body s" using notascii True by (simp add: w_def)
      moreover have "unquote (json_body s @ quote # r) = Some (to_valid s, r)" using 2 notascii True by (simp add: w_def)
      ultimately show ?thesis using unquote_replaced [of "json_body s @ quote # r"] notascii True
        by (simp add: w_def del: json_body.simps unquote.simps)
    next
      case False
      have IH: "unquote (json_body (drop (w - 1) s) @ quote # r) = Some (to_valid (drop (w - 1) s), r)"
        using 2(3-5) notascii False separators_differ by (auto simp: w_def)
      have body: "json_body (c # s) =
         (if take w (c # s) = encode_rune 0x2028 then backslash # ''u2028'' @ json_body (drop (w - 1) s)
          else if take w (c # s) = encode_rune 0x2029 then backslash # ''u2029'' @ json_body (drop (w - 1) s)
          else take w (c # s) @ json_body (drop (w - 1) s))"
        using notascii False by (simp add: w_def Let_def)
      have valid: "to_valid (c # s) = take w (c # s) @ to_valid (drop (w - 1) s)"
        using notascii False by (simp add: w_def Let_def)
      show ?thesis
        unfolding body valid
        using IH unquote_separator unquote_multibyte [OF notascii w_def [symmetric] False]
        by (auto simp del: json_body.simps unquote.simps to_valid.simps)
    qed
  qed
qed

text \<open>Values without numbers, nested no deeper than d; and what a decoder sees of their strings.\<close>

fun printable :: "nat \<Rightarrow> json \<Rightarrow> bool" where
  "printable d (JObj ms) = (0 < d \<and> (\<forall>(k, v) \<in> set ms. printable (d - 1) v))"
| "printable d (JArr vs) = (0 < d \<and> (\<forall>v \<in> set vs. printable (d - 1) v))"
| "printable d (JNum n) = False"
| "printable d _ = True"

fun seen :: "json \<Rightarrow> json" where
  "seen (JStr s) = JStr (to_valid s)"
| "seen (JObj ms) = JObj (map (\<lambda>(k, v). (to_valid k, seen v)) ms)"
| "seen (JArr vs) = JArr (map seen vs)"
| "seen v = v"

lemma parse_string: "parse_value d (json_string x @ r) = Some (JStr (to_valid x), r)"
  by (subst parse_value.simps) (simp add: json_string_def json_space_def unquote_body)

lemma parse_null: "parse_value d (''null'' @ r) = Some (JNull, r)"
  by (subst parse_value.simps) (simp add: json_space_def literal_def)

lemma parse_bool:
  "parse_value d (''true'' @ r) = Some (JBool True, r)" "parse_value d (''false'' @ r) = Some (JBool False, r)"
  by (subst parse_value.simps, simp add: json_space_def literal_def)+

lemma Marshal_head:
  "printable d v \<Longrightarrow> \<exists>c t. Marshal v = c # t \<and> \<not> json_space c \<and> c \<noteq> CHR '']''"
  by (cases v) (auto simp: json_string_def json_space_def)

lemma join_Cons: "xs \<noteq> [] \<Longrightarrow> join sep (x # xs) = x @ sep @ join sep xs"
  by (cases xs) simp_all

lemma parse_elems_join:
  assumes "vs \<noteq> []" and "\<And>v r. v \<in> set vs \<Longrightarrow> parse_value d (Marshal v @ r) = Some (seen v, r)"
  shows "parse_elems d (join '','' (map Marshal vs) @ CHR '']'' # r) = Some (map seen vs, r)"
  using assms
proof (induction vs)
  case Nil
  then show ?case by simp
next
  case (Cons v vs)
  then show ?case
    by (cases "vs = []") (subst parse_elems_eq; simp add: join_Cons json_space_def)+
qed

lemma parse_members_join:
  assumes "ms \<noteq> []" and "\<And>k v r. (k, v) \<in> set ms \<Longrightarrow> parse_value d (Marshal v @ r) = Some (seen v, r)"
  shows "parse_members d (join '','' (map (member_text Marshal) ms) @ CHR ''}'' # r)
    = Some (map (\<lambda>(k, v). (to_valid k, seen v)) ms, r)"
  using assms
proof (induction ms)
  case Nil
  then show ?case by simp
next
  case (Cons m ms)
  obtain k v where m: "m = (k, v)" by fastforce
  have v: "\<And>r. parse_value d (Marshal v @ r) = Some (seen v, r)" using Cons.prems(2) [of k v] m by auto
  show ?case
  proof (cases "ms = []")
    case True
    with v m show ?thesis
      by (subst parse_members_eq) (simp add: json_string_def unquote_body json_space_def)
  next
    case False
    define J where "J = join '','' (map (member_text Marshal) ms) @ CHR ''}'' # r"
    obtain k2 v2 ms2 where ms: "ms = (k2, v2) # ms2" using False by (cases ms) auto
    have q: "skip J = J" by (cases ms2) (simp_all add: J_def ms json_string_def json_space_def)
    have IH: "parse_members d J = Some (map (\<lambda>(k, v). (to_valid k, seen v)) ms, r)"
      unfolding J_def using Cons.prems(2) by (intro Cons.IH [OF False]) (meson list.set_intros(2))
    have "join '','' (map (member_text Marshal) (m # ms)) @ CHR ''}'' # r
        = quote # json_body k @ quote # CHR '':'' # Marshal v @ CHR '','' # J"
      using False by (simp add: m join_Cons J_def json_string_def)
    with v q IH m show ?thesis
      by (subst parse_members_eq) (simp add: unquote_body json_space_def)
  qed
qed

text \<open>What Marshal prints of a value parses to the value with its strings made valid.\<close>

lemma parse_Marshal: "printable d v \<Longrightarrow> parse_value d (Marshal v @ r) = Some (seen v, r)"
proof (induction d v arbitrary: r rule: printable.induct)
  case (1 d ms)
  show ?case
  proof (cases ms)
    case Nil
    with 1 show ?thesis by (subst parse_value.simps) (simp add: json_space_def)
  next
    case (Cons m ms')
    have IH: "parse_value (d - 1) (Marshal v @ r) = Some (seen v, r)" if "(k, v) \<in> set ms" for k v r
      using 1(1) [OF that refl] 1(2) that by auto
    have "parse_members (d - 1) (join '','' (map (member_text Marshal) ms) @ CHR ''}'' # r)
        = Some (map (\<lambda>(k, v). (to_valid k, seen v)) ms, r)"
      by (intro parse_members_join) (use IH Cons in blast)+
    moreover obtain t where "join '','' (map (member_text Marshal) ms) @ CHR ''}'' # r = quote # t"
      by (cases m; cases ms') (auto simp: Cons json_string_def)
    moreover have "Marshal (JObj ms) @ r = CHR ''{'' # join '','' (map (member_text Marshal) ms) @ CHR ''}'' # r" by simp
    ultimately show ?thesis using 1(2)
      by (subst parse_value.simps) (simp add: json_space_def del: Marshal.simps)
  qed
next
  case (2 d vs)
  show ?case
  proof (cases vs)
    case Nil
    with 2 show ?thesis by (subst parse_value.simps) (simp add: json_space_def)
  next
    case (Cons v vs')
    from 2 have "parse_elems (d - 1) (join '','' (map Marshal vs) @ CHR '']'' # r) = Some (map seen vs, r)"
      by (intro parse_elems_join) (auto simp: Cons)
    moreover obtain c t where "join '','' (map Marshal vs) @ CHR '']'' # r = c # t" "\<not> json_space c" "c \<noteq> CHR '']''"
    proof -
      have "printable (d - 1) v" using 2(2) Cons by simp
      from Marshal_head [OF this] obtain c t where "Marshal v = c # t" "\<not> json_space c" "c \<noteq> CHR '']''" by blast
      then show thesis by (intro that [of c "t @ (if vs' = [] then CHR '']'' # r
          else CHR '','' # join '','' (map Marshal vs') @ CHR '']'' # r)"]) (cases vs', simp_all add: Cons)
    qed
    moreover have "Marshal (JArr vs) @ r = CHR ''['' # join '','' (map Marshal vs) @ CHR '']'' # r" by simp
    ultimately show ?thesis using 2(2)
      by (subst parse_value.simps) (simp add: json_space_def del: Marshal.simps)
  qed
qed (simp_all add: parse_null parse_bool parse_string del: append_Cons)

lemma parse_json_Marshal: "printable 10000 v \<Longrightarrow> parse_json (Marshal v) = Some (seen v)"
  using parse_Marshal [of 10000 v "[]"] by (simp add: parse_json_def)

text \<open>Objects whose members are all strings, as every message of the service's sagas but one.\<close>

lemma store_strings:
  "fst ` set kvs \<subseteq> set names \<Longrightarrow>
    store_members names (strings kvs) f = Some (fold (\<lambda>(k, x) g. g(k := x)) kvs f)"
  by (induction kvs arbitrary: f) (auto simp: strings_def store_member_def field_for_def)

lemma Unmarshal_strings:
  assumes "fst ` set kvs \<subseteq> set names" and "\<And>k. k \<in> fst ` set kvs \<Longrightarrow> to_valid k = k"
  shows "Unmarshal names (Marshal (JObj (strings kvs)))
    = Inr (fold (\<lambda>(k, x) g. g(k := to_valid x)) kvs (\<lambda>_. []))"
proof -
  have p: "printable 10000 (JObj (strings kvs))" by (auto simp: strings_def)
  have m: "map (\<lambda>(k, v). (to_valid k, seen v)) (strings kvs) = strings (map (\<lambda>(k, x). (k, to_valid x)) kvs)"
    using assms(2) by (force simp: strings_def)
  have "fst ` set (map (\<lambda>(k, x). (k, to_valid x)) kvs) \<subseteq> set names" using assms(1) by force
  from store_strings [OF this, of "\<lambda>_. []"] show ?thesis
    unfolding Unmarshal_def parse_json_Marshal [OF p]
    by (simp add: m [unfolded case_prod_unfold] fold_map comp_def case_prod_unfold)
qed

lemma go_map_strings: "go_map (strings kvs) = JObj (strings (sort_key fst kvs))"
proof -
  have ins: "insort_key fst (k, JStr x) (strings kvs) = strings (insort_key fst (k, x) kvs)" for k x kvs
    by (induction kvs) (auto simp: strings_def)
  have "sort_key fst (strings kvs) = strings (sort_key fst kvs)"
    by (induction kvs) (use ins in \<open>auto simp: strings_def\<close>)
  then show ?thesis by (simp add: go_map_def)
qed

end
