(* ===== verification/Event_Broker.thy ===== *)
theory Event_Broker
  imports Service Go_Json
begin

text \<open>
  internal/presentation/event_broker/type.go: the interface between the subscribers and the message
  brokers. Operations act on the state \<open>'w\<close> of everything behind the interface: the tables and
  whatever the broker keeps.
\<close>

subsection \<open>Errors of a message handler\<close>

text \<open>
  What a handler or a broker may answer: a payload that is not the JSON expected (with the context
  the code wraps around it), an error of the service, an error of the messaging library, an error
  with a text of its own, an aggregate type no handler knows, and any of them marked permanent by the resilience library.
\<close>

datatype event_error =
    DecodeErr string json_error
  | ServiceErr go_error
  | BrokerErr string
  | PlainErr string
  | UnsupportedAggregate string
  | Permanent event_error

fun is_permanent :: "event_error \<Rightarrow> bool" where
  "is_permanent (Permanent e) = True"
| "is_permanent _ = False"

subsection \<open>The interface\<close>

text \<open>
  A handler runs in surroundings of its own: those of the service call it makes and the clock
  reading with which it stamps its answer.
\<close>

record msg_env =
  service_env :: call_env
  stamp_Now :: time

type_synonym 'w MessageHandler = "msg_env \<Rightarrow> string \<Rightarrow> string \<Rightarrow> ('w, event_error, unit) op"

record 'w EventBroker =
  Publish :: "string \<Rightarrow> string \<Rightarrow> ('w, event_error, unit) op"
  Subscribe :: "string \<Rightarrow> 'w MessageHandler \<Rightarrow> ('w, event_error, unit) op"
  RunPullConsumer :: "PullConsumerConfig \<Rightarrow> 'w MessageHandler \<Rightarrow> ('w, event_error, unit) op"
  Close :: "'w \<Rightarrow> 'w"

text \<open>\<open>if err := f(); err != nil { return err }; return g()\<close>.\<close>

definition and_then :: "('w, 'e, unit) op \<Rightarrow> ('w, 'e, unit) op \<Rightarrow> ('w, 'e, unit) op" where
  "and_then f g w = (case f w of (Inl err, w1) \<Rightarrow> (Inl err, w1) | (Inr _, w1) \<Rightarrow> g w1)"

lemma and_then_Inr: "and_then f g w = (Inr x, w') \<longleftrightarrow> (\<exists>w1. f w = (Inr (), w1) \<and> g w1 = (Inr x, w'))"
  by (cases "f w") (auto simp: and_then_def split: sum.split)

end
