(* ===== verification/Saga_Messages.thy ===== *)
theory Saga_Messages
  imports Event_Broker
begin

text \<open>
  The messages of the registration saga in internal/presentation/event_broker/nats: the commands
  (commands.go), the results and the mail command (mapper.go, saga_registration_subscriber.go) and
  the reasons a failure is answered with (error_reason.go).
\<close>

subsection \<open>Commands\<close>

record createAuthCommand =
  SessionID_ca :: string
  ClientID_ca :: string
  UserID_ca :: string
  Email_ca :: string
  Username_ca :: string
  PasswordHash_ca :: string
  SagaID_ca :: string

record deleteAuthCommand =
  UserID_da :: string
  SagaID_da :: string

definition create_fields :: "string list" where
  "create_fields = [''session_id'', ''client_id'', ''user_id'', ''email'', ''username'',
     ''password_hash'', ''saga_id'']"

definition delete_fields :: "string list" where
  "delete_fields = [''user_id'', ''saga_id'']"

definition Unmarshal_create :: "string \<Rightarrow> json_error + createAuthCommand" where
  "Unmarshal_create payload = (case Unmarshal create_fields payload of
     Inl err \<Rightarrow> Inl err
   | Inr f \<Rightarrow> Inr \<lparr>SessionID_ca = f ''session_id'', ClientID_ca = f ''client_id'', UserID_ca = f ''user_id'',
       Email_ca = f ''email'', Username_ca = f ''username'', PasswordHash_ca = f ''password_hash'',
       SagaID_ca = f ''saga_id''\<rparr>)"

definition Unmarshal_delete :: "string \<Rightarrow> json_error + deleteAuthCommand" where
  "Unmarshal_delete payload = (case Unmarshal delete_fields payload of
     Inl err \<Rightarrow> Inl err
   | Inr f \<Rightarrow> Inr \<lparr>UserID_da = f ''user_id'', SagaID_da = f ''saga_id''\<rparr>)"

text \<open>The commands as the other services send them: the same structs, marshalled.\<close>

definition create_json :: "createAuthCommand \<Rightarrow> json" where
  "create_json cmd = JObj (strings (field ''session_id'' (SessionID_ca cmd) @ field ''client_id'' (ClientID_ca cmd) @
     field ''user_id'' (UserID_ca cmd) @ field ''email'' (Email_ca cmd) @ field ''username'' (Username_ca cmd) @
     field ''password_hash'' (PasswordHash_ca cmd) @ omitempty ''saga_id'' (SagaID_ca cmd)))"

definition delete_json :: "deleteAuthCommand \<Rightarrow> json" where
  "delete_json cmd = JObj (strings (field ''user_id'' (UserID_da cmd) @ omitempty ''saga_id'' (SagaID_da cmd)))"

subsection \<open>Results\<close>

record createAuthResult =
  SessionID_cr :: string
  ClientID_cr :: string
  UserID_cr :: string
  SagaID_cr :: string
  Email_cr :: string
  VerificationCode_cr :: string
  ExpiresIn_cr :: string
  Status_cr :: string
  Error_cr :: string
  Timestamp_cr :: string

record deleteAuthResult =
  UserID_dr :: string
  SagaID_dr :: string
  Status_dr :: string
  Error_dr :: string
  Timestamp_dr :: string

definition create_result_json :: "createAuthResult \<Rightarrow> json" where
  "create_result_json r = JObj (strings (field ''session_id'' (SessionID_cr r) @ field ''client_id'' (ClientID_cr r) @
     field ''user_id'' (UserID_cr r) @ omitempty ''saga_id'' (SagaID_cr r) @ omitempty ''email'' (Email_cr r) @
     omitempty ''verification_code'' (VerificationCode_cr r) @ omitempty ''expires_in'' (ExpiresIn_cr r) @
     field ''status'' (Status_cr r) @ omitempty ''error'' (Error_cr r) @ field ''timestamp'' (Timestamp_cr r)))"

definition delete_result_json :: "deleteAuthResult \<Rightarrow> json" where
  "delete_result_json r = JObj (strings (field ''user_id'' (UserID_dr r) @ omitempty ''saga_id'' (SagaID_dr r) @
     field ''status'' (Status_dr r) @ omitempty ''error'' (Error_dr r) @ field ''timestamp'' (Timestamp_dr r)))"

subsection \<open>The mapper\<close>

text \<open>
  Each method answers the payload or an error. Marshal never fails on strings, so each answers a
  payload; the callers still test the error, as the code does.
\<close>

record RegistrationSagaMessageMapper =
  ToCreateFailureResultPayload :: "time \<Rightarrow> createAuthCommand \<Rightarrow> string \<Rightarrow> event_error + string"
  ToCreateSuccessResultPayload ::
    "time \<Rightarrow> createAuthCommand \<Rightarrow> string \<Rightarrow> string \<Rightarrow> string \<Rightarrow> event_error + string"
  ToDeleteFailureResultPayload :: "time \<Rightarrow> deleteAuthCommand \<Rightarrow> string \<Rightarrow> event_error + string"
  ToDeleteSuccessResultPayload :: "time \<Rightarrow> deleteAuthCommand \<Rightarrow> event_error + string"
  ToMailSendCommandPayload :: "createAuthCommand \<Rightarrow> string \<Rightarrow> string \<Rightarrow> string \<Rightarrow> event_error + string"

definition map_create_failure :: "time \<Rightarrow> createAuthCommand \<Rightarrow> string \<Rightarrow> event_error + string" where
  "map_create_failure now cmd reason = Inr (Marshal (create_result_json
     \<lparr>SessionID_cr = SessionID_ca cmd, ClientID_cr = ClientID_ca cmd, UserID_cr = UserID_ca cmd,
      SagaID_cr = SagaID_ca cmd, Email_cr = [], VerificationCode_cr = [], ExpiresIn_cr = [],
      Status_cr = ''failed'', Error_cr = reason, Timestamp_cr = RFC3339Nano now\<rparr>))"

definition map_create_success ::
  "time \<Rightarrow> createAuthCommand \<Rightarrow> string \<Rightarrow> string \<Rightarrow> string \<Rightarrow> event_error + string" where
  "map_create_success now cmd email verificationCode expiresIn = Inr (Marshal (create_result_json
     \<lparr>SessionID_cr = SessionID_ca cmd, ClientID_cr = ClientID_ca cmd, UserID_cr = UserID_ca cmd,
      SagaID_cr = SagaID_ca cmd, Email_cr = email, VerificationCode_cr = verificationCode,
      ExpiresIn_cr = expiresIn, Status_cr = ''success'', Error_cr = [], Timestamp_cr = RFC3339Nano now\<rparr>))"

definition map_delete_failure :: "time \<Rightarrow> deleteAuthCommand \<Rightarrow> string \<Rightarrow> event_error + string" where
  "map_delete_failure now cmd reason = Inr (Marshal (delete_result_json
     \<lparr>UserID_dr = UserID_da cmd, SagaID_dr = SagaID_da cmd, Status_dr = ''failed'', Error_dr = reason,
      Timestamp_dr = RFC3339Nano now\<rparr>))"

definition map_delete_success :: "time \<Rightarrow> deleteAuthCommand \<Rightarrow> event_error + string" where
  "map_delete_success now cmd = Inr (Marshal (delete_result_json
     \<lparr>UserID_dr = UserID_da cmd, SagaID_dr = SagaID_da cmd, Status_dr = ''success'', Error_dr = [],
      Timestamp_dr = RFC3339Nano now\<rparr>))"

definition map_mail_send :: "createAuthCommand \<Rightarrow> string \<Rightarrow> string \<Rightarrow> string \<Rightarrow> event_error + string" where
  "map_mail_send cmd email verificationCode expiresIn = Inr (Marshal (go_map
     [(''session_id'', JStr (SessionID_ca cmd)), (''client_id'', JStr (ClientID_ca cmd)),
      (''user_id'', JStr (UserID_ca cmd)), (''request_id'', JStr (SessionID_ca cmd)),
      (''correlation_id'', JStr (SessionID_ca cmd)), (''message_type'', JStr ''email_code''),
      (''to'', JStr email),
      (''data'', go_map [(''name'', JStr email), (''code'', JStr verificationCode),
                         (''expires_in'', JStr expiresIn)])]))"

definition newRegistrationSagaMessageMapper :: RegistrationSagaMessageMapper where
  "newRegistrationSagaMessageMapper =
     \<lparr>ToCreateFailureResultPayload = map_create_failure, ToCreateSuccessResultPayload = map_create_success,
      ToDeleteFailureResultPayload = map_delete_failure, ToDeleteSuccessResultPayload = map_delete_success,
      ToMailSendCommandPayload = map_mail_send\<rparr>"

subsection \<open>Failure reasons\<close>

record FailureReasonResolver =
  CreateAuthFailureReason :: "go_error \<Rightarrow> string"
  DeleteAuthFailureReason :: "go_error \<Rightarrow> string"

definition create_failure_reason :: "go_error \<Rightarrow> string" where
  "create_failure_reason err =
     (if err = AuthErr ErrInvalidUserID then ''invalid user_id''
      else if err = AuthErr ErrInvalidEmail then ''invalid email''
      else if err = AuthErr ErrInvalidPasswordHash then ''invalid password_hash''
      else if err = AuthErr ErrFailedToCreateVerificationCode then ''failed to create verification code''
      else if err = AuthErr ErrEmailAlreadyTaken then ''email is already taken''
      else if err = AuthErr ErrAuthCredentialsAlreadyExist then ''auth credentials already exist''
      else ''failed to create auth credential'')"

definition delete_failure_reason :: "go_error \<Rightarrow> string" where
  "delete_failure_reason err =
     (if err = AuthErr ErrInvalidUserID then ''invalid user_id''
      else if err = AuthErr ErrAuthNotFound then ''auth credentials not found''
      else ''failed to delete auth credential'')"

definition NewDomainFailureReasonResolver :: FailureReasonResolver where
  "NewDomainFailureReasonResolver =
     \<lparr>CreateAuthFailureReason = create_failure_reason, DeleteAuthFailureReason = delete_failure_reason\<rparr>"

end
