(* ===== verification/Kafka_Subscribers.thy ===== *)
theory Kafka_Subscribers
  imports Saga_Messages
begin

text \<open>
  The Kafka subscribers of internal/presentation/event_broker/kafka: the registration saga
  (registration_saga_subscriber.go) and the recovery commands (recovery_subscriber.go).
\<close>

subsection \<open>The registration saga\<close>

text \<open>The package declares the two commands anew, with the same fields and the same JSON tags.\<close>

type_synonym kafka_createAuthCommand = createAuthCommand
type_synonym kafka_deleteAuthCommand = deleteAuthCommand

record 'w kafkaSagaSubscriber =
  broker_ks :: "'w EventBroker"
  service_ks :: "'w AuthService"
  cfg_ks :: KafkaConfig

definition kafka_NewRegistrationSagaSubscriber ::
  "'w EventBroker option \<Rightarrow> 'w AuthService option \<Rightarrow> KafkaConfig \<Rightarrow> unit option \<Rightarrow> string + 'w kafkaSagaSubscriber" where
  "kafka_NewRegistrationSagaSubscriber b svc c log =
     (case b of None \<Rightarrow> Inl ''event broker is nil''
      | Some b \<Rightarrow>
     (case svc of None \<Rightarrow> Inl ''auth service is nil''
      | Some svc \<Rightarrow>
     (case log of None \<Rightarrow> Inl ''logger is nil''
      | Some _ \<Rightarrow> Inr \<lparr>broker_ks = b, service_ks = svc, cfg_ks = c\<rparr>)))"

text \<open>Marshal does not fail on maps of strings, so publishing is one call.\<close>

definition kafka_publish :: "'w kafkaSagaSubscriber \<Rightarrow> string \<Rightarrow> json \<Rightarrow> ('w, event_error, unit) op" where
  "kafka_publish s topic value w = Publish (broker_ks s) topic (Marshal value) w"

definition create_failed_map :: "time \<Rightarrow> kafka_createAuthCommand \<Rightarrow> go_error \<Rightarrow> json" where
  "create_failed_map now cmd err = go_map (strings
     [(''session_id'', SessionID_ca cmd), (''client_id'', ClientID_ca cmd),
      (''user_id'', UserID_ca cmd), (''saga_id'', SagaID_ca cmd),
      (''status'', ''failed''), (''error'', error_text err),
      (''timestamp'', RFC3339Nano now)])"

definition create_success_map :: "time \<Rightarrow> kafka_createAuthCommand \<Rightarrow> PendingRegistrationResult \<Rightarrow> json" where
  "create_success_map now cmd result = go_map (strings
     [(''session_id'', SessionID_ca cmd), (''client_id'', ClientID_ca cmd),
      (''user_id'', UserID_ca cmd), (''saga_id'', SagaID_ca cmd),
      (''email'', Email_pr result), (''verification_code'', VerificationCode_pr result),
      (''expires_in'', ExpiresIn_pr result), (''status'', ''success''),
      (''timestamp'', RFC3339Nano now)])"

definition mail_map :: "kafka_createAuthCommand \<Rightarrow> PendingRegistrationResult \<Rightarrow> json" where
  "mail_map cmd result = go_map
     [(''session_id'', JStr (SessionID_ca cmd)), (''client_id'', JStr (ClientID_ca cmd)),
      (''user_id'', JStr (UserID_ca cmd)), (''request_id'', JStr (SessionID_ca cmd)),
      (''correlation_id'', JStr (SessionID_ca cmd)), (''message_type'', JStr ''email_code''),
      (''to'', JStr (Email_pr result)),
      (''data'', go_map [(''name'', JStr (Email_pr result)), (''code'', JStr (VerificationCode_pr result)),
                         (''expires_in'', JStr (ExpiresIn_pr result))])]"

definition handleCreate :: "'w kafkaSagaSubscriber \<Rightarrow> 'w MessageHandler" where
  "handleCreate s env subject payload w =
     (case Unmarshal_create payload of
        Inl err \<Rightarrow> (Inl (DecodeErr ''unmarshal create auth command: '' err), w)
      | Inr cmd \<Rightarrow>
     (case CreatePendingRegistration (service_ks s) (service_env env) (UserID_ca cmd) (Email_ca cmd)
             (Username_ca cmd) (PasswordHash_ca cmd) w of
        (Inl err, w1) \<Rightarrow> kafka_publish s (CreateResultTopic (cfg_ks s)) (create_failed_map (stamp_Now env) cmd err) w1
      | (Inr result, w1) \<Rightarrow>
     (case kafka_publish s (CreateResultTopic (cfg_ks s)) (create_success_map (stamp_Now env) cmd result) w1 of
        (Inl err, w2) \<Rightarrow> (Inl err, w2)
      | (Inr _, w2) \<Rightarrow>
     (case kafka_publish s (MailTopic (cfg_ks s)) (mail_map cmd result) w2 of
        (Inl err, w3) \<Rightarrow> (Inl err, w3)
      | (Inr _, w3) \<Rightarrow> (Inr (), w3)))))"

definition delete_failed_map :: "time \<Rightarrow> kafka_deleteAuthCommand \<Rightarrow> go_error \<Rightarrow> json" where
  "delete_failed_map now cmd err = go_map (strings
     [(''user_id'', UserID_da cmd), (''saga_id'', SagaID_da cmd), (''status'', ''failed''),
      (''error'', error_text err), (''timestamp'', RFC3339Nano now)])"

definition delete_success_map :: "time \<Rightarrow> kafka_deleteAuthCommand \<Rightarrow> json" where
  "delete_success_map now cmd = go_map (strings
     [(''user_id'', UserID_da cmd), (''saga_id'', SagaID_da cmd), (''status'', ''success''),
      (''timestamp'', RFC3339Nano now)])"

definition handleDelete :: "'w kafkaSagaSubscriber \<Rightarrow> 'w MessageHandler" where
  "handleDelete s env subject payload w =
     (case Unmarshal_delete payload of
        Inl err \<Rightarrow> (Inl (DecodeErr ''unmarshal delete auth command: '' err), w)
      | Inr cmd \<Rightarrow>
     (case DeleteCredential (service_ks s) (UserID_da cmd) w of
        (Inl err, w1) \<Rightarrow> kafka_publish s (DeleteResultTopic (cfg_ks s)) (delete_failed_map (stamp_Now env) cmd err) w1
      | (Inr _, w1) \<Rightarrow> kafka_publish s (DeleteResultTopic (cfg_ks s)) (delete_success_map (stamp_Now env) cmd) w1))"

text \<open>The create consumer is run first; the delete consumer only once it has returned without error.\<close>

definition kafka_saga_Subscribe :: "'w kafkaSagaSubscriber \<Rightarrow> ('w, event_error, unit) op" where
  "kafka_saga_Subscribe s =
     and_then
       (RunPullConsumer (broker_ks s) (zero_pull_config\<lparr>PullConsumerConfig.Subject := CreateTopic (cfg_ks s)\<rparr>)
         (handleCreate s))
       (RunPullConsumer (broker_ks s) (zero_pull_config\<lparr>PullConsumerConfig.Subject := DeleteTopic (cfg_ks s)\<rparr>)
         (handleDelete s))"

subsection \<open>Recovery commands\<close>

text \<open>
  The envelope of a recovery event belongs to the common library: its fields as the code uses
  them, with the library's decoding and encoding as parameters, as are bcrypt and the JSON text of
  a credential (which depends on nil slices and time zones the model does not keep apart).
\<close>

record Envelope =
  EventID :: string
  CommandID :: string
  CorrelationID :: string
  CausationID :: string
  IdempotencyKey :: string
  TestRunID :: string
  EventType :: string
  Operation :: string
  SchemaVersion :: int
  AggregateType :: string
  AggregateID :: string
  RecoveryPrincipalID :: string
  SourceService :: string
  OccurredAt :: time
  Payload :: string

record recovery_lib =
  Unmarshal_envelope :: "string \<Rightarrow> json_error + Envelope"
  Marshal_envelope :: "Envelope \<Rightarrow> event_error + string"
  Marshal_credential :: "Credential \<Rightarrow> string"
  GenerateFromPassword :: "string \<Rightarrow> string + string"

record 'w authRecoverySubscriber =
  broker_rs :: "'w EventBroker"
  service_rs :: "'w AuthService"
  cfg_rs :: KafkaConfig
  lib_rs :: recovery_lib

definition NewAuthRecoverySubscriber ::
  "recovery_lib \<Rightarrow> 'w EventBroker option \<Rightarrow> 'w AuthService option \<Rightarrow> KafkaConfig \<Rightarrow> unit option
    \<Rightarrow> string + 'w authRecoverySubscriber" where
  "NewAuthRecoverySubscriber lib b svc c log =
     (case (b, svc, log) of
        (Some b, Some svc, Some _) \<Rightarrow> Inr \<lparr>broker_rs = b, service_rs = svc, cfg_rs = c, lib_rs = lib\<rparr>
      | _ \<Rightarrow> Inl ''invalid auth recovery subscriber dependency'')"

record recovery_payload =
  UserID_rp :: string
  ClientID_rp :: string
  Email_rp :: string
  Username_rp :: string
  PasswordHash_rp :: string
  Password_rp :: string

definition recovery_fields :: "string list" where
  "recovery_fields = [''user_id'', ''client_id'', ''email'', ''username'', ''password_hash'', ''password'']"

definition Unmarshal_recovery :: "string \<Rightarrow> json_error + recovery_payload" where
  "Unmarshal_recovery payload = (case Unmarshal recovery_fields payload of
     Inl err \<Rightarrow> Inl err
   | Inr f \<Rightarrow> Inr \<lparr>UserID_rp = f ''user_id'', ClientID_rp = f ''client_id'', Email_rp = f ''email'',
       Username_rp = f ''username'', PasswordHash_rp = f ''password_hash'', Password_rp = f ''password''\<rparr>)"

text \<open>The first of the four sources that names the user.\<close>

definition recovery_user :: "Envelope \<Rightarrow> recovery_payload \<Rightarrow> string" where
  "recovery_user cmd p =
     (if UserID_rp p \<noteq> [] then UserID_rp p
      else if AggregateID cmd \<noteq> [] then AggregateID cmd
      else if ClientID_rp p \<noteq> [] then ClientID_rp p
      else RecoveryPrincipalID cmd)"

text \<open>The hash to store: the one given, else the password given, hashed at this boundary.\<close>

definition recovery_hash :: "recovery_lib \<Rightarrow> recovery_payload \<Rightarrow> event_error + string" where
  "recovery_hash lib p =
     (if TrimSpace (PasswordHash_rp p) = [] then
        (if TrimSpace (Password_rp p) = []
         then Inl (Permanent (PlainErr ''auth recovery payload has neither password_hash nor password''))
         else case GenerateFromPassword lib (Password_rp p) of
           Inl hashErr \<Rightarrow> Inl (PlainErr (''hash auth recovery password: '' @ hashErr))
         | Inr hash \<Rightarrow> Inr hash)
      else Inr (PasswordHash_rp p))"

definition recovery_apply ::
  "'w authRecoverySubscriber \<Rightarrow> Envelope \<Rightarrow> recovery_payload \<Rightarrow> ('w, event_error, string) op" where
  "recovery_apply s cmd p w =
     (let user = recovery_user cmd p; operation = ToLower (Operation cmd) in
      if operation = ''post'' \<or> operation = ''create'' then
        (case recovery_hash (lib_rs s) p of
           Inl err \<Rightarrow> (Inl err, w)
         | Inr hash \<Rightarrow>
             (case CreateCredential (service_rs s) user (Email_rp p) (Username_rp p) hash w of
                (Inl err, w1) \<Rightarrow> (Inl (ServiceErr err), w1)
              | (Inr c, w1) \<Rightarrow> (Inr (Marshal_credential (lib_rs s) c), w1)))
      else if operation = ''delete'' then
        (case DeleteCredential (service_rs s) user w of
           (Inl err, w1) \<Rightarrow> (Inl (ServiceErr err), w1)
         | (Inr _, w1) \<Rightarrow> (Inr ''null'', w1))
      else (Inl (PlainErr (''unsupported auth recovery operation='' @ Operation cmd)), w))"

definition recovery_completed :: "time \<Rightarrow> Envelope \<Rightarrow> string \<Rightarrow> string \<Rightarrow> Envelope" where
  "recovery_completed now cmd user result =
     \<lparr>EventID = EventID cmd @ ''.completed'', CommandID = CommandID cmd, CorrelationID = CorrelationID cmd,
      CausationID = EventID cmd, IdempotencyKey = IdempotencyKey cmd, TestRunID = TestRunID cmd,
      EventType = ''migration.recovery.completed'', Operation = Operation cmd, SchemaVersion = 1,
      AggregateType = ''auth'', AggregateID = user, RecoveryPrincipalID = [],
      SourceService = ''auth-service-recovery'', OccurredAt = now, Payload = result\<rparr>"

definition recovery_handle :: "'w authRecoverySubscriber \<Rightarrow> 'w MessageHandler" where
  "recovery_handle s env subject raw w =
     (case Unmarshal_envelope (lib_rs s) raw of
        Inl err \<Rightarrow> (Inl (DecodeErr ''decode auth recovery command: '' err), w)
      | Inr cmd \<Rightarrow>
     (if \<not> EqualFold (AggregateType cmd) ''auth''
      then (Inl (UnsupportedAggregate (AggregateType cmd)), w)
      else
     (case Unmarshal_recovery (Payload cmd) of
        Inl err \<Rightarrow> (Inl (DecodeErr ''decode auth recovery payload: '' err), w)
      | Inr p \<Rightarrow>
     (if TrimSpace (recovery_user cmd p) = []
      then (Inl (Permanent (PlainErr (''auth recovery command '' @ CommandID cmd @ '' is missing user_id''))), w)
      else
     (case recovery_apply s cmd p w of
        (Inl err, w1) \<Rightarrow> (Inl err, w1)
      | (Inr result, w1) \<Rightarrow>
     (case Marshal_envelope (lib_rs s) (recovery_completed (stamp_Now env) cmd (recovery_user cmd p) result) of
        Inl err \<Rightarrow> (Inl err, w1)
      | Inr body \<Rightarrow> Publish (broker_rs s) (RecoveryCompleted (cfg_rs s)) body w1))))))"

definition recovery_Subscribe :: "'w authRecoverySubscriber \<Rightarrow> ('w, event_error, unit) op" where
  "recovery_Subscribe s = RunPullConsumer (broker_rs s)
     (zero_pull_config\<lparr>PullConsumerConfig.Subject := RecoveryTopic (cfg_rs s), GroupID_pc := RecoveryGroup (cfg_rs s)\<rparr>)
     (recovery_handle s)"

end
