(* ===== verification/Kafka_Broker.thy ===== *)
theory Kafka_Broker
  imports Event_Broker
begin

text \<open>
  The Kafka broker (internal/presentation/event_broker/kafka/broker.go). The Kafka client, the event
  envelope, the claims of processed events, the retry queue and the dead-letter format are
  libraries: parameters acting on the state \<open>'w\<close>.
\<close>

subsection \<open>The libraries\<close>

record kafka_msg =
  Key :: string
  Value :: string
  Headers :: "(string \<times> string) list"
  Partition :: int
  Offset :: int

record DLQRecord =
  OriginalKey :: string
  OriginalValue :: string
  OriginalTopic :: string
  OriginalPartition :: int
  OriginalOffset :: int
  Attempts :: int
  ErrorClass :: string
  Error :: string
  FailedAt :: time

text \<open>
  An event claim is named by the identifier DecodeOrFingerprint gives a message; ClaimDB answers
  whether the claim was free. Readers are what \<open>b.readers\<close> holds. The type and the text of an
  error are printed by package fmt.
\<close>

record 'w kafka_lib =
  Wrap :: "string \<Rightarrow> string \<Rightarrow> event_error + string"
  Unwrap :: "string \<Rightarrow> event_error + string"
  OutgoingHeaders :: "(string \<times> string) list"
  WriteMessages :: "string \<Rightarrow> kafka_msg \<Rightarrow> ('w, event_error, unit) op"
  CommitMessages :: "kafka_msg \<Rightarrow> ('w, event_error, unit) op"
  DecodeOrFingerprint :: "string \<Rightarrow> string \<Rightarrow> string"
  ClaimDB :: "string \<Rightarrow> ('w, event_error, bool) op"
  Release :: "string \<Rightarrow> 'w \<Rightarrow> 'w"
  RetryTopic :: "string \<Rightarrow> string"
  Enqueue :: "string \<Rightarrow> kafka_msg \<Rightarrow> string \<Rightarrow> int \<Rightarrow> event_error \<Rightarrow> ('w, event_error, unit) op"
  RunRetryQueue :: "string \<Rightarrow> 'w \<Rightarrow> 'w"
  MaxAttempts :: int
  MarshalDLQ :: "DLQRecord \<Rightarrow> event_error + string"
  type_name :: "event_error \<Rightarrow> string"
  error_string :: "event_error \<Rightarrow> string"
  OpenReader :: "string \<Rightarrow> string \<Rightarrow> 'w \<Rightarrow> 'w"
  CloseReader :: "string \<Rightarrow> string \<Rightarrow> 'w \<Rightarrow> 'w"
  Readers :: "'w \<Rightarrow> (string \<times> string) list"

record kafka_broker =
  brokers :: "string list"
  group :: string
  deadLetter :: string
  has_db :: bool

definition kafka_newBroker :: "KafkaConfig \<Rightarrow> bool \<Rightarrow> string + kafka_broker" where
  "kafka_newBroker c db =
     (if length (Brokers c) = 0 then Inl ''kafka brokers are empty''
      else Inr \<lparr>brokers = Brokers c, group = GroupID c, deadLetter = DeadLetterTopic c, has_db = db\<rparr>)"

definition kafka_NewBroker :: "KafkaConfig \<Rightarrow> string + kafka_broker" where
  "kafka_NewBroker c = kafka_newBroker c False"

definition kafka_NewBrokerWithDB :: "KafkaConfig \<Rightarrow> bool \<Rightarrow> string + kafka_broker" where
  "kafka_NewBrokerWithDB c db = kafka_newBroker c db"

subsection \<open>Publishing\<close>

definition eventKey :: "string \<Rightarrow> string" where
  "eventKey payload = map (\<lambda>b. char_of (unat b)) (Sum256 (bytes_of payload))"

definition kafkaHeaders :: "'w kafka_lib \<Rightarrow> (string \<times> string) list" where
  "kafkaHeaders lib = map (\<lambda>(key, value). (key, value)) (OutgoingHeaders lib)"

definition kafka_Publish :: "'w kafka_lib \<Rightarrow> string \<Rightarrow> string \<Rightarrow> ('w, event_error, unit) op" where
  "kafka_Publish lib subject payload w =
     (case Wrap lib subject payload of
        Inl err \<Rightarrow> (Inl err, w)
      | Inr enveloped \<Rightarrow>
          WriteMessages lib subject \<lparr>Key = eventKey enveloped, Value = enveloped, Headers = kafkaHeaders lib,
            Partition = 0, Offset = 0\<rparr> w)"

subsection \<open>Consuming\<close>

definition retry_header :: string where
  "retry_header = ''x-ofm-retry-attempt''"

fun retryAttempt :: "(string \<times> string) list \<Rightarrow> int" where
  "retryAttempt [] = 1"
| "retryAttempt ((key, value) # hs) =
     (if key = retry_header then
        (case Atoi value of
           Some n \<Rightarrow> if n > 0 then n else retryAttempt hs
         | None \<Rightarrow> retryAttempt hs)
      else retryAttempt hs)"

definition deadLetterMessage ::
  "'w kafka_lib \<Rightarrow> kafka_broker \<Rightarrow> string \<Rightarrow> kafka_msg \<Rightarrow> int \<Rightarrow> time \<Rightarrow> event_error \<Rightarrow> ('w, event_error, unit) op" where
  "deadLetterMessage lib b subject m attempts now cause w =
     (case MarshalDLQ lib \<lparr>OriginalKey = Key m, OriginalValue = Value m, OriginalTopic = subject,
             OriginalPartition = Partition m, OriginalOffset = Offset m, Attempts = attempts,
             ErrorClass = type_name lib cause, Error = error_string lib cause, FailedAt = now\<rparr> of
        Inl err \<Rightarrow> (Inl err, w)
      | Inr payload \<Rightarrow>
          (case WriteMessages lib (deadLetter b) \<lparr>Key = Key m, Value = payload, Headers = Headers m,
                  Partition = 0, Offset = 0\<rparr> w of
             (Inl err, w1) \<Rightarrow> (Inl err, w1)
           | (Inr _, w1) \<Rightarrow> (Inr (), w1)))"

definition consumer_group :: "kafka_broker \<Rightarrow> PullConsumerConfig \<Rightarrow> string" where
  "consumer_group b c =
     (let g = TrimSpace (GroupID_pc c) in
      if g = [] then TrimSpace (group b) @ ''-'' @ TrimSpace (PullConsumerConfig.Subject c) else g)"

definition recovery_prefix :: string where
  "recovery_prefix = ''migration.recovery.commands.''"

text \<open>One turn of the loop on a fetched message: the next turn, or the answer of the whole call.\<close>

datatype turn = Next | Return "event_error + unit"

text \<open>The claim of a message, when the broker has a database.\<close>

definition claim_message ::
  "'w kafka_lib \<Rightarrow> kafka_broker \<Rightarrow> string \<Rightarrow> kafka_msg \<Rightarrow> ('w, event_error, bool) op" where
  "claim_message lib b subject m w =
     (if has_db b then ClaimDB lib (DecodeOrFingerprint lib subject (Value m)) w else (Inr True, w))"

definition release_message :: "'w kafka_lib \<Rightarrow> kafka_broker \<Rightarrow> string \<Rightarrow> kafka_msg \<Rightarrow> 'w \<Rightarrow> 'w" where
  "release_message lib b subject m w =
     (if has_db b then Release lib (DecodeOrFingerprint lib subject (Value m)) w else w)"

definition handler_failed ::
  "'w kafka_lib \<Rightarrow> kafka_broker \<Rightarrow> string \<Rightarrow> string \<Rightarrow> time \<Rightarrow> kafka_msg \<Rightarrow> int \<Rightarrow> event_error \<Rightarrow> 'w \<Rightarrow> turn \<times> 'w" where
  "handler_failed lib b grp subject now m attempts err w =
     (let w = release_message lib b subject m w in
      if \<not> is_permanent err \<and> attempts < MaxAttempts lib then
        (case Enqueue lib (RetryTopic lib grp) m subject (attempts + 1) err w of
           (Inl queueErr, w1) \<Rightarrow> (Return (Inl queueErr), w1)
         | (Inr _, w1) \<Rightarrow> (Next, w1))
      else apfst Return (deadLetterMessage lib b subject m attempts now err w))"

definition consume_message ::
  "'w kafka_lib \<Rightarrow> kafka_broker \<Rightarrow> string \<Rightarrow> string \<Rightarrow> 'w MessageHandler \<Rightarrow> kafka_msg \<times> msg_env \<Rightarrow> 'w \<Rightarrow> turn \<times> 'w" where
  "consume_message lib b grp subject handler fetched w =
     (let (m, env) = fetched; attempts = retryAttempt (Headers m) in
      case claim_message lib b subject m w of
        (Inl claimErr, w1) \<Rightarrow> (Return (Inl claimErr), w1)
      | (Inr False, w1) \<Rightarrow> (Next, w1)
      | (Inr True, w1) \<Rightarrow>
          (case Unwrap lib (Value m) of
             Inl unwrapErr \<Rightarrow> apfst Return (deadLetterMessage lib b subject m attempts (stamp_Now env) unwrapErr w1)
           | Inr unwrapped \<Rightarrow>
               let payload = (if HasPrefix subject recovery_prefix then Value m else unwrapped) in
               (case handler env subject payload w1 of
                  (Inl err, w2) \<Rightarrow> handler_failed lib b grp subject (stamp_Now env) m attempts err w2
                | (Inr _, w2) \<Rightarrow>
                    (case CommitMessages lib m w2 of
                       (Inl err, w3) \<Rightarrow> (Return (Inl err), w3)
                     | (Inr _, w3) \<Rightarrow> (Next, w3)))))"

text \<open>
  The loop over what FetchMessage yields: the messages fetched, in order, and the error that ends
  the fetching when no turn has ended the call before.
\<close>

fun consume_loop ::
  "'w kafka_lib \<Rightarrow> kafka_broker \<Rightarrow> string \<Rightarrow> string \<Rightarrow> 'w MessageHandler \<Rightarrow> (kafka_msg \<times> msg_env) list
    \<Rightarrow> event_error \<Rightarrow> ('w, event_error, unit) op" where
  "consume_loop lib b grp subject handler [] stop w = (Inl stop, w)"
| "consume_loop lib b grp subject handler (f # fs) stop w =
     (case consume_message lib b grp subject handler f w of
        (Return r, w1) \<Rightarrow> (r, w1)
      | (Next, w1) \<Rightarrow> consume_loop lib b grp subject handler fs stop w1)"

definition kafka_RunPullConsumer ::
  "'w kafka_lib \<Rightarrow> kafka_broker \<Rightarrow> (string \<Rightarrow> (kafka_msg \<times> msg_env) list \<times> event_error)
    \<Rightarrow> PullConsumerConfig \<Rightarrow> 'w MessageHandler \<Rightarrow> ('w, event_error, unit) op" where
  "kafka_RunPullConsumer lib b fetches c handler w =
     (let grp = consumer_group b c;
          subject = PullConsumerConfig.Subject c;
          w1 = OpenReader lib subject grp (RunRetryQueue lib grp w);
          (r, w2) = consume_loop lib b grp subject handler (fst (fetches subject)) (snd (fetches subject)) w1
      in (r, CloseReader lib subject grp w2))"

definition kafka_Subscribe ::
  "'w kafka_lib \<Rightarrow> kafka_broker \<Rightarrow> (string \<Rightarrow> (kafka_msg \<times> msg_env) list \<times> event_error)
    \<Rightarrow> string \<Rightarrow> 'w MessageHandler \<Rightarrow> ('w, event_error, unit) op" where
  "kafka_Subscribe lib b fetches subject handler =
     kafka_RunPullConsumer lib b fetches (zero_pull_config\<lparr>PullConsumerConfig.Subject := subject\<rparr>) handler"

definition kafka_Close :: "'w kafka_lib \<Rightarrow> 'w \<Rightarrow> 'w" where
  "kafka_Close lib w = fold (\<lambda>(topic, grp). CloseReader lib topic grp) (Readers lib w) w"

text \<open>The broker as the subscribers see it.\<close>

definition kafka_event_broker ::
  "'w kafka_lib \<Rightarrow> kafka_broker \<Rightarrow> (string \<Rightarrow> (kafka_msg \<times> msg_env) list \<times> event_error) \<Rightarrow> 'w EventBroker" where
  "kafka_event_broker lib b fetches =
     \<lparr>Publish = kafka_Publish lib, Subscribe = kafka_Subscribe lib b fetches,
      RunPullConsumer = kafka_RunPullConsumer lib b fetches, Close = kafka_Close lib\<rparr>"

end
