(* ===== verification/Saga_Handlers.thy ===== *)
theory Saga_Handlers
  imports Saga_Messages
begin

text \<open>
  The registration saga subscriber over NATS: saga_registration_subscriber.go (construction,
  subscription, consumer configuration) and saga_registration_handler.go (the two handlers).
\<close>

record 'w registrationSagaSubscriber =
  broker :: "'w EventBroker"
  service :: "'w AuthService"
  cfg_sub :: NATSConfig
  resolver :: FailureReasonResolver
  mapr :: RegistrationSagaMessageMapper

datatype subscriber_config_error = ErrNilBroker | ErrNilAuthService | ErrNilFailureReasonResolver | ErrNilLogger_sub

definition NewRegistrationSagaSubscriber ::
  "'w EventBroker option \<Rightarrow> 'w AuthService option \<Rightarrow> NATSConfig \<Rightarrow> FailureReasonResolver option \<Rightarrow> unit option
    \<Rightarrow> subscriber_config_error + 'w registrationSagaSubscriber" where
  "NewRegistrationSagaSubscriber b svc c res log =
     (case b of None \<Rightarrow> Inl ErrNilBroker
      | Some b \<Rightarrow>
     (case svc of None \<Rightarrow> Inl ErrNilAuthService
      | Some svc \<Rightarrow>
     (case res of None \<Rightarrow> Inl ErrNilFailureReasonResolver
      | Some res \<Rightarrow>
     (case log of None \<Rightarrow> Inl ErrNilLogger_sub
      | Some _ \<Rightarrow> Inr \<lparr>broker = b, service = svc, cfg_sub = c, resolver = res,
                      mapr = newRegistrationSagaMessageMapper\<rparr>))))"

subsection \<open>Publishing\<close>

definition publishCreateFailureResult ::
  "'w registrationSagaSubscriber \<Rightarrow> time \<Rightarrow> createAuthCommand \<Rightarrow> go_error \<Rightarrow> ('w, event_error, unit) op" where
  "publishCreateFailureResult s now cmd err w =
     (case ToCreateFailureResultPayload (mapr s) now cmd (CreateAuthFailureReason (resolver s) err) of
        Inl mapErr \<Rightarrow> (Inl mapErr, w)
      | Inr payload \<Rightarrow> Publish (broker s) (SagaCreateAuthResultSubject (cfg_sub s)) payload w)"

definition publishCreateSuccessResult ::
  "'w registrationSagaSubscriber \<Rightarrow> time \<Rightarrow> createAuthCommand \<Rightarrow> string \<Rightarrow> string \<Rightarrow> string
    \<Rightarrow> ('w, event_error, unit) op" where
  "publishCreateSuccessResult s now cmd email verificationCode expiresIn w =
     (case ToCreateSuccessResultPayload (mapr s) now cmd email verificationCode expiresIn of
        Inl err \<Rightarrow> (Inl err, w)
      | Inr resultPayload \<Rightarrow>
     (case Publish (broker s) (SagaCreateAuthResultSubject (cfg_sub s)) resultPayload w of
        (Inl err, w1) \<Rightarrow> (Inl err, w1)
      | (Inr _, w1) \<Rightarrow>
     (case ToMailSendCommandPayload (mapr s) cmd email verificationCode expiresIn of
        Inl err \<Rightarrow> (Inl err, w1)
      | Inr mailPayload \<Rightarrow> Publish (broker s) (MailSendSubject (cfg_sub s)) mailPayload w1)))"

definition publishDeleteFailureResult ::
  "'w registrationSagaSubscriber \<Rightarrow> time \<Rightarrow> deleteAuthCommand \<Rightarrow> go_error \<Rightarrow> ('w, event_error, unit) op" where
  "publishDeleteFailureResult s now cmd err w =
     (case ToDeleteFailureResultPayload (mapr s) now cmd (DeleteAuthFailureReason (resolver s) err) of
        Inl mapErr \<Rightarrow> (Inl mapErr, w)
      | Inr payload \<Rightarrow> Publish (broker s) (SagaDeleteAuthResultSubject (cfg_sub s)) payload w)"

definition publishDeleteSuccessResult ::
  "'w registrationSagaSubscriber \<Rightarrow> time \<Rightarrow> deleteAuthCommand \<Rightarrow> ('w, event_error, unit) op" where
  "publishDeleteSuccessResult s now cmd w =
     (case ToDeleteSuccessResultPayload (mapr s) now cmd of
        Inl err \<Rightarrow> (Inl err, w)
      | Inr resultPayload \<Rightarrow> Publish (broker s) (SagaDeleteAuthResultSubject (cfg_sub s)) resultPayload w)"

subsection \<open>Handlers\<close>

definition WrapUnmarshalCreateAuthCommandError :: "json_error \<Rightarrow> event_error" where
  "WrapUnmarshalCreateAuthCommandError err = DecodeErr ''unmarshal create auth command: '' err"

definition WrapUnmarshalDeleteAuthCommandError :: "json_error \<Rightarrow> event_error" where
  "WrapUnmarshalDeleteAuthCommandError err = DecodeErr ''unmarshal delete auth command: '' err"

definition handleCreateAuthCommand :: "'w registrationSagaSubscriber \<Rightarrow> 'w MessageHandler" where
  "handleCreateAuthCommand s env subject payload w =
     (case Unmarshal_create payload of
        Inl err \<Rightarrow> (Inl (WrapUnmarshalCreateAuthCommandError err), w)
      | Inr cmd \<Rightarrow>
     (case CreatePendingRegistration (service s) (service_env env) (UserID_ca cmd) (Email_ca cmd)
             (Username_ca cmd) (PasswordHash_ca cmd) w of
        (Inl err, w1) \<Rightarrow> publishCreateFailureResult s (stamp_Now env) cmd err w1
      | (Inr result, w1) \<Rightarrow>
          publishCreateSuccessResult s (stamp_Now env) cmd (Email_pr result) (VerificationCode_pr result)
            (ExpiresIn_pr result) w1))"

definition handleDeleteAuthCommand :: "'w registrationSagaSubscriber \<Rightarrow> 'w MessageHandler" where
  "handleDeleteAuthCommand s env subject payload w =
     (case Unmarshal_delete payload of
        Inl err \<Rightarrow> (Inl (WrapUnmarshalDeleteAuthCommandError err), w)
      | Inr cmd \<Rightarrow>
     (case DeleteCredential (service s) (UserID_da cmd) w of
        (Inl err, w1) \<Rightarrow> publishDeleteFailureResult s (stamp_Now env) cmd err w1
      | (Inr _, w1) \<Rightarrow> publishDeleteSuccessResult s (stamp_Now env) cmd w1))"

subsection \<open>Subscription\<close>

definition BuildAdaptiveConfig :: "NATSConfig \<Rightarrow> PullAdaptiveConfig" where
  "BuildAdaptiveConfig c =
     \<lparr>Enabled = SagaAdaptiveEnabled c, CheckInterval = SagaAdaptiveCheckInterval c,
      MediumPending = SagaAdaptiveMediumPending c, HighPending = SagaAdaptiveHighPending c,
      LowBatchSize = SagaAdaptiveLowBatchSize c, LowMaxWait = SagaAdaptiveLowMaxWait c,
      MediumBatchSize = SagaAdaptiveMediumBatchSize c, MediumMaxWait = SagaAdaptiveMediumMaxWait c,
      HighBatchSize = SagaAdaptiveHighBatchSize c, HighMaxWait = SagaAdaptiveHighMaxWait c\<rparr>"

definition buildPullConsumerConfig :: "'w registrationSagaSubscriber \<Rightarrow> string \<Rightarrow> string \<Rightarrow> PullConsumerConfig" where
  "buildPullConsumerConfig s subject durable =
     \<lparr>GroupID_pc = [], Stream = SagaCommandsStream (cfg_sub s), Subject = subject, Durable = durable,
      BatchSize = SagaBatchSize (cfg_sub s), MaxWait = SagaMaxWait (cfg_sub s),
      Workers = SagaWorkers (cfg_sub s), QueueSize = SagaQueueSize (cfg_sub s),
      AckWait = SagaAckWait (cfg_sub s), MaxDeliver = SagaMaxDeliver (cfg_sub s),
      Adaptive = BuildAdaptiveConfig (cfg_sub s)\<rparr>"

definition saga_Subscribe :: "'w registrationSagaSubscriber \<Rightarrow> ('w, event_error, unit) op" where
  "saga_Subscribe s w =
     (case RunPullConsumer (broker s) (buildPullConsumerConfig s (SagaCreateAuthSubject (cfg_sub s))
             (SagaCreateAuthDurable (cfg_sub s))) (handleCreateAuthCommand s) w of
        (Inl err, w1) \<Rightarrow> (Inl err, w1)
      | (Inr _, w1) \<Rightarrow>
     (case RunPullConsumer (broker s) (buildPullConsumerConfig s (SagaDeleteAuthSubject (cfg_sub s))
             (SagaDeleteAuthDurable (cfg_sub s))) (handleDeleteAuthCommand s) w1 of
        (Inl err, w2) \<Rightarrow> (Inl err, w2)
      | (Inr _, w2) \<Rightarrow> (Inr (), w2)))"

end
