(* ===== verification/Grpc_Server.thy ===== *)
theory Grpc_Server
  imports Service Go_Format
begin

text \<open>
  internal/presentation/grpc/server.go: the gRPC server over the AuthService interface. A handler
  reads its request through the generated getters, so it is given the fields; it answers a status
  or a response with the fields the code sets. Interceptors, metrics and logging are left out.
\<close>

subsection \<open>Statuses and responses\<close>

datatype code = Internal | NotFound | InvalidArgument | FailedPrecondition | Unauthenticated

text \<open>status.Error(code, message).\<close>

datatype status = Status (Code: code) (Message: string)

record ExistsByEmailResponse =
  Exists :: bool

record GetEmailByUserIDResponse =
  UserId_em :: string
  Email_em :: string

record VerifyRegistrationEmailResponse =
  UserId_ver :: string
  Email_ver :: string
  Status_ver :: string

text \<open>IssueRegistrationTokens, SignIn and Refresh answer messages with the same five fields.\<close>

record TokensResponse =
  UserId_tk :: string
  AccessToken_tk :: string
  RefreshToken_tk :: string
  TokenType_tk :: string
  ExpiresIn_tk :: int

record SignOutResponse =
  Status_so :: string

record DeactivateRegistrationAuthResponse =
  UserId_de :: string
  Status_de :: string

definition tokens_response :: "TokenPair \<Rightarrow> TokensResponse" where
  "tokens_response tokens =
     \<lparr>UserId_tk = UserID_tp tokens, AccessToken_tk = AccessToken tokens,
      RefreshToken_tk = RefreshToken tokens, TokenType_tk = TokenType tokens,
      ExpiresIn_tk = ExpiresIn tokens\<rparr>"

subsection \<open>Handlers\<close>

text \<open>What a handler does with its service's answer: an error becomes a status, a value a response.\<close>

definition respond :: "('e \<Rightarrow> status) \<Rightarrow> ('a \<Rightarrow> 'b) \<Rightarrow> ('e + 'a) \<times> 's \<Rightarrow> (status + 'b) \<times> 's" where
  "respond fail answer p = (case p of
     (Inl err, s) \<Rightarrow> (Inl (fail err), s)
   | (Inr x, s) \<Rightarrow> (Inr (answer x), s))"

definition rpc_ExistsByEmail :: "'s AuthService \<Rightarrow> string \<Rightarrow> ('s, status, ExistsByEmailResponse) op" where
  "rpc_ExistsByEmail svc email s =
     respond (\<lambda>_. Status Internal ''internal server error'')
       (\<lambda>exists. \<lparr>Exists = exists\<rparr>) (ExistsByEmail svc email s)"

definition rpc_GetEmailByUserID ::
  "'s AuthService \<Rightarrow> string \<Rightarrow> ('s, status, GetEmailByUserIDResponse) op" where
  "rpc_GetEmailByUserID svc user_id s =
     respond (\<lambda>_. Status NotFound ''auth credential not found'')
       (\<lambda>email. \<lparr>UserId_em = user_id, Email_em = email\<rparr>) (GetEmailByUserID svc user_id s)"

definition rpc_VerifyRegistrationEmail ::
  "'s AuthService \<Rightarrow> call_env \<Rightarrow> string \<Rightarrow> string \<Rightarrow> ('s, status, VerifyRegistrationEmailResponse) op" where
  "rpc_VerifyRegistrationEmail svc env user_id code s =
     respond (\<lambda>_. Status InvalidArgument ''invalid registration email verification'')
       (\<lambda>result. \<lparr>UserId_ver = UserID_ev result, Email_ver = Email_ev result, Status_ver = Status_ev result\<rparr>)
       (VerifyRegistrationEmail svc env user_id code s)"

definition rpc_IssueRegistrationTokens ::
  "'s AuthService \<Rightarrow> call_env \<Rightarrow> string \<Rightarrow> ('s, status, TokensResponse) op" where
  "rpc_IssueRegistrationTokens svc env user_id s =
     respond (\<lambda>_. Status FailedPrecondition ''registration tokens unavailable'')
       tokens_response (IssueRegistrationTokens svc env user_id s)"

definition rpc_SignIn :: "'s AuthService \<Rightarrow> call_env \<Rightarrow> string \<Rightarrow> string \<Rightarrow> ('s, status, TokensResponse) op" where
  "rpc_SignIn svc env identifier password s =
     respond (\<lambda>_. Status Unauthenticated ''invalid credentials'')
       tokens_response (SignIn svc env identifier password s)"

text \<open>The two switches on the identity of the error.\<close>

definition refresh_status :: "go_error \<Rightarrow> status" where
  "refresh_status err =
     (if err = AuthErr ErrInvalidRefreshToken then Status Unauthenticated ''invalid refresh token''
      else if err \<in> {AuthErr ErrRefreshTokenExpired, AuthErr ErrRefreshTokenRevoked,
          AuthErr ErrInvalidCredentials, AuthErr ErrAuthNotFound}
      then Status Unauthenticated ''invalid refresh token''
      else Status Internal ''internal server error'')"

definition sign_out_status :: "go_error \<Rightarrow> status" where
  "sign_out_status err =
     (if err = AuthErr ErrInvalidRefreshToken then Status InvalidArgument ''invalid refresh token''
      else if err \<in> {AuthErr ErrRefreshTokenExpired, AuthErr ErrRefreshTokenRevoked,
          AuthErr ErrInvalidCredentials, AuthErr ErrAuthNotFound}
      then Status Unauthenticated ''invalid refresh token''
      else Status Internal ''internal server error'')"

definition rpc_Refresh :: "'s AuthService \<Rightarrow> call_env \<Rightarrow> string \<Rightarrow> ('s, status, TokensResponse) op" where
  "rpc_Refresh svc env refresh_token s =
     respond refresh_status tokens_response (Refresh svc env refresh_token s)"

definition rpc_SignOut :: "'s AuthService \<Rightarrow> call_env \<Rightarrow> string \<Rightarrow> ('s, status, SignOutResponse) op" where
  "rpc_SignOut svc env refresh_token s =
     respond sign_out_status (\<lambda>_. \<lparr>Status_so = ''signed_out''\<rparr>) (SignOut svc env refresh_token s)"

definition rpc_DeactivateRegistrationAuth ::
  "'s AuthService \<Rightarrow> string \<Rightarrow> ('s, status, DeactivateRegistrationAuthResponse) op" where
  "rpc_DeactivateRegistrationAuth svc user_id s =
     respond (\<lambda>_. Status Internal ''failed to deactivate registration auth'')
       (\<lambda>_. \<lparr>UserId_de = user_id, Status_de = ''registration_failed''\<rparr>)
       (DeactivateRegistrationAuth svc user_id s)"

lemmas rpc_defs = rpc_ExistsByEmail_def rpc_GetEmailByUserID_def rpc_VerifyRegistrationEmail_def
  rpc_IssueRegistrationTokens_def rpc_SignIn_def rpc_Refresh_def rpc_SignOut_def
  rpc_DeactivateRegistrationAuth_def

lemma respond_state: "respond f g p = (r, s') \<Longrightarrow> \<exists>x. p = (x, s')"
  by (cases p) (auto simp: respond_def split: sum.splits)

lemma respond_Inr: "respond f g p = (Inr y, s') \<longleftrightarrow> (\<exists>x. y = g x \<and> p = (Inr x, s'))"
  by (cases p) (auto simp: respond_def split: sum.splits)

lemma respond_Inl: "respond f g p = (Inl st, s') \<longleftrightarrow> (\<exists>e. st = f e \<and> p = (Inl e, s'))"
  by (cases p) (auto simp: respond_def split: sum.splits)

subsection \<open>The lifecycle of the server\<close>

text \<open>
  The network and the gRPC library: Listen answers a listener, Serve returns when the server
  stops, closing a listener may fail, with net.ErrClosed or another error.
\<close>

datatype close_error = ErrClosed | CloseFailed string

record 'l net_env =
  Listen :: "string \<Rightarrow> string + 'l"
  Serve :: "bool \<Rightarrow> 'l \<Rightarrow> string option"
  CloseListener :: "'l \<Rightarrow> close_error option"

record ('s, 'l) server =
  svc_srv :: "'s AuthService"
  cfg_srv :: GRPCConfig
  listener :: "'l option"
  stopped :: bool

datatype server_config_error = NilAuthService | NilLogger

definition NewServer ::
  "'s AuthService option \<Rightarrow> GRPCConfig \<Rightarrow> unit option \<Rightarrow> server_config_error + ('s, 'l) server" where
  "NewServer svc c log =
     (case svc of None \<Rightarrow> Inl NilAuthService
      | Some a \<Rightarrow>
     (case log of None \<Rightarrow> Inl NilLogger
      | Some _ \<Rightarrow> Inr \<lparr>svc_srv = a, cfg_srv = c, listener = None, stopped = False\<rparr>))"

definition listen_addr :: "GRPCConfig \<Rightarrow> string" where
  "listen_addr c = Host_grpc c @ '':'' @ fmt_d (Port_grpc c)"

definition server_Start :: "'l net_env \<Rightarrow> ('s, 'l) server \<Rightarrow> string option \<times> ('s, 'l) server" where
  "server_Start net srv =
     (case Listen net (listen_addr (cfg_srv srv)) of
        Inl err \<Rightarrow> (Some err, srv)
      | Inr lis \<Rightarrow> (Serve net (stopped srv) lis, srv\<lparr>listener := Some lis\<rparr>))"

definition server_Shutdown :: "'l net_env \<Rightarrow> ('s, 'l) server \<Rightarrow> close_error option \<times> ('s, 'l) server" where
  "server_Shutdown net srv =
     (let srv = srv\<lparr>stopped := True\<rparr> in
      case listener srv of
        None \<Rightarrow> (None, srv)
      | Some lis \<Rightarrow>
          case CloseListener net lis of
            Some err \<Rightarrow> (if err \<noteq> ErrClosed then Some err else None, srv)
          | None \<Rightarrow> (None, srv))"

end
