(* ===== verification/Storage.thy ===== *)
theory Storage
  imports Config Go_Format
begin

text \<open>
  pkg/storage/postgres: the connection strings and the migration runner. The database driver and
  the migration library are parameters.
\<close>

definition open_dsn :: "DBConfig \<Rightarrow> string" where
  "open_dsn c = ''postgres://'' @ User_db c @ '':'' @ Password_db c @ ''@'' @ Host_db c @ '':'' @
     fmt_d (Port_db c) @ ''/'' @ Name_db c @ ''?sslmode='' @ SSLMode c"

text \<open>The contexts of error.go.\<close>

definition WrapResolveMigrationsPathError :: "string \<Rightarrow> string" where
  "WrapResolveMigrationsPathError err = ''resolve migrations path: '' @ err"

definition WrapCreateMigratorError :: "string \<Rightarrow> string" where
  "WrapCreateMigratorError err = ''create migrator: '' @ err"

definition WrapRunMigrationsError :: "string \<Rightarrow> string" where
  "WrapRunMigrationsError err = ''run migrations: '' @ err"

definition WrapOpenDBError :: "string \<Rightarrow> string" where
  "WrapOpenDBError err = ''open db: '' @ err"

record pool =
  dsn :: string
  maxOpen :: int
  maxIdle :: int
  lifetime :: duration
  idleTime :: duration

text \<open>otelsql.Register and sqlx.Connect may fail; the pool is then limited as configured.\<close>

definition Open :: "string option \<Rightarrow> (string \<Rightarrow> string option) \<Rightarrow> DBConfig \<Rightarrow> string + pool" where
  "Open register_err connect c =
     (case register_err of
        Some err \<Rightarrow> Inl (WrapOpenDBError err)
      | None \<Rightarrow>
          (case connect (open_dsn c) of
             Some err \<Rightarrow> Inl (WrapOpenDBError err)
           | None \<Rightarrow> Inr \<lparr>dsn = open_dsn c, maxOpen = MaxOpenConns c, maxIdle = MaxIdleConns c,
                          lifetime = ConnMaxLifetime c, idleTime = 2 * minute\<rparr>))"

definition migrate_dsn :: "DBConfig \<Rightarrow> string" where
  "migrate_dsn c = ''postgres://'' @ QueryEscape (User_db c) @ '':'' @ QueryEscape (Password_db c) @ ''@'' @
     Host_db c @ '':'' @ fmt_d (Port_db c) @ ''/'' @ Name_db c @ ''?sslmode='' @ SSLMode c @
     ''&x-migrations-table='' @ QueryEscape (MigrationsTable c)"

datatype migrate_error = ErrNoChange | MigrateFailed string

record migrate_lib =
  IsAbs :: "string \<Rightarrow> bool"
  Abs_path :: "string \<Rightarrow> string + string"
  migrate_New :: "string \<Rightarrow> string \<Rightarrow> string option"
  Up :: "string \<Rightarrow> string \<Rightarrow> migrate_error option"

definition migration_path :: "migrate_lib \<Rightarrow> string \<Rightarrow> string + string" where
  "migration_path lib path =
     (case CutPrefix path ''file://'' of
        (raw, ok) \<Rightarrow>
          if ok \<and> \<not> IsAbs lib raw then
            (case Abs_path lib raw of Inl err \<Rightarrow> Inl (WrapResolveMigrationsPathError err) | Inr path' \<Rightarrow> Inr (''file://'' @ path'))
          else Inr path)"

definition RunMigrations :: "migrate_lib \<Rightarrow> DBConfig \<Rightarrow> string option" where
  "RunMigrations lib c =
     (case migration_path lib (MigrationsPath c) of
        Inl err \<Rightarrow> Some err
      | Inr path \<Rightarrow>
          (case migrate_New lib path (migrate_dsn c) of
             Some err \<Rightarrow> Some (WrapCreateMigratorError err)
           | None \<Rightarrow>
               (case Up lib path (migrate_dsn c) of
                  None \<Rightarrow> None
                | Some ErrNoChange \<Rightarrow> None
                | Some (MigrateFailed err) \<Rightarrow> Some (WrapRunMigrationsError err))))"

end
