(* ===== verification/Lifecycle.thy ===== *)
theory Lifecycle
  imports Kafka_Subscribers Kafka_Broker Saga_Handlers Grpc_Server Storage Wiring
begin

text \<open>
  internal/fx: how the application is put together and how its background consumers are kept
  running. The fx container runs the hooks; a hook that starts a goroutine is modelled by what the
  goroutine does.
\<close>

subsection \<open>Hooks\<close>

text \<open>
  What the hooks of the process act on: everything behind the service and the broker, the gRPC
  server, the contexts of the three background goroutines, the connection pool and the logger. A
  variable \<open>cancel\<close> is nil until OnStart has made a context.
\<close>

datatype run_context = NoContext | Live | Cancelled

record ('w, 'l) runtime =
  world_rt :: 'w
  server_rt :: "('w, 'l) server"
  serving :: bool
  metrics_ctx :: run_context
  saga_ctx :: run_context
  recovery_ctx :: run_context
  pool_open :: bool
  synced :: bool

definition call_cancel :: "run_context \<Rightarrow> run_context" where
  "call_cancel x = (if x \<noteq> NoContext then Cancelled else x)"

datatype hook_error = SyncFailed string | ShutdownFailed close_error

record 'r hook =
  OnStart :: "'r \<Rightarrow> hook_error option \<times> 'r"
  OnStop :: "'r \<Rightarrow> hook_error option \<times> 'r"

definition no_hook :: "'r hook" where
  "no_hook = \<lparr>OnStart = Pair None, OnStop = Pair None\<rparr>"

text \<open>The lifecycle a provider is given, to which it appends its hook.\<close>

type_synonym 'r lifecycle = "'r hook list"

definition logger_hook :: "string option \<Rightarrow> ('w, 'l) runtime hook" where
  "logger_hook sync_err = no_hook\<lparr>OnStop := (\<lambda>r. (map_option SyncFailed sync_err, r\<lparr>synced := True\<rparr>))\<rparr>"

definition metrics_hook :: "('w, 'l) runtime hook" where
  "metrics_hook =
     \<lparr>OnStart = (\<lambda>r. (None, r\<lparr>metrics_ctx := Live\<rparr>)),
      OnStop = (\<lambda>r. (None, r\<lparr>metrics_ctx := call_cancel (metrics_ctx r)\<rparr>))\<rparr>"

definition pool_hook :: "('w, 'l) runtime hook" where
  "pool_hook = no_hook\<lparr>OnStop := (\<lambda>r. (None, r\<lparr>pool_open := False\<rparr>))\<rparr>"

definition broker_hook :: "'w EventBroker \<Rightarrow> ('w, 'l) runtime hook" where
  "broker_hook b = no_hook\<lparr>OnStop := (\<lambda>r. (None, r\<lparr>world_rt := Close b (world_rt r)\<rparr>))\<rparr>"

definition saga_hook :: "('w, 'l) runtime hook" where
  "saga_hook =
     \<lparr>OnStart = (\<lambda>r. (None, r\<lparr>saga_ctx := Live\<rparr>)),
      OnStop = (\<lambda>r. (None, r\<lparr>saga_ctx := call_cancel (saga_ctx r)\<rparr>))\<rparr>"

definition recovery_hook :: "('w, 'l) runtime hook" where
  "recovery_hook =
     \<lparr>OnStart = (\<lambda>r. (None, r\<lparr>recovery_ctx := Live\<rparr>)),
      OnStop = (\<lambda>r. (None, r\<lparr>recovery_ctx := call_cancel (recovery_ctx r)\<rparr>))\<rparr>"

text \<open>OnStart serves in a goroutine that panics when serving ends with an error.\<close>

definition serve_goroutine :: "'l net_env \<Rightarrow> ('s, 'l) server \<Rightarrow> bool \<times> ('s, 'l) server" where
  "serve_goroutine net srv = (case server_Start net srv of (err, srv1) \<Rightarrow> (err \<noteq> None, srv1))"

definition grpc_hook :: "'l net_env \<Rightarrow> ('w, 'l) runtime hook" where
  "grpc_hook net =
     \<lparr>OnStart = (\<lambda>r. (None, r\<lparr>serving := True\<rparr>)),
      OnStop = (\<lambda>r. case server_Shutdown net (server_rt r) of
        (err, srv) \<Rightarrow> (map_option ShutdownFailed err, r\<lparr>server_rt := srv\<rparr>))\<rparr>"

lemmas hook_defs = logger_hook_def metrics_hook_def pool_hook_def broker_hook_def saga_hook_def recovery_hook_def
  grpc_hook_def no_hook_def

lemma call_cancel_not_Live [simp]: "call_cancel x \<noteq> Live"
  by (cases x) (simp_all add: call_cancel_def)

lemma server_Shutdown_stopped: "server_Shutdown net srv = (err, srv') \<Longrightarrow> stopped srv'"
  by (auto simp: server_Shutdown_def Let_def split: option.splits if_splits)

subsection \<open>Providers\<close>

definition ProvideConfig :: "('env \<Rightarrow> string + Config) \<Rightarrow> 'env \<Rightarrow> string + Config" where
  "ProvideConfig parse environ = Load parse environ"

text \<open>The logging library answers a logger for a service, an environment, a mode and a level.\<close>

definition ProvideLogger ::
  "(string \<Rightarrow> string \<Rightarrow> string \<Rightarrow> string \<Rightarrow> string + unit) \<Rightarrow> string option \<Rightarrow> Config
    \<Rightarrow> (('w, 'l) runtime lifecycle, string, unit) op" where
  "ProvideLogger NewWithMode sync_err c lc =
     (case NewWithMode ''auth-service'' (Env (App c)) (ObservabilityMode (App c)) (LogLevel (App c)) of
        Inl err \<Rightarrow> (Inl err, lc)
      | Inr lg \<Rightarrow> (Inr lg, lc @ [logger_hook sync_err]))"

text \<open>A recorder of the metrics library: the one provided, and the one installed for the process.\<close>

datatype Meter = Noop | Recorder string string

definition ProvideMetrics :: "Config \<Rightarrow> Meter \<times> Meter" where
  "ProvideMetrics c =
     (if \<not> Enabled_mx (Metrics c) then let meter = Noop in (meter, meter)
      else let meter = Recorder ''auth-service'' (Env (App c)) in (meter, meter))"

definition InvokeRunMetricsServer :: "('w, 'l) runtime lifecycle \<Rightarrow> ('w, 'l) runtime lifecycle" where
  "InvokeRunMetricsServer lc = lc @ [metrics_hook]"

definition InvokeRunMigrations :: "migrate_lib \<Rightarrow> Config \<Rightarrow> string option" where
  "InvokeRunMigrations lib c = (case RunMigrations lib (DB c) of Some err \<Rightarrow> Some err | None \<Rightarrow> None)"

definition ProvidePostgresDB ::
  "string option \<Rightarrow> (string \<Rightarrow> string option) \<Rightarrow> Config \<Rightarrow> (('w, 'l) runtime lifecycle, string, pool) op" where
  "ProvidePostgresDB register_err connect c lc =
     (case Open register_err connect (DB c) of
        Inl err \<Rightarrow> (Inl err, lc)
      | Inr db \<Rightarrow> (Inr db, lc @ [pool_hook]))"

definition ProvideWriteRepo :: "db_env \<Rightarrow> DBErrorTranslator \<Rightarrow> repo_config_error + store AuthRepository" where
  "ProvideWriteRepo env translator = repo_New (Some env) (Some translator)"

definition ProvideAuthService ::
  "(string \<Rightarrow> string + (Claims \<Rightarrow> string + string)) \<Rightarrow> (string \<Rightarrow> string \<Rightarrow> string option)
    \<Rightarrow> store AuthRepository \<Rightarrow> Config \<Rightarrow> service_config_error + store authService" where
  "ProvideAuthService NewSigner compare r c = service_New NewSigner compare (Some r) (JWT c) (Some ())"

text \<open>The interface \<open>broker_of\<close> makes of the broker is what the hook closes.\<close>

definition provideEventBroker ::
  "(kafka_broker \<Rightarrow> 'w EventBroker) \<Rightarrow> Config \<Rightarrow> bool \<Rightarrow> (('w, 'l) runtime lifecycle, string, kafka_broker) op" where
  "provideEventBroker broker_of c db lc =
     (case kafka_NewBrokerWithDB (Kafka c) db of
        Inl err \<Rightarrow> (Inl err, lc)
      | Inr b \<Rightarrow> (Inr b, lc @ [broker_hook (broker_of b)]))"

definition ProvideEventBroker ::
  "(kafka_broker \<Rightarrow> 'w EventBroker) \<Rightarrow> Config \<Rightarrow> (('w, 'l) runtime lifecycle, string, kafka_broker) op" where
  "ProvideEventBroker broker_of c = provideEventBroker broker_of c False"

definition ProvideEventBrokerWithDB ::
  "(kafka_broker \<Rightarrow> 'w EventBroker) \<Rightarrow> Config \<Rightarrow> (('w, 'l) runtime lifecycle, string, kafka_broker) op" where
  "ProvideEventBrokerWithDB broker_of c = provideEventBroker broker_of c True"

definition ProvideRegistrationSagaSubscriber ::
  "'w EventBroker \<Rightarrow> 'w AuthService \<Rightarrow> Config \<Rightarrow> string + 'w kafkaSagaSubscriber" where
  "ProvideRegistrationSagaSubscriber b svc c = kafka_NewRegistrationSagaSubscriber (Some b) (Some svc) (Kafka c) (Some ())"

definition ProvideAuthRecoverySubscriber ::
  "recovery_lib \<Rightarrow> 'w EventBroker \<Rightarrow> 'w AuthService \<Rightarrow> Config \<Rightarrow> string + 'w authRecoverySubscriber" where
  "ProvideAuthRecoverySubscriber lib b svc c = NewAuthRecoverySubscriber lib (Some b) (Some svc) (Kafka c) (Some ())"

definition ProvideGRPCServer :: "'s AuthService \<Rightarrow> Config \<Rightarrow> server_config_error + ('s, 'l) server" where
  "ProvideGRPCServer svc c = NewServer (Some svc) (GRPC c) (Some ())"

text \<open>JetStream is no longer bootstrapped.\<close>

definition InvokeEnsureStream :: "Config \<Rightarrow> string option" where
  "InvokeEnsureStream c = None"

subsection \<open>Keeping a consumer subscribed\<close>

text \<open>
  One turn of a loop: how Subscribe returned, whether the context was cancelled by then, and
  whether it was cancelled while the timer ran. A loop is the list of the delays it waits for.
\<close>

record attempt =
  sub_err :: "event_error option"
  cancelled_by_then :: bool
  cancelled_in_wait :: bool

definition max_backoff :: duration where
  "max_backoff = 30 * second"

definition next_registration_backoff :: "duration \<Rightarrow> duration" where
  "next_registration_backoff backoff =
     (if backoff < max_backoff then
        (if 2 * backoff > max_backoff then max_backoff else 2 * backoff)
      else backoff)"

fun registration_loop :: "duration \<Rightarrow> attempt list \<Rightarrow> duration list" where
  "registration_loop backoff [] = []"
| "registration_loop backoff (a # as) =
     (case sub_err a of
        None \<Rightarrow> if cancelled_by_then a then [] else registration_loop second as
      | Some _ \<Rightarrow>
          if cancelled_by_then a then []
          else backoff # (if cancelled_in_wait a then []
                          else registration_loop (next_registration_backoff backoff) as))"

definition registration_goroutine :: "attempt list \<Rightarrow> duration list" where
  "registration_goroutine as = registration_loop second as"

definition next_recovery_backoff :: "duration \<Rightarrow> duration" where
  "next_recovery_backoff backoff = (if backoff < max_backoff then 2 * backoff else backoff)"

fun recovery_loop :: "duration \<Rightarrow> attempt list \<Rightarrow> duration list" where
  "recovery_loop backoff [] = []"
| "recovery_loop backoff (a # as) =
     (if sub_err a \<noteq> None \<and> \<not> cancelled_by_then a then
        backoff # (if cancelled_in_wait a then [] else recovery_loop (next_recovery_backoff backoff) as)
      else if cancelled_by_then a then []
      else recovery_loop second as)"

definition recovery_goroutine :: "attempt list \<Rightarrow> duration list" where
  "recovery_goroutine as = recovery_loop second as"

subsection \<open>Invocations\<close>

text \<open>Each appends the hook whose OnStart starts its goroutine and whose OnStop ends it.\<close>

definition InvokeSubscribeRegistrationSaga :: "('w, 'l) runtime lifecycle \<Rightarrow> ('w, 'l) runtime lifecycle" where
  "InvokeSubscribeRegistrationSaga lc = lc @ [saga_hook]"

definition InvokeSubscribeAuthRecovery :: "('w, 'l) runtime lifecycle \<Rightarrow> ('w, 'l) runtime lifecycle" where
  "InvokeSubscribeAuthRecovery lc = lc @ [recovery_hook]"

definition InvokeRunGRPCServer :: "'l net_env \<Rightarrow> ('w, 'l) runtime lifecycle \<Rightarrow> ('w, 'l) runtime lifecycle" where
  "InvokeRunGRPCServer net lc = lc @ [grpc_hook net]"

end
