(* ===== verification/Pull_Consumer.thy ===== *)
theory Pull_Consumer
  imports Event_Broker
begin

text \<open>
  The JetStream pull consumer of internal/presentation/event_broker/nats: the validation of its
  configuration (pull_consumer_validator.go), the choice of its fetch plan (ResolvePullPlan in
  broker.go) and its runtime (pull_consumer_runtime.go).
\<close>

subsection \<open>Validation\<close>

datatype pull_config_error =
    ErrEmptyStreamName | ErrEmptySubject | ErrEmptyDurableName
  | ErrInvalidBatchSize | ErrInvalidMaxWait | ErrInvalidWorkerCount | ErrInvalidQueueSize
  | ErrInvalidAckWait | ErrInvalidMaxDeliver
  | ErrInvalidAdaptiveCheckInterval | ErrInvalidAdaptiveThresholds | ErrInvalidAdaptivePlan

definition Validate :: "PullConsumerConfig \<Rightarrow> pull_config_error option" where
  "Validate c =
     (if Stream c = [] then Some ErrEmptyStreamName
      else if PullConsumerConfig.Subject c = [] then Some ErrEmptySubject
      else if Durable c = [] then Some ErrEmptyDurableName
      else if BatchSize c \<le> 0 then Some ErrInvalidBatchSize
      else if MaxWait c \<le> 0 then Some ErrInvalidMaxWait
      else if Workers c \<le> 0 then Some ErrInvalidWorkerCount
      else if QueueSize c \<le> 0 then Some ErrInvalidQueueSize
      else if AckWait c \<le> 0 then Some ErrInvalidAckWait
      else if MaxDeliver c \<le> 0 then Some ErrInvalidMaxDeliver
      else if \<not> Enabled (Adaptive c) then None
      else if CheckInterval (Adaptive c) \<le> 0 then Some ErrInvalidAdaptiveCheckInterval
      else if MediumPending (Adaptive c) < 0 \<or> HighPending (Adaptive c) \<le> MediumPending (Adaptive c)
      then Some ErrInvalidAdaptiveThresholds
      else if LowBatchSize (Adaptive c) \<le> 0 \<or> LowMaxWait (Adaptive c) \<le> 0 \<or>
        MediumBatchSize (Adaptive c) \<le> 0 \<or> MediumMaxWait (Adaptive c) \<le> 0 \<or>
        HighBatchSize (Adaptive c) \<le> 0 \<or> HighMaxWait (Adaptive c) \<le> 0
      then Some ErrInvalidAdaptivePlan
      else None)"

subsection \<open>The fetch plan\<close>

definition ResolvePullPlan :: "PullConsumerConfig \<Rightarrow> int \<Rightarrow> string \<times> int \<times> duration" where
  "ResolvePullPlan c pending =
     (if \<not> Enabled (Adaptive c) then (''base'', BatchSize c, MaxWait c)
      else if pending \<ge> HighPending (Adaptive c)
      then (''high'', HighBatchSize (Adaptive c), HighMaxWait (Adaptive c))
      else if pending \<ge> MediumPending (Adaptive c)
      then (''medium'', MediumBatchSize (Adaptive c), MediumMaxWait (Adaptive c))
      else (''low'', LowBatchSize (Adaptive c), LowMaxWait (Adaptive c)))"

record pullConsumerFetchState =
  batch :: int
  wait :: duration
  tier :: string
  lastAdaptiveCheck :: time

definition initial_fetch_state :: "PullConsumerConfig \<Rightarrow> time \<Rightarrow> pullConsumerFetchState" where
  "initial_fetch_state c now =
     \<lparr>batch = BatchSize c, wait = MaxWait c, tier = ''base'', lastAdaptiveCheck = now\<rparr>"

text \<open>
  The two clock readings of an update: the one time.Since compares with, and the one stored. The
  consumer's backlog, an unsigned number converted to an int, may be unavailable.
\<close>

definition maybeUpdateAdaptivePlan ::
  "PullConsumerConfig \<Rightarrow> time \<Rightarrow> time \<Rightarrow> 64 word option \<Rightarrow> pullConsumerFetchState \<Rightarrow> pullConsumerFetchState" where
  "maybeUpdateAdaptivePlan c now now' pending st =
     (if \<not> Enabled (Adaptive c) \<or> now - lastAdaptiveCheck st < CheckInterval (Adaptive c) then st
      else
        let st = st\<lparr>lastAdaptiveCheck := now'\<rparr> in
        case pending of
          None \<Rightarrow> st
        | Some n \<Rightarrow>
            let (nextTier, nextBatch, nextWait) = ResolvePullPlan c (sint n) in
            if nextTier = tier st \<and> nextBatch = batch st \<and> nextWait = wait st then st
            else st\<lparr>tier := nextTier, batch := nextBatch, wait := nextWait\<rparr>)"

subsection \<open>Creation\<close>

text \<open>What the runtime asks of JetStream.\<close>

record ConsumerConfig =
  Durable_cc :: string
  FilterSubject :: string
  AckWait_cc :: duration
  MaxDeliver_cc :: int

record 'w jetstream =
  JetStream :: "'w \<Rightarrow> string option"
  AddConsumer :: "string \<Rightarrow> ConsumerConfig \<Rightarrow> ('w, string, unit) op"
  UpdateConsumer :: "string \<Rightarrow> ConsumerConfig \<Rightarrow> ('w, string, unit) op"
  PullSubscribe :: "string \<Rightarrow> string \<Rightarrow> string \<Rightarrow> ('w, string, unit) op"

datatype create_error =
    InitJetStreamContext string
  | EnsureConsumer string string string string
  | CreatePullSubscriber string string string

definition runtime_Create :: "'w jetstream \<Rightarrow> PullConsumerConfig \<Rightarrow> ('w, create_error, unit) op" where
  "runtime_Create js c w =
     (case JetStream js w of
        Some err \<Rightarrow> (Inl (InitJetStreamContext err), w)
      | None \<Rightarrow>
          let consumerCfg = \<lparr>Durable_cc = Durable c, FilterSubject = PullConsumerConfig.Subject c,
                AckWait_cc = AckWait c, MaxDeliver_cc = MaxDeliver c\<rparr>;
              (ensured, w2) = (case AddConsumer js (Stream c) consumerCfg w of
                 (Inr _, w1) \<Rightarrow> (None, w1)
               | (Inl err, w1) \<Rightarrow>
                   (case UpdateConsumer js (Stream c) consumerCfg w1 of
                      (Inl updateErr, w2) \<Rightarrow> (Some (EnsureConsumer (Stream c) (Durable c) err updateErr), w2)
                    | (Inr _, w2) \<Rightarrow> (None, w2)))
          in (case ensured of
                Some err \<Rightarrow> (Inl err, w2)
              | None \<Rightarrow>
                  (case PullSubscribe js (PullConsumerConfig.Subject c) (Durable c) (Stream c) w2 of
                     (Inl err, w3) \<Rightarrow> (Inl (CreatePullSubscriber (PullConsumerConfig.Subject c) (Durable c) err), w3)
                   | (Inr _, w3) \<Rightarrow> (Inr (), w3))))"

subsection \<open>The running consumer\<close>

text \<open>
  Start spawns the workers and the fetcher, which run until the context is cancelled. One step is
  one communication or one call: the workers and the fetcher interleave at these points. A message
  is what JetStream delivered; the surroundings of a handler are chosen by the step.
\<close>

record msg =
  Subject_msg :: string
  Data_msg :: string

datatype 'm worker = Idle | Busy 'm | Exited

datatype 'm fetcher =
    Checking pullConsumerFetchState
  | Polling pullConsumerFetchState
  | Dispatching pullConsumerFetchState "'m list"
  | Waiting
  | Finished

text \<open>How a worker settled a message: acknowledged, refused, or acknowledged in vain.\<close>

datatype outcome = Ack | Nak | AckFailed

record 'w pull_state =
  cancelled :: bool
  jobs :: "msg list"
  closed :: bool
  fetcher :: "msg fetcher"
  workers :: "msg worker list"
  settled :: "(msg \<times> outcome) list"
  dropped :: "msg list"
  world :: 'w

definition runtime_Start :: "PullConsumerConfig \<Rightarrow> time \<Rightarrow> 'w \<Rightarrow> 'w pull_state" where
  "runtime_Start c now w =
     \<lparr>cancelled = False, jobs = [], closed = False, fetcher = Checking (initial_fetch_state c now),
      workers = replicate (nat (Workers c)) Idle, settled = [], dropped = [], world = w\<rparr>"

inductive pull_step :: "PullConsumerConfig \<Rightarrow> 'w MessageHandler \<Rightarrow> 'w pull_state \<Rightarrow> 'w pull_state \<Rightarrow> bool"
  for c h where
  cancel: "pull_step c h s (s\<lparr>cancelled := True\<rparr>)" if "\<not> cancelled s"
| check_stop: "pull_step c h s (s\<lparr>fetcher := Waiting\<rparr>)" if "fetcher s = Checking st" "cancelled s"
| check_go: "pull_step c h s (s\<lparr>fetcher := Polling (maybeUpdateAdaptivePlan c now now' pending st)\<rparr>)"
    if "fetcher s = Checking st" "\<not> cancelled s"
| fetch_error: "pull_step c h s (s\<lparr>fetcher := Checking st\<rparr>)" if "fetcher s = Polling st"
| fetch_ok: "pull_step c h s (s\<lparr>fetcher := Dispatching st ms\<rparr>)"
    if "fetcher s = Polling st" "int (length ms) \<le> batch st"
| dispatch_send: "pull_step c h s (s\<lparr>jobs := jobs s @ [m], fetcher := Dispatching st ms\<rparr>)"
    if "fetcher s = Dispatching st (m # ms)" "int (length (jobs s)) < QueueSize c" "\<not> closed s"
| dispatch_stop: "pull_step c h s (s\<lparr>fetcher := Waiting, dropped := dropped s @ ms\<rparr>)"
    if "fetcher s = Dispatching st ms" "ms \<noteq> []" "cancelled s"
| dispatch_end: "pull_step c h s (s\<lparr>fetcher := Checking st\<rparr>)" if "fetcher s = Dispatching st []"
| close_jobs: "pull_step c h s (s\<lparr>fetcher := Finished, closed := True\<rparr>)"
    if "fetcher s = Waiting" "\<forall>w \<in> set (workers s). w = Exited"
| worker_take: "pull_step c h s (s\<lparr>jobs := ms, workers := (workers s)[i := Busy m]\<rparr>)"
    if "i < length (workers s)" "workers s ! i = Idle" "jobs s = m # ms"
| worker_stop: "pull_step c h s (s\<lparr>workers := (workers s)[i := Exited]\<rparr>)"
    if "i < length (workers s)" "workers s ! i = Idle" "cancelled s \<or> closed s \<and> jobs s = []"
| worker_nak: "pull_step c h s (s\<lparr>workers := (workers s)[i := Idle], settled := settled s @ [(m, Nak)], world := w\<rparr>)"
    if "i < length (workers s)" "workers s ! i = Busy m" "h env (Subject_msg m) (Data_msg m) (world s) = (Inl err, w)"
| worker_ack: "pull_step c h s (s\<lparr>workers := (workers s)[i := Idle], settled := settled s @ [(m, r)], world := w\<rparr>)"
    if "i < length (workers s)" "workers s ! i = Busy m" "h env (Subject_msg m) (Data_msg m) (world s) = (Inr u, w)"
      "r \<in> {Ack, AckFailed}"

inductive_cases pull_stepE: "pull_step c h s s'"

end
