(* ===== verification/Nats_Broker.thy ===== *)
theory Nats_Broker
  imports Pull_Consumer
begin

text \<open>
  The event broker over NATS (internal/presentation/event_broker/nats/broker.go) and the bootstrap
  of the JetStream streams (pkg/messaging/nats/bootstrap.go). The NATS client and the retry policy
  are libraries: parameters acting on the state \<open>'w\<close>.
\<close>

subsection \<open>The client library\<close>

datatype nats_option = Name string | MaxReconnects int | UserInfo string string

record StreamConfig =
  Name_sc :: string
  Subjects :: "string list"
  Replicas :: int
  MaxAge :: duration

text \<open>
  A subscription runs its callback on each message. Retry runs an attempt as often as the policy of
  the environment allows. FlushWithContext is given the time left, none without a deadline.
\<close>

record 'w nats_lib =
  nats_Connect :: "string \<Rightarrow> nats_option list \<Rightarrow> ('w, string, unit) op"
  nc_Publish :: "string \<Rightarrow> string \<Rightarrow> ('w, string, unit) op"
  nc_Subscribe :: "string \<Rightarrow> (msg_env \<Rightarrow> msg \<Rightarrow> 'w \<Rightarrow> 'w) \<Rightarrow> ('w, string, unit) op"
  FlushWithContext :: "duration option \<Rightarrow> ('w, string, unit) op"
  nc_Close :: "'w \<Rightarrow> 'w"
  nc_jetstream :: "'w jetstream"
  AddStream :: "StreamConfig \<Rightarrow> ('w, string, unit) op"
  UpdateStream :: "StreamConfig \<Rightarrow> ('w, string, unit) op"
  Retry :: "('w, event_error, unit) op \<Rightarrow> ('w, event_error, unit) op"
  spawn :: "PullConsumerConfig \<Rightarrow> 'w MessageHandler \<Rightarrow> 'w \<Rightarrow> 'w"

definition nats_options :: "NATSConfig \<Rightarrow> nats_option list" where
  "nats_options c = [Name ''auth-service'', MaxReconnects (-1)] @
     (if User_nats c \<noteq> [] then [UserInfo (User_nats c) (Password_nats c)] else [])"

subsection \<open>The broker\<close>

datatype nats_broker_error = ErrEmptyNATSURL | ErrNilLogger_nats | ConnectToNATS string

text \<open>The validator and the runtime factory are the package's own; the connection is the library's.\<close>

definition nats_NewBroker :: "'w nats_lib \<Rightarrow> NATSConfig \<Rightarrow> unit option \<Rightarrow> ('w, nats_broker_error, unit) op" where
  "nats_NewBroker lib c log w =
     (if URL c = [] then (Inl ErrEmptyNATSURL, w)
      else case log of
        None \<Rightarrow> (Inl ErrNilLogger_nats, w)
      | Some _ \<Rightarrow>
          (case nats_Connect lib (URL c) (nats_options c) w of
             (Inl err, w1) \<Rightarrow> (Inl (ConnectToNATS err), w1)
           | (Inr _, w1) \<Rightarrow> (Inr (), w1)))"

text \<open>The contexts of error.go that Publish and Subscribe put around an error.\<close>

definition WrapPublishToNATSError :: "string \<Rightarrow> string \<Rightarrow> event_error" where
  "WrapPublishToNATSError subject err = BrokerErr (''publish to nats ('' @ subject @ ''): '' @ err)"

definition WrapSubscribeToNATSError :: "string \<Rightarrow> string \<Rightarrow> event_error" where
  "WrapSubscribeToNATSError subject err = BrokerErr (''subscribe to nats ('' @ subject @ ''): '' @ err)"

definition WrapFlushNATSPublisherError :: "string \<Rightarrow> event_error" where
  "WrapFlushNATSPublisherError err = BrokerErr (''flush nats publisher: '' @ err)"

definition nats_Flush :: "'w nats_lib \<Rightarrow> duration option \<Rightarrow> ('w, string, unit) op" where
  "nats_Flush lib deadline w =
     FlushWithContext lib (case deadline of None \<Rightarrow> Some (5 * second) | Some d \<Rightarrow> Some d) w"

definition nats_Publish :: "'w nats_lib \<Rightarrow> duration option \<Rightarrow> string \<Rightarrow> string \<Rightarrow> ('w, event_error, unit) op" where
  "nats_Publish lib deadline subject payload w =
     (case nc_Publish lib subject payload w of
        (Inl err, w1) \<Rightarrow> (Inl (WrapPublishToNATSError subject err), w1)
      | (Inr _, w1) \<Rightarrow>
          (case nats_Flush lib deadline w1 of
             (Inl err, w2) \<Rightarrow> (Inl (WrapFlushNATSPublisherError err), w2)
           | (Inr _, w2) \<Rightarrow> (Inr (), w2)))"

definition nats_callback :: "'w nats_lib \<Rightarrow> string \<Rightarrow> 'w MessageHandler \<Rightarrow> msg_env \<Rightarrow> msg \<Rightarrow> 'w \<Rightarrow> 'w" where
  "nats_callback lib subject handler env m w =
     (case Retry lib (handler env (Subject_msg m) (Data_msg m)) w of
        (Inl err, w1) \<Rightarrow> snd (nc_Publish lib (subject @ ''.dead-letter'') (Data_msg m) w1)
      | (Inr _, w1) \<Rightarrow> w1)"

definition nats_Subscribe ::
  "'w nats_lib \<Rightarrow> duration option \<Rightarrow> string \<Rightarrow> 'w MessageHandler \<Rightarrow> ('w, event_error, unit) op" where
  "nats_Subscribe lib deadline subject handler w =
     (case nc_Subscribe lib subject (nats_callback lib subject handler) w of
        (Inl err, w1) \<Rightarrow> (Inl (WrapSubscribeToNATSError subject err), w1)
      | (Inr _, w1) \<Rightarrow>
          (case nats_Flush lib deadline w1 of
             (Inl err, w2) \<Rightarrow> (Inl (WrapFlushNATSPublisherError err), w2)
           | (Inr _, w2) \<Rightarrow> (Inr (), w2)))"

datatype run_error = InvalidConfig pull_config_error | CreateFailed create_error

definition nats_RunPullConsumer ::
  "'w nats_lib \<Rightarrow> PullConsumerConfig \<Rightarrow> 'w MessageHandler \<Rightarrow> ('w, run_error, unit) op" where
  "nats_RunPullConsumer lib c handler w =
     (case Validate c of
        Some err \<Rightarrow> (Inl (InvalidConfig err), w)
      | None \<Rightarrow>
          (case runtime_Create (nc_jetstream lib) c w of
             (Inl err, w1) \<Rightarrow> (Inl (CreateFailed err), w1)
           | (Inr _, w1) \<Rightarrow> (Inr (), spawn lib c handler w1)))"

definition nats_Close :: "'w nats_lib \<Rightarrow> bool \<Rightarrow> 'w \<Rightarrow> 'w" where
  "nats_Close lib connected w = (if connected then nc_Close lib w else w)"

subsection \<open>The streams\<close>

datatype bootstrap_error =
    BootNilLogger | BootConnect string | BootJetStream string | EnsureStreamErr string string string

definition bootstrap_Connect :: "'w nats_lib \<Rightarrow> NATSConfig \<Rightarrow> ('w, bootstrap_error, unit) op" where
  "bootstrap_Connect lib c w =
     (case nats_Connect lib (URL c) (nats_options c) w of
        (Inl err, w1) \<Rightarrow> (Inl (BootConnect err), w1)
      | (Inr _, w1) \<Rightarrow> (Inr (), w1))"

definition ensure_one :: "'w nats_lib \<Rightarrow> StreamConfig \<Rightarrow> ('w, bootstrap_error, unit) op" where
  "ensure_one lib sc w =
     (case AddStream lib sc w of
        (Inr _, w1) \<Rightarrow> (Inr (), w1)
      | (Inl err, w1) \<Rightarrow>
          (case UpdateStream lib sc w1 of
             (Inl updateErr, w2) \<Rightarrow> (Inl (EnsureStreamErr (Name_sc sc) err updateErr), w2)
           | (Inr _, w2) \<Rightarrow> (Inr (), w2)))"

definition stream_of :: "string \<Rightarrow> string list \<Rightarrow> StreamConfig" where
  "stream_of name subjects = \<lparr>Name_sc = name, Subjects = subjects, Replicas = 1, MaxAge = 7 * 24 * 60 * minute\<rparr>"

definition EnsureStream :: "'w nats_lib \<Rightarrow> NATSConfig \<Rightarrow> unit option \<Rightarrow> ('w, bootstrap_error, unit) op" where
  "EnsureStream lib c log w =
     (case log of
        None \<Rightarrow> (Inl BootNilLogger, w)
      | Some _ \<Rightarrow>
     (case bootstrap_Connect lib c w of
        (Inl err, w1) \<Rightarrow> (Inl err, w1)
      | (Inr _, w1) \<Rightarrow>
          let (r, w2) =
            (case JetStream (nc_jetstream lib) w1 of
               Some err \<Rightarrow> (Inl (BootJetStream err), w1)
             | None \<Rightarrow>
                 and_then (ensure_one lib (stream_of (AuthEventsStream c)
                     [AuthCreatedSubject c, SagaCreateAuthResultSubject c, SagaDeleteAuthResultSubject c]))
                   (and_then (ensure_one lib (stream_of (MailCommandsStream c) [MailSendSubject c]))
                     (ensure_one lib (stream_of (SagaCommandsStream c)
                       [SagaCreateAuthSubject c, SagaDeleteAuthSubject c]))) w1)
          in (r, nc_Close lib w2)))"

end
