(* ===== verification/World.thy ===== *)
theory World
  imports Lifecycle Nats_Broker Service_Runs
begin

text \<open>
  The running process: the tables of the service beside the state of its message broker, and what
  the presentation layer relies on, as a locale over the service and the broker it is given.
\<close>

subsection \<open>Tables and bus\<close>

record 'b world =
  tables :: store
  bus :: 'b

definition on_tables :: "(store, 'e, 'a) op \<Rightarrow> ('b world, 'e, 'a) op" where
  "on_tables f w = (case f (tables w) of (r, s) \<Rightarrow> (r, w\<lparr>tables := s\<rparr>))"

definition on_bus :: "('b, 'e, 'a) op \<Rightarrow> ('b world, 'e, 'a) op" where
  "on_bus f w = (case f (bus w) of (r, s) \<Rightarrow> (r, w\<lparr>bus := s\<rparr>))"

definition silently :: "('b \<Rightarrow> 'b) \<Rightarrow> 'b world \<Rightarrow> 'b world" where
  "silently f w = w\<lparr>bus := f (bus w)\<rparr>"

definition service_on :: "store AuthService \<Rightarrow> 'b world AuthService" where
  "service_on A =
     \<lparr>CreateCredential = (\<lambda>u e n p. on_tables (CreateCredential A u e n p)),
      CreatePendingRegistration = (\<lambda>env u e n p. on_tables (CreatePendingRegistration A env u e n p)),
      ExistsByEmail = (\<lambda>e. on_tables (ExistsByEmail A e)),
      GetEmailByUserID = (\<lambda>u. on_tables (GetEmailByUserID A u)),
      VerifyRegistrationEmail = (\<lambda>env u c. on_tables (VerifyRegistrationEmail A env u c)),
      IssueRegistrationTokens = (\<lambda>env u. on_tables (IssueRegistrationTokens A env u)),
      SignIn = (\<lambda>env i p. on_tables (SignIn A env i p)),
      Refresh = (\<lambda>env t. on_tables (Refresh A env t)),
      SignOut = (\<lambda>env t. on_tables (SignOut A env t)),
      DeactivateRegistrationAuth = (\<lambda>u. on_tables (DeactivateRegistrationAuth A u)),
      DeleteCredential = (\<lambda>u. on_tables (DeleteCredential A u))\<rparr>"

definition kafka_on :: "'b kafka_lib \<Rightarrow> 'b world kafka_lib" where
  "kafka_on lib =
     \<lparr>Wrap = Wrap lib, Unwrap = Unwrap lib, OutgoingHeaders = OutgoingHeaders lib,
      WriteMessages = (\<lambda>t m. on_bus (WriteMessages lib t m)), CommitMessages = (\<lambda>m. on_bus (CommitMessages lib m)),
      DecodeOrFingerprint = DecodeOrFingerprint lib, ClaimDB = (\<lambda>e. on_bus (ClaimDB lib e)),
      Release = (\<lambda>e. silently (Release lib e)), RetryTopic = RetryTopic lib,
      Enqueue = (\<lambda>t m s n e. on_bus (Enqueue lib t m s n e)), RunRetryQueue = (\<lambda>g. silently (RunRetryQueue lib g)),
      MaxAttempts = MaxAttempts lib, MarshalDLQ = MarshalDLQ lib, type_name = type_name lib,
      error_string = error_string lib, OpenReader = (\<lambda>t g. silently (OpenReader lib t g)),
      CloseReader = (\<lambda>t g. silently (CloseReader lib t g)), Readers = (\<lambda>w. Readers lib (bus w))\<rparr>"

lemma on_tables_cases: "on_tables f w = (r, w') \<Longrightarrow> \<exists>s. f (tables w) = (r, s) \<and> w' = w\<lparr>tables := s\<rparr>"
  by (auto simp: on_tables_def split: prod.splits)

lemma on_bus_tables [simp]: "on_bus f w = (r, w') \<Longrightarrow> tables w' = tables w"
  by (auto simp: on_bus_def split: prod.splits)

lemma silently_tables [simp]: "tables (silently f w) = tables w"
  by (simp add: silently_def)

subsection \<open>What the presentation layer relies on\<close>

text \<open>
  Every operation of the service moves the part of the world it owns by \<open>moves\<close>, and publishing
  leaves that part alone.
\<close>

locale presentation =
  fixes A :: "'w AuthService" and B :: "'w EventBroker" and part :: "'w \<Rightarrow> 's" and moves :: "'s \<Rightarrow> 's \<Rightarrow> bool"
  assumes create_moves: "CreateCredential A u e n p w = (rc, w') \<Longrightarrow> moves (part w) (part w')"
    and register_moves: "CreatePendingRegistration A env u e n p w = (rp, w') \<Longrightarrow> moves (part w) (part w')"
    and exists_moves: "ExistsByEmail A e w = (rb, w') \<Longrightarrow> moves (part w) (part w')"
    and get_moves: "GetEmailByUserID A u w = (rs, w') \<Longrightarrow> moves (part w) (part w')"
    and verify_moves: "VerifyRegistrationEmail A env u c w = (rv, w') \<Longrightarrow> moves (part w) (part w')"
    and issue_moves: "IssueRegistrationTokens A env u w = (rt, w') \<Longrightarrow> moves (part w) (part w')"
    and sign_in_moves: "SignIn A env u p w = (rt, w') \<Longrightarrow> moves (part w) (part w')"
    and refresh_moves: "Refresh A env t w = (rt, w') \<Longrightarrow> moves (part w) (part w')"
    and sign_out_moves: "SignOut A env t w = (ru, w') \<Longrightarrow> moves (part w) (part w')"
    and deactivate_moves: "DeactivateRegistrationAuth A u w = (ru, w') \<Longrightarrow> moves (part w) (part w')"
    and delete_moves: "DeleteCredential A u w = (ru, w') \<Longrightarrow> moves (part w) (part w')"
    and publish_keeps: "Publish B t m w = (rz, w') \<Longrightarrow> part w' = part w"
begin

lemma rpc_moves:
  "rpc_ExistsByEmail A e w = (r1, w') \<Longrightarrow> moves (part w) (part w')"
  "rpc_GetEmailByUserID A u w = (r2, w') \<Longrightarrow> moves (part w) (part w')"
  "rpc_VerifyRegistrationEmail A env u c w = (r3, w') \<Longrightarrow> moves (part w) (part w')"
  "rpc_IssueRegistrationTokens A env u w = (r4, w') \<Longrightarrow> moves (part w) (part w')"
  "rpc_SignIn A env u p w = (r4, w') \<Longrightarrow> moves (part w) (part w')"
  "rpc_Refresh A env t w = (r4, w') \<Longrightarrow> moves (part w) (part w')"
  "rpc_SignOut A env t w = (r5, w') \<Longrightarrow> moves (part w) (part w')"
  "rpc_DeactivateRegistrationAuth A u w = (r6, w') \<Longrightarrow> moves (part w) (part w')"
  unfolding rpc_defs
  by (auto dest!: respond_state intro: exists_moves get_moves verify_moves issue_moves sign_in_moves
      refresh_moves sign_out_moves deactivate_moves)

text \<open>Handling a message moves the service's part at most once, and publishes around it.\<close>

lemmas publishing = publishCreateFailureResult_def publishCreateSuccessResult_def
  publishDeleteFailureResult_def publishDeleteSuccessResult_def

lemma nats_handlers_move:
  assumes "broker s = B" "service s = A"
  shows "handleCreateAuthCommand s env subj m w = (r, w') \<Longrightarrow> moves\<^sup>=\<^sup>= (part w) (part w')"
    and "handleDeleteAuthCommand s env subj m w = (r, w') \<Longrightarrow> moves\<^sup>=\<^sup>= (part w) (part w')"
  by (auto simp: assms handleCreateAuthCommand_def handleDeleteAuthCommand_def publishing
      dest!: publish_keeps register_moves delete_moves split: sum.splits prod.splits)

lemma kafka_handlers_move:
  assumes "broker_ks s = B" "service_ks s = A"
  shows "handleCreate s env subj m w = (r, w') \<Longrightarrow> moves\<^sup>=\<^sup>= (part w) (part w')"
    and "handleDelete s env subj m w = (r, w') \<Longrightarrow> moves\<^sup>=\<^sup>= (part w) (part w')"
  by (auto simp: assms handleCreate_def handleDelete_def kafka_publish_def
      dest!: publish_keeps register_moves delete_moves split: sum.splits prod.splits)

lemma recovery_handler_moves:
  assumes "broker_rs s = B" "service_rs s = A" "recovery_handle s env subj m w = (r, w')"
  shows "moves\<^sup>=\<^sup>= (part w) (part w')"
  using assms(3)
  by (auto simp: assms(1,2) recovery_handle_def recovery_apply_def Let_def
      dest!: publish_keeps create_moves delete_moves split: sum.splits prod.splits if_splits)

end

subsection \<open>The process satisfies it\<close>

definition app_on :: "db_env \<Rightarrow> JWTConfig \<Rightarrow> (Claims \<Rightarrow> string + string) \<Rightarrow> (string \<Rightarrow> string \<Rightarrow> string option)
    \<Rightarrow> 'b world AuthService" where
  "app_on env c sign compare = service_on (auth_service (pg_service env c sign compare))"

lemma app_on_methods [simp]:
  "CreateCredential (app_on env c sign compare) u e n p = on_tables (svc_CreateCredential (pg_service env c sign compare) u e n p)"
  "CreatePendingRegistration (app_on env c sign compare) call u e n p
     = on_tables (svc_CreatePendingRegistration (pg_service env c sign compare) call u e n p)"
  "ExistsByEmail (app_on env c sign compare) e = on_tables (svc_ExistsByEmail (pg_service env c sign compare) e)"
  "GetEmailByUserID (app_on env c sign compare) u = on_tables (svc_GetEmailByUserID (pg_service env c sign compare) u)"
  "VerifyRegistrationEmail (app_on env c sign compare) call u k
     = on_tables (svc_VerifyRegistrationEmail (pg_service env c sign compare) call u k)"
  "IssueRegistrationTokens (app_on env c sign compare) call u
     = on_tables (svc_IssueRegistrationTokens (pg_service env c sign compare) call u)"
  "SignIn (app_on env c sign compare) call i p = on_tables (svc_SignIn (pg_service env c sign compare) call i p)"
  "Refresh (app_on env c sign compare) call t = on_tables (svc_Refresh (pg_service env c sign compare) call t)"
  "SignOut (app_on env c sign compare) call t = on_tables (svc_SignOut (pg_service env c sign compare) call t)"
  "DeactivateRegistrationAuth (app_on env c sign compare) u
     = on_tables (svc_DeactivateRegistrationAuth (pg_service env c sign compare) u)"
  "DeleteCredential (app_on env c sign compare) u = on_tables (svc_DeleteCredential (pg_service env c sign compare) u)"
  by (simp_all add: app_on_def service_on_def auth_service_def)

definition bus_on :: "'b kafka_lib \<Rightarrow> kafka_broker \<Rightarrow> (string \<Rightarrow> (kafka_msg \<times> msg_env) list \<times> event_error)
    \<Rightarrow> 'b world EventBroker" where
  "bus_on lib b fetches = kafka_event_broker (kafka_on lib) b fetches"

lemma bus_on_methods [simp]:
  "Publish (bus_on lib b fetches) = kafka_Publish (kafka_on lib)"
  "RunPullConsumer (bus_on lib b fetches) = kafka_RunPullConsumer (kafka_on lib) b fetches"
  by (simp_all add: bus_on_def kafka_event_broker_def)

lemma kafka_Publish_tables: "kafka_Publish (kafka_on lib) t m w = (r, w') \<Longrightarrow> tables w' = tables w"
  by (auto simp: kafka_Publish_def kafka_on_def split: sum.splits)

lemma on_tables_served:
  "on_tables f w = (r, w') \<Longrightarrow> (\<And>r s. f (tables w) = (r, s) \<Longrightarrow> served svc (tables w) s) \<Longrightarrow>
     served svc (tables w) (tables w')"
  by (auto dest!: on_tables_cases)

interpretation process: presentation "app_on env c sign compare" "bus_on lib b fetches" tables
  "served (pg_service env c sign compare)" for env c sign compare lib b fetches
  by unfold_locales (simp_all, (erule on_tables_served, rule served.intros, assumption)+, rule kafka_Publish_tables)

end
