(* ===== verification/Process.thy ===== *)
theory Process
  imports World
begin

text \<open>
  Runs of the whole process: remote calls, consumed saga commands and recovery commands in any
  order, over any fetched messages, with a database and a message broker that may fail at any call.
\<close>

subsection \<open>Consuming moves the tables only through the handler\<close>

definition handler_moves :: "(store \<Rightarrow> store \<Rightarrow> bool) \<Rightarrow> 'b world MessageHandler \<Rightarrow> bool" where
  "handler_moves R h \<longleftrightarrow> (\<forall>env subj m w r w'. h env subj m w = (r, w') \<longrightarrow> R\<^sup>*\<^sup>* (tables w) (tables w'))"

lemma kafka_on_tables:
  "WriteMessages (kafka_on lib) t m w = (r1, w') \<Longrightarrow> tables w' = tables w"
  "CommitMessages (kafka_on lib) m w = (r2, w') \<Longrightarrow> tables w' = tables w"
  "ClaimDB (kafka_on lib) e w = (r3, w') \<Longrightarrow> tables w' = tables w"
  "Enqueue (kafka_on lib) t m s n err w = (r4, w') \<Longrightarrow> tables w' = tables w"
  by (simp_all add: kafka_on_def)

lemma kafka_on_silent:
  "tables (Release (kafka_on lib) e w) = tables w"
  "tables (RunRetryQueue (kafka_on lib) g w) = tables w"
  "tables (OpenReader (kafka_on lib) t g w) = tables w"
  "tables (CloseReader (kafka_on lib) t g w) = tables w"
  by (simp_all add: kafka_on_def)

lemma dead_letter_tables: "deadLetterMessage (kafka_on lib) b subj m n now e w = (r, w') \<Longrightarrow> tables w' = tables w"
  by (auto simp: deadLetterMessage_def dest: kafka_on_tables split: sum.splits prod.splits)

lemma claim_tables: "claim_message (kafka_on lib) b subj m w = (r, w') \<Longrightarrow> tables w' = tables w"
  by (auto simp: claim_message_def dest: kafka_on_tables split: if_splits)

lemma handler_failed_tables: "handler_failed (kafka_on lib) b g subj now m n e w = (t, w') \<Longrightarrow> tables w' = tables w"
  by (auto simp: handler_failed_def release_message_def Let_def kafka_on_silent apfst_def map_prod_def
      dest!: kafka_on_tables(4) dead_letter_tables split: if_splits sum.splits prod.splits)

lemma consume_message_moves:
  assumes h: "handler_moves R h" and run: "consume_message (kafka_on lib) b g subj h f w = (t, w')"
  shows "R\<^sup>*\<^sup>* (tables w) (tables w')"
proof -
  obtain m env where f: "f = (m, env)" by fastforce
  obtain r1 w1 where claim: "claim_message (kafka_on lib) b subj m w = (r1, w1)" by fastforce
  note w1 = claim_tables [OF claim]
  show ?thesis
  proof (cases "r1 = Inr True \<and> (\<exists>x. Unwrap (kafka_on lib) (Value m) = Inr x)")
    case False
    with run claim w1 show ?thesis
      by (auto simp: consume_message_def f Let_def apfst_def map_prod_def dest!: dead_letter_tables
          split: sum.splits bool.splits prod.splits)
  next
    case True
    then obtain x where x: "Unwrap (kafka_on lib) (Value m) = Inr x" and r1: "r1 = Inr True" by blast
    obtain r2 w2 where hd: "h env subj (if HasPrefix subj recovery_prefix then Value m else x) w1 = (r2, w2)" by fastforce
    then have "R\<^sup>*\<^sup>* (tables w1) (tables w2)" using h by (auto simp: handler_moves_def)
    moreover have "tables w' = tables w2"
      using run claim x r1 hd
      by (auto simp: consume_message_def f Let_def dest!: handler_failed_tables kafka_on_tables(2)
          split: sum.splits prod.splits)
    ultimately show ?thesis using w1 by simp
  qed
qed

lemma consume_loop_moves:
  assumes h: "handler_moves R h"
  shows "consume_loop (kafka_on lib) b g subj h fs stop w = (r, w') \<Longrightarrow> R\<^sup>*\<^sup>* (tables w) (tables w')"
proof (induction fs arbitrary: w)
  case Nil
  then show ?case by simp
next
  case (Cons f fs)
  obtain t w1 where one: "consume_message (kafka_on lib) b g subj h f w = (t, w1)" by fastforce
  note m = consume_message_moves [OF h one]
  show ?case
  proof (cases t)
    case Next
    with Cons one have "R\<^sup>*\<^sup>* (tables w1) (tables w')" by simp
    with m show ?thesis by simp
  qed (use Cons.prems one m in auto)
qed

lemma run_consumer_moves:
  assumes "handler_moves R h" and "kafka_RunPullConsumer (kafka_on lib) b fetches c h w = (r, w')"
  shows "R\<^sup>*\<^sup>* (tables w) (tables w')"
  using assms
  by (auto simp: kafka_RunPullConsumer_def Let_def kafka_on_silent dest!: consume_loop_moves [OF assms(1)]
      split: prod.splits)

subsection \<open>The subscribers of the process\<close>

definition saga_subscriber ::
  "'b world AuthService \<Rightarrow> 'b world EventBroker \<Rightarrow> KafkaConfig \<Rightarrow> 'b world kafkaSagaSubscriber" where
  "saga_subscriber A B c = \<lparr>broker_ks = B, service_ks = A, cfg_ks = c\<rparr>"

definition recovery_subscriber ::
  "'b world AuthService \<Rightarrow> 'b world EventBroker \<Rightarrow> KafkaConfig \<Rightarrow> recovery_lib \<Rightarrow> 'b world authRecoverySubscriber" where
  "recovery_subscriber A B c lib = \<lparr>broker_rs = B, service_rs = A, cfg_rs = c, lib_rs = lib\<rparr>"

lemma subscriber_fields [simp]:
  "broker_ks (saga_subscriber A B c) = B" "service_ks (saga_subscriber A B c) = A" "cfg_ks (saga_subscriber A B c) = c"
  "broker_rs (recovery_subscriber A B c l) = B" "service_rs (recovery_subscriber A B c l) = A"
  "cfg_rs (recovery_subscriber A B c l) = c" "lib_rs (recovery_subscriber A B c l) = l"
  by (simp_all add: saga_subscriber_def recovery_subscriber_def)

lemma handlers_move:
  fixes env c sign compare lib b fetches
  defines "A \<equiv> app_on env c sign compare" and "B \<equiv> bus_on lib b fetches"
    and "R \<equiv> served (pg_service env c sign compare)"
  shows "handler_moves R (handleCreate (saga_subscriber A B kc))"
    and "handler_moves R (handleDelete (saga_subscriber A B kc))"
    and "handler_moves R (recovery_handle (recovery_subscriber A B kc rl))"
  unfolding handler_moves_def A_def B_def R_def
  by (auto dest!: process.kafka_handlers_move [rotated 2] process.recovery_handler_moves [rotated 2])

text \<open>
  One step of the process: a remote call answered, or one subscription run from its start to the
  moment it returns, whatever it fetched.
\<close>

inductive process_step ::
  "'b world AuthService \<Rightarrow> 'b kafka_lib \<Rightarrow> kafka_broker \<Rightarrow> KafkaConfig \<Rightarrow> recovery_lib \<Rightarrow> 'b world \<Rightarrow> 'b world \<Rightarrow> bool"
  for A lib b kc rl where
  exists_rpc: "rpc_ExistsByEmail A e w = (r1, w') \<Longrightarrow> process_step A lib b kc rl w w'"
| email_rpc: "rpc_GetEmailByUserID A u w = (r2, w') \<Longrightarrow> process_step A lib b kc rl w w'"
| verify_rpc: "rpc_VerifyRegistrationEmail A call u k w = (r3, w') \<Longrightarrow> process_step A lib b kc rl w w'"
| issue_rpc: "rpc_IssueRegistrationTokens A call u w = (r4, w') \<Longrightarrow> process_step A lib b kc rl w w'"
| sign_in_rpc: "rpc_SignIn A call i p w = (r4, w') \<Longrightarrow> process_step A lib b kc rl w w'"
| refresh_rpc: "rpc_Refresh A call t w = (r4, w') \<Longrightarrow> process_step A lib b kc rl w w'"
| sign_out_rpc: "rpc_SignOut A call t w = (r5, w') \<Longrightarrow> process_step A lib b kc rl w w'"
| deactivate_rpc: "rpc_DeactivateRegistrationAuth A u w = (r6, w') \<Longrightarrow> process_step A lib b kc rl w w'"
| saga: "kafka_saga_Subscribe (saga_subscriber A (bus_on lib b fetches) kc) w = (ru, w') \<Longrightarrow>
    process_step A lib b kc rl w w'"
| recovery: "recovery_Subscribe (recovery_subscriber A (bus_on lib b fetches) kc rl) w = (ru, w') \<Longrightarrow>
    process_step A lib b kc rl w w'"

inductive_cases process_stepE: "process_step A lib b kc rl w w'"

lemma saga_subscribe_moves:
  fixes env c sign compare lib b fetches
  defines "A \<equiv> app_on env c sign compare" and "B \<equiv> bus_on lib b fetches"
  assumes "kafka_saga_Subscribe (saga_subscriber A B kc) w = (r, w')"
  shows "(served (pg_service env c sign compare))\<^sup>*\<^sup>* (tables w) (tables w')"
  using assms(3) unfolding A_def B_def kafka_saga_Subscribe_def and_then_def
  by (auto dest!: run_consumer_moves [OF handlers_move(1)] run_consumer_moves [OF handlers_move(2)]
      split: sum.splits prod.splits)

lemma recovery_subscribe_moves:
  fixes env c sign compare lib b fetches
  defines "A \<equiv> app_on env c sign compare" and "B \<equiv> bus_on lib b fetches"
  assumes "recovery_Subscribe (recovery_subscriber A B kc rl) w = (r, w')"
  shows "(served (pg_service env c sign compare))\<^sup>*\<^sup>* (tables w) (tables w')"
  using assms(3) run_consumer_moves [OF handlers_move(3)]
  unfolding A_def B_def recovery_Subscribe_def by simp

lemma process_step_served:
  assumes "process_step (app_on env c sign compare) lib b kc rl w w'"
  shows "(served (pg_service env c sign compare))\<^sup>*\<^sup>* (tables w) (tables w')"
  using assms
  by (rule process_stepE)
    (auto dest!: process.rpc_moves saga_subscribe_moves recovery_subscribe_moves)

lemma process_steps_served:
  assumes "(process_step (app_on env c sign compare) lib b kc rl)\<^sup>*\<^sup>* w w'"
  shows "(served (pg_service env c sign compare))\<^sup>*\<^sup>* (tables w) (tables w')"
  using assms by (induction rule: rtranclp_induct) (auto dest!: process_step_served)

end
