(* ===== verification/Rpc_Properties.thy ===== *)
theory Rpc_Properties
  imports Process Fixtures
begin

text \<open>
  The properties of the whole process and of its remote interface.
\<close>

subsection \<open>A process for the concrete inputs\<close>

abbreviation demo_app :: "'b world AuthService" where
  "demo_app \<equiv> app_on demo_db default_jwt demo_sign demo_compare"

definition world1 :: "unit world" where
  "world1 = \<lparr>tables = store1, bus = ()\<rparr>"

lemma world1_tables [simp]: "tables world1 = store1"
  by (simp add: world1_def)

lemma demo_world:
  "reliable_ok demo_db (tables world1)" "rand_ok (demo_call 5 ''t2'')"
  "uuid_in demo_db (uuid_NewV7 (demo_call 5 ''t2'')) = Some ''t2''" "sessions (sview (tables world1)) ''t2'' = None"
  by (simp_all add: demo_session)

lemma demo_signs: "\<exists>t. demo_sign cl = Inr t"
  by (simp add: demo_sign_def)

text \<open>What an operation on the tables answers is what it answers on the tables alone.\<close>

lemma on_tables_fst: "fst (on_tables f w) = fst (f (tables w))"
  by (simp add: on_tables_def split: prod.split)

lemma on_tables_result: "on_tables f w = (r, w') \<longleftrightarrow> f (tables w) = (r, tables w') \<and> w' = w\<lparr>tables := tables w'\<rparr>"
  by (auto simp: on_tables_def split: prod.splits)

lemma on_tablesD: "on_tables f w = (r, w') \<Longrightarrow> f (tables w) = (r, tables w')"
  by (simp add: on_tables_result)

lemma respond_fst: "fst (respond f g p) = (case fst p of Inl e \<Rightarrow> Inl (f e) | Inr x \<Rightarrow> Inr (g x))"
  by (cases p) (simp add: respond_def split: sum.split)

lemma respond_tables:
  "respond f g (on_tables h w) = (Inr y, w') \<Longrightarrow> \<exists>x. y = g x \<and> h (tables w) = (Inr x, tables w')"
  "respond f g (on_tables h w) = (Inl st, w') \<Longrightarrow> \<exists>e. st = f e \<and> h (tables w) = (Inl e, tables w')"
  by (auto simp: respond_Inr respond_Inl on_tables_result)





text \<open>
  C18. The Refresh call decides exactly by the live sessions: while statements do not fail,
  randomness and signing work, the drawn id is fresh and at most one session has the token's hash,
  it answers tokens if and only if a live session has that hash. Every refusal is the same status,
  never an internal error, and changes no account, session or code.
\<close>

theorem refresh_decides:
  assumes ok: "reliable_ok env (tables w)"
    and env: "rand_ok call" "uuid_in env (uuid_NewV7 call) = Some i'" "sessions (sview (tables w)) i' = None"
      "\<And>cl. \<exists>t. sign cl = Inr t"
    and one: "hash_unique (hashVerificationCode (TrimSpace tok)) (sview (tables w))"
    and run: "rpc_Refresh (app_on env c sign compare) call tok w = (r, w')"
  shows "((\<exists>tk. r = Inr tk) \<longleftrightarrow> TrimSpace tok \<noteq> [] \<and>
      (\<exists>i q. sessions (sview (tables w)) i = Some q \<and> ses_hash q = hashVerificationCode (TrimSpace tok) \<and>
        live_at (time_Now call) q)) \<and>
    (\<forall>st. r = Inl st \<longrightarrow>
      st = Status Unauthenticated ''invalid refresh token'' \<and> sview (tables w') = sview (tables w))"
proof -
  let ?svc = "pg_service env c sign compare"
  let ?live = "\<exists>i q. sessions (sview (tables w)) i = Some q \<and> ses_hash q = hashVerificationCode (TrimSpace tok) \<and>
        live_at (time_Now call) q"
  have sg: "\<exists>t. signAccessToken ?svc cr (time_Now call) = Inr t" for cr
    using env(4) by (simp add: signAccessToken_def)
  obtain x where x: "svc_Refresh ?svc call tok (tables w) = (x, tables w')"
    and r: "r = (case x of Inl e \<Rightarrow> Inl (refresh_status e) | Inr tp \<Rightarrow> Inr (tokens_response tp))"
    using run by (auto simp: rpc_Refresh_def respond_def on_tables_def split: prod.splits sum.splits)
  show ?thesis
  proof (cases "TrimSpace tok \<noteq> [] \<and> ?live")
    case True
    then obtain i q where q: "TrimSpace tok \<noteq> []" "sessions (sview (tables w)) i = Some q"
      "ses_hash q = hashVerificationCode (TrimSpace tok)" "live_at (time_Now call) q" by blast
    obtain tp s' where "svc_Refresh ?svc call tok (tables w) = (Inr tp, s')"
      by (rule reliable_app.refresh_live [OF ok q one sg env(1-3)])
    with x have "x = Inr tp" by simp
    with True r show ?thesis by simp
  next
    case False
    have "fst (svc_Refresh ?svc call tok (tables w)) \<in>
      (Inl \<circ> AuthErr) ` {ErrInvalidRefreshToken, ErrRefreshTokenExpired, ErrRefreshTokenRevoked}"
    proof (cases "TrimSpace tok = []")
      case True
      then show ?thesis by (simp add: svc_Refresh_def)
    next
      case nonempty: False
      show ?thesis by (rule reliable_app.refresh_refused [OF ok env(1)]) (use False nonempty in blast)
    qed
    with x obtain a where a: "x = Inl (AuthErr a)" "refresh_status (AuthErr a) = Status Unauthenticated ''invalid refresh token''"
      by (auto simp: refresh_status_def)
    from reliable_app.refresh_err [OF ok x [unfolded a(1)]] a r False show ?thesis by auto
  qed
qed

theorem refresh_decides_witness:
  "\<exists>tk w'. rpc_Refresh (demo_app :: unit world AuthService) (demo_call 5 ''t2'') ''secret'' world1 = (Inr tk, w')"
proof -
  obtain r w' where run: "rpc_Refresh (demo_app :: unit world AuthService) (demo_call 5 ''t2'') ''secret'' world1 = (r, w')"
    by fastforce
  note dec = refresh_decides [OF demo_world demo_signs _ run]
  have "(\<exists>tk. r = Inr tk) \<longleftrightarrow> (\<exists>i q. sessions (sview store1) i = Some q \<and>
      ses_hash q = hashVerificationCode ''secret'' \<and> live_at 5 q)"
    using dec demo_session(6) by simp
  with demo_session(1,3) demo_session(5) [of 5] have "\<exists>tk. r = Inr tk" by auto
  with run show ?thesis by blast
qed



end
