(* ===== verification/Saga_Properties.thy ===== *)
theory Saga_Properties
  imports Rpc_Properties
begin

text \<open>
  The properties of the saga's messages and of their handlers.
\<close>

subsection \<open>Commands survive the wire\<close>

definition create_texts :: "createAuthCommand \<Rightarrow> string list" where
  "create_texts cmd = [SessionID_ca cmd, ClientID_ca cmd, UserID_ca cmd, Email_ca cmd, Username_ca cmd,
     PasswordHash_ca cmd, SagaID_ca cmd]"

definition delete_texts :: "deleteAuthCommand \<Rightarrow> string list" where
  "delete_texts cmd = [UserID_da cmd, SagaID_da cmd]"

lemma create_names_valid: "list_all valid_utf8 create_fields"
  by (simp add: create_fields_def ascii_def)

lemma delete_names_valid: "list_all valid_utf8 delete_fields"
  by (simp add: delete_fields_def ascii_def)

lemma valid_texts: "list_all valid_utf8 xs \<Longrightarrow> map to_valid xs = xs"
  by (induction xs) (simp_all add: to_valid_id)

lemma decode_create:
  assumes v: "list_all valid_utf8 (create_texts cmd)"
  shows "Unmarshal_create (Marshal (create_json cmd)) = Inr cmd"
proof -
  define kvs where "kvs = field ''session_id'' (SessionID_ca cmd) @ field ''client_id'' (ClientID_ca cmd) @
     field ''user_id'' (UserID_ca cmd) @ field ''email'' (Email_ca cmd) @ field ''username'' (Username_ca cmd) @
     field ''password_hash'' (PasswordHash_ca cmd) @ omitempty ''saga_id'' (SagaID_ca cmd)"
  have keys: "fst ` set kvs \<subseteq> set create_fields"
    by (simp add: kvs_def field_def omitempty_def create_fields_def)
  have names: "to_valid k = k" if "k \<in> fst ` set kvs" for k
    using create_names_valid keys that by (auto simp: list_all_iff to_valid_id)
  have texts: "map to_valid (create_texts cmd) = create_texts cmd" by (rule valid_texts [OF v])
  obtain f where f: "Unmarshal create_fields (Marshal (create_json cmd)) = Inr f"
    and "f = fold (\<lambda>(k, x) g. g(k := to_valid x)) kvs (\<lambda>_. [])"
    using Unmarshal_strings [OF keys names] by (simp add: create_json_def kvs_def)
  then have "f ''session_id'' = SessionID_ca cmd" "f ''client_id'' = ClientID_ca cmd" "f ''user_id'' = UserID_ca cmd"
    "f ''email'' = Email_ca cmd" "f ''username'' = Username_ca cmd" "f ''password_hash'' = PasswordHash_ca cmd"
    "f ''saga_id'' = SagaID_ca cmd"
    using texts by (simp_all add: kvs_def field_def omitempty_def create_texts_def)
  then show ?thesis by (simp add: Unmarshal_create_def f)
qed

lemma decode_delete:
  assumes v: "list_all valid_utf8 (delete_texts del)"
  shows "Unmarshal_delete (Marshal (delete_json del)) = Inr del"
proof -
  define kvs where "kvs = field ''user_id'' (UserID_da del) @ omitempty ''saga_id'' (SagaID_da del)"
  have keys: "fst ` set kvs \<subseteq> set delete_fields"
    by (simp add: kvs_def field_def omitempty_def delete_fields_def)
  have names: "to_valid k = k" if "k \<in> fst ` set kvs" for k
    using delete_names_valid keys that by (auto simp: list_all_iff to_valid_id)
  have texts: "map to_valid (delete_texts del) = delete_texts del" by (rule valid_texts [OF v])
  obtain f where f: "Unmarshal delete_fields (Marshal (delete_json del)) = Inr f"
    and "f = fold (\<lambda>(k, x) g. g(k := to_valid x)) kvs (\<lambda>_. [])"
    using Unmarshal_strings [OF keys names] by (simp add: delete_json_def kvs_def)
  then have "f ''user_id'' = UserID_da del" "f ''saga_id'' = SagaID_da del"
    using texts by (simp_all add: kvs_def field_def omitempty_def delete_texts_def)
  then show ?thesis by (simp add: Unmarshal_delete_def f)
qed

text \<open>
  C20. A command that another service marshals from the same struct arrives unchanged: decoding what
  Marshal prints, escapes, omitted empty saga id and all, gives the command back, for every command
  whose fields are well-formed UTF-8.
\<close>

theorem commands_round_trip:
  "(list_all valid_utf8 (create_texts cmd) \<longrightarrow> Unmarshal_create (Marshal (create_json cmd)) = Inr cmd) \<and>
   (list_all valid_utf8 (delete_texts del) \<longrightarrow> Unmarshal_delete (Marshal (delete_json del)) = Inr del)"
  by (simp add: decode_create decode_delete)

definition demo_cmd :: createAuthCommand where
  "demo_cmd = \<lparr>SessionID_ca = ''s1'', ClientID_ca = [], UserID_ca = ''u1'', Email_ca = ''ann@x.org'',
     Username_ca = ''ann'', PasswordHash_ca = ''pw'', SagaID_ca = []\<rparr>"

lemma demo_texts: "list_all valid_utf8 (create_texts demo_cmd)"
  by code_simp

lemma demo_decoded: "Unmarshal_create (Marshal (create_json demo_cmd)) = Inr demo_cmd"
  using decode_create [OF demo_texts] .

theorem commands_round_trip_witness:
  "Unmarshal_create (Marshal (create_json demo_cmd)) = Inr demo_cmd"
  using commands_round_trip [THEN conjunct1, rule_format, OF demo_texts] .

subsection \<open>Registration over the message broker\<close>

text \<open>A broker that accepts every message and keeps them in order, and one that refuses them all.\<close>

definition records :: "(string \<times> string) list world EventBroker \<Rightarrow> bool" where
  "records B \<longleftrightarrow> (\<forall>t m w. Publish B t m w = (Inr (), w\<lparr>bus := bus w @ [(t, m)]\<rparr>))"

definition refuses :: "event_error \<Rightarrow> 'b world EventBroker \<Rightarrow> bool" where
  "refuses e B \<longleftrightarrow> (\<forall>t m w. Publish B t m w = (Inl e, w))"

lemma recordsD: "records B \<Longrightarrow> Publish B t m w = (Inr (), w\<lparr>bus := bus w @ [(t, m)]\<rparr>)"
  by (simp add: records_def)

definition recording_broker :: "(string \<times> string) list world EventBroker" where
  "recording_broker = \<lparr>Publish = (\<lambda>t m w. (Inr (), w\<lparr>bus := bus w @ [(t, m)]\<rparr>)),
     Subscribe = (\<lambda>_ _ w. (Inr (), w)), RunPullConsumer = (\<lambda>_ _ w. (Inr (), w)), Close = id\<rparr>"

definition refusing_broker :: "event_error \<Rightarrow> 'b world EventBroker" where
  "refusing_broker e = \<lparr>Publish = (\<lambda>t m w. (Inl e, w)),
     Subscribe = (\<lambda>_ _ w. (Inr (), w)), RunPullConsumer = (\<lambda>_ _ w. (Inr (), w)), Close = id\<rparr>"

lemma demo_brokers: "records recording_broker" "refuses e (refusing_broker e)"
  by (simp_all add: records_def refuses_def recording_broker_def refusing_broker_def)

definition log_world :: "(string \<times> string) list world" where
  "log_world = \<lparr>tables = store0, bus = []\<rparr>"

definition demo_env :: "time \<Rightarrow> string \<Rightarrow> msg_env" where
  "demo_env t u = \<lparr>service_env = demo_call t u, stamp_Now = t\<rparr>"

lemma demo_env_fields [simp]: "service_env (demo_env t u) = demo_call t u" "stamp_Now (demo_env t u) = t"
  by (simp_all add: demo_env_def)

lemma log_world_fields [simp]: "tables log_world = store0" "bus log_world = []"
  by (simp_all add: log_world_def)


lemma demo_create:
  obtains w1 res where "handleCreate (saga_subscriber demo_app recording_broker kc) (demo_env 0 ''c1'') subj
      (Marshal (create_json demo_cmd)) log_world = (Inr (), w1)"
    "bus w1 = [(CreateResultTopic kc, Marshal (create_success_map 0 demo_cmd res)), (MailTopic kc, Marshal (mail_map demo_cmd res))]"
proof -
  obtain r s1 where reg: "svc_CreatePendingRegistration demo_service (demo_call 0 ''c1'') ''u1'' ''ann@x.org''
      ''ann'' ''pw'' store0 = (Inr r, s1)" by (rule demo_registration [of "''c1''", OF demo_uuids(4)])
  have "Unmarshal_create (Marshal (create_json demo_cmd)) = Inr demo_cmd" by (rule demo_decoded)
  with reg show thesis
    by (intro that [of "log_world\<lparr>tables := s1, bus := [(CreateResultTopic kc, Marshal (create_success_map 0 demo_cmd r)),
          (MailTopic kc, Marshal (mail_map demo_cmd r))]\<rparr>" r])
      (simp_all add: handleCreate_def on_tables_def kafka_publish_def recordsD [OF demo_brokers(1)] demo_cmd_def)
qed


text \<open>Registering a known user again is refused and changes nothing.\<close>

lemma registered_refused:
  assumes ok: "reliable_ok env s" and u: "uuid_in env uid = Some u" "accounts (sview s) u \<noteq> None" "uid \<noteq> []"
    and nonblank: "TrimSpace e \<noteq> []" "TrimSpace n \<noteq> []" "TrimSpace p \<noteq> []"
  obtains s' where "svc_CreatePendingRegistration (pg_service env c sign compare) call uid e n p s
      = (Inl (AuthErr ErrAuthCredentialsAlreadyExist), s')" "sview s' = sview s"
proof -
  obtain x s' where run: "Create (pg env) \<lparr>UserID_cc = uid, Email_cc = e, Username_cc = n, PasswordHash_cc = p\<rparr> s = (x, s')"
    by fastforce
  from reliable_pg.create_known [OF ok, where u = u and
      p = "\<lparr>UserID_cc = uid, Email_cc = e, Username_cc = n, PasswordHash_cc = p\<rparr>"] u run
  have x: "x = Inl ErrAuthCredentialsAlreadyExist" by simp
  from reliable_pg.create_err [OF ok run [unfolded x]] run x u(3) nonblank show thesis
    by (intro that [of s']) (simp_all add: svc_CreatePendingRegistration_def svc_CreateCredential_def lift_repo_def)
qed

text \<open>
  C22. A create command is not safe to deliver again. If the registration succeeds but its result
  cannot be published, the handler answers the broker's error, which sends the command back to be
  retried; the retry then finds the account it created and publishes a failure for a registration
  that took place, while the code of the first attempt is open and was told to nobody.
\<close>

theorem redelivered_command_reports_failure:
  assumes ok: "reliable_ok env (tables w)" and B1: "refuses e B1" and B2: "records B2"
    and cmd: "Unmarshal_create payload = Inr cmd"
    and reg: "svc_CreatePendingRegistration (pg_service env c sign compare) (service_env menv) (UserID_ca cmd)
      (Email_ca cmd) (Username_ca cmd) (PasswordHash_ca cmd) (tables w) = (Inr res, s1)"
    and first: "handleCreate (saga_subscriber (app_on env c sign compare) B1 kc) menv subj payload w = (r1, w1)"
    and second: "handleCreate (saga_subscriber (app_on env c sign compare) B2 kc) menv2 subj payload w1 = (r2, w2)"
  shows "r1 = Inl e \<and> r2 = Inr () \<and>
    bus w2 = bus w @ [(CreateResultTopic kc,
      Marshal (create_failed_map (stamp_Now menv2) cmd (AuthErr ErrAuthCredentialsAlreadyExist)))] \<and>
    accounts (sview (tables w2)) (UserID_pr res) \<noteq> None \<and>
    (UserID_pr res, hashVerificationCode (VerificationCode_pr res), time_Now (service_env menv) + 10 * minute)
      \<in> open_codes (sview (tables w2))"
proof -
  let ?svc = "pg_service env c sign compare"
  from first reg cmd B1 have r1: "r1 = Inl e" and w1: "w1 = w\<lparr>tables := s1\<rparr>"
    by (auto simp: handleCreate_def kafka_publish_def on_tables_def refuses_def)
  have nonblank: "TrimSpace (Email_ca cmd) \<noteq> []" "TrimSpace (Username_ca cmd) \<noteq> []" "TrimSpace (PasswordHash_ca cmd) \<noteq> []"
    using reg by (auto simp: svc_CreatePendingRegistration_def svc_CreateCredential_def split: if_splits)
  note v1 = app.pending_ok [OF reliable_okD(1) [OF ok] reg]
  obtain u where u: "uuid_in env (UserID_ca cmd) = Some u" "UserID_pr res = u"
    and v1: "sview s1 = spec_add_code u (hashVerificationCode (VerificationCode_pr res))
      (time_Now (service_env menv) + 10 * minute)
      (spec_create u (Email_ca cmd) (Username_ca cmd) (PasswordHash_ca cmd) (sview (tables w)))"
    by (rule v1) blast
  have ok1: "reliable_ok env s1" using reliable_app.pending_run [OF ok reg] by simp
  have known: "accounts (sview s1) u \<noteq> None" by (simp add: v1 spec_add_code_def spec_create_def)
  have uid: "UserID_ca cmd \<noteq> []"
    using reg by (auto simp: svc_CreatePendingRegistration_def svc_CreateCredential_def)
  obtain s2 where again: "svc_CreatePendingRegistration ?svc (service_env menv2) (UserID_ca cmd) (Email_ca cmd)
      (Username_ca cmd) (PasswordHash_ca cmd) s1 = (Inl (AuthErr ErrAuthCredentialsAlreadyExist), s2)"
    and v2: "sview s2 = sview s1"
    by (rule registered_refused [OF ok1 u(1) known uid nonblank])
  from second again w1 cmd have r2: "r2 = Inr ()" and b: "bus w2 = bus w @ [(CreateResultTopic kc,
      Marshal (create_failed_map (stamp_Now menv2) cmd (AuthErr ErrAuthCredentialsAlreadyExist)))]" and t: "tables w2 = s2"
    by (auto simp: handleCreate_def kafka_publish_def on_tables_def recordsD [OF B2])
  have "(u, hashVerificationCode (VerificationCode_pr res), time_Now (service_env menv) + 10 * minute) \<in> open_codes (sview s2)"
    by (simp add: v2 v1 spec_add_code_def)
  with r1 r2 b t known u(2) show ?thesis by (simp add: v2)
qed

theorem redelivered_command_reports_failure_witness:
  "\<exists>w1 w2. handleCreate (saga_subscriber demo_app (refusing_broker (BrokerErr ''down'')) default_kafka) (demo_env 0 ''c1'') ''t''
      (Marshal (create_json demo_cmd)) log_world = (Inl (BrokerErr ''down''), w1) \<and>
    handleCreate (saga_subscriber demo_app recording_broker default_kafka) (demo_env 1 ''c2'') ''t''
      (Marshal (create_json demo_cmd)) w1 = (Inr (), w2) \<and> accounts (sview (tables w2)) ''u1'' \<noteq> None"
proof -
  let ?B1 = "refusing_broker (BrokerErr ''down'') :: (string \<times> string) list world EventBroker"
  obtain res s1 where reg: "svc_CreatePendingRegistration demo_service (demo_call 0 ''c1'') ''u1'' ''ann@x.org''
      ''ann'' ''pw'' store0 = (Inr res, s1)" by (rule demo_registration [of "''c1''", OF demo_uuids(4)])
  have u: "UserID_pr res = ''u1''" by (rule app.pending_ok [OF demo_stores_ok(1) reg]) simp
  obtain r1 w1 where one: "handleCreate (saga_subscriber demo_app ?B1 default_kafka) (demo_env 0 ''c1'') ''t''
      (Marshal (create_json demo_cmd)) log_world = (r1, w1)" by fastforce
  obtain r2 w2 where two: "handleCreate (saga_subscriber demo_app recording_broker default_kafka) (demo_env 1 ''c2'') ''t''
      (Marshal (create_json demo_cmd)) w1 = (r2, w2)" by fastforce
  have "svc_CreatePendingRegistration demo_service (service_env (demo_env 0 ''c1'')) (UserID_ca demo_cmd) (Email_ca demo_cmd)
      (Username_ca demo_cmd) (PasswordHash_ca demo_cmd) (tables log_world) = (Inr res, s1)"
    using reg by (simp add: demo_cmd_def)
  from redelivered_command_reports_failure [OF _ demo_brokers(2,1) demo_decoded this one two] u one two
  show ?thesis by auto
qed

end
