(* ===== verification/Pull_Laws.thy ===== *)
theory Pull_Laws
  imports Pull_Consumer
begin

text \<open>
  What holds of the pull consumer's runtime at every moment: its plan stays valid, its queue
  bounded, no message is lost or handled twice, and a cancelled consumer comes to rest.
\<close>

subsection \<open>Validated plans\<close>

definition plan_ok :: "int \<Rightarrow> duration \<Rightarrow> bool" where
  "plan_ok b w \<longleftrightarrow> 0 < b \<and> 0 < w"

lemma Validate_base: "Validate c = None \<Longrightarrow> plan_ok (BatchSize c) (MaxWait c) \<and> 0 < Workers c \<and> 0 < QueueSize c"
  by (auto simp: Validate_def plan_ok_def split: if_splits)

lemma ResolvePullPlan_ok:
  "Validate c = None \<Longrightarrow> ResolvePullPlan c n = (t, b, w) \<Longrightarrow> plan_ok b w"
  by (auto simp: Validate_def ResolvePullPlan_def plan_ok_def split: if_splits)

definition fetch_ok_state :: "pullConsumerFetchState \<Rightarrow> bool" where
  "fetch_ok_state st \<longleftrightarrow> plan_ok (batch st) (wait st)"

lemma update_ok:
  "Validate c = None \<Longrightarrow> fetch_ok_state st \<Longrightarrow> fetch_ok_state (maybeUpdateAdaptivePlan c now now' p st)"
  using ResolvePullPlan_ok [of c]
  by (auto simp: maybeUpdateAdaptivePlan_def fetch_ok_state_def Let_def split: option.split prod.split)

subsection \<open>The invariant\<close>

fun fetcher_ok :: "'m fetcher \<Rightarrow> bool" where
  "fetcher_ok (Checking st) = fetch_ok_state st"
| "fetcher_ok (Polling st) = fetch_ok_state st"
| "fetcher_ok (Dispatching st ms) = (fetch_ok_state st \<and> int (length ms) \<le> batch st)"
| "fetcher_ok Waiting = True"
| "fetcher_ok Finished = True"

fun stopping :: "'m fetcher \<Rightarrow> bool" where
  "stopping Waiting = True"
| "stopping Finished = True"
| "stopping _ = False"

definition pull_inv :: "PullConsumerConfig \<Rightarrow> 'w pull_state \<Rightarrow> bool" where
  "pull_inv c s \<longleftrightarrow>
     int (length (jobs s)) \<le> QueueSize c \<and> length (workers s) = nat (Workers c) \<and> fetcher_ok (fetcher s) \<and>
     (closed s \<longleftrightarrow> fetcher s = Finished) \<and> (closed s \<longrightarrow> set (workers s) \<subseteq> {Exited}) \<and>
     (Exited \<in> set (workers s) \<or> stopping (fetcher s) \<longrightarrow> cancelled s)"

lemma start_inv: "Validate c = None \<Longrightarrow> pull_inv c (runtime_Start c now w)"
  using Validate_base [of c]
  by (auto simp: pull_inv_def runtime_Start_def initial_fetch_state_def fetch_ok_state_def plan_ok_def)

lemma set_update_worker: "x \<in> set (xs[i := y]) \<Longrightarrow> x = y \<or> x \<in> set xs"
  using set_update_subset_insert [of xs i y] by auto

lemma step_inv:
  assumes "pull_step c h s s'" and "Validate c = None" and "pull_inv c s"
  shows "pull_inv c s'"
  using assms
proof (induction rule: pull_step.induct)
  case (check_go s st now now' pending)
  then show ?case using update_ok [of c st] by (simp add: pull_inv_def)
next
  case (worker_take i s m ms)
  then show ?case using nth_mem [of i "workers s"] by (auto simp: pull_inv_def dest!: set_update_worker)
next
  case (worker_stop i s)
  then show ?case using nth_mem [of i "workers s"] by (auto simp: pull_inv_def dest!: set_update_worker)
next
  case (worker_nak i s m env err w)
  then show ?case using nth_mem [of i "workers s"] by (auto simp: pull_inv_def dest!: set_update_worker)
next
  case (worker_ack i s m env u w r)
  then show ?case using nth_mem [of i "workers s"] by (auto simp: pull_inv_def dest!: set_update_worker)
qed (auto simp: pull_inv_def)

lemma steps_inv:
  assumes "(pull_step c h)\<^sup>*\<^sup>* s s'" and "Validate c = None" and "pull_inv c s"
  shows "pull_inv c s'"
  using assms by (induction rule: rtranclp_induct) (blast intro: step_inv)+

subsection \<open>Where every message is\<close>

fun held :: "'m worker \<Rightarrow> 'm multiset" where
  "held (Busy m) = {#m#}"
| "held _ = {#}"

fun undispatched :: "'m fetcher \<Rightarrow> 'm list" where
  "undispatched (Dispatching st ms) = ms"
| "undispatched _ = []"

definition in_flight :: "'w pull_state \<Rightarrow> msg multiset" where
  "in_flight s = mset (undispatched (fetcher s)) + mset (jobs s) + \<Sum>\<^sub># (image_mset held (mset (workers s)))"

definition accounted :: "'w pull_state \<Rightarrow> msg multiset" where
  "accounted s = in_flight s + mset (map fst (settled s)) + mset (dropped s)"

lemma held_update:
  "i < length ws \<Longrightarrow> \<Sum>\<^sub># (image_mset held (mset (ws[i := w]))) + held (ws ! i) =
     \<Sum>\<^sub># (image_mset held (mset ws)) + held w"
proof -
  assume i: "i < length ws"
  have ws: "mset ws = mset (take i ws) + {#ws ! i#} + mset (drop (Suc i) ws)"
    by (subst id_take_nth_drop [OF i]) simp
  show ?thesis unfolding upd_conv_take_nth_drop [OF i] ws by simp
qed

text \<open>A step moves messages; only a fetch brings new ones.\<close>

lemma step_accounted:
  assumes "pull_step c h s s'"
  shows "accounted s' = accounted s + (case fetcher s of Polling _ \<Rightarrow> mset (undispatched (fetcher s')) | _ \<Rightarrow> {#})"
  using assms
proof (induction rule: pull_step.induct)
  case (worker_take i s m ms)
  then show ?case using held_update [of i "workers s" "Busy m"]
    by (auto simp: accounted_def in_flight_def split: fetcher.split)
next
  case (worker_stop i s)
  then show ?case using held_update [of i "workers s" Exited]
    by (auto simp: accounted_def in_flight_def split: fetcher.split)
next
  case (worker_nak i s m env err w)
  then show ?case using held_update [of i "workers s" Idle]
    by (auto simp: accounted_def in_flight_def split: fetcher.split)
next
  case (worker_ack i s m env u w r)
  then show ?case using held_update [of i "workers s" Idle]
    by (auto simp: accounted_def in_flight_def split: fetcher.split)
qed (auto simp: accounted_def in_flight_def split: fetcher.split)

subsection \<open>Cancellation brings the consumer to rest\<close>

fun phase :: "'m fetcher \<Rightarrow> nat" where
  "phase (Polling _) = 4"
| "phase (Dispatching _ _) = 3"
| "phase (Checking _) = 2"
| "phase Waiting = 1"
| "phase Finished = 0"

fun worker_weight :: "'m worker \<Rightarrow> nat" where
  "worker_weight (Busy m) = 2"
| "worker_weight Idle = 1"
| "worker_weight Exited = 0"

definition work_left :: "'w pull_state \<Rightarrow> nat" where
  "work_left s = 3 * length (undispatched (fetcher s)) + 2 * length (jobs s) + sum_list (map worker_weight (workers s))"

lemma weight_update:
  "i < length ws \<Longrightarrow> sum_list (map worker_weight (ws[i := w])) + worker_weight (ws ! i)
     = sum_list (map worker_weight ws) + worker_weight w"
proof -
  assume i: "i < length ws"
  have ws: "sum_list (map worker_weight ws)
      = sum_list (map worker_weight (take i ws)) + worker_weight (ws ! i) + sum_list (map worker_weight (drop (Suc i) ws))"
    by (subst id_take_nth_drop [OF i]) simp
  show ?thesis unfolding upd_conv_take_nth_drop [OF i] ws by simp
qed

lemma step_decreases:
  assumes "pull_step c h s s'" and "cancelled s"
  shows "cancelled s' \<and> ((phase (fetcher s'), work_left s'), (phase (fetcher s), work_left s)) \<in> less_than <*lex*> less_than"
  using assms
proof (induction rule: pull_step.induct)
  case (worker_take i s m ms)
  then show ?case using weight_update [of i "workers s" "Busy m"] by (auto simp: work_left_def)
next
  case (worker_stop i s)
  then show ?case using weight_update [of i "workers s" Exited] by (auto simp: work_left_def)
next
  case (worker_nak i s m env err w)
  then show ?case using weight_update [of i "workers s" Idle] by (auto simp: work_left_def)
next
  case (worker_ack i s m env u w r)
  then show ?case using weight_update [of i "workers s" Idle] by (auto simp: work_left_def)
qed (auto simp: work_left_def)

lemma cancelled_steps_end: "wf {(s', s). pull_step c h s s' \<and> cancelled s}"
proof (rule wf_subset)
  show "wf (inv_image (less_than <*lex*> less_than) (\<lambda>s. (phase (fetcher s), work_left s)))"
    by (intro wf_inv_image wf_lex_prod wf_less_than)
  show "{(s', s). pull_step c h s s' \<and> cancelled s} \<subseteq>
      inv_image (less_than <*lex*> less_than) (\<lambda>s. (phase (fetcher s), work_left s))"
    using step_decreases [of c h] unfolding in_inv_image [abs_def] by (auto simp: inv_image_def)
qed

lemma cancelled_progress:
  assumes "pull_inv c s" and "cancelled s" and "fetcher s \<noteq> Finished"
  shows "\<exists>s'. pull_step c h s s'"
proof (cases "fetcher s")
  case (Checking st)
  from pull_step.check_stop [OF this assms(2)] show ?thesis by blast
next
  case (Polling st)
  from pull_step.fetch_error [OF this] show ?thesis by blast
next
  case (Dispatching st ms)
  then show ?thesis
    using pull_step.dispatch_stop [OF Dispatching _ assms(2)] pull_step.dispatch_end [of s st c h] by (cases "ms = []") blast+
next
  case Waiting
  show ?thesis
  proof (cases "\<forall>w \<in> set (workers s). w = Exited")
    case True
    from pull_step.close_jobs [OF Waiting True] show ?thesis by blast
  next
    case False
    then obtain i where i: "i < length (workers s)" "workers s ! i \<noteq> Exited" by (auto simp: in_set_conv_nth)
    show ?thesis
    proof (cases "workers s ! i")
      case Idle
      from pull_step.worker_stop [OF i(1) Idle] assms(2) show ?thesis by blast
    next
      case (Busy m)
      obtain r w where r: "h undefined (Subject_msg m) (Data_msg m) (world s) = (r, w)" by fastforce
      show ?thesis
      proof (cases r)
        case (Inl e)
        from pull_step.worker_nak [where h = h, OF i(1) Busy r [unfolded Inl]] show ?thesis by blast
      next
        case (Inr u)
        from pull_step.worker_ack [where h = h, OF i(1) Busy r [unfolded Inr], of Ack] show ?thesis by blast
      qed
    qed (use i in simp)
  qed
qed (use assms in simp)

end
