(* ===== verification/Pull_Properties.thy ===== *)
theory Pull_Properties
  imports Pull_Laws Rpc_Properties
begin

text \<open>
  The properties of the pull consumer: what holds in every interleaving of its fetcher and workers.
\<close>

subsection \<open>The consumer of the default configuration\<close>

definition demo_sub :: "unit world registrationSagaSubscriber" where
  "demo_sub = \<lparr>broker = \<lparr>Publish = (\<lambda>_ _ w. (Inr (), w)), Subscribe = (\<lambda>_ _ w. (Inr (), w)),
       RunPullConsumer = (\<lambda>_ _ w. (Inr (), w)), Close = id\<rparr>,
     service = demo_app, cfg_sub = default_nats, resolver = NewDomainFailureReasonResolver,
     mapr = newRegistrationSagaMessageMapper\<rparr>"

definition demo_pull :: PullConsumerConfig where
  "demo_pull = buildPullConsumerConfig demo_sub (SagaCreateAuthSubject default_nats) (SagaCreateAuthDurable default_nats)"

lemma demo_pull_valid: "Validate demo_pull = None"
  by (simp add: demo_pull_def demo_sub_def buildPullConsumerConfig_def BuildAdaptiveConfig_def default_nats_def
      Validate_def second_def)

definition demo_msg :: msg where
  "demo_msg = \<lparr>Subject_msg = ''s'', Data_msg = ''d''\<rparr>"

definition demo_handler :: "unit MessageHandler" where
  "demo_handler env subject payload w = (Inr (), w)"

text \<open>The default consumer after a fetch of one message, and once it has been cancelled.\<close>

definition demo_fetched :: "unit pull_state" where
  "demo_fetched = (runtime_Start demo_pull 0 ())\<lparr>fetcher := Dispatching (initial_fetch_state demo_pull 0) [demo_msg]\<rparr>"

lemma demo_update: "maybeUpdateAdaptivePlan demo_pull 0 0 None (initial_fetch_state demo_pull 0) = initial_fetch_state demo_pull 0"
  by (simp add: maybeUpdateAdaptivePlan_def initial_fetch_state_def)

lemma demo_poll:
  "pull_step demo_pull h (runtime_Start demo_pull 0 ())
     ((runtime_Start demo_pull 0 ())\<lparr>fetcher := Polling (initial_fetch_state demo_pull 0)\<rparr>)"
  using pull_step.check_go [of "runtime_Start demo_pull 0 ()" "initial_fetch_state demo_pull 0" demo_pull h 0 0 None]
  by (simp add: runtime_Start_def demo_update)

lemma demo_fetch:
  "pull_step demo_pull h ((runtime_Start demo_pull 0 ())\<lparr>fetcher := Polling (initial_fetch_state demo_pull 0)\<rparr>) demo_fetched"
  using pull_step.fetch_ok [of "(runtime_Start demo_pull 0 ())\<lparr>fetcher := Polling (initial_fetch_state demo_pull 0)\<rparr>"
      "initial_fetch_state demo_pull 0" "[demo_msg]" demo_pull h] Validate_base [OF demo_pull_valid]
  by (simp add: demo_fetched_def initial_fetch_state_def plan_ok_def)

lemma demo_reached: "(pull_step demo_pull h)\<^sup>*\<^sup>* (runtime_Start demo_pull 0 ()) demo_fetched"
  using demo_poll demo_fetch by (meson r_into_rtranclp rtranclp.rtrancl_into_rtrancl)

lemma demo_cancel: "pull_step demo_pull h demo_fetched (demo_fetched\<lparr>cancelled := True\<rparr>)"
  by (rule pull_step.cancel) (simp add: demo_fetched_def runtime_Start_def)

subsection \<open>Bounds\<close>

text \<open>
  C23. A consumer started from a configuration that Validate accepts stays within it whatever its
  fetcher and workers interleave: the queue never exceeds QueueSize, every Fetch asks for a positive
  number of messages and waits a positive time, the channel of jobs is closed only when the fetcher
  has finished and no worker is left, so nothing is sent on a closed channel, and no worker leaves
  before the consumer is cancelled.
\<close>

theorem pull_consumer_bounded:
  assumes valid: "Validate c = None" and run: "(pull_step c h)\<^sup>*\<^sup>* (runtime_Start c now w) s"
  shows "int (length (jobs s)) \<le> QueueSize c \<and> length (workers s) = nat (Workers c) \<and>
    (\<forall>st. fetcher s = Polling st \<longrightarrow> 0 < batch st \<and> 0 < wait st) \<and>
    (closed s \<longrightarrow> fetcher s = Finished \<and> set (workers s) \<subseteq> {Exited}) \<and>
    (Exited \<in> set (workers s) \<longrightarrow> cancelled s)"
  using steps_inv [OF run valid start_inv [OF valid]]
  by (auto simp: pull_inv_def fetch_ok_state_def plan_ok_def)

theorem pull_consumer_bounded_witness:
  "int (length (jobs demo_fetched)) \<le> QueueSize demo_pull \<and> length (workers demo_fetched) = 8"
  using pull_consumer_bounded [OF demo_pull_valid demo_reached [of demo_handler]]
  by (simp add: demo_pull_def demo_sub_def buildPullConsumerConfig_def default_nats_def)

subsection \<open>No message is lost\<close>

text \<open>A run, with everything that its Fetch calls answered, in order.\<close>

definition fetched_by :: "'w pull_state \<Rightarrow> 'w pull_state \<Rightarrow> msg list" where
  "fetched_by s s' = (case fetcher s of Polling _ \<Rightarrow> undispatched (fetcher s') | _ \<Rightarrow> [])"

inductive pull_run :: "PullConsumerConfig \<Rightarrow> 'w MessageHandler \<Rightarrow> 'w pull_state \<Rightarrow> msg list \<Rightarrow> 'w pull_state \<Rightarrow> bool"
  for c h s where
  start: "pull_run c h s [] s"
| step: "pull_run c h s ms s' \<Longrightarrow> pull_step c h s' s'' \<Longrightarrow> pull_run c h s (ms @ fetched_by s' s'') s''"

lemma run_steps: "pull_run c h s ms s' \<Longrightarrow> (pull_step c h)\<^sup>*\<^sup>* s s'"
  by (induction rule: pull_run.induct) auto

lemma run_accounted: "pull_run c h s ms s' \<Longrightarrow> accounted s' = accounted s + mset ms"
proof (induction rule: pull_run.induct)
  case (step ms s' s'')
  then show ?case
    using step_accounted [OF step.hyps(2)] by (cases "fetcher s'") (simp_all add: fetched_by_def ac_simps)
qed simp

lemma step_dropped: "pull_step c h s s' \<Longrightarrow> dropped s \<noteq> [] \<longrightarrow> cancelled s \<Longrightarrow> dropped s' \<noteq> [] \<longrightarrow> cancelled s'"
  by (induction rule: pull_step.induct) auto

lemma run_dropped: "pull_run c h s ms s' \<Longrightarrow> dropped s = [] \<Longrightarrow> dropped s' \<noteq> [] \<longrightarrow> cancelled s'"
proof (induction rule: pull_run.induct)
  case (step ms s' s'')
  from step_dropped [OF step.hyps(2) step.IH [OF step.prems]] show ?case .
qed simp

lemma idle_holds_nothing: "\<Sum>\<^sub># (image_mset held (mset (replicate n Idle))) = {#}"
  by (induction n) simp_all

lemma exited_hold_nothing: "set ws \<subseteq> {Exited} \<Longrightarrow> \<Sum>\<^sub># (image_mset held (mset ws)) = {#}"
  by (induction ws) auto

text \<open>
  C24. No fetched message is lost or handled twice. At every moment of a run the fetched messages
  are, each exactly as often as it was fetched, the ones still on their way (being dispatched,
  queued, or held by a worker), the ones settled by one acknowledgement or refusal, and the ones
  dropped by a dispatch that saw the cancellation; nothing is dropped before it, and a finished
  consumer has settled everything it did not drop or leave queued.
\<close>

theorem pull_messages_conserved:
  assumes valid: "Validate c = None" and run: "pull_run c h (runtime_Start c now w) ms s"
  shows "mset ms = in_flight s + mset (map fst (settled s)) + mset (dropped s) \<and>
    (dropped s \<noteq> [] \<longrightarrow> cancelled s) \<and>
    (fetcher s = Finished \<longrightarrow> mset ms = mset (jobs s) + mset (map fst (settled s)) + mset (dropped s))"
proof -
  have all: "mset ms = in_flight s + mset (map fst (settled s)) + mset (dropped s)"
    using run_accounted [OF run] idle_holds_nothing
    by (simp add: accounted_def in_flight_def runtime_Start_def)
  have inv: "pull_inv c s" by (rule steps_inv [OF run_steps [OF run] valid start_inv [OF valid]])
  have "in_flight s = mset (jobs s)" if "fetcher s = Finished"
    using inv that exited_hold_nothing [of "workers s"] by (simp add: pull_inv_def in_flight_def)
  moreover have "dropped s \<noteq> [] \<longrightarrow> cancelled s"
    by (rule run_dropped [OF run]) (simp add: runtime_Start_def)
  ultimately show ?thesis using all by simp
qed

theorem pull_messages_conserved_witness:
  "pull_run demo_pull demo_handler (runtime_Start demo_pull 0 ()) [demo_msg] demo_fetched \<and>
   mset [demo_msg] = in_flight demo_fetched"
proof -
  have run: "pull_run demo_pull demo_handler (runtime_Start demo_pull 0 ()) [demo_msg] demo_fetched"
    using pull_run.step [OF pull_run.step [OF pull_run.start demo_poll] demo_fetch, of demo_handler]
    by (simp add: fetched_by_def runtime_Start_def demo_fetched_def)
  from pull_messages_conserved [OF demo_pull_valid this] run show ?thesis
    by (simp add: demo_fetched_def runtime_Start_def)
qed

subsection \<open>Cancellation\<close>

lemma no_endless_run:
  assumes "cancelled s"
  shows "\<nexists>f. f 0 = s \<and> (\<forall>n. pull_step c h (f n) (f (Suc n)))"
proof
  assume "\<exists>f. f 0 = s \<and> (\<forall>n. pull_step c h (f n) (f (Suc n)))"
  then obtain f where f: "f 0 = s" "\<And>n. pull_step c h (f n) (f (Suc n))" by blast
  have stays: "cancelled (f n)" for n
    by (induction n) (use assms f step_decreases [OF f(2)] in \<open>simp_all\<close>)
  have "(f (Suc n), f n) \<in> {(s', s). pull_step c h s s' \<and> cancelled s}" for n
    using f(2) stays by simp
  with cancelled_steps_end [of c h] show False
    unfolding wf_iff_no_infinite_down_chain by blast
qed

lemma comes_to_rest:
  assumes "Validate c = None" and "pull_inv c s" and "cancelled s"
  shows "\<exists>s'. (pull_step c h)\<^sup>*\<^sup>* s s' \<and> fetcher s' = Finished"
  using assms(2,3)
proof (induction s rule: wf_induct_rule [OF cancelled_steps_end [of c h]])
  case (1 s)
  show ?case
  proof (cases "fetcher s = Finished")
    case False
    from cancelled_progress [OF 1(2,3) this, of h] obtain s' where s': "pull_step c h s s'" by blast
    with 1 step_inv [OF s' assms(1) 1(2)] step_decreases [OF s' 1(3)]
    obtain s'' where "(pull_step c h)\<^sup>*\<^sup>* s' s''" "fetcher s'' = Finished" by blast
    with s' show ?thesis by (blast intro: converse_rtranclp_into_rtranclp)
  qed blast
qed

text \<open>
  C25. Cancelling a consumer stops it: from then on there is no endless run, whatever the handler
  answers and however the goroutines interleave, a run in which no step is left has closed the
  channel and ended every worker, and such an end is always reachable.
\<close>

theorem cancelled_consumer_stops:
  assumes valid: "Validate c = None" and run: "(pull_step c h)\<^sup>*\<^sup>* (runtime_Start c now w) s" and c: "cancelled s"
  shows "(\<nexists>f. f 0 = s \<and> (\<forall>n. pull_step c h (f n) (f (Suc n)))) \<and>
    (\<exists>s'. (pull_step c h)\<^sup>*\<^sup>* s s' \<and> fetcher s' = Finished) \<and>
    (\<forall>s'. (pull_step c h)\<^sup>*\<^sup>* s s' \<longrightarrow> (\<nexists>s''. pull_step c h s' s'') \<longrightarrow>
      fetcher s' = Finished \<and> closed s' \<and> set (workers s') \<subseteq> {Exited})"
proof (intro conjI allI impI)
  note inv = steps_inv [OF run valid start_inv [OF valid]]
  show "\<nexists>f. f 0 = s \<and> (\<forall>n. pull_step c h (f n) (f (Suc n)))" by (rule no_endless_run [OF c])
  show "\<exists>s'. (pull_step c h)\<^sup>*\<^sup>* s s' \<and> fetcher s' = Finished" by (rule comes_to_rest [OF valid inv c])
  fix s' assume steps: "(pull_step c h)\<^sup>*\<^sup>* s s'" and stuck: "\<nexists>s''. pull_step c h s' s''"
  have "cancelled s'" using steps c by (induction rule: rtranclp_induct) (use step_decreases in \<open>blast+\<close>)
  moreover have inv': "pull_inv c s'" by (rule steps_inv [OF steps valid inv])
  ultimately show "fetcher s' = Finished" using cancelled_progress [of c s' h] stuck by blast
  then show "closed s'" "set (workers s') \<subseteq> {Exited}" using inv' by (simp_all add: pull_inv_def)
qed

theorem cancelled_consumer_stops_witness:
  "\<exists>s'. (pull_step demo_pull demo_handler)\<^sup>*\<^sup>* (demo_fetched\<lparr>cancelled := True\<rparr>) s' \<and> fetcher s' = Finished"
  using cancelled_consumer_stops [OF demo_pull_valid rtranclp.rtrancl_into_rtrancl [OF demo_reached demo_cancel, of demo_handler]]
  by simp

end
