(* ===== verification/Broker_Properties.thy ===== *)
theory Broker_Properties
  imports Saga_Properties
begin

text \<open>
  The properties of the Kafka broker and of the loops that keep its consumers running.
\<close>

subsection \<open>Event claims\<close>

text \<open>
  The documented behaviour of the claims of processed events: the ids claimed so far; a claim of a
  fresh id succeeds or fails, a claim of a known id is denied, a release forgets the id it names.
\<close>

definition claims_ok :: "'w kafka_lib \<Rightarrow> ('w \<Rightarrow> string set) \<Rightarrow> bool" where
  "claims_ok lib claims \<longleftrightarrow>
     (\<forall>e w. e \<in> claims w \<longrightarrow> ClaimDB lib e w = (Inr False, w)) \<and>
     (\<forall>e w r w'. ClaimDB lib e w = (r, w') \<longrightarrow> e \<notin> claims w \<longrightarrow>
        r \<noteq> Inr False \<and> claims w' = (if r = Inr True then insert e (claims w) else claims w)) \<and>
     (\<forall>e w. claims (Release lib e w) = claims w - {e}) \<and>
     (\<forall>m w r w'. CommitMessages lib m w = (r, w') \<longrightarrow> claims w' = claims w) \<and>
     (\<forall>t m s n err w r w'. Enqueue lib t m s n err w = (r, w') \<longrightarrow> claims w' = claims w) \<and>
     (\<forall>t m w r w'. WriteMessages lib t m w = (r, w') \<longrightarrow> claims w' = claims w)"

definition keeps_claims :: "('w \<Rightarrow> string set) \<Rightarrow> 'w MessageHandler \<Rightarrow> bool" where
  "keeps_claims claims h \<longleftrightarrow> (\<forall>env t m w r w'. h env t m w = (r, w') \<longrightarrow> claims w' = claims w)"

definition event_of :: "'w kafka_lib \<Rightarrow> string \<Rightarrow> kafka_msg \<times> msg_env \<Rightarrow> string" where
  "event_of lib subject f = DecodeOrFingerprint lib subject (Value (fst f))"

lemma claims_okD:
  assumes "claims_ok lib claims"
  shows "e \<in> claims w \<Longrightarrow> ClaimDB lib e w = (Inr False, w)"
    and "ClaimDB lib e w = (Inr True, w') \<Longrightarrow> e \<notin> claims w \<and> claims w' = insert e (claims w)"
    and "ClaimDB lib e w = (Inl x, w') \<Longrightarrow> claims w' = claims w"
    and "ClaimDB lib e w = (Inr False, w') \<Longrightarrow> e \<in> claims w \<and> w' = w"
    and "claims (Release lib e w) = claims w - {e}"
    and "CommitMessages lib m w = (r, w') \<Longrightarrow> claims w' = claims w"
    and "Enqueue lib t m s n err w = (r, w') \<Longrightarrow> claims w' = claims w"
    and "WriteMessages lib t m w = (r2, w') \<Longrightarrow> claims w' = claims w"
proof -
  note ok = assms [unfolded claims_ok_def]
  note c1 = ok [THEN conjunct1, rule_format]
    and c2 = ok [THEN conjunct2, THEN conjunct1, rule_format]
  show "e \<in> claims w \<Longrightarrow> ClaimDB lib e w = (Inr False, w)" by (rule c1)
  show "ClaimDB lib e w = (Inr True, w') \<Longrightarrow> e \<notin> claims w \<and> claims w' = insert e (claims w)"
    using c1 [of e w] c2 [of e w "Inr True" w'] by auto
  show "ClaimDB lib e w = (Inl x, w') \<Longrightarrow> claims w' = claims w"
    using c1 [of e w] c2 [of e w "Inl x" w'] by auto
  show "ClaimDB lib e w = (Inr False, w') \<Longrightarrow> e \<in> claims w \<and> w' = w"
    using c1 [of e w] c2 [of e w "Inr False" w'] by auto
qed (use assms in \<open>simp_all add: claims_ok_def\<close>)

lemma dead_letter_claims:
  assumes "claims_ok lib claims"
  shows "deadLetterMessage lib b subj m n now e w = (r, w') \<Longrightarrow> claims w' = claims w"
  by (auto simp: deadLetterMessage_def dest: claims_okD(8) [OF assms] split: sum.splits prod.splits)

lemma handler_failed_claims:
  assumes ok: "claims_ok lib claims" and db: "has_db b"
    and run: "handler_failed lib b g subj now m n e w = (t, w')"
  shows "claims w' = claims w - {DecodeOrFingerprint lib subj (Value m)}"
proof -
  define w0 where "w0 = release_message lib b subj m w"
  have w0: "claims w0 = claims w - {DecodeOrFingerprint lib subj (Value m)}"
    by (simp add: w0_def release_message_def db claims_okD(5) [OF ok])
  obtain r1 w1 where q: "Enqueue lib (RetryTopic lib g) m subj (n + 1) e w0 = (r1, w1)" by fastforce
  obtain r2 w2 where d: "deadLetterMessage lib b subj m n now e w0 = (r2, w2)" by fastforce
  have "w' = w1 \<or> w' = w2"
    using run q d by (auto simp: handler_failed_def w0_def [symmetric] split: if_splits sum.splits)
  with w0 claims_okD(7) [OF ok q] dead_letter_claims [OF ok d] show ?thesis by auto
qed

text \<open>A claimed id stays claimed while other messages are consumed, and a message carrying it is skipped.\<close>

lemma claimed_skipped:
  assumes "claims_ok lib claims" and "has_db b" and "event_of lib subj f \<in> claims w"
  shows "consume_message lib b g subj h f w = (Next, w)"
  using assms(2,3) claims_okD(1) [OF assms(1)]
  by (cases f) (simp add: consume_message_def claim_message_def event_of_def)

lemma claim_stays:
  assumes ok: "claims_ok lib claims" and db: "has_db b" and h: "keeps_claims claims h"
    and run: "consume_message lib b g subj h f w = (t, w')" and e: "e \<in> claims w"
  shows "e \<in> claims w'"
proof -
  obtain m env where f: "f = (m, env)" by fastforce
  let ?id = "DecodeOrFingerprint lib subj (Value m)"
  obtain r1 w1 where claim: "ClaimDB lib ?id w = (r1, w1)" by fastforce
  show ?thesis
  proof (cases "r1 = Inr True \<and> (\<exists>x. Unwrap lib (Value m) = Inr x)")
    case False
    have w1: "e \<in> claims w1"
    proof (cases r1)
      case (Inl x)
      with claims_okD(3) [OF ok claim [unfolded Inl]] e show ?thesis by simp
    next
      case (Inr v)
      with claims_okD(2,4) [OF ok, of ?id w w1] claim e show ?thesis by (cases v) simp_all
    qed
    obtain r2 w2 where d: "deadLetterMessage lib b subj m (retryAttempt (Headers m)) (stamp_Now env) (projl (Unwrap lib (Value m))) w1 = (r2, w2)"
      by fastforce
    have "w' = w1 \<or> w' = w2"
      using run claim False db d
      by (cases r1; cases "Unwrap lib (Value m)")
        (auto simp: consume_message_def claim_message_def f Let_def split: if_splits bool.split_asm)
    with dead_letter_claims [OF ok d] have "claims w' = claims w1" by auto
    with w1 show ?thesis by simp
  next
    case True
    then obtain x where x: "Unwrap lib (Value m) = Inr x" and r1: "r1 = Inr True" by blast
    note w1 = claims_okD(2) [OF ok claim [unfolded r1]]
    obtain r2 w2 where hd: "h env subj (if HasPrefix subj recovery_prefix then Value m else x) w1 = (r2, w2)" by fastforce
    then have w2: "claims w2 = claims w1" using h by (auto simp: keeps_claims_def)
    have "claims w' = claims w2 \<or> claims w' = claims w2 - {?id}"
      using run claim x r1 hd db
      by (auto simp: consume_message_def claim_message_def f Let_def
          dest!: handler_failed_claims [OF ok db] claims_okD(6) [OF ok] split: sum.splits prod.splits)
    with w1 w2 e show ?thesis by auto
  qed
qed

lemma claimed_invisible:
  assumes ok: "claims_ok lib claims" and db: "has_db b" and h: "keeps_claims claims h" and e: "e \<in> claims w"
  shows "consume_loop lib b g subj h fs stop w = consume_loop lib b g subj h (filter (\<lambda>f. event_of lib subj f \<noteq> e) fs) stop w"
  using e
proof (induction fs arbitrary: w)
  case (Cons f fs)
  obtain t w1 where one: "consume_message lib b g subj h f w = (t, w1)" by fastforce
  note stays = claim_stays [OF ok db h one Cons.prems]
  show ?case
  proof (cases "event_of lib subj f = e")
    case True
    with claimed_skipped [OF ok db, of subj f w] Cons show ?thesis by simp
  next
    case False
    with Cons.IH [OF stays] one show ?thesis by (cases t) simp_all
  qed
qed simp

text \<open>
  C26. A successfully handled event is handled once. When the broker has its database and the
  handler accepts the message at the head of what is fetched, every later message with the same
  event id, however often it is delivered, is as if it had not been fetched; and after the consumer
  ended, a later run of it over the same claims ignores them as well. Messages with other ids are
  not affected.
\<close>

theorem event_handled_once:
  assumes ok: "claims_ok lib claims" and db: "has_db b" and h: "keeps_claims claims h"
    and claimed: "ClaimDB lib (event_of lib subj (m, env)) w = (Inr True, w1)"
    and body: "Unwrap lib (Value m) = Inr x"
    and handled: "h env subj (if HasPrefix subj recovery_prefix then Value m else x) w1 = (Inr (), w2)"
    and later: "event_of lib subj (m, env) \<in> claims w3"
  shows "consume_loop lib b g subj h ((m, env) # fs) stop w =
      consume_loop lib b g subj h ((m, env) # filter (\<lambda>f. event_of lib subj f \<noteq> event_of lib subj (m, env)) fs) stop w \<and>
    event_of lib subj (m, env) \<in> claims (snd (consume_message lib b g subj h (m, env) w)) \<and>
    consume_loop lib b g subj h fs' stop' w3 =
      consume_loop lib b g subj h (filter (\<lambda>f. event_of lib subj f \<noteq> event_of lib subj (m, env)) fs') stop' w3"
proof -
  let ?e = "event_of lib subj (m, env)"
  obtain r w4 where com: "CommitMessages lib m w2 = (r, w4)" by fastforce
  have one: "consume_message lib b g subj h (m, env) w =
      (case r of Inl err \<Rightarrow> (Return (Inl err), w4) | Inr _ \<Rightarrow> (Next, w4))"
    using claimed body handled db com by (simp add: consume_message_def claim_message_def event_of_def Let_def split: sum.split)
  have "claims w2 = claims w1" using h handled by (auto simp: keeps_claims_def)
  with claims_okD(2) [OF ok claimed] claims_okD(6) [OF ok com] have e: "?e \<in> claims w4" by simp
  from claimed_invisible [OF ok db h this, of g subj fs stop] one e claimed_invisible [OF ok db h later]
  show ?thesis by (cases r) simp_all
qed

text \<open>A library whose state is the set of claims, over which everything else succeeds.\<close>

definition demo_kafka :: "string set kafka_lib" where
  "demo_kafka =
     \<lparr>Wrap = (\<lambda>_ m. Inr m), Unwrap = (\<lambda>m. if m = [] then Inl (PlainErr ''no envelope'') else Inr m), OutgoingHeaders = [],
      WriteMessages = (\<lambda>_ _ w. (Inr (), w)), CommitMessages = (\<lambda>_ w. (Inr (), w)),
      DecodeOrFingerprint = (\<lambda>s m. m),
      ClaimDB = (\<lambda>e w. if e \<in> w then (Inr False, w) else (Inr True, insert e w)),
      Release = (\<lambda>e w. w - {e}), RetryTopic = (\<lambda>g. g @ ''.retry''),
      Enqueue = (\<lambda>_ _ _ _ _ w. (Inr (), w)), RunRetryQueue = (\<lambda>_ w. w), MaxAttempts = 3,
      MarshalDLQ = (\<lambda>r. Inr (OriginalValue r)), type_name = (\<lambda>_. ''error''), error_string = (\<lambda>_. ''error''),
      OpenReader = (\<lambda>_ _ w. w), CloseReader = (\<lambda>_ _ w. w), Readers = (\<lambda>_. [])\<rparr>"

definition demo_broker :: kafka_broker where
  "demo_broker = \<lparr>brokers = [''b''], group = ''auth'', deadLetter = ''dlq'', has_db = True\<rparr>"

definition demo_kmsg :: "string \<Rightarrow> kafka_msg \<times> msg_env" where
  "demo_kmsg v = (\<lparr>Key = ''k'', Value = v, Headers = [], Partition = 0, Offset = 0\<rparr>, demo_env 0 ''c1'')"

definition accepting :: "'w MessageHandler" where
  "accepting env t m w = (Inr (), w)"

lemma demo_claims: "claims_ok demo_kafka id"
  by (simp add: claims_ok_def demo_kafka_def)

theorem event_handled_once_witness:
  "consume_loop demo_kafka demo_broker ''g'' ''t'' accepting [demo_kmsg ''m'', demo_kmsg ''m''] (PlainErr ''stop'') {}
    = consume_loop demo_kafka demo_broker ''g'' ''t'' accepting [demo_kmsg ''m''] (PlainErr ''stop'') {}"
proof -
  have "keeps_claims id accepting" by (simp add: keeps_claims_def accepting_def)
  from event_handled_once [OF demo_claims _ this, of demo_broker "''t''" "fst (demo_kmsg ''m'')" "snd (demo_kmsg ''m'')"
      "{}" "{''m''}" "''m''" "{''m''}" "{''m''}" "''g''" "[demo_kmsg ''m'']" "PlainErr ''stop''"]
  show ?thesis by (simp add: demo_broker_def demo_kafka_def accepting_def demo_kmsg_def event_of_def)
qed

subsection \<open>Retries\<close>

text \<open>
  What a library does is seen through its calls. Two libraries that differ only in how they answer
  calls the code never makes give the same runs; so the calls the code makes are bounded by what
  may be changed without effect.
\<close>

definition retry_allowed :: "'w kafka_lib \<Rightarrow> string \<Rightarrow> string \<Rightarrow> string \<Rightarrow> kafka_msg \<Rightarrow> string \<Rightarrow> int \<Rightarrow> event_error \<Rightarrow> bool" where
  "retry_allowed lib g subj t m s k err \<longleftrightarrow>
     t = RetryTopic lib g \<and> s = subj \<and> k = retryAttempt (Headers m) + 1 \<and> 2 \<le> k \<and> k \<le> MaxAttempts lib \<and> \<not> is_permanent err"

definition with_enqueue ::
  "'w kafka_lib \<Rightarrow> (string \<Rightarrow> kafka_msg \<Rightarrow> string \<Rightarrow> int \<Rightarrow> event_error \<Rightarrow> ('w, event_error, unit) op) \<Rightarrow> 'w kafka_lib" where
  "with_enqueue lib f = lib\<lparr>Enqueue := f\<rparr>"

lemma retryAttempt_pos: "1 \<le> retryAttempt hs"
  by (induction hs rule: retryAttempt.induct) (auto split: option.split)

lemma with_enqueue_fields [simp]:
  "Unwrap (with_enqueue lib f) = Unwrap lib" "WriteMessages (with_enqueue lib f) = WriteMessages lib"
  "CommitMessages (with_enqueue lib f) = CommitMessages lib" "ClaimDB (with_enqueue lib f) = ClaimDB lib"
  "DecodeOrFingerprint (with_enqueue lib f) = DecodeOrFingerprint lib" "Release (with_enqueue lib f) = Release lib"
  "RetryTopic (with_enqueue lib f) = RetryTopic lib" "MaxAttempts (with_enqueue lib f) = MaxAttempts lib"
  "MarshalDLQ (with_enqueue lib f) = MarshalDLQ lib" "type_name (with_enqueue lib f) = type_name lib"
  "error_string (with_enqueue lib f) = error_string lib" "Enqueue (with_enqueue lib f) = f"
  by (simp_all add: with_enqueue_def)

lemma dead_letter_enqueue: "deadLetterMessage (with_enqueue lib f) b subj m n now e = deadLetterMessage lib b subj m n now e"
  unfolding deadLetterMessage_def fun_eq_iff with_enqueue_fields by simp

lemma consume_message_enqueue:
  "consume_message (with_enqueue lib (\<lambda>t m s k err w. if retry_allowed lib g subj t m s k err then Enqueue lib t m s k err w
      else other t m s k err w)) b g subj h f w = consume_message lib b g subj h f w"
proof -
  obtain m env where f: "f = (m, env)" by fastforce
  define lib' where "lib' = with_enqueue lib (\<lambda>t m s k err w. if retry_allowed lib g subj t m s k err
    then Enqueue lib t m s k err w else other t m s k err w)"
  have failed: "handler_failed lib' b g subj now m (retryAttempt (Headers m)) err w
      = handler_failed lib b g subj now m (retryAttempt (Headers m)) err w" for now err w
    using retryAttempt_pos [of "Headers m"]
    by (simp add: handler_failed_def release_message_def lib'_def dead_letter_enqueue retry_allowed_def)
  have "consume_message lib' b g subj h f w = consume_message lib b g subj h f w"
    unfolding consume_message_def f Let_def prod.case failed
    by (simp add: claim_message_def lib'_def dead_letter_enqueue cong: sum.case_cong prod.case_cong bool.case_cong)
  then show ?thesis by (simp add: lib'_def)
qed


subsection \<open>Commits\<close>

definition with_commit :: "'w kafka_lib \<Rightarrow> (kafka_msg \<Rightarrow> ('w, event_error, unit) op) \<Rightarrow> 'w kafka_lib" where
  "with_commit lib f = lib\<lparr>CommitMessages := f\<rparr>"

lemma with_commit_fields [simp]:
  "Unwrap (with_commit lib f) = Unwrap lib" "WriteMessages (with_commit lib f) = WriteMessages lib"
  "CommitMessages (with_commit lib f) = f" "ClaimDB (with_commit lib f) = ClaimDB lib"
  "DecodeOrFingerprint (with_commit lib f) = DecodeOrFingerprint lib" "Release (with_commit lib f) = Release lib"
  "RetryTopic (with_commit lib f) = RetryTopic lib" "MaxAttempts (with_commit lib f) = MaxAttempts lib"
  "MarshalDLQ (with_commit lib f) = MarshalDLQ lib" "type_name (with_commit lib f) = type_name lib"
  "error_string (with_commit lib f) = error_string lib" "Enqueue (with_commit lib f) = Enqueue lib"
  by (simp_all add: with_commit_def)

text \<open>The handler accepts the message in some surroundings and state.\<close>

definition accepted :: "'w kafka_lib \<Rightarrow> string \<Rightarrow> 'w MessageHandler \<Rightarrow> kafka_msg \<Rightarrow> bool" where
  "accepted lib subj h m \<longleftrightarrow>
     (\<exists>x env w w'. Unwrap lib (Value m) = Inr x \<and>
        h env subj (if HasPrefix subj recovery_prefix then Value m else x) w = (Inr (), w'))"

lemma failed_commit: "handler_failed (with_commit lib f) = handler_failed lib"
  unfolding handler_failed_def release_message_def deadLetterMessage_def fun_eq_iff with_commit_fields by simp

lemma dead_letter_commit: "deadLetterMessage (with_commit lib f) = deadLetterMessage lib"
  unfolding deadLetterMessage_def fun_eq_iff with_commit_fields by simp

lemma consume_message_commit:
  "consume_message (with_commit lib (\<lambda>m w. if accepted lib subj h m then CommitMessages lib m w else other m w))
      b g subj h f w = consume_message lib b g subj h f w"
proof -
  obtain m env where f: "f = (m, env)" by fastforce
  show ?thesis
  proof (cases "accepted lib subj h m")
    case True
    then show ?thesis
      by (simp add: consume_message_def claim_message_def f Let_def failed_commit dead_letter_commit
          cong: sum.case_cong prod.case_cong bool.case_cong)
  next
    case False
    obtain r1 w1 where claim: "claim_message lib b subj m w = (r1, w1)" by fastforce
    show ?thesis
    proof (cases "Unwrap lib (Value m)")
      case (Inl e)
      then show ?thesis
        by (simp add: consume_message_def claim_message_def f Let_def failed_commit dead_letter_commit
            cong: sum.case_cong prod.case_cong bool.case_cong)
    next
      case (Inr x)
      obtain r2 w2 where hd: "h env subj (if HasPrefix subj recovery_prefix then Value m else x) w1 = (r2, w2)" by fastforce
      with False Inr obtain err where "r2 = Inl err"
        unfolding accepted_def by (cases r2) auto
      with claim Inr hd show ?thesis
        by (auto simp: consume_message_def claim_message_def f Let_def failed_commit split: if_splits sum.split bool.split)
    qed
  qed
qed

text \<open>
  C28. An offset is committed only for a message that its handler accepts: a run never commits a
  message that is malformed, that the handler refuses in every state, or that was skipped, retried
  or dead-lettered.
\<close>

theorem only_accepted_messages_committed:
  "consume_loop (with_commit lib (\<lambda>m w. if accepted lib subj h m then CommitMessages lib m w else other m w))
      b g subj h fs stop w = consume_loop lib b g subj h fs stop w"
  by (induction fs arbitrary: w)
    (simp_all add: consume_message_commit split: prod.split turn.split)

subsection \<open>The two consumers of the saga\<close>

definition saga_over ::
  "'w AuthService \<Rightarrow> KafkaConfig \<Rightarrow> 'w kafka_lib \<Rightarrow> kafka_broker \<Rightarrow> (string \<Rightarrow> (kafka_msg \<times> msg_env) list \<times> event_error)
    \<Rightarrow> 'w kafkaSagaSubscriber" where
  "saga_over A kc lib b fetches = \<lparr>broker_ks = kafka_event_broker lib b fetches, service_ks = A, cfg_ks = kc\<rparr>"

definition saga_config :: "string \<Rightarrow> PullConsumerConfig" where
  "saga_config topic = zero_pull_config\<lparr>PullConsumerConfig.Subject := topic\<rparr>"

lemma saga_over_fields:
  "RunPullConsumer (broker_ks (saga_over A kc lib b fetches)) = kafka_RunPullConsumer lib b fetches"
  "Publish (broker_ks (saga_over A kc lib b fetches)) = kafka_Publish lib"
  "service_ks (saga_over A kc lib b fetches) = A" "cfg_ks (saga_over A kc lib b fetches) = kc"
  by (simp_all add: saga_over_def kafka_event_broker_def)

lemma saga_over_Subscribe:
  "kafka_saga_Subscribe (saga_over A kc lib b fetches) w =
     (case kafka_RunPullConsumer lib b fetches (saga_config (CreateTopic kc)) (handleCreate (saga_over A kc lib b fetches)) w of
        (Inl err, w1) \<Rightarrow> (Inl err, w1)
      | (Inr _, w1) \<Rightarrow> kafka_RunPullConsumer lib b fetches (saga_config (DeleteTopic kc))
          (handleDelete (saga_over A kc lib b fetches)) w1)"
  unfolding kafka_saga_Subscribe_def and_then_def saga_over_fields saga_config_def ..

lemma handlers_ignore_fetches:
  "handleCreate (saga_over A kc lib b fetches) = handleCreate (saga_over A kc lib b fetches')"
  "handleDelete (saga_over A kc lib b fetches) = handleDelete (saga_over A kc lib b fetches')"
  unfolding handleCreate_def handleDelete_def kafka_publish_def saga_over_fields by (rule refl)+

lemma run_consumer_fetches:
  "fetches (PullConsumerConfig.Subject c) = fetches' (PullConsumerConfig.Subject c) \<Longrightarrow>
   kafka_RunPullConsumer lib b fetches c h w = kafka_RunPullConsumer lib b fetches' c h w"
  by (simp add: kafka_RunPullConsumer_def)


text \<open>Fetching nothing until the fetch fails, over the demonstration library.\<close>

definition demo_fetches :: "string \<Rightarrow> (kafka_msg \<times> msg_env) list \<times> event_error" where
  "demo_fetches t = ([], PlainErr ''stop'')"

lemma demo_idle_run:
  "kafka_RunPullConsumer demo_kafka demo_broker demo_fetches (saga_config t) h w = (Inl (PlainErr ''stop''), w)"
  by (simp add: kafka_RunPullConsumer_def demo_fetches_def demo_kafka_def)


lemma dead_lettered:
  assumes "MarshalDLQ lib \<lparr>OriginalKey = Key m, OriginalValue = Value m, OriginalTopic = subj,
      OriginalPartition = Partition m, OriginalOffset = Offset m, Attempts = n, ErrorClass = type_name lib e,
      Error = error_string lib e, FailedAt = now\<rparr> = Inr d"
    and "WriteMessages lib (deadLetter b) \<lparr>Key = Key m, Value = d, Headers = Headers m, Partition = 0, Offset = 0\<rparr> w = (Inr (), w1)"
  shows "deadLetterMessage lib b subj m n now e w = (Inr (), w1)"
  using assms by (simp add: deadLetterMessage_def)

text \<open>
  C30. One malformed message ends the create consumer for good. When the first fetched message
  cannot be unwrapped and the dead-letter topic accepts it, the call returns without an error,
  without a commit, without releasing the claim, and without a look at the messages behind it; the
  subscriber takes the missing error for the end of the create topic and goes on to consume the
  delete topic.
\<close>

theorem poison_message_ends_consumer:
  assumes distinct: "CreateTopic kc \<noteq> DeleteTopic kc"
    and first: "fetches (CreateTopic kc) = ((m, menv) # behind, stop)"
    and grp: "g = consumer_group b (saga_config (CreateTopic kc))"
    and open_: "w1 = OpenReader lib (CreateTopic kc) g (RunRetryQueue lib g w)"
    and claim: "claim_message lib b (CreateTopic kc) m w1 = (Inr True, w2)"
    and poison: "Unwrap lib (Value m) = Inl err"
    and dlq: "deadLetterMessage lib b (CreateTopic kc) m (retryAttempt (Headers m)) (stamp_Now menv) err w2 = (Inr (), w3)"
  shows "kafka_saga_Subscribe (saga_over A kc lib b fetches) w =
    kafka_RunPullConsumer lib b fetches (saga_config (DeleteTopic kc)) (handleDelete (saga_over A kc lib b fetches))
      (CloseReader lib (CreateTopic kc) g w3) \<and>
    kafka_saga_Subscribe (saga_over A kc lib b fetches) w =
      kafka_saga_Subscribe (saga_over A kc lib b (fetches(CreateTopic kc := ([(m, menv)], stop')))) w"
proof -
  have create: "kafka_RunPullConsumer lib b f (saga_config (CreateTopic kc)) h w =
      (Inr (), CloseReader lib (CreateTopic kc) g w3)"
    if "f (CreateTopic kc) = ((m, menv) # rest, last)" for f h rest last
    using that claim poison dlq
    by (simp add: kafka_RunPullConsumer_def saga_config_def grp [symmetric, unfolded saga_config_def] open_ [symmetric]
        consume_message_def)
  note goes_on = saga_over_Subscribe [of A kc lib b _ w]
  have one: "kafka_saga_Subscribe (saga_over A kc lib b fetches) w =
      kafka_RunPullConsumer lib b fetches (saga_config (DeleteTopic kc)) (handleDelete (saga_over A kc lib b fetches))
        (CloseReader lib (CreateTopic kc) g w3)"
    using create [of fetches, OF first] by (simp add: goes_on)
  define fetches' where "fetches' = fetches(CreateTopic kc := ([(m, menv)], stop'))"
  have "kafka_saga_Subscribe (saga_over A kc lib b fetches') w =
      kafka_RunPullConsumer lib b fetches' (saga_config (DeleteTopic kc)) (handleDelete (saga_over A kc lib b fetches'))
        (CloseReader lib (CreateTopic kc) g w3)"
    using create [of fetches'] by (simp add: goes_on fetches'_def)
  also have "\<dots> = kafka_RunPullConsumer lib b fetches (saga_config (DeleteTopic kc)) (handleDelete (saga_over A kc lib b fetches))
        (CloseReader lib (CreateTopic kc) g w3)"
    unfolding handlers_ignore_fetches(2) [of A kc lib b fetches' fetches]
    by (rule run_consumer_fetches) (use distinct in \<open>simp add: fetches'_def saga_config_def\<close>)
  finally show ?thesis using one by (simp add: fetches'_def)
qed

theorem poison_message_ends_consumer_witness:
  "\<forall>A. kafka_saga_Subscribe (saga_over A default_kafka demo_kafka demo_broker
      (demo_fetches(CreateTopic default_kafka := ([demo_kmsg [], demo_kmsg ''m''], PlainErr ''stop'')))) {} =
    (Inl (PlainErr ''stop''), {[]})"
proof
  fix A :: "string set AuthService"
  let ?f = "demo_fetches(CreateTopic default_kafka := ([demo_kmsg [], demo_kmsg ''m''], PlainErr ''stop''))"
  have "CreateTopic default_kafka \<noteq> DeleteTopic default_kafka" by (simp add: default_kafka_def)
  note ends = poison_message_ends_consumer [OF this, of ?f "fst (demo_kmsg [])" "snd (demo_kmsg [])" "[demo_kmsg ''m'']"
      "PlainErr ''stop''" _ demo_broker "{}" demo_kafka "{}" "{[]}" "PlainErr ''no envelope''" "{[]}" A]
  have "kafka_saga_Subscribe (saga_over A default_kafka demo_kafka demo_broker ?f) {} =
      kafka_RunPullConsumer demo_kafka demo_broker ?f (saga_config (DeleteTopic default_kafka))
        (handleDelete (saga_over A default_kafka demo_kafka demo_broker ?f)) {[]}"
    using ends [OF _ refl]
    by (simp add: demo_kmsg_def demo_kafka_def claim_message_def deadLetterMessage_def demo_broker_def)
  also have "\<dots> = (Inl (PlainErr ''stop''), {[]})"
    by (simp add: kafka_RunPullConsumer_def demo_fetches_def demo_kafka_def saga_config_def default_kafka_def)
  finally show "kafka_saga_Subscribe (saga_over A default_kafka demo_kafka demo_broker ?f) {} = (Inl (PlainErr ''stop''), {[]})" .
qed

subsection \<open>Backing off\<close>

text \<open>The delays of the recovery loop: powers of two, the first one above the limit included.\<close>

definition recovery_delays :: "duration set" where
  "recovery_delays = (\<lambda>k. k * second) ` {1, 2, 4, 8, 16, 32}"

lemma backoff_step:
  assumes "d \<in> recovery_delays"
  shows "next_recovery_backoff d \<in> recovery_delays"
    and "next_registration_backoff (min max_backoff d) = min max_backoff (next_recovery_backoff d)"
  using assms by (auto simp: recovery_delays_def next_recovery_backoff_def next_registration_backoff_def max_backoff_def
      second_def)

lemma backoff_loops:
  assumes "d \<in> recovery_delays"
  shows "registration_loop (min max_backoff d) as = map (min max_backoff) (recovery_loop d as) \<and>
    set (recovery_loop d as) \<subseteq> recovery_delays"
  using assms
proof (induction as arbitrary: d)
  case (Cons a as)
  have one: "second \<in> recovery_delays" "min max_backoff second = second"
    by (simp_all add: recovery_delays_def max_backoff_def second_def)
  from Cons.IH [OF backoff_step(1) [OF Cons.prems]] Cons.IH [OF one(1)] Cons.prems show ?case
    by (auto simp: backoff_step(2) [OF Cons.prems] one(2) split: option.split)
qed simp

text \<open>
  C31. Both background consumers back off between one and thirty-odd seconds, and differ in one
  delay only. Through any sequence of ends and cancellations the registration loop waits exactly
  where the recovery loop does, for the same time cut off at thirty seconds: it never waits for less
  than a second or more than thirty, while the recovery loop, which doubles without the cut, only
  ever waits 1, 2, 4, 8, 16 or 32 seconds.
\<close>

theorem backoff_bounded:
  "registration_goroutine as = map (min (30 * second)) (recovery_goroutine as) \<and>
   set (registration_goroutine as) \<subseteq> {1 * second .. 30 * second} \<and>
   set (recovery_goroutine as) \<subseteq> (\<lambda>k. k * second) ` {1, 2, 4, 8, 16, 32}"
proof -
  have one: "second \<in> recovery_delays" "min max_backoff second = second"
    by (simp_all add: recovery_delays_def max_backoff_def second_def)
  note loops = backoff_loops [OF one(1), of as, unfolded one(2)]
  have "set (map (min max_backoff) (recovery_loop second as)) \<subseteq> {1 * second .. 30 * second}"
    using loops by (auto simp: recovery_delays_def max_backoff_def second_def)
  with loops show ?thesis
    by (simp add: registration_goroutine_def recovery_goroutine_def recovery_delays_def
        max_backoff_def [symmetric])
qed

end
