(* ===== verification/Transport_Properties.thy ===== *)
theory Transport_Properties
  imports Saga_Properties
begin

text \<open>
  The saga over NATS and over Kafka: two implementations of one protocol.
\<close>

subsection \<open>What a receiver reads\<close>

definition texts :: "(string \<times> string) list \<Rightarrow> string \<Rightarrow> string" where
  "texts kvs k = (case map_of kvs k of None \<Rightarrow> [] | Some x \<Rightarrow> to_valid x)"

lemma to_valid_Nil: "to_valid [] = []"
  by simp

lemma texts_simps:
  "texts [] = (\<lambda>_. [])" "texts (field n v @ kvs) = (texts kvs)(n := to_valid v)"
  "texts ((n, v) # kvs) = (texts kvs)(n := to_valid v)"
  by (auto simp: texts_def field_def fun_eq_iff)

lemma texts_omitempty: "n \<notin> fst ` set kvs \<Longrightarrow> texts (omitempty n v @ kvs) = (texts kvs)(n := to_valid v)"
  by (auto simp: texts_def omitempty_def fun_eq_iff map_of_eq_None_iff split: option.split dest: map_of_SomeD intro: rev_image_eqI)

lemma keys_simps:
  "n \<notin> fst ` set []" "n \<notin> fst ` set (field m v) \<longleftrightarrow> n \<noteq> m"
  "n \<notin> fst ` set (field m v @ kvs) \<longleftrightarrow> n \<noteq> m \<and> n \<notin> fst ` set kvs"
  "n \<noteq> m \<Longrightarrow> n \<notin> fst ` set (omitempty m v @ kvs) \<longleftrightarrow> n \<notin> fst ` set kvs"
  by (auto simp: field_def omitempty_def)

lemma fold_texts: "distinct (map fst kvs) \<Longrightarrow> fold (\<lambda>(k, x) g. g(k := to_valid x)) kvs (\<lambda>_. []) = texts kvs"
proof -
  have "distinct (map fst kvs) \<Longrightarrow> fold (\<lambda>(k, x) g. g(k := to_valid x)) kvs g
      = (\<lambda>k. case map_of kvs k of None \<Rightarrow> g k | Some x \<Rightarrow> to_valid x)" for g
    by (induction kvs arbitrary: g) (auto simp: fun_eq_iff map_of_eq_None_iff [symmetric] split: option.split)
  then show "distinct (map fst kvs) \<Longrightarrow> ?thesis" by (simp add: texts_def fun_eq_iff)
qed

lemma texts_sorted: "distinct (map fst kvs) \<Longrightarrow> texts (sort_key fst kvs) = texts kvs"
proof -
  assume d: "distinct (map fst kvs)"
  have "mset (map fst (sort_key fst kvs)) = mset (map fst kvs)" by simp
  then have "distinct (map fst (sort_key fst kvs))" using d by (metis mset_eq_imp_distinct_iff)
  with d have "map_of (sort_key fst kvs) = map_of kvs" by (simp add: map_of_inject_set)
  then show ?thesis by (simp add: texts_def fun_eq_iff)
qed

text \<open>A struct and a map of the same texts read alike.\<close>

lemma read_strings:
  assumes "distinct (map fst kvs)" and "set (map fst kvs) \<subseteq> set names" and "list_all valid_utf8 names"
  shows "Unmarshal names (Marshal (JObj (strings kvs))) = Inr (texts kvs)"
    and "Unmarshal names (Marshal (go_map (strings kvs))) = Inr (texts kvs)"
proof -
  have valid: "to_valid k = k" if "k \<in> fst ` set kvs" for k
    using assms(2,3) that by (auto simp: list_all_iff to_valid_id)
  show "Unmarshal names (Marshal (JObj (strings kvs))) = Inr (texts kvs)"
    using Unmarshal_strings [of kvs names, OF _ valid] assms(2) fold_texts [OF assms(1)] by simp
  have "mset (map fst (sort_key fst kvs)) = mset (map fst kvs)" by simp
  then have d: "distinct (map fst (sort_key fst kvs))" using assms(1) by (metis mset_eq_imp_distinct_iff)
  show "Unmarshal names (Marshal (go_map (strings kvs))) = Inr (texts kvs)"
    using Unmarshal_strings [of "sort_key fst kvs" names] valid assms(2) fold_texts [OF d] texts_sorted [OF assms(1)]
    by (simp add: go_map_strings)
qed

definition result_names :: "string list" where
  "result_names = [''session_id'', ''client_id'', ''user_id'', ''saga_id'', ''email'', ''verification_code'',
     ''expires_in'', ''status'', ''error'', ''timestamp'']"

lemma result_names_valid: "list_all valid_utf8 result_names"
  by (simp add: result_names_def ascii_def)

text \<open>Two results that a receiver reads alike but for the text of the error.\<close>

definition same_result :: "string \<Rightarrow> string \<Rightarrow> bool" where
  "same_result m m' \<longleftrightarrow> (\<exists>f g. Unmarshal result_names m = Inr f \<and> Unmarshal result_names m' = Inr g \<and>
     (\<forall>k. k \<noteq> ''error'' \<longrightarrow> f k = g k))"

lemma same_resultI:
  assumes "distinct (map fst kvs)" and "set (map fst kvs) \<subseteq> set result_names"
    and "distinct (map fst kvs')" and "set (map fst kvs') \<subseteq> set result_names"
    and "\<And>k. k \<noteq> ''error'' \<Longrightarrow> texts kvs k = texts kvs' k"
  shows "same_result (Marshal (JObj (strings kvs))) (Marshal (go_map (strings kvs')))"
  unfolding same_result_def
  using read_strings(1) [OF assms(1,2) result_names_valid] read_strings(2) [OF assms(3,4) result_names_valid] assms(5)
  by blast

subsection \<open>The two encodings of a result\<close>

definition result_kvs :: "createAuthResult \<Rightarrow> (string \<times> string) list" where
  "result_kvs r = field ''session_id'' (SessionID_cr r) @ field ''client_id'' (ClientID_cr r) @
     field ''user_id'' (UserID_cr r) @ omitempty ''saga_id'' (SagaID_cr r) @ omitempty ''email'' (Email_cr r) @
     omitempty ''verification_code'' (VerificationCode_cr r) @ omitempty ''expires_in'' (ExpiresIn_cr r) @
     field ''status'' (Status_cr r) @ omitempty ''error'' (Error_cr r) @ field ''timestamp'' (Timestamp_cr r)"

definition delete_kvs :: "deleteAuthResult \<Rightarrow> (string \<times> string) list" where
  "delete_kvs r = field ''user_id'' (UserID_dr r) @ omitempty ''saga_id'' (SagaID_dr r) @
     field ''status'' (Status_dr r) @ omitempty ''error'' (Error_dr r) @ field ''timestamp'' (Timestamp_dr r)"

lemma result_texts:
  "texts (result_kvs r) = (\<lambda>_. [])(''timestamp'' := to_valid (Timestamp_cr r), ''error'' := to_valid (Error_cr r),
     ''status'' := to_valid (Status_cr r), ''expires_in'' := to_valid (ExpiresIn_cr r),
     ''verification_code'' := to_valid (VerificationCode_cr r), ''email'' := to_valid (Email_cr r),
     ''saga_id'' := to_valid (SagaID_cr r), ''user_id'' := to_valid (UserID_cr r),
     ''client_id'' := to_valid (ClientID_cr r), ''session_id'' := to_valid (SessionID_cr r))"
proof -
  have "texts (field n v) = (\<lambda>_. [])(n := to_valid v)" for n v using texts_simps(2) [of n v "[]"] by (simp add: texts_simps)
  then show ?thesis unfolding result_kvs_def by (simp add: texts_simps texts_omitempty keys_simps del: set_append)
qed

lemma delete_texts_read:
  "texts (delete_kvs r) = (\<lambda>_. [])(''timestamp'' := to_valid (Timestamp_dr r), ''error'' := to_valid (Error_dr r),
     ''status'' := to_valid (Status_dr r), ''saga_id'' := to_valid (SagaID_dr r), ''user_id'' := to_valid (UserID_dr r))"
proof -
  have "texts (field n v) = (\<lambda>_. [])(n := to_valid v)" for n v using texts_simps(2) [of n v "[]"] by (simp add: texts_simps)
  then show ?thesis unfolding delete_kvs_def by (simp add: texts_simps texts_omitempty keys_simps del: set_append)
qed

lemma result_keys:
  "distinct (map fst (result_kvs r)) \<and> set (map fst (result_kvs r)) \<subseteq> set result_names"
  "distinct (map fst (delete_kvs d)) \<and> set (map fst (delete_kvs d)) \<subseteq> set result_names"
  by (auto simp: result_kvs_def delete_kvs_def field_def omitempty_def result_names_def)

lemma create_same:
  assumes "distinct (map fst kvs)" and "set (map fst kvs) \<subseteq> set result_names"
    and "\<And>k. k \<noteq> ''error'' \<Longrightarrow> texts (result_kvs r) k = texts kvs k"
  shows "same_result (Marshal (create_result_json r)) (Marshal (go_map (strings kvs)))"
  unfolding create_result_json_def result_kvs_def [symmetric]
  by (rule same_resultI) (use result_keys assms in simp_all)

lemma delete_same:
  assumes "distinct (map fst kvs)" and "set (map fst kvs) \<subseteq> set result_names"
    and "\<And>k. k \<noteq> ''error'' \<Longrightarrow> texts (delete_kvs r) k = texts kvs k"
  shows "same_result (Marshal (delete_result_json r)) (Marshal (go_map (strings kvs)))"
  unfolding delete_result_json_def delete_kvs_def [symmetric]
  by (rule same_resultI) (use result_keys assms in simp_all)

lemma results_same:
  "map_create_success now cmd (Email_pr res) (VerificationCode_pr res) (ExpiresIn_pr res) = Inr p1 \<Longrightarrow>
     same_result p1 (Marshal (create_success_map now cmd res))"
  "map_create_failure now cmd reason = Inr p2 \<Longrightarrow> same_result p2 (Marshal (create_failed_map now cmd err))"
  "map_delete_success now del = Inr p3 \<Longrightarrow> same_result p3 (Marshal (delete_success_map now del))"
  "map_delete_failure now del reason = Inr p4 \<Longrightarrow> same_result p4 (Marshal (delete_failed_map now del err))"
  unfolding map_create_success_def map_create_failure_def map_delete_success_def map_delete_failure_def
    create_success_map_def create_failed_map_def delete_success_map_def delete_failed_map_def
  subgoal by (simp, erule subst, rule create_same) (simp_all add: result_texts texts_simps result_names_def)
  subgoal by (simp, erule subst, rule create_same) (simp_all add: result_texts texts_simps result_names_def)
  subgoal by (simp, erule subst, rule delete_same) (simp_all add: delete_texts_read texts_simps result_names_def)
  subgoal by (simp, erule subst, rule delete_same) (simp_all add: delete_texts_read texts_simps result_names_def)
  done


subsection \<open>The two handlers\<close>

text \<open>A NATS message and the Kafka message in its place: a result on the result channels, or the same mail.\<close>

definition same_message :: "string \<Rightarrow> string \<Rightarrow> string \<Rightarrow> string \<Rightarrow> string \<times> string \<Rightarrow> string \<times> string \<Rightarrow> bool" where
  "same_message nats_result nats_mail kafka_result kafka_mail m m' \<longleftrightarrow>
     fst m = nats_result \<and> fst m' = kafka_result \<and> same_result (snd m) (snd m') \<or>
     fst m = nats_mail \<and> fst m' = kafka_mail \<and> snd m = snd m'"

definition nats_sub :: "'w AuthService \<Rightarrow> 'w EventBroker \<Rightarrow> NATSConfig \<Rightarrow> 'w registrationSagaSubscriber" where
  "nats_sub A B c = \<lparr>broker = B, service = A, cfg_sub = c, resolver = NewDomainFailureReasonResolver,
     mapr = newRegistrationSagaMessageMapper\<rparr>"

lemma nats_sub_New: "NewRegistrationSagaSubscriber (Some B) (Some A) c (Some NewDomainFailureReasonResolver) (Some ()) = Inr (nats_sub A B c)"
  by (simp add: NewRegistrationSagaSubscriber_def nats_sub_def)

lemma mail_same: "map_mail_send cmd (Email_pr res) (VerificationCode_pr res) (ExpiresIn_pr res) = Inr (Marshal (mail_map cmd res))"
  by (simp add: map_mail_send_def mail_map_def)

lemmas nats_publishing = publishCreateFailureResult_def publishCreateSuccessResult_def publishDeleteFailureResult_def
  publishDeleteSuccessResult_def nats_sub_def newRegistrationSagaMessageMapper_def NewDomainFailureReasonResolver_def


lemma create_agrees:
  assumes B: "records B"
    and nats: "handleCreateAuthCommand (nats_sub (service_on A) B nc) menv subj payload w = (r1, w1)"
    and kafka: "handleCreate (saga_subscriber (service_on A) B kc) menv subj payload w = (r2, w2)"
  shows "r1 = r2 \<and> tables w1 = tables w2 \<and>
    (\<exists>ms ms'. bus w1 = bus w @ ms \<and> bus w2 = bus w @ ms' \<and>
      list_all2 (same_message (SagaCreateAuthResultSubject nc) (MailSendSubject nc) (CreateResultTopic kc) (MailTopic kc)) ms ms')"
proof (cases "Unmarshal_create payload")
  case (Inl err)
  with nats kafka show ?thesis by (auto simp: handleCreateAuthCommand_def handleCreate_def WrapUnmarshalCreateAuthCommandError_def)
next
  case (Inr cmd)
  obtain x s where reg: "CreatePendingRegistration A (service_env menv) (UserID_ca cmd) (Email_ca cmd) (Username_ca cmd)
      (PasswordHash_ca cmd) (tables w) = (x, s)" by fastforce
  show ?thesis
  proof (cases x)
    case (Inl err)
    define p where "p = projr (map_create_failure (stamp_Now menv) cmd (create_failure_reason err))"
    have p: "map_create_failure (stamp_Now menv) cmd (create_failure_reason err) = Inr p"
      by (simp add: p_def map_create_failure_def)
    from nats kafka Inr reg Inl show ?thesis
      by (auto simp: handleCreateAuthCommand_def handleCreate_def kafka_publish_def service_on_def on_tables_def
          recordsD [OF B] nats_publishing p same_message_def results_same(2) [OF p])
  next
    case Inr': (Inr res)
    define p where "p = projr (map_create_success (stamp_Now menv) cmd (Email_pr res) (VerificationCode_pr res) (ExpiresIn_pr res))"
    have p: "map_create_success (stamp_Now menv) cmd (Email_pr res) (VerificationCode_pr res) (ExpiresIn_pr res) = Inr p"
      by (simp add: p_def map_create_success_def)
    from nats kafka Inr reg Inr' show ?thesis
      by (auto simp: handleCreateAuthCommand_def handleCreate_def kafka_publish_def service_on_def on_tables_def
          recordsD [OF B] nats_publishing p mail_same same_message_def results_same(1) [OF p])
  qed
qed

lemma delete_agrees:
  assumes B: "records B"
    and nats: "handleDeleteAuthCommand (nats_sub (service_on A) B nc) menv subj payload w = (r1, w1)"
    and kafka: "handleDelete (saga_subscriber (service_on A) B kc) menv subj payload w = (r2, w2)"
  shows "r1 = r2 \<and> tables w1 = tables w2 \<and>
    (\<exists>m m'. bus w1 = bus w @ m \<and> bus w2 = bus w @ m' \<and>
      list_all2 (same_message (SagaDeleteAuthResultSubject nc) (MailSendSubject nc) (DeleteResultTopic kc) (MailTopic kc)) m m')"
proof (cases "Unmarshal_delete payload")
  case (Inl err)
  with nats kafka show ?thesis by (auto simp: handleDeleteAuthCommand_def handleDelete_def WrapUnmarshalDeleteAuthCommandError_def)
next
  case (Inr cmd)
  obtain x s where del: "DeleteCredential A (UserID_da cmd) (tables w) = (x, s)" by fastforce
  show ?thesis
  proof (cases x)
    case (Inl err)
    define p where "p = projr (map_delete_failure (stamp_Now menv) cmd (delete_failure_reason err))"
    have p: "map_delete_failure (stamp_Now menv) cmd (delete_failure_reason err) = Inr p"
      by (simp add: p_def map_delete_failure_def)
    from nats kafka Inr del Inl show ?thesis
      by (auto simp: handleDeleteAuthCommand_def handleDelete_def kafka_publish_def service_on_def on_tables_def
          recordsD [OF B] nats_publishing p same_message_def results_same(4) [OF p])
  next
    case Inr': (Inr u)
    define p where "p = projr (map_delete_success (stamp_Now menv) cmd)"
    have p: "map_delete_success (stamp_Now menv) cmd = Inr p"
      by (simp add: p_def map_delete_success_def)
    from nats kafka Inr del Inr' show ?thesis
      by (auto simp: handleDeleteAuthCommand_def handleDelete_def kafka_publish_def service_on_def on_tables_def
          recordsD [OF B] nats_publishing p same_message_def results_same(3) [OF p])
  qed
qed

text \<open>
  C32. NATS and Kafka carry the same protocol. Over the same service, in the same state and
  surroundings, and over brokers that accept every message, the two create handlers and the two
  delete handlers answer alike, leave the tables alike, and publish message for message the same
  mails and results that a receiver decodes to the same fields, except for the text of the error,
  which NATS takes from a fixed list and Kafka from the error itself.
\<close>

theorem transports_agree:
  assumes B: "records B"
    and c1: "handleCreateAuthCommand (nats_sub (service_on A) B nc) menv subj payload w = (r1, w1)"
    and c2: "handleCreate (saga_subscriber (service_on A) B kc) menv subj payload w = (r2, w2)"
    and d1: "handleDeleteAuthCommand (nats_sub (service_on A) B nc) menv subj payload w = (r3, w3)"
    and d2: "handleDelete (saga_subscriber (service_on A) B kc) menv subj payload w = (r4, w4)"
  shows "(r1 = r2 \<and> tables w1 = tables w2 \<and>
    (\<exists>ms ms'. bus w1 = bus w @ ms \<and> bus w2 = bus w @ ms' \<and>
      list_all2 (same_message (SagaCreateAuthResultSubject nc) (MailSendSubject nc) (CreateResultTopic kc) (MailTopic kc)) ms ms')) \<and>
    (r3 = r4 \<and> tables w3 = tables w4 \<and>
    (\<exists>ms ms'. bus w3 = bus w @ ms \<and> bus w4 = bus w @ ms' \<and>
      list_all2 (same_message (SagaDeleteAuthResultSubject nc) (MailSendSubject nc) (DeleteResultTopic kc) (MailTopic kc)) ms ms'))"
  using create_agrees [OF B c1 c2] delete_agrees [OF B d1 d2] by (rule conjI)

theorem transports_agree_witness:
  "\<exists>r1 w1 r2 w2. handleCreateAuthCommand (nats_sub demo_app recording_broker default_nats) (demo_env 0 ''c1'') ''t''
      (Marshal (create_json demo_cmd)) log_world = (r1, w1) \<and>
    handleCreate (saga_subscriber demo_app recording_broker default_kafka) (demo_env 0 ''c1'') ''t''
      (Marshal (create_json demo_cmd)) log_world = (r2, w2) \<and> r1 = r2 \<and> tables w1 = tables w2"
proof -
  obtain r1 w1 where 1: "handleCreateAuthCommand (nats_sub demo_app recording_broker default_nats) (demo_env 0 ''c1'') ''t''
      (Marshal (create_json demo_cmd)) log_world = (r1, w1)" by fastforce
  obtain r2 w2 where 2: "handleCreate (saga_subscriber demo_app recording_broker default_kafka) (demo_env 0 ''c1'') ''t''
      (Marshal (create_json demo_cmd)) log_world = (r2, w2)" by fastforce
  obtain r3 w3 where 3: "handleDeleteAuthCommand (nats_sub demo_app recording_broker default_nats) (demo_env 0 ''c1'') ''t''
      (Marshal (create_json demo_cmd)) log_world = (r3, w3)" by fastforce
  obtain r4 w4 where 4: "handleDelete (saga_subscriber demo_app recording_broker default_kafka) (demo_env 0 ''c1'') ''t''
      (Marshal (create_json demo_cmd)) log_world = (r4, w4)" by fastforce
  note facts = demo_brokers(1) 1 2 3 4
  from transports_agree [OF facts [unfolded app_on_def]] 1 2 show ?thesis by blast
qed

end
