(* ===== verification/Startup.thy ===== *)
theory Startup
  imports World
begin

text \<open>
  cmd/auth-service/main.go and the modules of internal/fx: how the process is put together, started
  and stopped. The fx container calls the invocations in the order of the modules and a provider
  when its value is first needed, in the order of the parameters; it stops at the first error.
\<close>

subsection \<open>Starting and stopping\<close>

text \<open>
  The hooks of a list one after the other: starting stops at the first error, stopping goes on and
  collects the errors.
\<close>

fun start_each :: "'r hook list \<Rightarrow> 'r \<Rightarrow> hook_error option \<times> 'r" where
  "start_each [] r = (None, r)"
| "start_each (h # hs) r =
     (case OnStart h r of (Some err, r1) \<Rightarrow> (Some err, r1) | (None, r1) \<Rightarrow> start_each hs r1)"

fun stop_each :: "'r hook list \<Rightarrow> 'r \<Rightarrow> hook_error list \<times> 'r" where
  "stop_each [] r = ([], r)"
| "stop_each (h # hs) r =
     (case OnStop h r of (err, r1) \<Rightarrow> apfst ((@) (case err of None \<Rightarrow> [] | Some e \<Rightarrow> [e])) (stop_each hs r1))"

text \<open>
  What the container documents: the hooks are started in the order in which they were appended,
  and stopped in the reverse order, whatever errors they answer.
\<close>

record 'r fx_lib =
  fx_Start :: "'r hook list \<Rightarrow> 'r \<Rightarrow> hook_error option \<times> 'r"
  fx_Stop :: "'r hook list \<Rightarrow> 'r \<Rightarrow> hook_error list \<times> 'r"

definition fx_documented :: "'r fx_lib \<Rightarrow> bool" where
  "fx_documented fx \<longleftrightarrow>
     (\<forall>hs r r1. start_each hs r = (None, r1) \<longrightarrow> fx_Start fx hs r = (None, r1)) \<and>
     (\<forall>hs r. fx_Stop fx hs r = stop_each (rev hs) r)"

subsection \<open>The hooks of the process\<close>

text \<open>Both consumers have been told to stop and the server has stopped.\<close>

definition quiet :: "('w, 'l) runtime \<Rightarrow> bool" where
  "quiet r \<longleftrightarrow> saga_ctx r \<noteq> Live \<and> recovery_ctx r \<noteq> Live \<and> stopped (server_rt r)"

definition process_hooks :: "string option \<Rightarrow> 'w EventBroker \<Rightarrow> 'l net_env \<Rightarrow> ('w, 'l) runtime lifecycle" where
  "process_hooks e B n =
     [logger_hook e, metrics_hook, pool_hook, broker_hook B, saga_hook, recovery_hook, grpc_hook n]"

lemma process_hooks_start:
  "start_each (process_hooks e B n) r =
     (None, r\<lparr>metrics_ctx := Live, saga_ctx := Live, recovery_ctx := Live, serving := True\<rparr>)"
  by (simp add: process_hooks_def hook_defs)

text \<open>Whichever of them have been stopped, the last appended first.\<close>

lemma process_hooks_stopping:
  assumes "process_hooks e B n = pre @ post" "stop_each (rev post) r = (errs, r')" "pool_open r" "\<not> synced r"
  shows "(world_rt r' = world_rt r \<or> quiet r') \<and>
    (pool_open r' \<or> quiet r' \<and> world_rt r' = Close B (world_rt r)) \<and>
    (\<not> synced r' \<or> \<not> pool_open r' \<and> metrics_ctx r' \<noteq> Live)"
proof -
  obtain serr srv where sd: "server_Shutdown n (server_rt r) = (serr, srv)" by fastforce
  have "post \<in> set (suffixes (pre @ post))" by (simp add: suffix_def)
  then show ?thesis
    unfolding assms(1) [symmetric]
    using assms(2-) server_Shutdown_stopped [OF sd]
    by (auto simp: process_hooks_def hook_defs quiet_def sd apfst_def map_prod_def split: prod.splits)
qed

lemma server_Shutdown_error: "server_Shutdown net srv = (Some err, srv') \<Longrightarrow> err \<noteq> ErrClosed"
  by (auto simp: server_Shutdown_def Let_def split: option.splits if_splits)

lemma process_hooks_stopped:
  assumes "stop_each (rev (process_hooks e B n)) r = (errs, r')"
  shows "synced r' \<and> ShutdownFailed ErrClosed \<notin> set errs \<and> length errs \<le> 2"
proof -
  obtain serr srv where sd: "server_Shutdown n (server_rt r) = (serr, srv)" by fastforce
  show ?thesis
    using assms server_Shutdown_error [of n "server_rt r"]
    by (auto simp: process_hooks_def hook_defs sd apfst_def map_prod_def split: prod.splits option.splits)
qed

subsection \<open>Putting the process together\<close>

datatype startup_error =
    ConfigFailed string | LoggerFailed string | MigrationsFailed string | DatabaseFailed string | BrokerFailed string
  | RepositoryFailed repo_config_error | ServiceFailed service_config_error | SubscriberFailed string
  | ServerFailed server_config_error

text \<open>The libraries the process is built on, as far as they can fail.\<close>

record ('env, 'l) start_libs =
  parse_env :: "'env \<Rightarrow> string + Config"
  NewWithMode :: "string \<Rightarrow> string \<Rightarrow> string \<Rightarrow> string \<Rightarrow> string + unit"
  sync_err :: "string option"
  migrations :: migrate_lib
  register_err :: "string option"
  connect :: "string \<Rightarrow> string option"
  jwt_NewSigner :: "string \<Rightarrow> string + (Claims \<Rightarrow> string + string)"
  bcrypt_Compare :: "string \<Rightarrow> string \<Rightarrow> string option"
  recovery :: recovery_lib
  net :: "'l net_env"

record ('b, 'l) process =
  config_pr :: Config
  meter_pr :: Meter
  pool_pr :: pool
  broker_pr :: kafka_broker
  service_pr :: "store authService"
  saga_pr :: "'b world kafkaSagaSubscriber"
  recovery_pr :: "'b world authRecoverySubscriber"
  server_pr :: "('b world, 'l) server"
  hooks_pr :: "('b world, 'l) runtime lifecycle"

text \<open>The tables behind the pool, and the client library behind the broker.\<close>

definition main_run ::
  "('env, 'l) start_libs \<Rightarrow> db_env \<Rightarrow> 'b kafka_lib \<Rightarrow> (string \<Rightarrow> (kafka_msg \<times> msg_env) list \<times> event_error) \<Rightarrow> 'env
    \<Rightarrow> startup_error + ('b, 'l) process" where
  "main_run L env lib fetches environ =
     (case ProvideConfig (parse_env L) environ of Inl err \<Rightarrow> Inl (ConfigFailed err) | Inr c \<Rightarrow>
     (case ProvideLogger (NewWithMode L) (sync_err L) c [] of (Inl err, _) \<Rightarrow> Inl (LoggerFailed err) | (Inr _, lc1) \<Rightarrow>
      let meter = snd (ProvideMetrics c); lc2 = InvokeRunMetricsServer lc1 in
     (case InvokeRunMigrations (migrations L) c of Some err \<Rightarrow> Inl (MigrationsFailed err) | None \<Rightarrow>
     (case ProvidePostgresDB (register_err L) (connect L) c lc2 of (Inl err, _) \<Rightarrow> Inl (DatabaseFailed err) | (Inr db, lc3) \<Rightarrow>
     (case ProvideEventBrokerWithDB (\<lambda>b. bus_on lib b fetches) c lc3 of
        (Inl err, _) \<Rightarrow> Inl (BrokerFailed err) | (Inr b, lc4) \<Rightarrow>
     (case ProvideWriteRepo env NewPgErrorTranslator of Inl err \<Rightarrow> Inl (RepositoryFailed err) | Inr r \<Rightarrow>
     (case ProvideAuthService (jwt_NewSigner L) (bcrypt_Compare L) r c of Inl err \<Rightarrow> Inl (ServiceFailed err) | Inr svc \<Rightarrow>
     (case ProvideRegistrationSagaSubscriber (bus_on lib b fetches) (service_on (auth_service svc)) c of
        Inl err \<Rightarrow> Inl (SubscriberFailed err) | Inr saga \<Rightarrow>
      let lc5 = InvokeSubscribeRegistrationSaga lc4 in
     (case ProvideAuthRecoverySubscriber (recovery L) (bus_on lib b fetches) (service_on (auth_service svc)) c of
        Inl err \<Rightarrow> Inl (SubscriberFailed err) | Inr rec \<Rightarrow>
      let lc6 = InvokeSubscribeAuthRecovery lc5 in
     (case ProvideGRPCServer (service_on (auth_service svc)) c of Inl err \<Rightarrow> Inl (ServerFailed err) | Inr srv \<Rightarrow>
        Inr \<lparr>config_pr = c, meter_pr = meter, pool_pr = db, broker_pr = b, service_pr = svc, saga_pr = saga,
             recovery_pr = rec, server_pr = srv, hooks_pr = InvokeRunGRPCServer (net L) lc6\<rparr>))))))))))"

lemmas providers = ProvideConfig_def Load_def ProvideLogger_def InvokeRunMetricsServer_def InvokeRunMigrations_def
  ProvidePostgresDB_def Open_def ProvideEventBrokerWithDB_def provideEventBroker_def kafka_NewBrokerWithDB_def
  kafka_newBroker_def ProvideWriteRepo_def repo_New_def ProvideAuthService_def service_New_def
  ProvideRegistrationSagaSubscriber_def kafka_NewRegistrationSagaSubscriber_def InvokeSubscribeRegistrationSaga_def
  ProvideAuthRecoverySubscriber_def NewAuthRecoverySubscriber_def InvokeSubscribeAuthRecovery_def
  ProvideGRPCServer_def NewServer_def InvokeRunGRPCServer_def

text \<open>What a started process consists of.\<close>

lemma main_run_Inr:
  assumes "main_run L env lib fetches environ = Inr p"
  obtains sign where "parse_env L environ = Inr (config_pr p)" "RunMigrations (migrations L) (DB (config_pr p)) = None"
    "connect L (open_dsn (DB (config_pr p))) = None" "Brokers (Kafka (config_pr p)) \<noteq> []" "has_db (broker_pr p)"
    "jwt_NewSigner L (AccessSecret (JWT (config_pr p))) = Inr sign"
    "service_pr p = pg_service env (JWT (config_pr p)) sign (bcrypt_Compare L)"
    "service_ks (saga_pr p) = service_on (auth_service (service_pr p))"
    "broker_ks (saga_pr p) = bus_on lib (broker_pr p) fetches"
    "service_rs (recovery_pr p) = service_on (auth_service (service_pr p))"
    "broker_rs (recovery_pr p) = bus_on lib (broker_pr p) fetches"
    "svc_srv (server_pr p) = service_on (auth_service (service_pr p))"
    "hooks_pr p = process_hooks (sync_err L) (bus_on lib (broker_pr p) fetches) (net L)"
  using assms
  unfolding main_run_def providers
  by (auto simp: pg_service_def process_hooks_def Let_def split: sum.splits option.splits if_splits prod.splits)

end
