(* ===== verification/Startup_Properties.thy ===== *)
theory Startup_Properties
  imports Startup Broker_Properties
begin

text \<open>
  The property of the whole program: what main puts together, and what a run of it does.
\<close>

text \<open>
  C33. If main starts a process at all, the migrations were applied or had nothing to change, the
  database answered under the configured address, Kafka brokers are configured and the consumers
  claim their events in the database; the gRPC server and both subscribers share one service over
  the PostgreSQL repository; and every run of that process, whatever is called and fetched and
  whatever fails, keeps the invariant of the tables and moves their view by the steps of the state
  machine only.
\<close>

theorem started_process_refines:
  assumes start: "main_run L env lib fetches environ = Inr p"
    and ok: "store_ok env (tables w)"
    and run: "(process_step (svc_srv (server_pr p)) lib (broker_pr p) (Kafka (config_pr p)) (recovery L))\<^sup>*\<^sup>* w w'"
  shows "RunMigrations (migrations L) (DB (config_pr p)) = None \<and>
    connect L (open_dsn (DB (config_pr p))) = None \<and> Brokers (Kafka (config_pr p)) \<noteq> [] \<and> has_db (broker_pr p) \<and>
    service_ks (saga_pr p) = svc_srv (server_pr p) \<and> service_rs (recovery_pr p) = svc_srv (server_pr p) \<and>
    store_ok env (tables w') \<and> auth_steps (sview (tables w)) (sview (tables w'))"
proof -
  obtain sign where parts: "RunMigrations (migrations L) (DB (config_pr p)) = None"
    "connect L (open_dsn (DB (config_pr p))) = None" "Brokers (Kafka (config_pr p)) \<noteq> []" "has_db (broker_pr p)"
    "service_ks (saga_pr p) = service_on (auth_service (service_pr p))"
    "service_rs (recovery_pr p) = service_on (auth_service (service_pr p))"
    "svc_srv (server_pr p) = service_on (auth_service (service_pr p))"
    and svc: "service_pr p = pg_service env (JWT (config_pr p)) sign (bcrypt_Compare L)"
    by (rule main_run_Inr [OF start])
  have app: "svc_srv (server_pr p) = app_on env (JWT (config_pr p)) sign (bcrypt_Compare L)"
    by (simp add: parts(7) svc app_on_def)
  from served_steps [OF process_steps_served [OF run [unfolded app]] ok] parts show ?thesis by simp
qed

definition demo_config :: Config where
  "demo_config = \<lparr>App = default_app, DB = \<lparr>Host_db = ''db'', Port_db = 5432, User_db = ''u'', Password_db = ''p'',
       Name_db = ''auth'', SSLMode = ''disable'', MaxOpenConns = 4, MaxIdleConns = 2, ConnMaxLifetime = minute,
       MigrationsPath = ''file:///m'', MigrationsTable = ''t''\<rparr>,
     GRPC = default_grpc, Metrics = default_metrics, NATS = default_nats, Kafka = default_kafka, JWT = default_jwt\<rparr>"

definition demo_libs :: "(unit, unit) start_libs" where
  "demo_libs = \<lparr>parse_env = (\<lambda>_. Inr demo_config), NewWithMode = (\<lambda>_ _ _ _. Inr ()), sync_err = None,
     migrations = \<lparr>IsAbs = (\<lambda>_. True), Abs_path = Inr, migrate_New = (\<lambda>_ _. None), Up = (\<lambda>_ _. Some ErrNoChange)\<rparr>,
     register_err = None, connect = (\<lambda>_. None), jwt_NewSigner = (\<lambda>_. Inr demo_sign), bcrypt_Compare = demo_compare,
     recovery = \<lparr>Unmarshal_envelope = (\<lambda>_. Inl SyntaxError), Marshal_envelope = (\<lambda>_. Inr []), Marshal_credential = (\<lambda>_. []),
       GenerateFromPassword = Inr\<rparr>,
     net = \<lparr>Listen = Inr \<circ> (\<lambda>_. ()), Serve = (\<lambda>_ _. None), CloseListener = (\<lambda>_. Some ErrClosed)\<rparr>\<rparr>"

lemma demo_process_starts:
  "\<exists>p :: (string set, unit) process. main_run demo_libs demo_db demo_kafka demo_fetches () = Inr p \<and>
     config_pr p = demo_config"
  by (simp add: main_run_def providers Let_def demo_libs_def RunMigrations_def migration_path_def CutPrefix_def
        demo_config_def default_kafka_def)

theorem started_process_refines_witness:
  "\<exists>p w'. main_run demo_libs demo_db demo_kafka demo_fetches () = Inr (p :: (string set, unit) process) \<and>
     (process_step (svc_srv (server_pr p)) demo_kafka (broker_pr p) default_kafka (recovery demo_libs))\<^sup>*\<^sup>*
        \<lparr>tables = store1, bus = {}\<rparr> w' \<and>
     auth_steps (sview store1) (sview (tables w'))"
proof -
  obtain p :: "(string set, unit) process" where p: "main_run demo_libs demo_db demo_kafka demo_fetches () = Inr p"
    and c: "config_pr p = demo_config"
    using demo_process_starts by blast
  have k: "Kafka (config_pr p) = default_kafka" by (simp add: c demo_config_def)
  obtain r w' where "rpc_SignIn (svc_srv (server_pr p)) (demo_call 5 ''t2'') ''ann'' ''pw'' \<lparr>tables = store1, bus = {}\<rparr> = (r, w')"
    by fastforce
  from process_step.sign_in_rpc [OF this] have run: "(process_step (svc_srv (server_pr p)) demo_kafka (broker_pr p)
      (Kafka (config_pr p)) (recovery demo_libs))\<^sup>*\<^sup>* \<lparr>tables = store1, bus = {}\<rparr> w'" by (rule r_into_rtranclp)
  from started_process_refines [OF p _ run] p run show ?thesis by (auto simp: k)
qed



end
