(* ===== verification/Data_Properties.thy ===== *)
theory Data_Properties
  imports Fixtures Storage
begin

text \<open>
  The properties of the data the service makes up: verification codes, tokens, connection strings.
\<close>

subsection \<open>Verification codes\<close>

lemma or_disjoint:
  fixes b c :: nat
  assumes "c < 2 ^ n"
  shows "push_bit n b OR c = b * 2 ^ n + c"
proof -
  have "take_bit n c = c" using assms by (simp add: take_bit_nat_eq_self_iff)
  then have "push_bit n b AND c = 0"
    by (metis (no_types, lifting) and.commute and_zero_eq bit_and_iff bit_eq_iff bit_push_bit_iff bit_take_bit_iff leD)
  then have "push_bit n b OR c = push_bit n b + c" by (simp add: disjunctive_add_eq_or)
  then show ?thesis by (simp add: push_bit_eq_mult)
qed

text \<open>The number three bytes make.\<close>

definition code_value :: "byte list \<Rightarrow> nat" where
  "code_value buf = unat (buf ! 0) * 65536 + unat (buf ! 1) * 256 + unat (buf ! 2)"

lemma code_value_bits:
  "push_bit 16 (unat (buf ! 0)) OR push_bit 8 (unat (buf ! 1)) OR unat (buf ! 2) = code_value buf"
proof -
  have 1: "push_bit 8 (unat (buf ! 1)) OR unat (buf ! 2) = unat (buf ! 1) * 256 + unat (buf ! 2)"
    using or_disjoint [of "unat (buf ! 2)" 8 "unat (buf ! 1)"] unat_byte [of "buf ! 2"] by simp
  have "unat (buf ! 1) * 256 + unat (buf ! 2) < 2 ^ 16"
    using unat_byte [of "buf ! 1"] unat_byte [of "buf ! 2"] by simp
  from or_disjoint [OF this, of "unat (buf ! 0)"] 1 show ?thesis by (simp add: code_value_def or.assoc)
qed

lemma drawn_code:
  assumes "Getenv env ''APP_ENV'' \<noteq> ''local''" and "rand_Read env 3 = Some buf"
  shows "generateVerificationCode env = Some (pad_decimal 6 (code_value buf mod 1000000))"
  using assms code_value_bits [of buf] by (simp add: generateVerificationCode_def)

lemma code_value_less: "code_value buf < 16777216"
  using unat_byte [of "buf ! 0"] unat_byte [of "buf ! 1"] unat_byte [of "buf ! 2"] by (simp add: code_value_def)

lemma code_value_bij: "bij_betw code_value {buf. length buf = 3} {..<16777216}"
proof (rule bij_betwI')
  fix x y :: "byte list"
  assume "x \<in> {buf. length buf = 3}" "y \<in> {buf. length buf = 3}"
  then obtain a b c a' b' c' where xy: "x = [a, b, c]" "y = [a', b', c']"
    by (auto simp: numeral_3_eq_3 length_Suc_conv)
  show "code_value x = code_value y \<longleftrightarrow> x = y"
    using octets [of "unat a" "unat b" "unat c" "unat a'" "unat b'" "unat c'"]
      unat_byte [of b] unat_byte [of c] unat_byte [of b'] unat_byte [of c']
    by (auto simp: xy code_value_def word_unat_eq_iff)
next
  fix x :: "byte list"
  show "code_value x \<in> {..<16777216}" using code_value_less by simp
next
  fix v :: nat
  assume "v \<in> {..<16777216}"
  then have v: "v < 16777216" by simp
  define a b c where "a = v div 65536" and "b = v div 256 mod 256" and "c = v mod 256"
  have "a < 256" using v by (simp add: a_def less_mult_imp_div_less)
  then have u: "unat (of_nat a :: byte) = a" "unat (of_nat b :: byte) = b" "unat (of_nat c :: byte) = c"
    by (simp_all add: b_def c_def unat_of_nat)
  have "v = v div 256 * 256 + c" "v div 256 = a * 256 + b"
    by (simp_all add: a_def b_def c_def div_mult2_eq [of v 256 256, simplified] div_mult_mod_eq)
  then have "v = a * 65536 + b * 256 + c" by simp
  then have "v = code_value [of_nat a, of_nat b, of_nat c]" using u by (simp add: code_value_def)
  then show "\<exists>x \<in> {buf. length buf = 3}. v = code_value x" by (intro bexI [of _ "[of_nat a, of_nat b, of_nat c]"]) simp_all
qed

lemma residues:
  assumes "k < (1000000 :: nat)"
  shows "card {v. v < 16777216 \<and> v mod 1000000 = k} = (if k < 777216 then 17 else 16)"
proof -
  let ?J = "{j :: nat. j < (if k < 777216 then 17 else 16)}"
  have "{v. v < 16777216 \<and> v mod 1000000 = k} = (\<lambda>j. j * 1000000 + k) ` ?J"
  proof (intro set_eqI iffI)
    fix v assume "v \<in> {v. v < 16777216 \<and> v mod 1000000 = k}"
    then have v: "v = v div 1000000 * 1000000 + k" "v < 16777216" by (auto simp: div_mult_mod_eq)
    from v have "v div 1000000 < 17" "\<not> k < 777216 \<Longrightarrow> v div 1000000 < 16" by linarith+
    then have "v div 1000000 < (if k < 777216 then 17 else 16)" by simp
    with v(1) show "v \<in> (\<lambda>j. j * 1000000 + k) ` ?J" by (intro image_eqI [where x = "v div 1000000"]) auto
  next
    fix v assume "v \<in> (\<lambda>j. j * 1000000 + k) ` ?J"
    then obtain j where j: "v = j * 1000000 + k" "j < (if k < 777216 then 17 else 16)" by auto
    then have "v mod 1000000 = k" using assms by simp
    moreover have "v < 16777216" using j assms by (cases "k < 777216") auto
    ultimately show "v \<in> {v. v < 16777216 \<and> v mod 1000000 = k}" by simp
  qed
  moreover have "inj_on (\<lambda>j :: nat. j * 1000000 + k) ?J" by (simp add: inj_on_def)
  ultimately have "card {v. v < 16777216 \<and> v mod 1000000 = k} = card ?J" by (simp add: card_image)
  then show ?thesis by (simp add: card_Collect_less_nat)
qed

text \<open>
  C34. Outside the local environment a verification code is six decimal digits, every one of the
  million codes can be drawn, and the draw is slightly uneven: of the 2^24 equally likely triples of
  random bytes, 17 give each code below 777216 and 16 each of the others.
\<close>

theorem verification_codes_drawn:
  assumes "k < 1000000" and prod: "Getenv env ''APP_ENV'' \<noteq> ''local''"
  shows "card {buf. length buf = 3 \<and> generateVerificationCode (env\<lparr>rand_Read := \<lambda>n. Some buf\<rparr>) = Some (pad_decimal 6 k)}
      = (if k < 777216 then 17 else 16) \<and>
    length (pad_decimal 6 k) = 6 \<and> list_all is_digit (pad_decimal 6 k) \<and>
    (\<forall>buf. \<exists>k' < 1000000. generateVerificationCode (env\<lparr>rand_Read := \<lambda>n. Some buf\<rparr>) = Some (pad_decimal 6 k'))"
proof -
  have drawn: "generateVerificationCode (env\<lparr>rand_Read := \<lambda>n. Some buf\<rparr>) = Some (pad_decimal 6 (code_value buf mod 1000000))"
    for buf by (rule drawn_code) (use prod in simp_all)
  let ?S = "{buf. length buf = 3 \<and> generateVerificationCode (env\<lparr>rand_Read := \<lambda>n. Some buf\<rparr>) = Some (pad_decimal 6 k)}"
  have "code_value ` ?S = {v \<in> code_value ` {buf. length buf = 3}. v mod 1000000 = k}"
    by (auto simp: drawn)
  also have "\<dots> = {v. v < 16777216 \<and> v mod 1000000 = k}"
    by (simp add: bij_betw_imp_surj_on [OF code_value_bij])
  finally have image: "code_value ` ?S = {v. v < 16777216 \<and> v mod 1000000 = k}" .
  have "inj_on code_value ?S"
    by (rule inj_on_subset [OF bij_betw_imp_inj_on [OF code_value_bij]]) auto
  from card_image [OF this] have "card ?S = card {v. v < 16777216 \<and> v mod 1000000 = k}" unfolding image ..
  then have "card ?S = (if k < 777216 then 17 else 16)" unfolding residues [OF assms(1)] .
  moreover have "length (pad_decimal 6 k) = 6" by (rule length_pad_decimal) (use assms(1) in simp_all)
  moreover have "\<exists>k' < 1000000. generateVerificationCode (env\<lparr>rand_Read := \<lambda>n. Some buf\<rparr>) = Some (pad_decimal 6 k')" for buf
    unfolding drawn by (rule exI [of _ "code_value buf mod 1000000"]) simp
  ultimately show ?thesis by (simp add: pad_decimal_digits)
qed

theorem verification_codes_drawn_witness:
  "card {buf. length buf = 3 \<and> generateVerificationCode ((demo_call 0 ''c1'')\<lparr>rand_Read := \<lambda>n. Some buf\<rparr>)
     = Some (pad_decimal 6 777216)} = 16"
  using verification_codes_drawn [of 777216 "demo_call 0 ''c1''"] by (simp add: demo_call_def)

subsection \<open>Refresh tokens\<close>

definition url_safe :: "char \<Rightarrow> bool" where
  "url_safe c \<longleftrightarrow> (\<exists>n < 64. c = b64_char n)"

lemma url_safe_mod: "url_safe (b64_char (n mod 64))"
  unfolding url_safe_def by (rule exI [of _ "n mod 64"]) simp

lemma b64_encode_url_safe: "list_all url_safe (b64_encode bs)"
  by (induction bs rule: b64_encode.induct) (simp_all add: Let_def url_safe_mod)

text \<open>
  C35. A refresh token is what its random bytes were: two draws give the same token only from the
  same bytes, a token consists of URL-safe characters only and is not changed by the trimming it
  meets when it comes back, its length is that of unpadded base64, with 32 bytes standing in for a
  size that is not positive, and what is stored of it are 64 hexadecimal digits.
\<close>

theorem random_tokens_injective:
  fixes n :: int
  defines "len \<equiv> nat (if n \<le> 0 then 32 else n)"
  assumes draw: "rand_Read env len = Some buf" "length buf = len"
    and draw': "rand_Read env' len = Some buf'" "length buf' = len"
    and tok: "generateRandomToken env n = Some tok" and tok': "generateRandomToken env' n = Some tok'"
  shows "(tok = tok' \<longleftrightarrow> buf = buf') \<and> list_all url_safe tok \<and> TrimSpace tok = tok \<and>
    length tok = (len * 4 + 2) div 3 \<and>
    length (hashVerificationCode tok) = 64 \<and> list_all is_hex_digit (hashVerificationCode tok)"
proof -
  have t: "tok = b64_encode buf" "tok' = b64_encode buf'"
    using tok tok' draw(1) draw'(1) by (simp_all add: generateRandomToken_def len_def Let_def)
  have "tok = tok' \<longleftrightarrow> buf = buf'"
    using b64_encode_inject [of buf buf'] draw(2) draw'(2) by (auto simp: t)
  moreover have "list_all is_hex_digit (hashVerificationCode tok)"
    by (simp add: hashVerificationCode_def hex_encode_digits)
  ultimately show ?thesis
    using random_token_shape(1) [OF tok]
    by (simp add: b64_encode_url_safe t length_b64_encode draw(2) hashVerificationCode_def)
qed

theorem random_tokens_injective_witness:
  "\<exists>tok. generateRandomToken (demo_call 0 ''c1'') 0 = Some tok \<and> length tok = 43"
proof -
  obtain tok where tok: "generateRandomToken (demo_call 0 ''c1'') 0 = Some tok"
    by (simp add: generateRandomToken_def demo_call_def)
  have "rand_Read (demo_call 0 ''c1'') (nat (if (0 :: int) \<le> 0 then 32 else 0)) = Some (replicate 32 7)"
    "length (replicate 32 (7 :: byte)) = nat (if (0 :: int) \<le> 0 then 32 else 0)"
    by (simp_all add: demo_call_def)
  note d = this
  from random_tokens_injective [OF d d tok tok] tok show ?thesis by simp
qed

subsection \<open>Connection strings\<close>

lemma length_escape_byte: "1 \<le> length (escape_byte c)"
  by (simp add: escape_byte_def)

lemma length_QueryEscape: "length s \<le> length (QueryEscape s)"
  by (induction s) (use length_escape_byte in \<open>auto simp: QueryEscape_def intro: add_le_mono [of 1, simplified]\<close>)

lemma QueryEscape_Cons: "QueryEscape (c # s) = escape_byte c @ QueryEscape s"
  by (simp add: QueryEscape_def)

lemma QueryEscape_id: "QueryEscape s = s \<longleftrightarrow> list_all unreserved s"
proof (induction s)
  case Nil
  then show ?case by (simp add: QueryEscape_def)
next
  case (Cons c s)
  have "escape_byte c = [c] \<longleftrightarrow> unreserved c"
    by (auto simp: escape_byte_def unreserved_def)
  moreover have "escape_byte c @ QueryEscape s = c # s \<longleftrightarrow> escape_byte c = [c] \<and> QueryEscape s = s"
  proof
    assume eq: "escape_byte c @ QueryEscape s = c # s"
    then have "length (escape_byte c) + length (QueryEscape s) = Suc (length s)"
      by (metis length_Cons length_append)
    with length_QueryEscape [of s] length_escape_byte [of c] have "length (escape_byte c) = length [c]" by simp
    with eq append_eq_append_conv [of "escape_byte c" "[c]" "QueryEscape s" s]
    show "escape_byte c = [c] \<and> QueryEscape s = s" by simp
  qed simp
  ultimately show ?case using Cons by (simp add: QueryEscape_Cons)
qed

text \<open>
  C36. The pool and the migrations name the same database exactly for harmless credentials: the
  connection string of RunMigrations is the one of Open with the migrations table appended if and
  only if user and password consist of letters, digits and the marks - _ . ~ only. For any other
  credentials Open, which does not escape them, connects with a different string.
\<close>

theorem connection_strings_agree:
  "migrate_dsn c = open_dsn c @ ''&x-migrations-table='' @ QueryEscape (MigrationsTable c) \<longleftrightarrow>
   list_all unreserved (User_db c) \<and> list_all unreserved (Password_db c)"
proof -
  let ?u = "User_db c" and ?p = "Password_db c"
  have "migrate_dsn c = open_dsn c @ ''&x-migrations-table='' @ QueryEscape (MigrationsTable c) \<longleftrightarrow>
      QueryEscape ?u @ '':'' @ QueryEscape ?p = ?u @ '':'' @ ?p"
    unfolding migrate_dsn_def open_dsn_def append_assoc [symmetric] append_same_eq
    by (simp only: append_assoc same_append_eq)
  also have "\<dots> \<longleftrightarrow> QueryEscape ?u = ?u \<and> QueryEscape ?p = ?p"
  proof
    assume eq: "QueryEscape ?u @ '':'' @ QueryEscape ?p = ?u @ '':'' @ ?p"
    from arg_cong [OF eq, of length] length_QueryEscape [of ?u] length_QueryEscape [of ?p]
    have "length (QueryEscape ?u) = length ?u" by simp
    with eq show "QueryEscape ?u = ?u \<and> QueryEscape ?p = ?p" by simp
  qed simp
  finally show ?thesis by (simp add: QueryEscape_id)
qed

end
