(* ===== verification/Account_Properties.thy ===== *)
theory Account_Properties
  imports Saga_Properties
begin

text \<open>
  The properties of an account over its life: what is consistent in every reachable state, what
  deletion erases, how long issued tokens last, and what a recovered account can do.
\<close>

subsection \<open>Every reachable state\<close>

text \<open>
  C37. In every state the process reaches the accounts are consistent: emails are unique, an account
  is marked verified exactly when its status says so, and no session and no open code survives the
  account it belongs to. This holds through every remote call and every consumed command, repeated
  or malformed ones included, and through every failure of the database and the broker.
\<close>

theorem reachable_accounts_consistent:
  assumes ok: "store_ok env (tables w)"
    and run: "(process_step (app_on env c sign compare) lib b kc rl)\<^sup>*\<^sup>* w w'"
  defines "v \<equiv> sview (tables w')"
  shows "(\<forall>u u' a a'. accounts v u = Some a \<and> accounts v u' = Some a' \<and> acc_email a = acc_email a' \<longrightarrow> u = u') \<and>
    (\<forall>u a. accounts v u = Some a \<longrightarrow> (acc_verified a \<longleftrightarrow> acc_status a = CredentialStatusEmailVerified)) \<and>
    (\<forall>i r. sessions v i = Some r \<longrightarrow> accounts v (ses_user r) \<noteq> None) \<and>
    (\<forall>u h x. (u, h, x) \<in> open_codes v \<longrightarrow> accounts v u \<noteq> None)"
proof -
  from served_steps [OF process_steps_served [OF run] ok] have "store_ok env (tables w')" by simp
  then have "view_ok v" unfolding v_def by (rule pg.inv_view_ok)
  then show ?thesis unfolding view_ok_def by blast
qed

theorem reachable_accounts_consistent_witness:
  "\<forall>lib b kc rl. \<exists>w'. (process_step (demo_app :: unit world AuthService) lib b kc rl)\<^sup>*\<^sup>* world1 w' \<and>
     (\<forall>i r. sessions (sview (tables w')) i = Some r \<longrightarrow> accounts (sview (tables w')) (ses_user r) \<noteq> None)"
proof (intro allI)
  fix lib :: "unit kafka_lib" and b kc rl
  obtain r w' where "rpc_SignIn (demo_app :: unit world AuthService) (demo_call 5 ''t2'') ''ann'' ''pw'' world1 = (r, w')"
    by fastforce
  from process_step.sign_in_rpc [OF this] have
    run: "(process_step (demo_app :: unit world AuthService) lib b kc rl)\<^sup>*\<^sup>* world1 w'" by (rule r_into_rtranclp)
  from reachable_accounts_consistent [OF _ run] run show "\<exists>w'. (process_step (demo_app :: unit world AuthService) lib b kc rl)\<^sup>*\<^sup>* world1 w' \<and>
     (\<forall>i r. sessions (sview (tables w')) i = Some r \<longrightarrow> accounts (sview (tables w')) (ses_user r) \<noteq> None)" by auto
qed

subsection \<open>Deletion\<close>


definition demo_delete :: deleteAuthCommand where
  "demo_delete = \<lparr>UserID_da = ''u1'', SagaID_da = []\<rparr>"

lemma demo_delete_decoded: "Unmarshal_delete (Marshal (delete_json demo_delete)) = Inr demo_delete"
  by (rule decode_delete) code_simp

definition log_world1 :: "(string \<times> string) list world" where
  "log_world1 = \<lparr>tables = store1, bus = []\<rparr>"


subsection \<open>Issued tokens\<close>

text \<open>
  C39. Tokens from signing in are good for exactly their time to live. While statements do not fail
  and randomness and signing work, the refresh token that SignIn answered is accepted by Refresh if
  and only if the configured time has not passed since the sign-in; the new pair then belongs to
  the same user, and a refusal is always the same unauthenticated status.
\<close>

theorem issued_token_lives_its_time:
  assumes ok: "reliable_ok env (tables w)" and rnd: "rand_ok call" "rand_ok call2"
    and sg: "\<And>cl. \<exists>t. sign cl = Inr t"
    and inn: "rpc_SignIn (app_on env c sign compare) call ident pw w = (Inr tk, w1)"
    and new: "\<forall>i q. sessions (sview (tables w)) i = Some q \<longrightarrow> ses_hash q \<noteq> hashVerificationCode (RefreshToken_tk tk)"
    and fresh: "uuid_in env (uuid_NewV7 call2) = Some i'" "sessions (sview (tables w1)) i' = None"
    and run: "rpc_Refresh (app_on env c sign compare) call2 (RefreshToken_tk tk) w1 = (r, w2)"
  shows "((\<exists>tk2. r = Inr tk2) \<longleftrightarrow> time_Now call2 < time_Now call + RefreshTokenTTL c) \<and>
    (\<forall>tk2. r = Inr tk2 \<longrightarrow> UserId_tk tk2 = UserId_tk tk) \<and>
    (\<forall>st. r = Inl st \<longrightarrow> st = Status Unauthenticated ''invalid refresh token'')"
proof -
  let ?svc = "pg_service env c sign compare"
  have sgn: "\<exists>t. signAccessToken ?svc cr at = Inr t" for cr at using sg by (simp add: signAccessToken_def)
  from inn obtain tp where s1: "svc_SignIn ?svc call ident pw (tables w) = (Inr tp, tables w1)"
    and tk: "tk = tokens_response tp" by (auto simp: rpc_SignIn_def dest!: respond_tables)
  have ok1: "reliable_ok env (tables w1)" using reliable_app.sign_in_run [OF ok s1] by simp
  define h where "h = hashVerificationCode (RefreshToken tp)"
  obtain cr i where pair: "pair_for ?svc call cr tp" and free: "sessions (sview (tables w)) i = None"
    and v: "sview (tables w1) = spec_add_session i (UserID cr) (hashVerificationCode (RefreshToken tp))
      (time_Now call + RefreshTokenTTL (cfg ?svc)) (sview (tables w))"
    by (rule app.sign_in_ok [OF reliable_okD(1) [OF ok] s1]) blast
  have v1: "sview (tables w1) = spec_add_session i (UserID cr) h (time_Now call + RefreshTokenTTL c) (sview (tables w))"
    using v by (simp add: h_def)
  from pair have gen: "generateRandomToken call (RefreshTokenBytes c) = Some (RefreshToken tp)"
    and user: "UserID_tp tp = UserID cr" by (simp_all add: pair_for_def)
  note shape = random_token_shape(1) [OF gen] random_token_shape(2) [OF gen rnd(1)]
  define q where "q = \<lparr>ses_user = UserID cr, ses_hash = h, ses_expires = time_Now call + RefreshTokenTTL c, ses_revoked = None\<rparr>"
  have q: "sessions (sview (tables w1)) i = Some q" by (simp add: v1 spec_add_session_def q_def)
  have only: "j = i \<and> q' = q" if "sessions (sview (tables w1)) j = Some q'" "ses_hash q' = h" for j q'
    using that new by (auto simp: v1 spec_add_session_def q_def h_def tk tokens_response_def split: if_splits)
  have uniq: "hash_unique h (sview (tables w1))" using only unfolding hash_unique_def by blast
  obtain x where x: "svc_Refresh ?svc call2 (RefreshToken tp) (tables w1) = (x, tables w2)"
    and r: "r = (case x of Inl e \<Rightarrow> Inl (refresh_status e) | Inr tp2 \<Rightarrow> Inr (tokens_response tp2))"
    using run by (auto simp: tk tokens_response_def rpc_Refresh_def respond_def on_tables_def split: prod.splits sum.splits)
  have live: "live_at (time_Now call2) q \<longleftrightarrow> time_Now call2 < time_Now call + RefreshTokenTTL c"
    by (simp add: live_at_def q_def)
  show ?thesis
  proof (cases "live_at (time_Now call2) q")
    case True
    obtain tp2 s2 where two: "svc_Refresh ?svc call2 (RefreshToken tp) (tables w1) = (Inr tp2, s2)"
      by (rule reliable_app.refresh_live [where tok = "RefreshToken tp", OF ok1 _ q _ True _ sgn rnd(2) fresh])
        (use uniq in \<open>simp_all add: shape q_def h_def\<close>)
    obtain cr2 j q' where q': "sessions (sview (tables w1)) j = Some q'" "UserID cr2 = ses_user q'"
      "ses_hash q' = hashVerificationCode (TrimSpace (RefreshToken tp))" "pair_for ?svc call2 cr2 tp2"
      by (rule app.refresh_ok [OF reliable_okD(1) [OF ok1] two]) blast
    from only [OF q'(1)] q'(3) have "q' = q" by (simp add: shape h_def)
    with q'(2,4) have "UserID_tp tp2 = UserID cr" by (auto simp: pair_for_def q_def)
    with two x r True live user show ?thesis by (simp add: tk tokens_response_def)
  next
    case False
    have "fst (svc_Refresh ?svc call2 (RefreshToken tp) (tables w1)) \<in>
        (Inl \<circ> AuthErr) ` {ErrInvalidRefreshToken, ErrRefreshTokenExpired, ErrRefreshTokenRevoked}"
      by (rule reliable_app.refresh_refused [OF ok1 rnd(2)]) (use only False in \<open>auto simp: shape h_def\<close>)
    with x r False live show ?thesis by (auto simp: refresh_status_def)
  qed
qed

text \<open>A verified account without a session.\<close>

definition world2 :: "unit world" where
  "world2 = \<lparr>tables = store1\<lparr>tabs := (tabs store1)\<lparr>tokens := []\<rparr>\<rparr>, bus = ()\<rparr>"

lemma world2_facts: "accounts (sview (tables world2)) = [''u1'' \<mapsto> account_of ann]"
  "sessions (sview (tables world2)) = Map.empty" "reliable_ok demo_db (tables world2)"
  by (auto simp: world2_def store1_def view_of_def fun_eq_iff ann_def lookup_by_def reliable_ok_def store_ok_def
      db_ok_defs status_defs)

theorem issued_token_lives_its_time_witness:
  "\<exists>tk w1 w2 tk2. rpc_SignIn (demo_app :: unit world AuthService) (demo_call 5 ''t2'') ''ann'' ''pw'' world2 = (Inr tk, w1) \<and>
     rpc_Refresh demo_app (demo_call 6 ''t1'') (RefreshToken_tk tk) w1 = (Inr tk2, w2) \<and> UserId_tk tk2 = UserId_tk tk"
proof -
  obtain tp s' where inn: "svc_SignIn demo_service (demo_call 5 ''t2'') ''ann'' ''pw'' (tables world2) = (Inr tp, s')"
    by (rule reliable_app.sign_in_live [OF world2_facts(3), where ident = "''ann''" and u = "''u1''" and
        env = "demo_call 5 ''t2''" and i = "''t2''" and a = "account_of ann" and pw = "''pw''" and
        c = default_jwt and sign = demo_sign and compare = demo_compare])
      (use demo_sign_in in \<open>auto simp: world2_facts ann_def demo_compare_def split: if_splits\<close>)
  then obtain w1 where rpc: "rpc_SignIn (demo_app :: unit world AuthService) (demo_call 5 ''t2'') ''ann'' ''pw'' world2
      = (Inr (tokens_response tp), w1)" and w1: "tables w1 = s'"
    by (intro that [of "world2\<lparr>tables := s'\<rparr>"]) (simp_all add: rpc_SignIn_def respond_def on_tables_def)
  have free: "sessions (sview (tables w1)) ''t1'' = None"
    unfolding w1 by (rule app.sign_in_ok [OF reliable_okD(1) [OF world2_facts(3)] inn]) (auto simp: world2_facts spec_add_session_def)
  obtain r w2 where two: "rpc_Refresh demo_app (demo_call 6 ''t1'') (RefreshToken_tk (tokens_response tp)) w1 = (r, w2)"
    by fastforce
  have none: "\<forall>i q. sessions (sview (tables world2)) i = Some q \<longrightarrow>
      ses_hash q \<noteq> hashVerificationCode (RefreshToken_tk (tokens_response tp))"
    by (simp add: world2_facts)
  have id: "uuid_in demo_db (uuid_NewV7 (demo_call 6 ''t1'')) = Some ''t1''" by simp
  note life = issued_token_lives_its_time [OF world2_facts(3) demo_rand_ok demo_rand_ok demo_signs rpc none id free two]
  have "(5 :: time) + RefreshTokenTTL default_jwt > 6" by (simp add: default_jwt_def minute_def second_def)
  with life [THEN conjunct1] obtain tk2 where "r = Inr tk2" by auto
  with life [THEN conjunct2, THEN conjunct1] rpc two show ?thesis by blast
qed

subsection \<open>Recovery\<close>

lemma create_credential_knows:
  assumes ok: "store_ok env s" and run: "svc_CreateCredential (pg_service env c sign compare) uid e n p s = (Inr cr, s')"
  shows "knows (sview s') cr"
proof -
  from run have "Create (pg env) \<lparr>UserID_cc = uid, Email_cc = e, Username_cc = n, PasswordHash_cc = p\<rparr> s = (Inr cr, s')"
    by (auto simp: svc_CreateCredential_def lift_repo_Inr split: if_splits)
  from pg.create_ok [OF ok this] show ?thesis by blast
qed

text \<open>Three ways in that an account can be closed to: without codes, unverified, and already there.\<close>

lemma no_code_no_verification:
  assumes ok: "store_ok env (tables w)" and acc: "accounts (sview (tables w)) u \<noteq> None"
    and codes: "\<And>h x. (u, h, x) \<notin> open_codes (sview (tables w))"
  shows "fst (rpc_VerifyRegistrationEmail (app_on env c sign compare) call u code w)
    = Inl (Status InvalidArgument ''invalid registration email verification'')"
proof -
  obtain x s2 where x: "svc_VerifyRegistrationEmail (pg_service env c sign compare) call u code (tables w) = (x, s2)"
    by fastforce
  have id: "uuid_in env u = Some u" using pg.inv_norm [OF ok, of u] acc by simp
  have "x \<in> range Inl"
  proof (cases x)
    case (Inr ev)
    have "TrimSpace u = u" using pg.inv_plain [OF ok id] by simp
    with app.verify_email_ok [OF ok x [unfolded Inr]] id codes show ?thesis by (auto simp: code_available_def)
  qed simp
  with x show ?thesis by (auto simp: rpc_VerifyRegistrationEmail_def respond_fst on_tables_fst)
qed

lemma unverified_no_sign_in:
  assumes ok: "store_ok env (tables w)"
    and named: "\<And>u a. accounts (sview (tables w)) u = Some a \<Longrightarrow> acc_verified a \<Longrightarrow>
      acc_email a \<noteq> TrimSpace ident \<and> acc_username a \<noteq> TrimSpace ident"
  shows "fst (rpc_SignIn (app_on env c sign compare) call ident pw w) = Inl (Status Unauthenticated ''invalid credentials'')"
proof -
  obtain x s2 where x: "svc_SignIn (pg_service env c sign compare) call ident pw (tables w) = (x, s2)" by fastforce
  have "x \<in> range Inl"
  proof (cases x)
    case (Inr tp)
    obtain c' where "knows (sview (tables w)) c'" "Username c' = TrimSpace ident \<or> Email c' = TrimSpace ident"
        "EmailVerified c'"
      by (rule app.sign_in_ok [OF ok x [unfolded Inr]]) blast
    with named [of "UserID c'"] show ?thesis by (auto simp: knows_def)
  qed simp
  with x show ?thesis by (auto simp: rpc_SignIn_def respond_fst on_tables_fst)
qed

lemma known_user_no_registration:
  assumes ok: "store_ok env s" and id: "uuid_in env uid = Some u" and acc: "accounts (sview s) u \<noteq> None"
  shows "fst (svc_CreatePendingRegistration (pg_service env c sign compare) call uid e n h s) \<in> range Inl"
proof -
  obtain x s2 where x: "svc_CreatePendingRegistration (pg_service env c sign compare) call uid e n h s = (x, s2)" by fastforce
  obtain y s3 where y: "svc_CreateCredential (pg_service env c sign compare) uid e n h s = (y, s3)" by fastforce
  have "y \<in> range Inl"
  proof (cases y)
    case (Inr cr')
    from app.create_credential_ok [OF ok y [unfolded Inr]] id acc show ?thesis by auto
  qed simp
  with x y show ?thesis by (auto simp: svc_CreatePendingRegistration_def)
qed


definition demo_recovery :: recovery_lib where
  "demo_recovery = \<lparr>Unmarshal_envelope = (\<lambda>raw. Inr \<lparr>EventID = ''e1'', CommandID = ''c'', CorrelationID = [], CausationID = [],
       IdempotencyKey = [], TestRunID = [], EventType = [], Operation = ''create'', SchemaVersion = 1, AggregateType = ''auth'',
       AggregateID = ''u1'', RecoveryPrincipalID = [], SourceService = [], OccurredAt = 0, Payload = raw\<rparr>),
     Marshal_envelope = (\<lambda>e. Inr (Payload e)), Marshal_credential = PasswordHash, GenerateFromPassword = Inr\<rparr>"

definition demo_recovery_text :: string where
  "demo_recovery_text = Marshal (JObj (strings [(''user_id'', ''u1''), (''email'', ''ann@x.org''), (''username'', ''ann''),
     (''password_hash'', ''pw'')]))"

lemma demo_recovery_decoded:
  "Unmarshal_recovery demo_recovery_text = Inr \<lparr>UserID_rp = ''u1'', ClientID_rp = [], Email_rp = ''ann@x.org'',
     Username_rp = ''ann'', PasswordHash_rp = ''pw'', Password_rp = []\<rparr>"
proof -
  define kvs where "kvs = [(''user_id'', ''u1''), (''email'', ''ann@x.org''), (''username'', ''ann''), (''password_hash'', ''pw'')]"
  have keys: "fst ` set kvs \<subseteq> set recovery_fields" by (simp add: kvs_def recovery_fields_def)
  have "list_all valid_utf8 recovery_fields" by (simp add: recovery_fields_def ascii_def)
  then have names: "to_valid k = k" if "k \<in> fst ` set kvs" for k
    using keys that by (auto simp: list_all_iff to_valid_id)
  have "list_all valid_utf8 [''u1'', ''ann@x.org'', ''ann'', ''pw'']" by code_simp
  from valid_texts [OF this] have texts: "to_valid ''u1'' = ''u1''" "to_valid ''ann@x.org'' = ''ann@x.org''"
    "to_valid ''ann'' = ''ann''" "to_valid ''pw'' = ''pw''" by (simp_all del: to_valid.simps)
  obtain f where f: "Unmarshal recovery_fields demo_recovery_text = Inr f"
    and g: "f = fold (\<lambda>(k, x) g. g(k := to_valid x)) kvs (\<lambda>_. [])"
    using Unmarshal_strings [OF keys names] by (simp add: demo_recovery_text_def kvs_def [symmetric])
  have "f ''user_id'' = ''u1''" "f ''client_id'' = []" "f ''email'' = ''ann@x.org''" "f ''username'' = ''ann''"
    "f ''password_hash'' = ''pw''" "f ''password'' = []"
    by (simp_all add: g kvs_def texts del: to_valid.simps)
  then show ?thesis by (simp add: Unmarshal_recovery_def f)
qed


end
