(* ===== verification/Spec2Isabelle.thy ===== *)
theory Spec2Isabelle
  imports Auth_Properties Rpc_Properties Saga_Properties Pull_Properties Broker_Properties Transport_Properties
    Startup_Properties Data_Properties Account_Properties
begin

text \<open>
  A model of the auth service: a Go process that owns accounts, verification codes and
  refresh-token sessions in PostgreSQL, answers gRPC calls, and takes part in the registration saga
  over a message broker. The model follows the code file by file; this theory imports everything.

  \<^bold>\<open>The parts and where they are modelled\<close> (paths are relative to src/):

  \<^item> Go's standard library as far as the service uses it: Go_Text (strings, strconv), Go_Encoding
    (hex, base64, SHA-256), Go_Format (fmt, url.QueryEscape, RFC 3339), Go_Json (Marshal and
    Unmarshal on the text itself, with UTF-8 repair, escapes, numbers and case folding of names).
    Prelude holds the table and list lemmas shared by the rest.
  \<^item> config/: Config. The structs and their defaults; the env parser is a parameter of \<open>Load\<close>.
  \<^item> internal/domain: Domain. Structs, statuses, errors, and the interface AuthRepository as a record
    of operations \<open>'s \<Rightarrow> (error + 'a) \<times> 's\<close>.
  \<^item> migration/postgres and internal/infra/write/postgres/query.go: Store, Queries, Schema. Tables are
    lists of rows, a query is a function on them. What the repository leaves to PostgreSQL (reading a
    uuid, scan order, collation, clock, and which statements fail, with or without having taken
    effect) is the parameter \<open>db_env\<close>. The transactional outbox that triggers fill is a multiset.
  \<^item> error_translator.go: Translator. repository.go: Repository, one definition per method, with its
    transaction, rollback and every error branch.
  \<^item> internal/application/service.go: Service, one definition per method; the JWT signer and bcrypt
    are parameters, the clock, random source, environment variables and fresh ids of a call are
    \<open>call_env\<close>.
  \<^item> internal/presentation/grpc: Grpc_Server. Every handler with its status codes, start, shutdown.
  \<^item> internal/presentation/event_broker/type.go: Event_Broker, the interface of a broker and of a
    message handler, over the state \<open>'w\<close> of everything behind it.
  \<^item> event_broker/nats: Saga_Messages (commands, results, mapper, failure reasons), Saga_Handlers
    (subscriber and handlers), Pull_Consumer (validation, fetch plan, and the runtime as the step
    relation \<open>pull_step\<close>), Nats_Broker (the broker, and the stream bootstrap of pkg/messaging/nats).
  \<^item> event_broker/kafka: Kafka_Broker (publishing, the consumer loop with claims, retries and dead
    letters), Kafka_Subscribers (the saga subscriber and the recovery subscriber).
  \<^item> pkg/storage/postgres: Storage. internal/fx and cmd: Lifecycle (the providers and invocations, the
    hooks they append to the lifecycle, logger and metrics included, and the two backoff loops),
    Wiring (the service over the repository), Startup (\<open>main_run\<close>, and what starting and stopping its
    hooks does).

  \<^bold>\<open>How they interact.\<close> A call runs gRPC handler, service, repository, query, each handing its
  errors upwards as a value of a sum type. A message runs broker loop, handler, service; the handler
  publishes its answer through the same broker. World puts the tables and the state of the broker
  into one record; Process is the relation \<open>process_step\<close> of the running process: one remote call, or
  one subscription from its start to its return over whatever it fetches.

  \<^bold>\<open>Specification and refinement.\<close> Auth_Spec is the abstract view: accounts by user, sessions by id,
  open codes, granted roles, and the state machine \<open>auth_step\<close> with a guard on every step. View
  abstracts the tables to it; Repo_Refines relates every statement to a step. Repo_Contract states
  what a repository promises as the locale \<open>auth_repository\<close>, and what it promises while its
  database does not fail as \<open>reliable_repository\<close>; Repo_Laws interprets both on the PostgreSQL
  repository. Service_Laws and Service_Reliable prove the service's lemmas once inside
  \<open>service_over\<close> and \<open>reliable_service\<close>; Wiring interprets those on the service as it is wired, for
  every configuration, signer and bcrypt. The locale \<open>presentation\<close> of World is what gRPC and the
  subscribers rely on; it is interpreted on the same service and the Kafka broker. Service_Runs lifts
  the laws to sequences of calls.

  \<^bold>\<open>What the properties show\<close> (the number is the claim id):

  \<^item> Auth_Properties: the service refines the state machine even when the database fails (1);
    registration and verification (2, 5, 9, 11, 12); rotation and sign-out end a token for good (3, 4,
    6); what sign-in and issued tokens contain (7, 8); errors change nothing (10); three behaviours of
    compensation and signing failures (13, 15 and \<open>deactivated_account_can_verify\<close>).
  \<^item> Rpc_Properties: the whole process refines the state machine (16); sign-in and refresh decide
    exactly (17, 18); sign-out over the wire (19). Saga_Properties: commands survive JSON (20), a
    registration is answered and its code verifies (21), redelivery (22).
  \<^item> Pull_Properties: bounds (23), conservation of messages (24) and termination after cancellation
    (25) in every interleaving of the fetcher and the workers.
  \<^item> Broker_Properties: an event is handled once (26), retries are bounded (27), commits (28), what
    blocks and what ends the saga's consumers (29, 30), backoff (31). Transport_Properties: NATS and
    Kafka carry the same protocol (32). Startup_Properties: what main starts refines the state
    machine (33), starts completely and stops in order (14).
  \<^item> Data_Properties: verification codes (34), refresh tokens (35), connection strings (36).
    Account_Properties: consistency of every reachable state (37), deletion (38), the life of issued
    tokens (39), recovered accounts (40).

  Fixtures holds the concrete inputs of the witnesses. Statements about calls the code never makes
  (27, 28) replace that call in the library by an arbitrary one and show that no run changes.

  \<^bold>\<open>Bounds and recursion.\<close> Times and durations are integers of nanoseconds and Go's int is an
  integer: the service only compares and adds them far below 2^63. Bytes and SHA-256 are words, and
  the backlog of a JetStream consumer is a 64-bit word converted as Go converts it. There is no fuel:
  the JSON parser terminates on the length of the text and refuses nesting beyond ten thousand as
  encoding/json does; the consumer loop recurses over the list of messages FetchMessage yields before
  it fails; the backoff loops over the list of attempts.

  \<^bold>\<open>Not modelled.\<close> What is logged, measured or traced, and context values, which do not influence the
  state; how long a hook may take.
  PostgreSQL's rounding of timestamps to microseconds, its row locks and the interleaving of
  transactions: a transaction is one atomic step. \<open>time.Duration.Seconds\<close> is exact, without the
  rounding of a float64. Libraries outside the repository are parameters: the env parser, the JWT
  signer, bcrypt, the gRPC, NATS and Kafka clients, the event envelope with its recovery fields, the
  claims of processed events (the table processed_events belongs to that library), the retry queue,
  the dead-letter format, the migration library, the logging and metrics libraries, and the fx
  container: \<open>main_run\<close> keeps the order in which it calls the providers, and its documented order of
  hooks is the hypothesis \<open>fx_documented\<close>. The claims the Kafka properties need are stated as \<open>claims_ok\<close>.
\<close>

end
